(* ===== verification/Prelude.thy ===== *)
theory Prelude
  imports
    Complex_Main
    "HOL-Library.AList"
    "HOL-Library.Char_ord"
    "HOL-Library.List_Lexorder"
    "HOL-Library.Log_Nat"
    "HOL-Library.Multiset"
    "HOL-Library.Product_Lexorder"
    "HOL-Library.Signed_Division"
    "HOL-Library.Word"
begin

text \<open>
  The conventions every component of the development shares, and the facts about the Go
  language and its standard library that the components use.

  \<^item> A Go \<open>string\<close> is a sequence of bytes, here \<^typ>\<open>string\<close>; \<open><\<close> on strings is the
    bytewise lexicographic order of \<open>HOL-Library.List_Lexorder\<close>, which is Go's.
  \<^item> A Go map is an association list with distinct keys: reading is \<^const>\<open>map_of\<close>, writing
    \<^const>\<open>AList.update\<close>, \<open>delete\<close> is \<^const>\<open>AList.delete\<close>, \<open>len\<close> is
    \<^const>\<open>length\<close>. Iteration order is unspecified in Go; no result below depends on it.
  \<^item> \<open>time.Time\<close> and \<open>time.Duration\<close> are nanosecond counts. \<open>Time.Sub\<close> saturates at the
    int64 bounds (\<open>go_sub\<close>); other int64 arithmetic wraps (\<open>wrap64\<close>).
  \<^item> A Go error is a value of a datatype; a function that returns \<open>(T, error)\<close> returns
    \<open>error + T\<close>, with \<^const>\<open>Inl\<close> the error.
\<close>

named_theorems go_simps \<open>characteristic equations of the Go operations\<close>
named_theorems api_defs \<open>constants of the API, unfolded where their spelling matters\<close>

type_synonym go_time = int
type_synonym duration = int
type_synonym labels = "(string \<times> string) list"

section \<open>Machine integers and time\<close>

definition max_int64 :: int where
  "max_int64 = 9223372036854775807"

definition min_int64 :: int where
  "min_int64 = - 9223372036854775808"

text \<open>The value an int64 holds after an operation whose exact result is \<open>x\<close>.\<close>

definition wrap64 :: "int \<Rightarrow> int" where
  "wrap64 x = (x + 9223372036854775808) mod 18446744073709551616 - 9223372036854775808"

definition in_int64 :: "int \<Rightarrow> bool" where
  "in_int64 x \<longleftrightarrow> min_int64 \<le> x \<and> x \<le> max_int64"

lemma in_int64_wrap64 [simp, intro]: "in_int64 (wrap64 x)"
proof -
  have "0 \<le> (x + 9223372036854775808) mod 18446744073709551616"
    and "(x + 9223372036854775808) mod 18446744073709551616 < 18446744073709551616"
    by simp_all
  then show ?thesis
    by (simp add: in_int64_def wrap64_def min_int64_def max_int64_def)
qed

lemma wrap64_id [go_simps]: "in_int64 x \<Longrightarrow> wrap64 x = x"
  by (simp add: wrap64_def in_int64_def min_int64_def max_int64_def)

lemma wrap64_idem [simp]: "wrap64 (wrap64 x) = wrap64 x"
  by (rule wrap64_id) (rule in_int64_wrap64)

lemma wrap64_add_left [simp]: "wrap64 (wrap64 x + y) = wrap64 (x + y)"
  by (simp add: wrap64_def mod_simps algebra_simps)

lemma wrap64_add_right [simp]: "wrap64 (x + wrap64 y) = wrap64 (x + y)"
  by (simp add: wrap64_def mod_simps algebra_simps)

text \<open>\<open>Time.Sub\<close>: the difference, saturated at the bounds of an int64.\<close>

definition go_sub :: "go_time \<Rightarrow> go_time \<Rightarrow> duration" where
  "go_sub t u = max min_int64 (min max_int64 (t - u))"

lemma go_sub_less_iff [go_simps]:
  "in_int64 d \<Longrightarrow> go_sub t u < d \<longleftrightarrow> t - u < d \<and> min_int64 < d"
  by (auto simp: go_sub_def in_int64_def min_int64_def max_int64_def)

lemma go_sub_le_iff [go_simps]:
  "min_int64 \<le> d \<Longrightarrow> d < max_int64 \<Longrightarrow> go_sub t u \<le> d \<longleftrightarrow> t - u \<le> d"
  by (auto simp: go_sub_def in_int64_def min_int64_def max_int64_def)

lemma go_sub_exact: "in_int64 (t - u) \<Longrightarrow> go_sub t u = t - u"
  by (simp add: go_sub_def in_int64_def)

lemma go_sub_self [simp]: "go_sub t t = 0"
  by (simp add: go_sub_def min_int64_def max_int64_def)

lemma go_sub_mono: "t \<le> t' \<Longrightarrow> go_sub t u \<le> go_sub t' u"
  by (simp add: go_sub_def)

definition Second :: duration where "Second = 1000000000"
definition Minute :: duration where "Minute = 60 * Second"
definition Hour :: duration where "Hour = 60 * Minute"

lemmas duration_units = Second_def Minute_def Hour_def

section \<open>Errors of the Kubernetes API client\<close>

text \<open>
  What the code distinguishes of an error from the API server: the predicates of
  \<open>k8s.io/apimachinery/pkg/api/errors\<close> it calls, and the rendered text.
\<close>

datatype api_reason = NotFound | AlreadyExists | Conflict | OtherApiError

datatype api_error = ApiError (api_reason_of: api_reason) (api_message: string)

definition IsNotFound :: "api_error \<Rightarrow> bool" where
  "IsNotFound e \<longleftrightarrow> api_reason_of e = NotFound"

definition IsAlreadyExists :: "api_error \<Rightarrow> bool" where
  "IsAlreadyExists e \<longleftrightarrow> api_reason_of e = AlreadyExists"

definition IsConflict :: "api_error \<Rightarrow> bool" where
  "IsConflict e \<longleftrightarrow> api_reason_of e = Conflict"

lemmas api_error_preds = IsNotFound_def IsAlreadyExists_def IsConflict_def

section \<open>Maps as association lists\<close>

declare map_of_eq_Some_iff [simp del] and Some_eq_map_of_iff [simp del]

lemma map_of_alist_update [simp]: "map_of (AList.update k v m) = (map_of m)(k \<mapsto> v)"
  by (rule update_conv')

lemma map_of_alist_delete [simp]: "map_of (AList.delete k m) = (map_of m)(k := None)"
  by (rule delete_conv')

lemma length_alist_update:
  "length (AList.update k v m) = (if k \<in> fst ` set m then length m else Suc (length m))"
  by (induction m) auto

lemma length_alist_delete_le: "length (AList.delete k m) \<le> length m"
  by (simp add: AList.delete_eq)

lemma map_of_filter_key_distinct:
  assumes "distinct (map fst m)"
  shows "map_of (filter P m) k =
    (case map_of m k of None \<Rightarrow> None | Some v \<Rightarrow> if P (k, v) then Some v else None)"
  using assms
proof (induction m)
  case Nil
  then show ?case by simp
next
  case (Cons a m)
  obtain k' v' where a: "a = (k', v')" by (cases a)
  show ?case
  proof (cases "k = k'")
    case True
    with Cons.prems a have "k \<notin> fst ` set (filter P m)" by auto
    then have "map_of (filter P m) k = None" by (simp add: map_of_eq_None_iff)
    with True a show ?thesis by simp
  next
    case False
    with a Cons show ?thesis by simp
  qed
qed

lemma distinct_map_fst_filter: "distinct (map fst m) \<Longrightarrow> distinct (map fst (filter P m))"
  by (induction m) auto

lemma set_fst_filter_subset: "fst ` set (filter P m) \<subseteq> fst ` set m"
  by auto

lemma length_le_of_distinct_keys:
  "distinct (map fst m) \<Longrightarrow> fst ` set m \<subseteq> fst ` set m' \<Longrightarrow> length m \<le> length m'"
proof -
  assume d: "distinct (map fst m)" and s: "fst ` set m \<subseteq> fst ` set m'"
  from d have "length m = card (fst ` set m)"
    by (metis distinct_card length_map set_map)
  also from s have "\<dots> \<le> card (fst ` set m')" by (intro card_mono) auto
  also have "\<dots> \<le> length m'" by (metis card_length length_map set_map)
  finally show ?thesis .
qed

lemma find_SomeD: "List.find P xs = Some x \<Longrightarrow> x \<in> set xs \<and> P x"
  by (induction xs) (auto split: if_splits)

section \<open>Sorting by a key\<close>

text \<open>
  \<open>sort.Slice\<close> and \<open>slices.SortFunc\<close> promise a sorted permutation and nothing about
  elements with equal keys. Where the keys are distinct there is exactly one such list, so
  \<^const>\<open>sort_key\<close> is the result of any sorting algorithm.
\<close>

lemma sort_key_unique:
  assumes "mset ys = mset xs" and "sorted (map f ys)" and "distinct (map f xs)"
  shows "ys = sort_key f xs"
proof (rule map_sorted_distinct_set_unique)
  have "mset (sort_key f xs) = mset ys" using assms(1) by simp
  then have sets: "set ys = set xs" by (metis mset_eq_setD mset_sort)
  then show "set ys = set (sort_key f xs)" by simp
  show "inj_on f (set ys \<union> set (sort_key f xs))"
    using assms(3) sets by (simp add: distinct_map)
  show "distinct (map f ys)"
    using assms(1,3) by (metis mset_eq_imp_distinct_iff mset_map)
  show "distinct (map f (sort_key f xs))"
    using assms(3) by (metis mset_eq_imp_distinct_iff mset_map mset_sort)
qed (use assms(2) in simp_all)

end
