(* ===== verification/Api.thy ===== *)
theory Api
  imports Prelude
begin

text \<open>
  The custom resources of \<open>api/v1beta1\<close> and the placement semantics of
  \<open>ClusterState\<close> (\<open>clusterstate.go\<close>).

  Object metadata is flattened into the record that carries it, with the fields the hub
  reads. An enumeration of the API is a Go string type whose value need not be one of the
  declared constants, so it stays a \<^typ>\<open>string\<close>. \<open>metav1.LabelSelector\<close> is a type of
  the Kubernetes libraries and is the type parameter \<open>'sel\<close>.
\<close>

section \<open>Cluster\<close>

type_synonym ClusterState = string
type_synonym Provider = string

definition ProviderEKS :: Provider where [api_defs]: "ProviderEKS = ''eks''"
definition ProviderGKE :: Provider where [api_defs]: "ProviderGKE = ''gke''"
definition ProviderAKS :: Provider where [api_defs]: "ProviderAKS = ''aks''"
definition ProviderGeneric :: Provider where [api_defs]: "ProviderGeneric = ''generic''"

definition ClusterStateLive :: ClusterState where [api_defs]: "ClusterStateLive = ''LIVE''"
definition ClusterStateDark :: ClusterState where [api_defs]: "ClusterStateDark = ''DARK''"
definition ClusterStateDraining :: ClusterState where
  [api_defs]: "ClusterStateDraining = ''DRAINING''"

text \<open>\<open>metav1.Condition\<close>, with the fields the controllers read and write.\<close>

record condition =
  cond_type :: string
  cond_status :: string
  cond_reason :: string
  cond_message :: string
  cond_generation :: int
  cond_transition :: go_time

record ReporterIdentity =
  reporter_issuer :: string
  reporter_subject :: string

record ClusterSpec =
  endpoint :: string
  caBundle :: string
  provider :: Provider
  trustConfigRef :: string
  reporter :: "ReporterIdentity option"
  state :: ClusterState

record ClusterStatus =
  observedState :: ClusterState
  cl_observedGeneration :: int
  stateSince :: "go_time option"
  cl_conditions :: "condition list"

record Cluster =
  cl_name :: string
  cl_namespace :: string
  cl_labels :: labels
  cl_generation :: int
  cl_created :: go_time
  cl_spec :: ClusterSpec
  cl_status :: ClusterStatus

section \<open>PlacementPolicy\<close>

type_synonym ScoringStrategy = string
type_synonym StickinessMode = string

definition ScoringLeastLoaded :: ScoringStrategy where
  [api_defs]: "ScoringLeastLoaded = ''LeastLoaded''"
definition ScoringRoundRobin :: ScoringStrategy where
  [api_defs]: "ScoringRoundRobin = ''RoundRobin''"
definition StickinessPreferred :: StickinessMode where
  [api_defs]: "StickinessPreferred = ''Preferred''"
definition StickinessNone :: StickinessMode where
  [api_defs]: "StickinessNone = ''None''"

record SubjectSelector =
  sel_issuer :: string
  sel_subject :: string
  sel_claims :: labels

record TokenTTLPolicy =
  ttl_default :: "duration option"
  ttl_max :: "duration option"

record Stickiness =
  sticky_mode :: StickinessMode

record 'sel PlacementPolicySpec =
  subjects :: "SubjectSelector list"
  permittedCells :: 'sel
  strategy :: ScoringStrategy
  tokenTTL :: "TokenTTLPolicy option"
  allowDarkTargeting :: bool
  stickiness :: "Stickiness option"

record PlacementPolicyStatus =
  pol_observedGeneration :: int
  pol_conditions :: "condition list"

record 'sel PlacementPolicy =
  pol_name :: string
  pol_namespace :: string
  pol_uid :: string
  pol_generation :: int
  pol_spec :: "'sel PlacementPolicySpec"
  pol_status :: PlacementPolicyStatus

section \<open>TrustConfig\<close>

type_synonym TrustProvider = string

definition TrustProviderKubernetes :: TrustProvider where
  [api_defs]: "TrustProviderKubernetes = ''kubernetes''"
definition TrustProviderAWS :: TrustProvider where
  [api_defs]: "TrustProviderAWS = ''aws''"

record SecretKeyReference =
  secret_name :: string
  secret_key :: string

record CredentialSource =
  inCluster :: bool
  secretRef :: "SecretKeyReference option"

record KubernetesTrust =
  serviceAccountName :: string
  sa_namespace :: string
  audiences :: "string list"

record TrustConfigSpec =
  trust_provider :: TrustProvider
  credentialSource :: CredentialSource
  kubernetes :: "KubernetesTrust option"

record TrustConfigStatus =
  trust_observedGeneration :: int
  trust_conditions :: "condition list"

record TrustConfig =
  trust_name :: string
  trust_namespace :: string
  trust_generation :: int
  trust_spec :: TrustConfigSpec
  trust_status :: TrustConfigStatus

section \<open>WorkloadPlacement\<close>

record WorkloadPlacementSpec =
  wp_policy :: string
  wp_workload :: string
  wp_cell :: string
  wp_lastPlacedAt :: go_time

text \<open>\<open>metav1.OwnerReference\<close>, with the fields the hub sets.\<close>

record OwnerReference =
  owner_apiVersion :: string
  owner_kind :: string
  owner_name :: string
  owner_uid :: string

definition GroupVersion :: string where
  [api_defs]: "GroupVersion = ''cellcast.io/v1beta1''"

record WorkloadPlacement =
  wp_name :: string
  wp_namespace :: string
  wp_resourceVersion :: string
  wp_owners :: "OwnerReference list"
  wp_spec :: WorkloadPlacementSpec

section \<open>Placement semantics of a cluster state\<close>

definition Normalize :: "ClusterState \<Rightarrow> ClusterState" where
  "Normalize s = (if s = '''' then ClusterStateLive else s)"

definition RejectsPlacement :: "ClusterState \<Rightarrow> bool \<Rightarrow> string" where
  "RejectsPlacement s wantDark =
    (let n = Normalize s in
     if n = ClusterStateLive then
       (if wantDark then ''cell is LIVE and the request targets dark cells'' else '''')
     else if n = ClusterStateDark then
       (if wantDark then ''''
        else ''cell is DARK and the request does not target dark cells'')
     else if n = ClusterStateDraining then
       ''cell is DRAINING and accepts no new placements''
     else ''cell is in an unrecognised state'')"

definition AcceptsPlacement :: "ClusterState \<Rightarrow> bool \<Rightarrow> bool" where
  "AcceptsPlacement s wantDark \<longleftrightarrow> RejectsPlacement s wantDark = ''''"

definition ServesProductionTraffic :: "ClusterState \<Rightarrow> bool" where
  "ServesProductionTraffic s \<longleftrightarrow>
    Normalize s = ClusterStateLive \<or> Normalize s = ClusterStateDraining"

lemma cluster_states_distinct [simp]:
  "ClusterStateLive \<noteq> ClusterStateDark" "ClusterStateDark \<noteq> ClusterStateLive"
  "ClusterStateLive \<noteq> ClusterStateDraining" "ClusterStateDraining \<noteq> ClusterStateLive"
  "ClusterStateDark \<noteq> ClusterStateDraining" "ClusterStateDraining \<noteq> ClusterStateDark"
  "ClusterStateLive \<noteq> ''''" "ClusterStateDark \<noteq> ''''" "ClusterStateDraining \<noteq> ''''"
  by (simp_all add: api_defs)

lemma Normalize_idem [simp]: "Normalize (Normalize s) = Normalize s"
  by (simp add: Normalize_def)

lemma Normalize_consts [simp]:
  "Normalize '''' = ClusterStateLive"
  "Normalize ClusterStateLive = ClusterStateLive"
  "Normalize ClusterStateDark = ClusterStateDark"
  "Normalize ClusterStateDraining = ClusterStateDraining"
  by (simp_all add: Normalize_def)

text \<open>
  The table of ADR-008 as a predicate: an ordinary request lands on LIVE cells, a
  dark-targeting one on DARK cells, and every other state takes nothing.
\<close>

lemma RejectsPlacement_empty_iff [simp]:
  "RejectsPlacement s wantDark = '''' \<longleftrightarrow>
    Normalize s = (if wantDark then ClusterStateDark else ClusterStateLive)"
  by (auto simp: RejectsPlacement_def Let_def)

lemma AcceptsPlacement_iff [simp]:
  "AcceptsPlacement s wantDark \<longleftrightarrow>
    Normalize s = (if wantDark then ClusterStateDark else ClusterStateLive)"
  by (simp add: AcceptsPlacement_def)

end
