(* ===== verification/Float64.thy ===== *)
theory Float64
  imports Prelude
begin

text \<open>
  The binary64 arithmetic the capacity scores and the heartbeat jitter use. A finite
  float64 is the rational number it denotes; an operation is the exact operation followed by
  \<open>f64\<close>, rounding to 53 significant bits, ties to even, as IEEE 754 and the Go
  specification require. Exponents are unbounded here: every value the program computes from
  int64 operands lies between \<open>2^-200\<close> and \<open>2^200\<close> in magnitude or is zero, far inside
  the normal range, so overflow, subnormals and NaN do not arise. A number an operator gives need not be finite and is a \<open>flt\<close>.
\<close>

section \<open>Rounding to an integer, ties to even\<close>

definition round_even :: "rat \<Rightarrow> int" where
  "round_even y =
    (let f = \<lfloor>y\<rfloor>; d = y - of_int f in
     if d < 1 / 2 then f else if 1 / 2 < d then f + 1 else if even f then f else f + 1)"

lemma round_even_of_int [simp]: "round_even (of_int n) = n"
  by (simp add: round_even_def)

lemma round_even_numeral [simp]:
  "round_even (numeral n) = numeral n" "round_even 0 = 0" "round_even 1 = 1"
  using round_even_of_int [of "numeral n"] round_even_of_int [of 0] round_even_of_int [of 1]
  by simp_all

lemma round_even_bounds: "\<lfloor>y\<rfloor> \<le> round_even y" "round_even y \<le> \<lfloor>y\<rfloor> + 1"
  by (simp_all add: round_even_def Let_def)

lemma round_even_error: "\<bar>of_int (round_even y) - y\<bar> \<le> 1 / 2"
proof -
  have "of_int \<lfloor>y\<rfloor> \<le> y" and "y < of_int \<lfloor>y\<rfloor> + 1" by linarith+
  then show ?thesis by (auto simp: round_even_def Let_def abs_le_iff)
qed

lemma round_even_mono:
  assumes "x \<le> y"
  shows "round_even x \<le> round_even y"
proof (cases "\<lfloor>x\<rfloor> = \<lfloor>y\<rfloor>")
  case True
  with assms show ?thesis by (auto simp: round_even_def Let_def)
next
  case False
  with assms floor_mono [OF assms] have "\<lfloor>x\<rfloor> + 1 \<le> \<lfloor>y\<rfloor>" by linarith
  with round_even_bounds [of x] round_even_bounds [of y] show ?thesis by linarith
qed

lemma round_even_ge: "of_int n \<le> y \<Longrightarrow> n \<le> round_even y"
  using round_even_mono [of "of_int n" y] by simp

lemma round_even_le: "y \<le> of_int n \<Longrightarrow> round_even y \<le> n"
  using round_even_mono [of y "of_int n"] by simp

section \<open>The binary exponent\<close>

definition ilog2 :: "rat \<Rightarrow> int" where
  "ilog2 x =
    (let (a, b) = quotient_of x;
         e = int (floorlog 2 (nat a)) - int (floorlog 2 (nat b))
     in if 2 powi e \<le> x then e else e - 1)"

lemma floorlog_bounds_rat:
  assumes "0 < n"
  shows "(2::rat) powi (int (floorlog 2 n) - 1) \<le> of_nat n"
    and "of_nat n < (2::rat) powi int (floorlog 2 n)"
proof -
  have "2 ^ (floorlog 2 n - 1) \<le> n" and lt: "n < 2 ^ floorlog 2 n"
    using floorlog_bounds [of n 2] assms by auto
  then have "(of_nat (2 ^ (floorlog 2 n - 1)) :: rat) \<le> of_nat n" by (simp only: of_nat_le_iff)
  moreover have "0 < floorlog 2 n" using assms lt by (cases "floorlog 2 n") auto
  then have "(2::rat) powi (int (floorlog 2 n) - 1) = 2 ^ (floorlog 2 n - 1)"
    by (simp add: power_int_def nat_diff_distrib)
  ultimately show "(2::rat) powi (int (floorlog 2 n) - 1) \<le> of_nat n" by simp
  have "(of_nat n :: rat) < of_nat (2 ^ floorlog 2 n)" using lt by (simp only: of_nat_less_iff)
  then show "of_nat n < (2::rat) powi int (floorlog 2 n)" by (simp add: power_int_def)
qed

lemma powi_shift: "(2::rat) powi a = 2 ^ n * 2 powi (a - int n)"
  using power_int_add [of "2::rat" "int n" "a - int n"] by simp

lemma ilog2_bounds:
  assumes "0 < x"
  shows "2 powi ilog2 x \<le> x" and "x < 2 powi (ilog2 x + 1)"
proof -
  obtain a b where ab: "quotient_of x = (a, b)" by (cases "quotient_of x")
  from ab have x: "x = of_int a / of_int b" by (rule quotient_of_div)
  from ab have b: "0 < b" by (rule quotient_of_denom_pos)
  with x assms have a: "0 < a" by (simp add: zero_less_divide_iff)
  define la lb where "la = int (floorlog 2 (nat a))" and "lb = int (floorlog 2 (nat b))"
  have A: "(2::rat) powi (la - 1) \<le> of_int a" "of_int a < (2::rat) powi la"
    using floorlog_bounds_rat [of "nat a"] a by (simp_all add: la_def)
  have B: "(2::rat) powi (lb - 1) \<le> of_int b" "of_int b < (2::rat) powi lb"
    using floorlog_bounds_rat [of "nat b"] b by (simp_all add: lb_def)
  have "(2::rat) powi (la - 1) / 2 powi lb \<le> x"
    unfolding x using A B a b by (intro frac_le) auto
  then have lo: "(2::rat) powi (la - lb - 1) \<le> x"
    using power_int_diff [of "2::rat" "la - 1" lb] by (simp add: algebra_simps)
  have "x < (2::rat) powi la / 2 powi (lb - 1)"
    unfolding x using A B a by (intro frac_less) auto
  then have hi: "x < (2::rat) powi (la - lb + 1)"
    using power_int_diff [of "2::rat" la "lb - 1"] by (simp add: algebra_simps)
  have eq: "ilog2 x = (if 2 powi (la - lb) \<le> x then la - lb else la - lb - 1)"
    by (simp add: ilog2_def ab la_def lb_def)
  show "2 powi ilog2 x \<le> x" using lo by (simp add: eq)
  show "x < 2 powi (ilog2 x + 1)" using hi by (simp add: eq)
qed

lemma powi_less_imp_less: "(2::rat) powi a < 2 powi b \<Longrightarrow> a < b"
  by (rule ccontr) (simp add: not_less power_int_increasing leD)

lemma ilog2_unique: "2 powi e \<le> x \<Longrightarrow> x < 2 powi (e + 1) \<Longrightarrow> ilog2 x = e"
proof -
  assume le: "2 powi e \<le> x" and lt: "x < 2 powi (e + 1)"
  have "(0::rat) < 2 powi e" by simp
  with le have "0 < x" by linarith
  note b = ilog2_bounds [OF this]
  from b(1) lt have "(2::rat) powi ilog2 x < 2 powi (e + 1)" by linarith
  moreover from le b(2) have "(2::rat) powi e < 2 powi (ilog2 x + 1)" by linarith
  ultimately have "ilog2 x < e + 1" and "e < ilog2 x + 1" by (auto dest: powi_less_imp_less)
  then show ?thesis by simp
qed

lemma ilog2_mono: "0 < x \<Longrightarrow> x \<le> y \<Longrightarrow> ilog2 x \<le> ilog2 y"
proof -
  assume "0 < x" and "x \<le> y"
  with ilog2_bounds(1) [of x] ilog2_bounds(2) [of y]
  have "(2::rat) powi ilog2 x < 2 powi (ilog2 y + 1)" by linarith
  then have "ilog2 x < ilog2 y + 1" by (rule powi_less_imp_less)
  then show ?thesis by simp
qed

section \<open>Rounding to 53 significant bits\<close>

definition f64_pos :: "rat \<Rightarrow> rat" where
  "f64_pos x = (let u = 2 powi (ilog2 x - 52) in of_int (round_even (x / u)) * u)"

definition f64 :: "rat \<Rightarrow> rat" where
  "f64 x = (if x = 0 then 0 else if 0 < x then f64_pos x else - f64_pos (- x))"

definition f64_of_int :: "int \<Rightarrow> rat" where
  "f64_of_int n = f64 (of_int n)"

definition f64_div :: "rat \<Rightarrow> rat \<Rightarrow> rat" where
  "f64_div x y = f64 (x / y)"

definition f64_mul :: "rat \<Rightarrow> rat \<Rightarrow> rat" where
  "f64_mul x y = f64 (x * y)"

definition f64_sub :: "rat \<Rightarrow> rat \<Rightarrow> rat" where
  "f64_sub x y = f64 (x - y)"

text \<open>Conversion of a float64 to an integer type truncates toward zero.\<close>

definition trunc64 :: "rat \<Rightarrow> int" where
  "trunc64 x = (if 0 \<le> x then \<lfloor>x\<rfloor> else \<lceil>x\<rceil>)"

lemma f64_zero [simp]: "f64 0 = 0"
  by (simp add: f64_def)

lemma f64_minus: "f64 (- x) = - f64 x"
  by (auto simp: f64_def)

lemma f64_pos_ge_power:
  assumes "0 < x"
  shows "2 powi ilog2 x \<le> f64_pos x"
proof -
  define u :: rat where "u = 2 powi (ilog2 x - 52)"
  have u: "0 < u" by (simp add: u_def)
  have p: "(2::rat) powi ilog2 x = 2 ^ 52 * u"
    using powi_shift [of "ilog2 x" 52] by (simp add: u_def)
  from ilog2_bounds(1) [OF assms] have "of_int (2 ^ 52) \<le> x / u"
    by (simp add: p u le_divide_eq)
  then have "2 ^ 52 \<le> round_even (x / u)" by (rule round_even_ge)
  then have "of_int (2 ^ 52) \<le> (of_int (round_even (x / u)) :: rat)" by (simp only: of_int_le_iff)
  then have "2 ^ 52 * u \<le> of_int (round_even (x / u)) * u" using u by simp
  then show ?thesis by (simp add: p f64_pos_def u_def Let_def)
qed

lemma f64_pos_le_power:
  assumes "0 < x"
  shows "f64_pos x \<le> 2 powi (ilog2 x + 1)"
proof -
  define u :: rat where "u = 2 powi (ilog2 x - 52)"
  have u: "0 < u" by (simp add: u_def)
  have p: "(2::rat) powi (ilog2 x + 1) = 2 ^ 53 * u"
    using powi_shift [of "ilog2 x + 1" 53] by (simp add: u_def)
  from ilog2_bounds(2) [OF assms] have "x / u \<le> of_int (2 ^ 53)"
    by (simp add: p u divide_le_eq)
  then have "round_even (x / u) \<le> 2 ^ 53" by (rule round_even_le)
  then have "of_int (round_even (x / u)) \<le> (of_int (2 ^ 53) :: rat)" by (simp only: of_int_le_iff)
  then have "of_int (round_even (x / u)) * u \<le> 2 ^ 53 * u" using u by simp
  then show ?thesis by (simp add: p f64_pos_def u_def Let_def)
qed

lemma f64_pos_positive: "0 < x \<Longrightarrow> 0 < f64_pos x"
  using f64_pos_ge_power [of x] by (meson less_le_trans zero_less_numeral zero_less_power_int)

lemma f64_pos_mono:
  assumes "0 < x" and "x \<le> y"
  shows "f64_pos x \<le> f64_pos y"
proof (cases "ilog2 x = ilog2 y")
  case True
  define u :: rat where "u = 2 powi (ilog2 y - 52)"
  have u: "0 < u" by (simp add: u_def)
  from assms(2) u have "x / u \<le> y / u" by (simp add: divide_right_mono)
  then have "of_int (round_even (x / u)) \<le> (of_int (round_even (y / u)) :: rat)"
    by (simp add: round_even_mono)
  with u True show ?thesis by (simp add: f64_pos_def Let_def u_def)
next
  case False
  with ilog2_mono [OF assms] have "ilog2 x + 1 \<le> ilog2 y" by simp
  then have "(2::rat) powi (ilog2 x + 1) \<le> 2 powi ilog2 y" by (intro power_int_increasing) auto
  with f64_pos_le_power [of x] f64_pos_ge_power [of y] assms show ?thesis by linarith
qed

text \<open>Rounding is monotone, so it never reorders two quotients.\<close>

lemma f64_mono:
  assumes "x \<le> y"
  shows "f64 x \<le> f64 y"
proof -
  consider "0 < x" | "x \<le> 0" "0 \<le> y" | "y < 0" using assms by linarith
  then show ?thesis
  proof cases
    case 1
    with assms show ?thesis by (simp add: f64_def f64_pos_mono)
  next
    case 2
    have "f64 x \<le> 0" using 2 f64_pos_positive [of "- x"] by (auto simp: f64_def)
    moreover have "0 \<le> f64 y" using 2 f64_pos_positive [of y] by (auto simp: f64_def)
    ultimately show ?thesis by linarith
  next
    case 3
    with assms show ?thesis by (simp add: f64_def f64_pos_mono)
  qed
qed

lemma f64_nonneg: "0 \<le> x \<Longrightarrow> 0 \<le> f64 x"
  using f64_mono [of 0 x] by simp

lemma f64_positive: "0 < x \<Longrightarrow> 0 < f64 x"
  by (simp add: f64_def f64_pos_positive)

text \<open>Integers of at most 53 bits and powers of two are exact.\<close>

lemma f64_power_of_two: "f64 (2 powi e) = 2 powi e"
proof -
  have e: "ilog2 (2 powi e) = e"
    by (rule ilog2_unique) (auto intro: power_int_strict_increasing)
  have shift: "(2::rat) powi e = 2 ^ 52 * 2 powi (e - 52)"
    using powi_shift [of e 52] by simp
  then have "(2::rat) powi e / 2 powi (e - 52) = of_int (2 ^ 52)" by simp
  then have "round_even ((2::rat) powi e / 2 powi (e - 52)) = 2 ^ 52"
    by (metis round_even_of_int)
  then have "f64 (2 powi e) = 2 ^ 52 * 2 powi (e - 52)" by (simp add: f64_def f64_pos_def e)
  then show ?thesis by (simp only: shift)
qed

lemma f64_one [simp]: "f64 1 = 1"
  using f64_power_of_two [of 0] by simp

lemma f64_le_one_iff_le: "x \<le> 1 \<Longrightarrow> f64 x \<le> 1"
  using f64_mono [of x 1] by simp

lemma f64_of_int_mono: "m \<le> n \<Longrightarrow> f64_of_int m \<le> f64_of_int n"
  by (simp add: f64_of_int_def f64_mono)

lemma f64_of_int_nonneg: "0 \<le> n \<Longrightarrow> 0 \<le> f64_of_int n"
  by (simp add: f64_of_int_def f64_nonneg)

lemma f64_of_int_positive: "0 < n \<Longrightarrow> 0 < f64_of_int n"
  by (simp add: f64_of_int_def f64_positive)

lemma f64_div_nonneg: "0 \<le> x \<Longrightarrow> 0 \<le> y \<Longrightarrow> 0 \<le> f64_div x y"
  by (simp add: f64_div_def f64_nonneg)

lemma f64_div_mono: "0 < y \<Longrightarrow> x \<le> x' \<Longrightarrow> f64_div x y \<le> f64_div x' y"
  by (simp add: f64_div_def f64_mono divide_right_mono)

text \<open>The relative error of a rounding, and truncation.\<close>

lemma f64_pos_error:
  assumes "0 < x"
  shows "\<bar>f64_pos x - x\<bar> \<le> x / 2 ^ 53"
proof -
  define u :: rat where "u = 2 powi (ilog2 x - 52)"
  have u: "0 < u" by (simp add: u_def)
  have "f64_pos x - x = (of_int (round_even (x / u)) - x / u) * u"
    using u by (simp add: f64_pos_def Let_def u_def [symmetric] left_diff_distrib)
  then have "\<bar>f64_pos x - x\<bar> = \<bar>of_int (round_even (x / u)) - x / u\<bar> * u" using u by (simp add: abs_mult)
  also have "\<dots> \<le> 1 / 2 * u" using u by (intro mult_right_mono round_even_error) simp
  also have "1 / 2 * u \<le> x / 2 ^ 53"
  proof -
    have "(2::rat) powi ilog2 x = 2 ^ 52 * u" using powi_shift [of "ilog2 x" 52] by (simp add: u_def)
    with ilog2_bounds(1) [OF assms] have "2 ^ 52 * u \<le> x" by simp
    then show ?thesis by simp
  qed
  finally show ?thesis .
qed

lemma f64_error: "\<bar>f64 x - x\<bar> \<le> \<bar>x\<bar> / 2 ^ 53"
proof (cases "0 < x")
  case True
  with f64_pos_error [of x] show ?thesis by (simp add: f64_def)
next
  case False
  then show ?thesis using f64_pos_error [of "- x"] by (cases "x = 0") (auto simp: f64_def abs_minus_commute abs_if split: if_splits)
qed

lemma f64_abs_le: "\<bar>x\<bar> \<le> b \<Longrightarrow> \<bar>f64 x\<bar> \<le> b * (1 + 1 / 2 ^ 53)"
proof -
  assume b: "\<bar>x\<bar> \<le> b"
  have "\<bar>f64 x\<bar> \<le> \<bar>x\<bar> + \<bar>f64 x - x\<bar>" by linarith
  also have "\<dots> \<le> b + b / 2 ^ 53" using f64_error [of x] b by (intro add_mono) (auto intro: order_trans divide_right_mono)
  finally show ?thesis by (simp add: distrib_left)
qed

lemma trunc64_abs_le: "\<bar>of_int (trunc64 x)\<bar> \<le> \<bar>x\<bar>" for x :: rat
  by (auto simp: trunc64_def)

lemma f64_two [simp]: "f64 2 = 2"
  using f64_power_of_two [of 1] by simp

text \<open>Bounds of one rounding, and the integers that need none.\<close>

lemma f64_lower: "0 \<le> x \<Longrightarrow> x * (1 - 1 / 2 ^ 53) \<le> f64 x"
  and f64_upper: "0 \<le> x \<Longrightarrow> f64 x \<le> x * (1 + 1 / 2 ^ 53)"
proof -
  assume x: "0 \<le> x"
  define y where "y = f64 x"
  from f64_error [of x] x have e: "\<bar>y - x\<bar> \<le> x / 2 ^ 53" by (simp add: y_def)
  then have "x - x / 2 ^ 53 \<le> y" "y \<le> x + x / 2 ^ 53" by linarith+
  then show "x * (1 - 1 / 2 ^ 53) \<le> f64 x" "f64 x \<le> x * (1 + 1 / 2 ^ 53)"
    by (simp_all add: y_def right_diff_distrib distrib_left)
qed

lemma f64_int_exact:
  assumes "0 \<le> n" and "n \<le> 2 ^ 53"
  shows "f64 (of_int n) = of_int n"
proof -
  consider "n = 0" | "n = 2 ^ 53" | "0 < n" "n < 2 ^ 53" using assms by linarith
  then show ?thesis
  proof cases
    case 2
    then show ?thesis using f64_power_of_two [of 53] by simp
  next
    case 3
    define x e where "x = rat_of_int n" and "e = ilog2 x"
    have x: "0 < x" "1 \<le> x" using 3(1) by (simp_all add: x_def)
    have "rat_of_int n < of_int (2 ^ 53)" using 3(2) by (simp only: of_int_less_iff)
    with ilog2_bounds [OF x(1)] x(2) have "(2::rat) powi e < 2 powi 53" "(2::rat) powi 0 < 2 powi (e + 1)"
      by (simp_all add: e_def x_def)
    from this [THEN powi_less_imp_less] have "e < 53" "0 < e + 1" by simp_all
    then obtain k where k: "e - 52 = - int k" using nonpos_int_cases [of "e - 52"] by force
    have q: "x / 2 powi (e - 52) = of_int (n * 2 ^ k)" by (simp add: k x_def power_int_minus divide_inverse)
    have "f64_pos x = of_int (n * 2 ^ k) * 2 powi (e - 52)"
      unfolding f64_pos_def Let_def e_def [symmetric] q round_even_of_int ..
    also have "\<dots> = x" by (simp add: k x_def power_int_minus)
    finally show ?thesis using x(1) by (simp add: f64_def x_def)
  qed simp
qed

text \<open>A float64 an operator may give, with the values arithmetic on finite ones does not reach. A comparison with NaN is false.\<close>

datatype flt = NaN | NegInf | PosInf | Fin rat

fun flt_less :: "flt \<Rightarrow> flt \<Rightarrow> bool" where
  "flt_less (Fin x) (Fin y) = (x < y)"
| "flt_less NegInf (Fin y) = True"
| "flt_less NegInf PosInf = True"
| "flt_less (Fin x) PosInf = True"
| "flt_less _ _ = False"

definition flt_le :: "flt \<Rightarrow> flt \<Rightarrow> bool" where
  "flt_le x y \<longleftrightarrow> flt_less x y \<or> (x = y \<and> x \<noteq> NaN)"

end
