(* ===== verification/Capacity.thy ===== *)
theory Capacity
  imports Api Float64
begin

text \<open>
  The in-memory capacity index of \<open>internal/hub/capacity/registry.go\<close>. The registry is
  the record \<open>Registry\<close>; every operation takes it and returns it, and takes the value its
  clock \<open>opts.Now()\<close> returns. The mutex makes each operation atomic, so a concurrent history
  is a sequence of operations, which is what \<open>capacity_run\<close> quantifies over.

  The lemmas show that the index stays bounded and well formed, that health is a function of
  the age of the last accepted report alone, that \<open>Prune\<close> never changes what an unexpired
  cell reads as, and that it announces each transition into Unknown once.
\<close>

section \<open>Reports\<close>

record Report =
  Cell :: string
  Nodes :: int
  CPUMilliAllocatable :: int
  CPUMilliCommitted :: int
  MemoryBytesAllocatable :: int
  MemoryBytesCommitted :: int
  Pods :: int
  PodCapacity :: int

datatype report_error =
    CellRequired
  | MustNotBeNegative string int
  | NothingAllocatable
  | ErrTooManyCells int

definition negatives :: "Report \<Rightarrow> (string \<times> int) list" where
  "negatives r =
    [(''nodes'', Nodes r),
     (''cpuMilliAllocatable'', CPUMilliAllocatable r),
     (''cpuMilliCommitted'', CPUMilliCommitted r),
     (''memoryBytesAllocatable'', MemoryBytesAllocatable r),
     (''memoryBytesCommitted'', MemoryBytesCommitted r),
     (''pods'', Pods r),
     (''podCapacity'', PodCapacity r)]"

text \<open>\<open>None\<close> is Go's nil error: the heartbeat is usable.\<close>

definition Validate :: "Report \<Rightarrow> report_error option" where
  "Validate r =
    (if Cell r = '''' then Some CellRequired
     else case List.find (\<lambda>(name, n). n < 0) (sort_key fst (negatives r)) of
       Some (name, n) \<Rightarrow> Some (MustNotBeNegative name n)
     | None \<Rightarrow>
         if CPUMilliAllocatable r = 0 \<and> MemoryBytesAllocatable r = 0
         then Some NothingAllocatable else None)"

definition Utilisation :: "Report \<Rightarrow> rat" where
  "Utilisation r =
    (let worst = (if 0 < CPUMilliAllocatable r
           then max 0 (f64_div (f64_of_int (CPUMilliCommitted r)) (f64_of_int (CPUMilliAllocatable r)))
           else 0)
     in if 0 < MemoryBytesAllocatable r
        then max worst
          (f64_div (f64_of_int (MemoryBytesCommitted r)) (f64_of_int (MemoryBytesAllocatable r)))
        else worst)"

lemma find_None_iff_all: "List.find P xs = None \<longleftrightarrow> (\<forall>x \<in> set xs. \<not> P x)"
  by (auto simp: find_None_iff)

lemma Validate_None_iff:
  "Validate r = None \<longleftrightarrow>
    Cell r \<noteq> '''' \<and> (\<forall>(name, n) \<in> set (negatives r). 0 \<le> n) \<and>
    (CPUMilliAllocatable r \<noteq> 0 \<or> MemoryBytesAllocatable r \<noteq> 0)"
proof -
  have "List.find (\<lambda>(name, n). n < 0) (sort_key fst (negatives r)) = None \<longleftrightarrow>
      (\<forall>(name, n) \<in> set (negatives r). 0 \<le> n)"
    by (auto simp: find_None_iff_all not_less)
  then show ?thesis by (auto simp: Validate_def split: option.splits)
qed

lemma Validate_NoneD:
  assumes "Validate r = None"
  shows "Cell r \<noteq> ''''" "0 \<le> Nodes r" "0 \<le> CPUMilliAllocatable r" "0 \<le> CPUMilliCommitted r"
    "0 \<le> MemoryBytesAllocatable r" "0 \<le> MemoryBytesCommitted r" "0 \<le> Pods r"
    "0 \<le> PodCapacity r" "0 < CPUMilliAllocatable r \<or> 0 < MemoryBytesAllocatable r"
  using assms unfolding Validate_None_iff negatives_def by auto

section \<open>The registry\<close>

type_synonym Health = string

definition HealthFresh :: Health where [api_defs]: "HealthFresh = ''Fresh''"
definition HealthUnknown :: Health where [api_defs]: "HealthUnknown = ''Unknown''"

lemma health_distinct [simp]: "HealthFresh \<noteq> HealthUnknown" "HealthUnknown \<noteq> HealthFresh"
  by (simp_all add: api_defs)

record Entry =
  entry_report :: Report
  entry_observedAt :: go_time
  entry_health :: Health
  entry_utilisation :: rat

record Options =
  Staleness :: duration
  Retention :: duration
  MaxCells :: int
  PruneInterval :: duration

definition DefaultStaleness :: duration where "DefaultStaleness = 90 * Second"
definition DefaultRetention :: duration where "DefaultRetention = Hour"
definition DefaultMaxCells :: int where "DefaultMaxCells = 1000"
definition DefaultPruneInterval :: duration where "DefaultPruneInterval = Minute"

lemmas capacity_defaults = DefaultStaleness_def DefaultRetention_def DefaultMaxCells_def
  DefaultPruneInterval_def duration_units

definition withDefaults :: "Options \<Rightarrow> Options" where
  "withDefaults o0 =
    (let o1 = (if Staleness o0 \<le> 0 then o0\<lparr>Staleness := DefaultStaleness\<rparr> else o0);
         o2 = (if Retention o1 \<le> 0 then o1\<lparr>Retention := DefaultRetention\<rparr> else o1);
         o3 = (if MaxCells o2 \<le> 0 then o2\<lparr>MaxCells := DefaultMaxCells\<rparr> else o2);
         o4 = (if PruneInterval o3 \<le> 0 then o3\<lparr>PruneInterval := DefaultPruneInterval\<rparr> else o3)
     in o4\<lparr>Retention := max (Retention o4) (Staleness o4)\<rparr>)"

record stored =
  st_report :: Report
  st_observedAt :: go_time

record Registry =
  opts :: Options
  entries :: "(string \<times> stored) list"
  unknown :: "(string \<times> bool) list"

definition New :: "Options \<Rightarrow> Registry" where
  "New o0 = \<lparr>opts = withDefaults o0, entries = [], unknown = []\<rparr>"

text \<open>\<open>Registry.Report\<close>, with the report it records named \<open>RegistryReport\<close> here.\<close>

definition RegistryReport :: "Registry \<Rightarrow> go_time \<Rightarrow> Report \<Rightarrow> report_error option \<times> Registry" where
  "RegistryReport r now rep =
    (case Validate rep of
       Some e \<Rightarrow> (Some e, r)
     | None \<Rightarrow>
         if map_of (entries r) (Cell rep) = None
            \<and> MaxCells (opts r) \<le> int (length (entries r))
         then (Some (ErrTooManyCells (MaxCells (opts r))), r)
         else (None, r\<lparr>
            entries := AList.update (Cell rep) \<lparr>st_report = rep, st_observedAt = now\<rparr> (entries r),
            unknown := AList.delete (Cell rep) (unknown r)\<rparr>))"

definition entryLocked :: "Registry \<Rightarrow> stored \<Rightarrow> go_time \<Rightarrow> Entry" where
  "entryLocked r s now =
    (if Staleness (opts r) < go_sub now (st_observedAt s)
     then \<lparr>entry_report = st_report s, entry_observedAt = st_observedAt s,
           entry_health = HealthUnknown, entry_utilisation = 0\<rparr>
     else \<lparr>entry_report = st_report s, entry_observedAt = st_observedAt s,
           entry_health = HealthFresh, entry_utilisation = Utilisation (st_report s)\<rparr>)"

definition Lookup :: "Registry \<Rightarrow> go_time \<Rightarrow> string \<Rightarrow> Entry option" where
  "Lookup r now cell =
    (case map_of (entries r) cell of None \<Rightarrow> None | Some s \<Rightarrow> Some (entryLocked r s now))"

definition Snapshot :: "Registry \<Rightarrow> go_time \<Rightarrow> (string \<times> Entry) list" where
  "Snapshot r now = map (\<lambda>(cell, s). (cell, entryLocked r s now)) (entries r)"

definition Forget :: "Registry \<Rightarrow> string \<Rightarrow> Registry" where
  "Forget r cell =
    r\<lparr>entries := AList.delete cell (entries r), unknown := AList.delete cell (unknown r)\<rparr>"

record Stats =
  stats_fresh :: nat
  stats_unknown :: nat

definition RegistryStats :: "Registry \<Rightarrow> go_time \<Rightarrow> Stats" where
  "RegistryStats r now =
    fold (\<lambda>(cell, e) out.
        if entry_health e = HealthFresh then out\<lparr>stats_fresh := Suc (stats_fresh out)\<rparr>
        else out\<lparr>stats_unknown := Suc (stats_unknown out)\<rparr>)
      (Snapshot r now) \<lparr>stats_fresh = 0, stats_unknown = 0\<rparr>"

text \<open>
  The loop of \<open>Prune\<close> over the entries present when it starts: the accumulator is the
  registry being mutated and the cells that went Unknown, in the order met.
\<close>

fun prune_loop ::
  "go_time \<Rightarrow> (string \<times> stored) list \<Rightarrow> Registry \<Rightarrow> string list \<Rightarrow> Registry \<times> string list"
where
  "prune_loop now [] r went = (r, went)"
| "prune_loop now ((cell, s) # rest) r went =
    (let age = go_sub now (st_observedAt s) in
     if Retention (opts r) < age then
       prune_loop now rest
         (r\<lparr>entries := AList.delete cell (entries r), unknown := AList.delete cell (unknown r)\<rparr>) went
     else if Staleness (opts r) < age \<and> map_of (unknown r) cell \<noteq> Some True then
       prune_loop now rest (r\<lparr>unknown := AList.update cell True (unknown r)\<rparr>) (went @ [cell])
     else prune_loop now rest r went)"

definition Prune :: "Registry \<Rightarrow> go_time \<Rightarrow> string list \<times> Registry" where
  "Prune r now = (let (r', went) = prune_loop now (entries r) r [] in (sort went, r'))"

section \<open>Reading an entry\<close>

lemma map_of_Snapshot: "map_of (Snapshot r now) cell = Lookup r now cell"
proof -
  have "map_of (map (\<lambda>(c, s). (c, f s)) m) cell = map_option f (map_of m cell)"
    for f :: "stored \<Rightarrow> Entry" and m
    by (induction m) auto
  then show ?thesis by (simp add: Snapshot_def Lookup_def map_option_case)
qed

lemma Lookup_health:
  "Lookup r now cell = Some e \<Longrightarrow>
    entry_health e = HealthFresh \<longleftrightarrow> go_sub now (entry_observedAt e) \<le> Staleness (opts r)"
  by (auto simp: Lookup_def entryLocked_def split: option.splits if_splits)

lemma Lookup_utilisation:
  "Lookup r now cell = Some e \<Longrightarrow>
    entry_utilisation e = (if entry_health e = HealthFresh then Utilisation (entry_report e) else 0)"
  by (auto simp: Lookup_def entryLocked_def split: option.splits if_splits)

lemma Lookup_Some_iff: "(\<exists>e. Lookup r now cell = Some e) \<longleftrightarrow> map_of (entries r) cell \<noteq> None"
  by (auto simp: Lookup_def split: option.splits)

section \<open>The prune loop in closed form\<close>

definition expired :: "Options \<Rightarrow> go_time \<Rightarrow> stored \<Rightarrow> bool" where
  "expired ops now s \<longleftrightarrow> Retention ops < go_sub now (st_observedAt s)"

definition stale :: "Options \<Rightarrow> go_time \<Rightarrow> stored \<Rightarrow> bool" where
  "stale ops now s \<longleftrightarrow> Staleness ops < go_sub now (st_observedAt s)"

lemma prune_loop_opts [simp]: "opts (fst (prune_loop now xs r went)) = opts r"
  by (induction now xs r went rule: prune_loop.induct) (auto simp: Let_def)

lemma prune_loop_entries:
  "entries (fst (prune_loop now xs r went)) =
    [p \<leftarrow> entries r. fst p \<notin> fst ` {x \<in> set xs. expired (opts r) now (snd x)}]"
proof (induction now xs r went rule: prune_loop.induct)
  case (1 now r went)
  then show ?case by simp
next
  case (2 now cell s rest r went)
  have del: "AList.delete cell m = [p \<leftarrow> m. fst p \<noteq> cell]" for m :: "(string \<times> stored) list"
    by (auto simp: AList.delete_eq intro: filter_cong)
  show ?case
  proof (cases "expired (opts r) now s")
    case True
    then have keys: "fst ` {x \<in> set ((cell, s) # rest). expired (opts r) now (snd x)} =
        insert cell (fst ` {x \<in> set rest. expired (opts r) now (snd x)})"
      by force
    show ?thesis
      unfolding keys using True 2(1) by (simp add: expired_def Let_def del conj_commute)
  next
    case False
    have drop: "{x \<in> set ((cell, s) # rest). expired (opts r) now (snd x)} =
        {x \<in> set rest. expired (opts r) now (snd x)}"
      using False by auto
    show ?thesis
      unfolding drop
      using False 2(2,3) by (simp add: expired_def Let_def)
  qed
qed

lemma prune_loop_unknown:
  assumes "distinct (map fst xs)"
  shows "map_of (unknown (fst (prune_loop now xs r went))) c =
    (case map_of xs c of
       None \<Rightarrow> map_of (unknown r) c
     | Some s \<Rightarrow> if expired (opts r) now s then None
         else if stale (opts r) now s then Some True else map_of (unknown r) c)"
  using assms
proof (induction now xs r went rule: prune_loop.induct)
  case (1 now r went)
  then show ?case by simp
next
  case (2 now cell s rest r went)
  from "2.prems" have "map_of rest cell = None" by (auto simp: map_of_eq_None_iff)
  with 2 show ?case
    by (auto simp: expired_def stale_def Let_def split: option.splits)
qed

definition announces :: "Options \<Rightarrow> go_time \<Rightarrow> (string \<times> bool) list \<Rightarrow> string \<times> stored \<Rightarrow> bool"
where
  "announces ops now unk x \<longleftrightarrow>
    \<not> expired ops now (snd x) \<and> stale ops now (snd x) \<and> map_of unk (fst x) \<noteq> Some True"

lemma filter_announces_cong:
  assumes "cell \<notin> fst ` set xs" and "\<And>k. k \<noteq> cell \<Longrightarrow> map_of unk' k = map_of unk k"
  shows "filter (announces ops now unk') xs = filter (announces ops now unk) xs"
proof (rule filter_cong [OF refl])
  fix x
  assume "x \<in> set xs"
  with assms(1) have "fst x \<noteq> cell" by force
  then show "announces ops now unk' x = announces ops now unk x"
    using assms(2) by (simp add: announces_def)
qed

lemma prune_loop_went:
  assumes "distinct (map fst xs)"
  shows "snd (prune_loop now xs r went) =
    went @ map fst (filter (announces (opts r) now (unknown r)) xs)"
  using assms
proof (induction now xs r went rule: prune_loop.induct)
  case (1 now r went)
  then show ?case by simp
next
  case (2 now cell s rest r went)
  from "2.prems" have fresh: "cell \<notin> fst ` set rest" and d: "distinct (map fst rest)" by auto
  note same = filter_announces_cong [OF fresh]
  have del: "filter (announces (opts r) now (AList.delete cell (unknown r))) rest =
      filter (announces (opts r) now (unknown r)) rest"
    by (rule same) simp
  have upd: "filter (announces (opts r) now (AList.update cell True (unknown r))) rest =
      filter (announces (opts r) now (unknown r)) rest"
    by (rule same) simp
  show ?case
    using 2(1-3) [OF refl] d del upd
    by (simp add: Let_def announces_def [of _ _ _ "(cell, s)"] expired_def stale_def)
qed

lemma prune_loop_distinct_unknown:
  "distinct (map fst (unknown r)) \<Longrightarrow>
    distinct (map fst (unknown (fst (prune_loop now xs r went))))"
  by (induction now xs r went rule: prune_loop.induct)
    (auto simp: Let_def distinct_update distinct_delete)

lemma Prune_unfold:
  "Prune r now = (sort (snd (prune_loop now (entries r) r [])), fst (prune_loop now (entries r) r []))"
  by (simp add: Prune_def split: prod.split)

lemma Prune_opts [simp]: "opts (snd (Prune r now)) = opts r"
  by (simp add: Prune_unfold)

section \<open>The registry invariant\<close>

definition reg_ok :: "Registry \<Rightarrow> bool" where
  "reg_ok r \<longleftrightarrow>
    0 < Staleness (opts r) \<and> Staleness (opts r) \<le> Retention (opts r) \<and> 0 < MaxCells (opts r) \<and>
    distinct (map fst (entries r)) \<and> distinct (map fst (unknown r)) \<and>
    int (length (entries r)) \<le> MaxCells (opts r) \<and>
    (\<forall>(cell, s) \<in> set (entries r). Cell (st_report s) = cell \<and> Validate (st_report s) = None) \<and>
    (\<forall>(cell, b) \<in> set (unknown r). b \<and> cell \<in> fst ` set (entries r))"

lemma bool_map_all:
  "(\<forall>k v. m k = Some v \<longrightarrow> v \<and> Q k) \<longleftrightarrow> (\<forall>k. m k \<noteq> Some False) \<and> (\<forall>k. \<not> Q k \<longrightarrow> m k = None)"
proof -
  have "(\<forall>v. x = Some v \<longrightarrow> v \<and> q) \<longleftrightarrow> x \<noteq> Some False \<and> (\<not> q \<longrightarrow> x = None)" for x and q
    by (cases x) auto
  then show ?thesis by (simp add: all_conj_distrib)
qed

lemma reg_ok_alt:
  "reg_ok r \<longleftrightarrow>
    (0 < Staleness (opts r) \<and> Staleness (opts r) \<le> Retention (opts r) \<and> 0 < MaxCells (opts r)) \<and>
    distinct (map fst (entries r)) \<and> distinct (map fst (unknown r)) \<and>
    int (length (entries r)) \<le> MaxCells (opts r) \<and>
    (\<forall>cell s. map_of (entries r) cell = Some s \<longrightarrow>
       Cell (st_report s) = cell \<and> Validate (st_report s) = None) \<and>
    (\<forall>cell. map_of (unknown r) cell \<noteq> Some False) \<and>
    (\<forall>cell. map_of (entries r) cell = None \<longrightarrow> map_of (unknown r) cell = None)"
proof -
  have all: "(\<forall>(k, v) \<in> set m. P k v) \<longleftrightarrow> (\<forall>k v. map_of m k = Some v \<longrightarrow> P k v)"
    if "distinct (map fst m)" for m :: "(string \<times> 'v) list" and P
    using that by (auto simp: map_of_eq_Some_iff)
  show ?thesis
  proof (cases "distinct (map fst (entries r)) \<and> distinct (map fst (unknown r))")
    case True
    then show ?thesis
      unfolding reg_ok_def
      by (simp add: all bool_map_all map_of_eq_None_iff [of "entries r", symmetric] del: map_of_eq_None_iff)
  next
    case False
    then show ?thesis by (auto simp: reg_ok_def)
  qed
qed

lemma withDefaults_ok:
  "0 < Staleness (withDefaults ops)" "Staleness (withDefaults ops) \<le> Retention (withDefaults ops)"
  "0 < MaxCells (withDefaults ops)" "0 < PruneInterval (withDefaults ops)"
  by (auto simp: withDefaults_def Let_def capacity_defaults)

lemma reg_ok_New: "reg_ok (New ops)"
  using withDefaults_ok [of ops] by (simp add: reg_ok_def New_def)

lemma reg_ok_Report:
  assumes "reg_ok r"
  shows "reg_ok (snd (RegistryReport r now rep))"
proof (cases "fst (RegistryReport r now rep)")
  case (Some e)
  then have "snd (RegistryReport r now rep) = r"
    by (auto simp: RegistryReport_def split: option.splits if_splits)
  with assms show ?thesis by simp
next
  case None
  then have v: "Validate rep = None"
    and room: "map_of (entries r) (Cell rep) \<noteq> None \<or> int (length (entries r)) < MaxCells (opts r)"
    by (auto simp: RegistryReport_def split: option.splits if_splits)
  have "int (length (AList.update (Cell rep) x (entries r))) \<le> MaxCells (opts r)" for x
    using assms room by (auto simp: reg_ok_alt length_alist_update map_of_eq_None_iff)
  with assms v room show ?thesis
    by (auto simp: reg_ok_alt RegistryReport_def distinct_update distinct_delete)
qed

lemma reg_ok_Forget: "reg_ok r \<Longrightarrow> reg_ok (Forget r cell)"
  using length_alist_delete_le [of cell "entries r"]
  by (auto simp: reg_ok_alt Forget_def distinct_delete)

lemma Prune_entries:
  assumes "distinct (map fst (entries r))"
  shows "entries (snd (Prune r now)) = [p \<leftarrow> entries r. \<not> expired (opts r) now (snd p)]"
proof -
  have "fst p \<notin> fst ` {x \<in> set (entries r). expired (opts r) now (snd x)} \<longleftrightarrow>
      \<not> expired (opts r) now (snd p)" if "p \<in> set (entries r)" for p
    using assms that by (auto simp: image_iff) (metis eq_key_imp_eq_value prod.collapse)
  then show ?thesis
    by (auto simp: Prune_unfold prune_loop_entries intro!: filter_cong)
qed

lemma Prune_view:
  "distinct (map fst (entries r)) \<Longrightarrow> map_of (entries (snd (Prune r now))) cell =
    (case map_of (entries r) cell of None \<Rightarrow> None
     | Some s \<Rightarrow> if expired (opts r) now s then None else Some s)"
  by (simp add: Prune_entries map_of_filter_key_distinct split: option.splits)

lemma Prune_unknown:
  "distinct (map fst (entries r)) \<Longrightarrow> map_of (unknown (snd (Prune r now))) cell =
    (case map_of (entries r) cell of None \<Rightarrow> map_of (unknown r) cell
     | Some s \<Rightarrow> if expired (opts r) now s then None
         else if stale (opts r) now s then Some True else map_of (unknown r) cell)"
  by (simp add: Prune_unfold prune_loop_unknown)

lemma reg_ok_Prune:
  assumes "reg_ok r"
  shows "reg_ok (snd (Prune r now))"
proof -
  from assms have d: "distinct (map fst (entries r))" and du: "distinct (map fst (unknown r))"
    by (simp_all add: reg_ok_def)
  have "distinct (map fst (unknown (snd (Prune r now))))"
    using prune_loop_distinct_unknown [OF du] by (simp add: Prune_unfold)
  moreover have "length (entries (snd (Prune r now))) \<le> length (entries r)"
    by (simp add: Prune_entries [OF d])
  moreover have "distinct (map fst (entries (snd (Prune r now))))"
    unfolding Prune_entries [OF d] by (rule distinct_map_fst_filter [OF d])
  ultimately show ?thesis
    using assms Prune_view [OF d] Prune_unknown [OF d]
    unfolding reg_ok_alt by (auto split: option.splits if_splits)
qed

section \<open>Histories of the index\<close>

text \<open>
  The calls that change the index: a heartbeat accepted by the capacity route, a deleted
  \<open>Cluster\<close>, and a tick of the prune loop.
\<close>

datatype capacity_op = Heartbeat go_time Report | Decommission string | Sweep go_time

fun capacity_step ::
  "('r \<Rightarrow> go_time \<Rightarrow> Report \<Rightarrow> report_error option \<times> 'r) \<Rightarrow> ('r \<Rightarrow> string \<Rightarrow> 'r) \<Rightarrow>
    ('r \<Rightarrow> go_time \<Rightarrow> string list \<times> 'r) \<Rightarrow> 'r \<Rightarrow> capacity_op \<Rightarrow> 'r"
where
  "capacity_step report forget prune r (Heartbeat t rep) = snd (report r t rep)"
| "capacity_step report forget prune r (Decommission cell) = forget r cell"
| "capacity_step report forget prune r (Sweep t) = snd (prune r t)"

abbreviation registry_step :: "Registry \<Rightarrow> capacity_op \<Rightarrow> Registry" where
  "registry_step \<equiv> capacity_step RegistryReport Forget Prune"

definition capacity_run :: "Options \<Rightarrow> capacity_op list \<Rightarrow> Registry" where
  "capacity_run ops0 ops = foldl registry_step (New ops0) ops"

text \<open>
  What a client of the index relies on: \<open>view\<close> is the last accepted report of each cell
  and when it arrived. A rejected report changes nothing, an accepted one becomes the view of
  its cell, forgetting and pruning only ever remove.
\<close>

locale capacity_index =
  fixes report :: "'r \<Rightarrow> go_time \<Rightarrow> Report \<Rightarrow> report_error option \<times> 'r"
    and forget :: "'r \<Rightarrow> string \<Rightarrow> 'r"
    and prune :: "'r \<Rightarrow> go_time \<Rightarrow> string list \<times> 'r"
    and view :: "'r \<Rightarrow> string \<Rightarrow> stored option"
    and invar :: "'r \<Rightarrow> bool"
  assumes report_rejected: "fst (report r t rep) \<noteq> None \<Longrightarrow> snd (report r t rep) = r"
    and report_accepted: "fst (report r t rep) = None \<Longrightarrow>
      view (snd (report r t rep)) = (view r)(Cell rep \<mapsto> \<lparr>st_report = rep, st_observedAt = t\<rparr>)"
    and forget_view: "view (forget r cell) = (view r)(cell := None)"
    and prune_view: "invar r \<Longrightarrow> view (snd (prune r t)) cell \<in> {None, view r cell}"
    and invar_report: "invar r \<Longrightarrow> invar (snd (report r t rep))"
    and invar_forget: "invar r \<Longrightarrow> invar (forget r cell)"
    and invar_prune: "invar r \<Longrightarrow> invar (snd (prune r t))"
begin

abbreviation step :: "'r \<Rightarrow> capacity_op \<Rightarrow> 'r" where
  "step \<equiv> capacity_step report forget prune"

lemma invar_step: "invar r \<Longrightarrow> invar (step r op)"
  by (cases op) (simp_all add: invar_report invar_forget invar_prune)

lemma invar_run: "invar r \<Longrightarrow> invar (foldl step r ops)"
  by (induction ops arbitrary: r) (simp_all add: invar_step)

lemma view_step_cases:
  assumes "invar r" and "view (step r op) cell = Some s"
  obtains (kept) "view r cell = Some s"
  | (reported) t rep where "op = Heartbeat t rep" "fst (report r t rep) = None" "Cell rep = cell"
      "s = \<lparr>st_report = rep, st_observedAt = t\<rparr>"
proof (cases op)
  case (Heartbeat t rep)
  with assms(2) have v: "view (snd (report r t rep)) cell = Some s" by simp
  show ?thesis
  proof (cases "fst (report r t rep) = None \<and> Cell rep = cell")
    case True
    with v have "s = \<lparr>st_report = rep, st_observedAt = t\<rparr>" by (simp add: report_accepted)
    with True Heartbeat reported show ?thesis by blast
  next
    case False
    with v have "view r cell = Some s"
      by (cases "fst (report r t rep) = None") (simp_all add: report_rejected report_accepted)
    then show ?thesis by (rule kept)
  qed
next
  case (Decommission c)
  with assms kept show ?thesis by (auto simp: forget_view split: if_splits)
next
  case (Sweep t)
  with assms prune_view [of r t cell] kept show ?thesis by auto
qed

text \<open>Every entry of the view was put there by an accepted heartbeat of the history.\<close>

lemma view_provenance:
  assumes "invar r" and "view r cell = None" and "view (foldl step r ops) cell = Some s"
  shows "\<exists>i t rep. i < length ops \<and> ops ! i = Heartbeat t rep \<and>
    fst (report (foldl step r (take i ops)) t rep) = None \<and> Cell rep = cell \<and>
    s = \<lparr>st_report = rep, st_observedAt = t\<rparr>"
  using assms(3)
proof (induction ops arbitrary: s rule: rev_induct)
  case Nil
  with assms(2) show ?case by simp
next
  case (snoc op ops)
  have "invar (foldl step r ops)" by (rule invar_run) (rule assms(1))
  moreover from snoc.prems have "view (step (foldl step r ops) op) cell = Some s" by simp
  ultimately show ?case
  proof (cases rule: view_step_cases)
    case kept
    then obtain i t rep where "i < length ops" "ops ! i = Heartbeat t rep"
      "fst (report (foldl step r (take i ops)) t rep) = None" "Cell rep = cell"
      "s = \<lparr>st_report = rep, st_observedAt = t\<rparr>"
      using snoc.IH by blast
    then show ?thesis by (intro exI [of _ i]) (auto simp: nth_append)
  next
    case (reported t rep)
    then show ?thesis by (intro exI [of _ "length ops"]) auto
  qed
qed

end

interpretation registry: capacity_index RegistryReport Forget Prune "\<lambda>r. map_of (entries r)" reg_ok
proof unfold_locales
  fix r :: Registry and t t' rep cell
  show "fst (RegistryReport r t rep) \<noteq> None \<Longrightarrow> snd (RegistryReport r t rep) = r"
    by (auto simp: RegistryReport_def split: option.splits if_splits)
  show "fst (RegistryReport r t rep) = None \<Longrightarrow> map_of (entries (snd (RegistryReport r t rep))) =
      (map_of (entries r))(Cell rep \<mapsto> \<lparr>st_report = rep, st_observedAt = t\<rparr>)"
    by (auto simp: RegistryReport_def split: option.splits if_splits)
  show "map_of (entries (Forget r cell)) = (map_of (entries r))(cell := None)"
    by (simp add: Forget_def)
  show "reg_ok r \<Longrightarrow> map_of (entries (snd (Prune r t))) cell \<in> {None, map_of (entries r) cell}"
    by (auto simp: reg_ok_def Prune_view split: option.splits)
qed (fact reg_ok_Report reg_ok_Forget reg_ok_Prune)+

lemma opts_step [simp]: "opts (registry_step r op) = opts r"
  by (cases op) (auto simp: RegistryReport_def Forget_def split: option.splits)

lemma opts_run [simp]: "opts (foldl registry_step r ops) = opts r"
  by (induction ops arbitrary: r) simp_all

section \<open>Utilisation\<close>

lemma pressure_le_one:
  "0 < a \<Longrightarrow> c \<le> a \<Longrightarrow> f64_div (f64_of_int c) (f64_of_int a) \<le> 1"
  using f64_of_int_mono [of c a] f64_of_int_positive [of a]
  by (simp add: f64_div_def f64_le_one_iff_le)

lemma pressure_ge_one:
  assumes "0 < a" and "a \<le> c"
  shows "1 \<le> f64_div (f64_of_int c) (f64_of_int a)"
proof -
  have "1 \<le> f64_of_int c / f64_of_int a"
    using f64_of_int_mono [of a c] f64_of_int_positive [of a] assms by (simp add: le_divide_eq)
  from f64_mono [OF this] show ?thesis by (simp add: f64_div_def)
qed

lemma pressure_mono:
  "0 < a \<Longrightarrow> c \<le> c' \<Longrightarrow>
    f64_div (f64_of_int c) (f64_of_int a) \<le> f64_div (f64_of_int c') (f64_of_int a)"
  by (simp add: f64_div_mono f64_of_int_mono f64_of_int_positive)

lemma Utilisation_nonneg [simp]: "0 \<le> Utilisation r"
  by (simp add: Utilisation_def Let_def le_max_iff_disj)

definition cpu_pressure :: "Report \<Rightarrow> rat" where
  "cpu_pressure r = (if 0 < CPUMilliAllocatable r
    then max 0 (f64_div (f64_of_int (CPUMilliCommitted r)) (f64_of_int (CPUMilliAllocatable r))) else 0)"

lemma Utilisation_pressure:
  "Utilisation r = (if 0 < MemoryBytesAllocatable r
    then max (cpu_pressure r)
      (f64_div (f64_of_int (MemoryBytesCommitted r)) (f64_of_int (MemoryBytesAllocatable r)))
    else cpu_pressure r)"
  by (simp add: Utilisation_def cpu_pressure_def Let_def)

lemma cpu_pressure_mono:
  "CPUMilliAllocatable r' = CPUMilliAllocatable r \<Longrightarrow> CPUMilliCommitted r \<le> CPUMilliCommitted r' \<Longrightarrow>
    cpu_pressure r \<le> cpu_pressure r'"
  by (simp add: cpu_pressure_def max.coboundedI2 pressure_mono)

lemma Utilisation_mono:
  assumes "CPUMilliAllocatable r' = CPUMilliAllocatable r"
    and "MemoryBytesAllocatable r' = MemoryBytesAllocatable r"
    and "CPUMilliCommitted r \<le> CPUMilliCommitted r'"
    and "MemoryBytesCommitted r \<le> MemoryBytesCommitted r'"
  shows "Utilisation r \<le> Utilisation r'"
  using assms(2) cpu_pressure_mono [OF assms(1,3)] pressure_mono [OF _ assms(4)]
  by (auto simp: Utilisation_pressure intro: max.coboundedI1 max.coboundedI2)

section \<open>Properties\<close>

text \<open>
  C1. Whatever heartbeats, deletions and sweeps arrive, in whatever order, the index never
  holds more than \<open>MaxCells\<close> entries, holds each cell once and under its own name, holds only
  reports that pass validation, and remembers as Unknown only cells it still has an entry for.
\<close>

theorem registry_invariant: "reg_ok (capacity_run ops0 ops)"
  unfolding capacity_run_def by (rule registry.invar_run) (rule reg_ok_New)

text \<open>
  C2. A cell that reads as Fresh was reported: some heartbeat of the history named that cell, was
  accepted, carried exactly the report the entry shows, and arrived no longer than the
  staleness window before the read. No history without such a heartbeat makes a cell usable.
\<close>

theorem fresh_only_after_report:
  assumes "Lookup (capacity_run ops0 ops) now cell = Some e" and "entry_health e = HealthFresh"
  shows "\<exists>i t rep. i < length ops \<and> ops ! i = Heartbeat t rep \<and> Cell rep = cell \<and>
    fst (RegistryReport (capacity_run ops0 (take i ops)) t rep) = None \<and>
    entry_report e = rep \<and> go_sub now t \<le> Staleness (withDefaults ops0)"
proof -
  let ?r = "capacity_run ops0 ops"
  from assms(1) obtain s where s: "map_of (entries ?r) cell = Some s"
    and e: "e = entryLocked ?r s now"
    by (auto simp: Lookup_def split: option.splits)
  have "map_of (entries (New ops0)) cell = None" by (simp add: New_def)
  with registry.view_provenance [OF reg_ok_New] s obtain i t rep where
    i: "i < length ops" "ops ! i = Heartbeat t rep" "Cell rep = cell"
      "fst (RegistryReport (capacity_run ops0 (take i ops)) t rep) = None"
    and st: "s = \<lparr>st_report = rep, st_observedAt = t\<rparr>"
    unfolding capacity_run_def by blast
  have "entry_report e = rep" and "entry_observedAt e = t" by (simp_all add: e st entryLocked_def)
  moreover have "opts ?r = withDefaults ops0" by (simp add: capacity_run_def New_def)
  moreover have "go_sub now (entry_observedAt e) \<le> Staleness (opts ?r)"
    using Lookup_health [OF assms(1)] assms(2) by blast
  ultimately show ?thesis using i by metis
qed

text \<open>
  A sweep announces exactly the cells that are stale, not expired and not announced before, once
  each and in name order; it changes nothing about how an unexpired cell reads at any later
  time; and a second sweep at the same instant announces nothing.
\<close>

theorem prune_announces_once:
  assumes "reg_ok r"
  shows "sorted (fst (Prune r now)) \<and> distinct (fst (Prune r now)) \<and>
    set (fst (Prune r now)) = {cell. \<exists>s. map_of (entries r) cell = Some s \<and>
      announces (opts r) now (unknown r) (cell, s)} \<and>
    (\<forall>cell s t. map_of (entries r) cell = Some s \<longrightarrow> \<not> expired (opts r) now s \<longrightarrow>
      Lookup (snd (Prune r now)) t cell = Lookup r t cell) \<and>
    fst (Prune (snd (Prune r now)) now) = []"
proof (intro conjI allI impI)
  from assms have d: "distinct (map fst (entries r))" by (simp add: reg_ok_def)
  have went: "fst (Prune r now) = sort (map fst (filter (announces (opts r) now (unknown r)) (entries r)))"
    by (simp add: Prune_unfold prune_loop_went [OF d])
  show "sorted (fst (Prune r now))" by (simp add: went)
  show "distinct (fst (Prune r now))"
    unfolding went by (simp add: distinct_map_fst_filter [OF d])
  show "set (fst (Prune r now)) = {cell. \<exists>s. map_of (entries r) cell = Some s \<and>
      announces (opts r) now (unknown r) (cell, s)}"
    unfolding went using d by (force simp: map_of_eq_Some_iff)
  show "Lookup (snd (Prune r now)) t cell = Lookup r t cell"
    if "map_of (entries r) cell = Some s" and "\<not> expired (opts r) now s" for cell s t
    using that by (simp add: Lookup_def Prune_view [OF d] entryLocked_def)
  let ?r' = "snd (Prune r now)"
  have d': "distinct (map fst (entries ?r'))"
    using reg_ok_Prune [OF assms] by (simp add: reg_ok_def)
  have "\<not> announces (opts r) now (unknown ?r') x" if "x \<in> set (entries ?r')" for x
  proof -
    from that have "x \<in> set (entries r)" by (simp add: Prune_entries [OF d])
    with d have "map_of (entries r) (fst x) = Some (snd x)" by (simp add: map_of_eq_Some_iff)
    then show ?thesis by (auto simp: announces_def Prune_unknown [OF d])
  qed
  then show "fst (Prune ?r' now) = []"
    by (simp add: Prune_unfold [of ?r'] prune_loop_went [OF d'] filter_False)
qed

text \<open>
  C3. The score of a valid report orders cells by pressure although it is computed in float64: it is
  never negative, it stays at most one while every reported dimension has room, it is at
  least one as soon as one dimension is full, and committing more never lowers it.
\<close>

theorem utilisation_orders_pressure:
  assumes "Validate r = None"
  shows "0 \<le> Utilisation r \<and>
    ((CPUMilliCommitted r \<le> CPUMilliAllocatable r \<or> CPUMilliAllocatable r = 0) \<and>
      (MemoryBytesCommitted r \<le> MemoryBytesAllocatable r \<or> MemoryBytesAllocatable r = 0) \<longrightarrow>
      Utilisation r \<le> 1) \<and>
    (0 < CPUMilliAllocatable r \<and> CPUMilliAllocatable r \<le> CPUMilliCommitted r \<or>
      0 < MemoryBytesAllocatable r \<and> MemoryBytesAllocatable r \<le> MemoryBytesCommitted r \<longrightarrow>
      1 \<le> Utilisation r) \<and>
    (CPUMilliCommitted r \<le> cpu \<and> MemoryBytesCommitted r \<le> mem \<longrightarrow>
      Utilisation r \<le> Utilisation (r\<lparr>CPUMilliCommitted := cpu, MemoryBytesCommitted := mem\<rparr>))"
proof (intro conjI impI)
  note nn = Validate_NoneD [OF assms]
  show "0 \<le> Utilisation r" by simp
  show "Utilisation r \<le> 1"
    if "(CPUMilliCommitted r \<le> CPUMilliAllocatable r \<or> CPUMilliAllocatable r = 0) \<and>
      (MemoryBytesCommitted r \<le> MemoryBytesAllocatable r \<or> MemoryBytesAllocatable r = 0)"
    using that nn pressure_le_one by (auto simp: Utilisation_def Let_def)
  show "1 \<le> Utilisation r"
    if "0 < CPUMilliAllocatable r \<and> CPUMilliAllocatable r \<le> CPUMilliCommitted r \<or>
      0 < MemoryBytesAllocatable r \<and> MemoryBytesAllocatable r \<le> MemoryBytesCommitted r"
    using that pressure_ge_one by (auto simp: Utilisation_def Let_def le_max_iff_disj)
  show "Utilisation r \<le> Utilisation (r\<lparr>CPUMilliCommitted := cpu, MemoryBytesCommitted := mem\<rparr>)"
    if "CPUMilliCommitted r \<le> cpu \<and> MemoryBytesCommitted r \<le> mem"
    using that by (intro Utilisation_mono) simp_all
qed

text \<open>
  A heartbeat is accepted exactly when it is valid and there is room or the cell is already held,
  so a full index never turns away a cell it knows; once accepted it is what every read of that
  cell returns, and no other cell reads differently; a refused one changes nothing.
\<close>

theorem report_then_lookup:
  "(fst (RegistryReport r now rep) = None \<longleftrightarrow> Validate rep = None \<and>
      (Cell rep \<in> dom (map_of (entries r)) \<or> int (length (entries r)) < MaxCells (opts r))) \<and>
    Lookup (snd (RegistryReport r now rep)) t cell =
      (if fst (RegistryReport r now rep) = None \<and> cell = Cell rep
       then Some (entryLocked r \<lparr>st_report = rep, st_observedAt = now\<rparr> t)
       else Lookup r t cell)"
proof -
  have "entryLocked (r\<lparr>entries := m, unknown := u\<rparr>) s t = entryLocked r s t" for m u s
    by (simp add: entryLocked_def)
  then show ?thesis
    by (auto simp: RegistryReport_def Lookup_def split: option.splits)
qed

section \<open>Witnesses\<close>

definition sample_report :: "string \<Rightarrow> int \<Rightarrow> Report" where
  "sample_report cell cpu =
    \<lparr>Cell = cell, Nodes = 3, CPUMilliAllocatable = 1000, CPUMilliCommitted = cpu,
     MemoryBytesAllocatable = 4096, MemoryBytesCommitted = 1024, Pods = 7, PodCapacity = 110\<rparr>"

definition sample_options :: Options where
  "sample_options = \<lparr>Staleness = 90, Retention = 3600, MaxCells = 2, PruneInterval = 0\<rparr>"

lemma sample_report_valid [simp]: "cell \<noteq> '''' \<Longrightarrow> 0 \<le> cpu \<Longrightarrow> Validate (sample_report cell cpu) = None"
  by (simp add: Validate_None_iff sample_report_def negatives_def)

lemma sample_report_Cell [simp]: "Cell (sample_report cell cpu) = cell"
  by (simp add: sample_report_def)

lemmas sample_eval = sample_options_def capacity_run_def New_def withDefaults_def Let_def
  RegistryReport_def Lookup_def entryLocked_def go_sub_def min_int64_def max_int64_def

theorem fresh_only_after_report_witness:
  "Lookup (capacity_run sample_options [Heartbeat 10 (sample_report ''a'' 500), Sweep 60]) 70 ''a'' \<noteq> None \<and>
   (\<exists>i t rep. i < 2 \<and> [Heartbeat 10 (sample_report ''a'' 500), Sweep 60] ! i = Heartbeat t rep \<and>
     go_sub 70 t \<le> 90)"
proof -
  let ?ops = "[Heartbeat 10 (sample_report ''a'' 500), Sweep 60]"
  have e: "Lookup (capacity_run sample_options ?ops) 70 ''a'' =
      Some \<lparr>entry_report = sample_report ''a'' 500, entry_observedAt = 10,
        entry_health = HealthFresh, entry_utilisation = Utilisation (sample_report ''a'' 500)\<rparr>"
    by (simp add: sample_eval Prune_def)
  have "Staleness (withDefaults sample_options) = 90"
    by (simp add: sample_options_def withDefaults_def Let_def)
  moreover from fresh_only_after_report [OF e] obtain i t rep where i: "i < length ?ops"
    and h: "?ops ! i = Heartbeat t rep"
    and g: "go_sub 70 t \<le> Staleness (withDefaults sample_options)" by auto
  ultimately have "i < 2 \<and> ?ops ! i = Heartbeat t rep \<and> go_sub 70 t \<le> 90" by simp
  with e show ?thesis by blast
qed

theorem prune_announces_once_witness:
  "reg_ok (capacity_run sample_options [Heartbeat 0 (sample_report ''a'' 500)]) \<and>
   fst (Prune (capacity_run sample_options [Heartbeat 0 (sample_report ''a'' 500)]) 100) = [''a''] \<and>
   fst (Prune (snd (Prune (capacity_run sample_options [Heartbeat 0 (sample_report ''a'' 500)]) 100)) 100) = []"
proof -
  let ?r = "capacity_run sample_options [Heartbeat 0 (sample_report ''a'' 500)]"
  have ok: "reg_ok ?r" unfolding capacity_run_def by (rule registry.invar_run) (rule reg_ok_New)
  have "fst (Prune ?r 100) = [''a'']" by (simp add: sample_eval Prune_def)
  with ok prune_announces_once [OF ok, of 100] show ?thesis by blast
qed

theorem utilisation_orders_pressure_witness:
  "Validate (sample_report ''a'' 500) = None \<and> Utilisation (sample_report ''a'' 500) \<le> 1 \<and>
   1 \<le> Utilisation (sample_report ''a'' 1500)"
proof -
  have v: "Validate (sample_report ''a'' 500) = None" "Validate (sample_report ''a'' 1500) = None"
    by simp_all
  show ?thesis
    using v utilisation_orders_pressure [OF v(1)] utilisation_orders_pressure [OF v(2)]
    by (simp add: sample_report_def)
qed

end
