(* ===== verification/Policy.thy ===== *)
theory Policy
  imports Api
begin

text \<open>
  Which policy governs a caller: \<open>internal/hub/identity/identity.go\<close> and
  \<open>internal/hub/placement/policy.go\<close>, with the sentinel errors of \<open>engine.go\<close>.

  The lemmas show that the choice is deny by default, that the policy chosen matches the
  caller and no matching policy is more specific, that ties go to the smallest name, and
  that the ambiguity flag is raised exactly when a second policy matches as specifically.
\<close>

record Identity =
  id_issuer :: string
  id_subject :: string
  id_claims :: labels

datatype placement_sentinel =
  ErrNoPolicy | ErrNoPermittedCells | ErrNoEligibleCells | ErrCapacityUnknown | ErrDarkNotPermitted

definition matchSubject :: "SubjectSelector \<Rightarrow> Identity \<Rightarrow> bool" where
  "matchSubject sel idn =
    (if sel_issuer sel \<noteq> id_issuer idn then False
     else if sel_subject sel \<noteq> '''' \<and> sel_subject sel \<noteq> id_subject idn then False
     else list_all (\<lambda>(key, want). map_of (id_claims idn) key = Some want) (sel_claims sel))"

definition specificity :: "SubjectSelector \<Rightarrow> int" where
  "specificity sel = int (length (sel_claims sel)) + (if sel_subject sel \<noteq> '''' then 1 else 0)"

record 'sel policyMatch =
  pm_policy :: "'sel PlacementPolicy"
  pm_specificity :: int

text \<open>The inner loop of \<open>selectPolicy\<close>: the tightest selector of one policy that matches.\<close>

definition best_match :: "Identity \<Rightarrow> SubjectSelector list \<Rightarrow> int" where
  "best_match idn sels =
    foldl (\<lambda>best sel. if matchSubject sel idn then max best (specificity sel) else best) (-1) sels"

fun policy_matches :: "Identity \<Rightarrow> 'sel PlacementPolicy list \<Rightarrow> 'sel policyMatch list" where
  "policy_matches idn [] = []"
| "policy_matches idn (p # ps) =
    (let best = best_match idn (subjects (pol_spec p)) in
     if 0 \<le> best then \<lparr>pm_policy = p, pm_specificity = best\<rparr> # policy_matches idn ps
     else policy_matches idn ps)"

definition match_key :: "'sel policyMatch \<Rightarrow> int \<times> string" where
  "match_key m = (- pm_specificity m, pol_name (pm_policy m))"

definition selectPolicy ::
  "'sel PlacementPolicy list \<Rightarrow> Identity \<Rightarrow> placement_sentinel + ('sel PlacementPolicy \<times> bool)" where
  "selectPolicy policies idn =
    (case sort_key match_key (policy_matches idn policies) of
       [] \<Rightarrow> Inl ErrNoPolicy
     | [m] \<Rightarrow> Inr (pm_policy m, False)
     | m # m' # _ \<Rightarrow> Inr (pm_policy m, pm_specificity m = pm_specificity m'))"

section \<open>What a match is\<close>

lemma matchSubject_iff:
  "matchSubject sel idn \<longleftrightarrow> sel_issuer sel = id_issuer idn \<and>
    (sel_subject sel = '''' \<or> sel_subject sel = id_subject idn) \<and>
    (\<forall>(key, want) \<in> set (sel_claims sel). map_of (id_claims idn) key = Some want)"
  by (auto simp: matchSubject_def list_all_iff)

lemma specificity_nonneg [simp]: "0 \<le> specificity sel"
  by (simp add: specificity_def)

lemma best_match_fold:
  "foldl (\<lambda>best sel. if matchSubject sel idn then max best (specificity sel) else best) b sels =
    fold max (map specificity (filter (\<lambda>sel. matchSubject sel idn) sels)) (b :: int)"
  by (induction sels arbitrary: b) (auto simp: max.commute)

lemma fold_max_ge: "(b :: int) \<le> fold max xs b"
proof (induction xs arbitrary: b)
  case (Cons x xs)
  from Cons [of "max x b"] show ?case by simp
qed simp

lemma fold_max_upper: "x \<in> set xs \<Longrightarrow> (x :: int) \<le> fold max xs b"
  by (induction xs arbitrary: b) (auto intro: order_trans [OF _ fold_max_ge])

lemma fold_max_mem: "fold max xs (b :: int) \<in> insert b (set xs)"
proof (induction xs arbitrary: b)
  case (Cons x xs)
  from Cons [of "max x b"] show ?case by (auto simp: max_def split: if_splits)
qed simp

text \<open>A policy matches when one of its selectors does, and then scores as its tightest one.\<close>

lemma best_match_nonneg_iff:
  "0 \<le> best_match idn sels \<longleftrightarrow> (\<exists>sel \<in> set sels. matchSubject sel idn)"
proof
  assume "0 \<le> best_match idn sels"
  then have "fold max (map specificity (filter (\<lambda>sel. matchSubject sel idn) sels)) (-1) \<noteq> -1"
    by (simp add: best_match_def best_match_fold)
  with fold_max_mem [of "map specificity (filter (\<lambda>sel. matchSubject sel idn) sels)" "-1"]
  show "\<exists>sel \<in> set sels. matchSubject sel idn" by auto
next
  assume "\<exists>sel \<in> set sels. matchSubject sel idn"
  then obtain sel where "sel \<in> set sels" "matchSubject sel idn" by blast
  then have "specificity sel \<in> set (map specificity (filter (\<lambda>sel. matchSubject sel idn) sels))" by simp
  from order_trans [OF specificity_nonneg fold_max_upper [OF this, of "-1"]]
  show "0 \<le> best_match idn sels" by (simp add: best_match_def best_match_fold)
qed

lemma best_match_upper:
  "sel \<in> set sels \<Longrightarrow> matchSubject sel idn \<Longrightarrow> specificity sel \<le> best_match idn sels"
  unfolding best_match_def best_match_fold by (intro fold_max_upper) simp

lemma best_match_attained:
  assumes "0 \<le> best_match idn sels"
  shows "\<exists>sel \<in> set sels. matchSubject sel idn \<and> specificity sel = best_match idn sels"
  using assms fold_max_mem [of "map specificity (filter (\<lambda>sel. matchSubject sel idn) sels)" "-1"]
  by (auto simp: best_match_def best_match_fold)

section \<open>The selection\<close>

lemma set_policy_matches:
  "set (policy_matches idn ps) =
    {\<lparr>pm_policy = p, pm_specificity = best_match idn (subjects (pol_spec p))\<rparr> |p.
      p \<in> set ps \<and> 0 \<le> best_match idn (subjects (pol_spec p))}"
  by (induction ps) (auto simp: Let_def)

lemma sorted_key_head:
  "sort_key f xs = y # ys \<Longrightarrow> y \<in> set xs \<and> (\<forall>x \<in> set xs. f y \<le> f x)"
  by (metis sorted_sort_key set_sort list.set_intros(1) list.simps(9) set_ConsD
      sorted_simps(2) imageI image_set order_refl)

lemma selectPolicy_Inl_iff:
  "selectPolicy ps idn = Inl e \<longleftrightarrow> e = ErrNoPolicy \<and>
    (\<forall>p \<in> set ps. \<forall>sel \<in> set (subjects (pol_spec p)). \<not> matchSubject sel idn)"
proof -
  have "sort_key match_key (policy_matches idn ps) = [] \<longleftrightarrow> policy_matches idn ps = []"
    by (metis length_0_conv length_sort)
  also have "\<dots> \<longleftrightarrow> set (policy_matches idn ps) = {}" by simp
  also have "\<dots> \<longleftrightarrow> (\<forall>p \<in> set ps. \<forall>sel \<in> set (subjects (pol_spec p)). \<not> matchSubject sel idn)"
    unfolding set_policy_matches by (auto simp: best_match_nonneg_iff)
  finally show ?thesis
    by (auto simp: selectPolicy_def split: list.splits)
qed

lemma selectPolicy_head:
  assumes "selectPolicy ps idn = Inr (p, amb)"
  obtains ms where "sort_key match_key (policy_matches idn ps) =
    \<lparr>pm_policy = p, pm_specificity = best_match idn (subjects (pol_spec p))\<rparr> # ms"
    and "amb \<longleftrightarrow> (\<exists>m' ms'. ms = m' # ms' \<and> pm_specificity m' = best_match idn (subjects (pol_spec p)))"
proof -
  from assms obtain m ms where s: "sort_key match_key (policy_matches idn ps) = m # ms"
    and p: "p = pm_policy m"
    and a: "amb \<longleftrightarrow> (\<exists>m' ms'. ms = m' # ms' \<and> pm_specificity m' = pm_specificity m)"
    by (auto simp: selectPolicy_def split: list.splits)
  from sorted_key_head [OF s] have "m \<in> set (policy_matches idn ps)" by simp
  then have "m = \<lparr>pm_policy = p, pm_specificity = best_match idn (subjects (pol_spec p))\<rparr>"
    by (auto simp: set_policy_matches p)
  with that s a show thesis by auto
qed

lemma selectPolicy_sound:
  assumes "selectPolicy ps idn = Inr (p, amb)"
  shows "p \<in> set ps" and "0 \<le> best_match idn (subjects (pol_spec p))"
    and "\<And>q. q \<in> set ps \<Longrightarrow> 0 \<le> best_match idn (subjects (pol_spec q)) \<Longrightarrow>
      (- best_match idn (subjects (pol_spec p)), pol_name p) \<le>
      (- best_match idn (subjects (pol_spec q)), pol_name q)"
proof -
  obtain ms where s: "sort_key match_key (policy_matches idn ps) =
    \<lparr>pm_policy = p, pm_specificity = best_match idn (subjects (pol_spec p))\<rparr> # ms"
    using assms by (rule selectPolicy_head)
  note h = sorted_key_head [OF s]
  from h show "p \<in> set ps" and "0 \<le> best_match idn (subjects (pol_spec p))"
    by (auto simp: set_policy_matches)
  show "(- best_match idn (subjects (pol_spec p)), pol_name p) \<le>
      (- best_match idn (subjects (pol_spec q)), pol_name q)"
    if "q \<in> set ps" "0 \<le> best_match idn (subjects (pol_spec q))" for q
    using h that by (fastforce simp: set_policy_matches match_key_def)
qed

lemma length_filter_sort_key: "length (filter P (sort_key f xs)) = length (filter P xs)"
  by (metis mset_filter mset_sort size_mset)

lemma selectPolicy_ambiguous:
  assumes "selectPolicy ps idn = Inr (p, amb)"
  shows "amb \<longleftrightarrow> 1 < length (filter (\<lambda>m. pm_specificity m = best_match idn (subjects (pol_spec p)))
    (policy_matches idn ps))"
proof -
  let ?b = "best_match idn (subjects (pol_spec p))"
  obtain ms where s: "sort_key match_key (policy_matches idn ps) =
      \<lparr>pm_policy = p, pm_specificity = ?b\<rparr> # ms"
    and a: "amb \<longleftrightarrow> (\<exists>m' ms'. ms = m' # ms' \<and> pm_specificity m' = ?b)"
    using assms by (rule selectPolicy_head)
  have sorted: "sorted (map match_key (\<lparr>pm_policy = p, pm_specificity = ?b\<rparr> # ms))"
    using sorted_sort_key [of match_key "policy_matches idn ps"] unfolding s .
  have "(\<exists>m' ms'. ms = m' # ms' \<and> pm_specificity m' = ?b) \<longleftrightarrow>
      filter (\<lambda>m. pm_specificity m = ?b) ms \<noteq> []"
  proof (cases ms)
    case (Cons m' ms')
    have "pm_specificity m' = ?b" if "m \<in> set ms'" "pm_specificity m = ?b" for m
    proof -
      from sorted that(1) Cons have "match_key m' \<le> match_key m" by simp
      moreover from sorted Cons have "- ?b \<le> - pm_specificity m'"
        by (auto simp: match_key_def less_eq_prod_def)
      ultimately show ?thesis using that(2) by (auto simp: match_key_def less_eq_prod_def)
    qed
    with Cons show ?thesis by (auto simp: filter_empty_conv)
  qed simp
  moreover have "length (filter (\<lambda>m. pm_specificity m = ?b) (policy_matches idn ps)) =
      Suc (length (filter (\<lambda>m. pm_specificity m = ?b) ms))"
    using length_filter_sort_key [of "\<lambda>m. pm_specificity m = ?b" match_key "policy_matches idn ps"]
    unfolding s by simp
  ultimately show ?thesis using a by simp
qed

lemma length_filter_policy_matches:
  "0 \<le> b \<Longrightarrow> length (filter (\<lambda>m. pm_specificity m = b) (policy_matches idn ps)) =
    length (filter (\<lambda>q. best_match idn (subjects (pol_spec q)) = b) ps)"
  by (induction ps) (auto simp: Let_def)

section \<open>Properties\<close>

text \<open>
  C4. Authorization is deny by default, and otherwise the most specific policy governs. A
  caller no selector matches is refused with ErrNoPolicy and with nothing else. A caller some
  selector matches gets a policy of the namespace one of whose own selectors matches it; no
  matching selector of any policy is more specific than the tightest match of the chosen
  one, among equally specific policies the smallest name wins, and the ambiguity
  flag says exactly that a second policy matches as tightly.
\<close>

theorem policy_selection:
  "(selectPolicy ps idn = Inl ErrNoPolicy \<longleftrightarrow>
      \<not> (\<exists>p \<in> set ps. \<exists>sel \<in> set (subjects (pol_spec p)). matchSubject sel idn)) \<and>
   (\<forall>p amb. selectPolicy ps idn = Inr (p, amb) \<longrightarrow>
      p \<in> set ps \<and>
      (\<exists>sel \<in> set (subjects (pol_spec p)). matchSubject sel idn \<and>
        (\<forall>q \<in> set ps. \<forall>sel' \<in> set (subjects (pol_spec q)). matchSubject sel' idn \<longrightarrow>
          specificity sel' \<le> specificity sel) \<and>
        (\<forall>q \<in> set ps. \<forall>sel' \<in> set (subjects (pol_spec q)). matchSubject sel' idn \<longrightarrow>
          specificity sel' = specificity sel \<longrightarrow> pol_name p \<le> pol_name q) \<and>
        (amb \<longleftrightarrow> 1 < length (filter (\<lambda>q. \<exists>sel' \<in> set (subjects (pol_spec q)).
          matchSubject sel' idn \<and> specificity sel' = specificity sel) ps))))"
proof (intro conjI allI impI)
  show "selectPolicy ps idn = Inl ErrNoPolicy \<longleftrightarrow>
      \<not> (\<exists>p \<in> set ps. \<exists>sel \<in> set (subjects (pol_spec p)). matchSubject sel idn)"
    by (simp add: selectPolicy_Inl_iff)
  fix p amb assume sel: "selectPolicy ps idn = Inr (p, amb)"
  note snd = selectPolicy_sound [OF sel]
  show "p \<in> set ps" by (rule snd(1))
  let ?b = "best_match idn (subjects (pol_spec p))"
  obtain s where s: "s \<in> set (subjects (pol_spec p))" "matchSubject s idn" "specificity s = ?b"
    using best_match_attained [OF snd(2)] by blast
  have top: "best_match idn (subjects (pol_spec q)) \<le> ?b" if "q \<in> set ps" for q
    using snd(3) [OF that] snd(2) by (cases "0 \<le> best_match idn (subjects (pol_spec q))")
      (auto simp: less_eq_prod_def)
  have le: "specificity s' \<le> ?b" if "q \<in> set ps" "s' \<in> set (subjects (pol_spec q))" "matchSubject s' idn" for q s'
    using best_match_upper [OF that(2,3)] top [OF that(1)] by simp
  have eq: "(\<exists>s' \<in> set (subjects (pol_spec q)). matchSubject s' idn \<and> specificity s' = ?b) \<longleftrightarrow>
      best_match idn (subjects (pol_spec q)) = ?b" if "q \<in> set ps" for q
    using best_match_attained [of idn "subjects (pol_spec q)"] best_match_upper top [OF that] snd(2)
    by (metis order_antisym)
  have name: "pol_name p \<le> pol_name q" if "q \<in> set ps" "s' \<in> set (subjects (pol_spec q))"
      "matchSubject s' idn" "specificity s' = ?b" for q s'
    using snd(3) [OF that(1)] eq [OF that(1)] that snd(2) by (auto simp: less_eq_prod_def)
  have "filter (\<lambda>q. \<exists>s' \<in> set (subjects (pol_spec q)). matchSubject s' idn \<and> specificity s' = ?b) ps =
      filter (\<lambda>q. best_match idn (subjects (pol_spec q)) = ?b) ps"
    using eq by (intro filter_cong) auto
  then have amb: "amb \<longleftrightarrow> 1 < length (filter (\<lambda>q. \<exists>s' \<in> set (subjects (pol_spec q)).
      matchSubject s' idn \<and> specificity s' = ?b) ps)"
    using selectPolicy_ambiguous [OF sel] length_filter_policy_matches [OF snd(2), of idn ps] by simp
  from s le name amb show "\<exists>sel \<in> set (subjects (pol_spec p)). matchSubject sel idn \<and>
        (\<forall>q \<in> set ps. \<forall>sel' \<in> set (subjects (pol_spec q)). matchSubject sel' idn \<longrightarrow>
          specificity sel' \<le> specificity sel) \<and>
        (\<forall>q \<in> set ps. \<forall>sel' \<in> set (subjects (pol_spec q)). matchSubject sel' idn \<longrightarrow>
          specificity sel' = specificity sel \<longrightarrow> pol_name p \<le> pol_name q) \<and>
        (amb \<longleftrightarrow> 1 < length (filter (\<lambda>q. \<exists>sel' \<in> set (subjects (pol_spec q)).
          matchSubject sel' idn \<and> specificity sel' = specificity sel) ps))"
    by (intro bexI [of _ s]) auto
qed

section \<open>Witnesses\<close>

definition sample_selector :: "string \<Rightarrow> labels \<Rightarrow> SubjectSelector" where
  "sample_selector sub cl = \<lparr>sel_issuer = ''https://ci'', sel_subject = sub, sel_claims = cl\<rparr>"

definition sample_policy :: "string \<Rightarrow> SubjectSelector list \<Rightarrow> 'sel \<Rightarrow> 'sel PlacementPolicy" where
  "sample_policy name sels permitted =
    \<lparr>pol_name = name, pol_namespace = ''cellcast'', pol_uid = ''uid-'' @ name, pol_generation = 1,
     pol_spec = \<lparr>subjects = sels, permittedCells = permitted, strategy = '''', tokenTTL = None,
       allowDarkTargeting = False, stickiness = None\<rparr>,
     pol_status = \<lparr>pol_observedGeneration = 0, pol_conditions = []\<rparr>\<rparr>"

definition sample_identity :: Identity where
  "sample_identity = \<lparr>id_issuer = ''https://ci'', id_subject = ''repo:a'',
    id_claims = [(''repository'', ''a''), (''environment'', ''prod'')]\<rparr>"

lemmas sample_policy_eval = sample_selector_def sample_policy_def sample_identity_def
  matchSubject_def specificity_def best_match_def selectPolicy_def match_key_def

theorem policy_selection_witness:
  "selectPolicy [sample_policy ''any'' [sample_selector '''' []] (),
      sample_policy ''prod'' [sample_selector '''' [(''environment'', ''prod'')]] ()] sample_identity =
    Inr (sample_policy ''prod'' [sample_selector '''' [(''environment'', ''prod'')]] (), False) \<and>
   (\<exists>sel \<in> set [sample_selector '''' [(''environment'', ''prod'')]]. matchSubject sel sample_identity)"
proof -
  let ?any = "sample_policy ''any'' [sample_selector '''' []] ()"
  let ?prod = "sample_policy ''prod'' [sample_selector '''' [(''environment'', ''prod'')]] ()"
  have sel: "selectPolicy [?any, ?prod] sample_identity = Inr (?prod, False)"
    by (simp add: sample_policy_eval less_eq_prod_def)
  have "subjects (pol_spec ?prod) = [sample_selector '''' [(''environment'', ''prod'')]]"
    by (simp add: sample_policy_def)
  with sel policy_selection [of "[?any, ?prod]" sample_identity] show ?thesis by auto
qed

end
