(* ===== verification/Sha256.thy ===== *)
theory Sha256
  imports Prelude
begin

text \<open>
  \<open>crypto/sha256\<close> and \<open>encoding/hex\<close> of the Go standard library, as FIPS 180-4 defines the
  digest: the hub names workload records by it (\<open>placement/memory.go\<close>) and the audit trail
  identifies a token by it (\<open>audit/audit.go\<close>). Bytes are characters of a \<^typ>\<open>string\<close>.

  The lemmas give what the callers rely on: a digest has 32 bytes, and an encoded one has two
  lower-case hexadecimal digits per byte.
\<close>

unbundle bit_operations_syntax

type_synonym w32 = "32 word"

text \<open>
  The constants are the first 32 bits of the fractional parts of the cube roots, respectively
  square roots, of the first primes. \<open>int_root k n\<close> is the integer \<open>k\<close>-th root, bit by bit.
\<close>

definition int_root :: "nat \<Rightarrow> int \<Rightarrow> int" where
  "int_root k n = foldl (\<lambda>r b. if (r + 2 ^ b) ^ k \<le> n then r + 2 ^ b else r) 0 (rev [0..<40])"

definition first_primes :: "int list" where
  "first_primes =
   [2, 3, 5, 7, 11, 13, 17, 19, 23, 29, 31, 37, 41, 43, 47, 53, 59, 61, 67, 71, 73, 79, 83, 89, 97,
    101, 103, 107, 109, 113, 127, 131, 137, 139, 149, 151, 157, 163, 167, 173, 179, 181, 191, 193,
    197, 199, 211, 223, 227, 229, 233, 239, 241, 251, 257, 263, 269, 271, 277, 281, 283, 293, 307, 311]"

definition sha_K :: "w32 list" where
  "sha_K = map (\<lambda>p. word_of_int (int_root 3 (p * 2 ^ 96))) first_primes"

definition sha_init :: "w32 list" where
  "sha_init = map (\<lambda>p. word_of_int (int_root 2 (p * 2 ^ 64))) (take 8 first_primes)"

definition be_bytes :: "nat \<Rightarrow> int \<Rightarrow> string" where
  "be_bytes k n = map (\<lambda>i. char_of (n div 256 ^ (k - 1 - i) mod 256)) [0..<k]"

fun be_word :: "string \<Rightarrow> w32" where
  "be_word [] = 0"
| "be_word (c # cs) = push_bit (8 * length cs) (of_char c) OR be_word cs"

text \<open>The message, a one bit, zeros up to 56 modulo 64 bytes, and the length in bits.\<close>

definition sha_pad :: "string \<Rightarrow> string" where
  "sha_pad m = m @ [char_of (128 :: nat)] @
    replicate ((119 - length m mod 64) mod 64) (char_of (0 :: nat)) @ be_bytes 8 (8 * int (length m))"

fun chunks :: "nat \<Rightarrow> 'a list \<Rightarrow> 'a list list" where
  "chunks k [] = []"
| "chunks 0 xs = []"
| "chunks (Suc k) xs = take (Suc k) xs # chunks (Suc k) (drop (Suc k) xs)"

definition small_sigma0 :: "w32 \<Rightarrow> w32" where
  "small_sigma0 x = word_rotr 7 x XOR word_rotr 18 x XOR drop_bit 3 x"
definition small_sigma1 :: "w32 \<Rightarrow> w32" where
  "small_sigma1 x = word_rotr 17 x XOR word_rotr 19 x XOR drop_bit 10 x"
definition big_sigma0 :: "w32 \<Rightarrow> w32" where
  "big_sigma0 x = word_rotr 2 x XOR word_rotr 13 x XOR word_rotr 22 x"
definition big_sigma1 :: "w32 \<Rightarrow> w32" where
  "big_sigma1 x = word_rotr 6 x XOR word_rotr 11 x XOR word_rotr 25 x"

definition schedule_step :: "w32 list \<Rightarrow> w32 list" where
  "schedule_step w = (let n = length w in
    w @ [small_sigma1 (w ! (n - 2)) + w ! (n - 7) + small_sigma0 (w ! (n - 15)) + w ! (n - 16)])"

definition schedule :: "string \<Rightarrow> w32 list" where
  "schedule block = (schedule_step ^^ 48) (map be_word (chunks 4 block))"

fun sha_round :: "w32 list \<Rightarrow> w32 \<times> w32 \<Rightarrow> w32 list" where
  "sha_round [a, b, c, d, e, f, g, h] (k, w) =
    (let t1 = h + big_sigma1 e + ((e AND f) XOR (NOT e AND g)) + k + w;
         t2 = big_sigma0 a + ((a AND b) XOR (a AND c) XOR (b AND c))
     in [t1 + t2, a, b, c, d + t1, e, f, g])"
| "sha_round st kw = st"

definition sha_block :: "w32 list \<Rightarrow> string \<Rightarrow> w32 list" where
  "sha_block st block = map2 (+) st (foldl sha_round st (zip sha_K (schedule block)))"

definition Sum256 :: "string \<Rightarrow> string" where
  "Sum256 m = concat (map (\<lambda>w. be_bytes 4 (uint w)) (foldl sha_block sha_init (chunks 64 (sha_pad m))))"

definition hex_digits :: string where
  "hex_digits = ''0123456789abcdef''"

definition EncodeToString :: "string \<Rightarrow> string" where
  "EncodeToString bs =
    concat (map (\<lambda>c. [hex_digits ! (of_char c div 16), hex_digits ! (of_char c mod 16)]) bs)"

section \<open>Shape of a digest\<close>

lemma length_be_bytes [simp]: "length (be_bytes k n) = k"
  by (simp add: be_bytes_def)

lemma length_sha_round [simp]: "length (sha_round st kw) = length st"
  by (cases "(st, kw)" rule: sha_round.cases) (simp_all add: Let_def)

lemma length_foldl_sha_round [simp]: "length (foldl sha_round st kws) = length st"
  by (induction kws arbitrary: st) simp_all

lemma length_sha_block [simp]: "length (sha_block st block) = length st"
  by (simp add: sha_block_def)

lemma length_foldl_sha_block [simp]: "length (foldl sha_block st bs) = length st"
  by (induction bs arbitrary: st) simp_all

lemma length_concat_const: "(\<And>x. x \<in> set xs \<Longrightarrow> length (f x) = k) \<Longrightarrow> length (concat (map f xs)) = k * length xs"
  by (induction xs) simp_all

lemma length_Sum256 [simp]: "length (Sum256 m) = 32"
  by (simp add: Sum256_def length_concat_const [where k = 4] sha_init_def first_primes_def)

lemma length_EncodeToString [simp]: "length (EncodeToString bs) = 2 * length bs"
  by (simp add: EncodeToString_def length_concat_const [where k = 2])

lemma length_hex_digits [simp]: "length hex_digits = 16"
  by (simp add: hex_digits_def)

lemma set_EncodeToString: "set (EncodeToString bs) \<subseteq> set hex_digits"
proof -
  have "hex_digits ! (of_char c div 16) \<in> set hex_digits"
    and "hex_digits ! (of_char c mod 16) \<in> set hex_digits" for c
    using nat_of_char_less_256 [of c] by (simp_all add: less_mult_imp_div_less)
  then show ?thesis by (auto simp: EncodeToString_def)
qed

end
