(* ===== verification/Memory.thy ===== *)
theory Memory
  imports Policy Sha256
begin

text \<open>
  Where workloads were last placed: \<open>internal/hub/placement/memory.go\<close>, with the types of a
  decision (\<open>engine.go\<close>) that it writes back.

  The world \<open>'s\<close> is the API server and this replica's informer cache, reached through the operations
  of a \<open>wp_client\<close>: reads and lists are answered from the cache, which may be behind, and writes go
  to the server, which holds \<open>held s\<close>. What the code relies on is \<open>wp_server\<close>. Log lines are left
  out. The lemmas show what the server holds after a write-back and that a replica whose cache has
  caught up reads it until it expires, that a read never returns another workload's record whatever
  its name, that the per-policy bound is enforced before every creation, and that the sweep undoes no
  refresh.
\<close>

section \<open>Decisions\<close>

record Candidate =
  cand_cell :: string
  cand_admitted :: bool
  cand_stage :: string
  cand_reason :: string
  cand_utilisation :: rat

record memo =
  memo_workload :: string
  memo_policyUID :: string
  memo_record :: "WorkloadPlacement option"

record Decision =
  d_cell :: string
  d_policy :: string
  d_strategy :: ScoringStrategy
  d_targetedDark :: bool
  d_tokenTTL :: "TokenTTLPolicy option"
  d_candidates :: "Candidate list"
  d_previous :: string
  d_memo :: "memo option"

section \<open>The store\<close>

text \<open>
  The calls of the manager's cached client on workload placements: \<open>Get\<close> by namespace and
  name, \<open>List\<close> of a namespace with an optional value of \<open>PolicyIndex\<close>, \<open>Create\<close>, \<open>Update\<close>, and
  \<open>Delete\<close> preconditioned on a resource version. A write returns its error and the store after it.
\<close>

record 's wp_client =
  wpGet :: "'s \<Rightarrow> string \<Rightarrow> string \<Rightarrow> api_error + WorkloadPlacement"
  wpList :: "'s \<Rightarrow> string \<Rightarrow> string option \<Rightarrow> api_error + WorkloadPlacement list"
  wpCreate :: "'s \<Rightarrow> WorkloadPlacement \<Rightarrow> api_error option \<times> 's"
  wpUpdate :: "'s \<Rightarrow> WorkloadPlacement \<Rightarrow> api_error option \<times> 's"
  wpDelete :: "'s \<Rightarrow> WorkloadPlacement \<Rightarrow> string \<Rightarrow> api_error option \<times> 's"

record MemoryOptions =
  ExpireAfter :: duration
  MaxPerPolicy :: int

record 's Memory =
  mem_client :: "'s wp_client"
  mem_namespace :: string
  mem_opts :: MemoryOptions

definition DefaultExpireAfter :: duration where "DefaultExpireAfter = 90 * 24 * Hour"
definition MinExpireAfter :: duration where "MinExpireAfter = 24 * Hour"
definition DefaultMaxPerPolicy :: int where "DefaultMaxPerPolicy = 10000"
definition refreshAfter :: duration where "refreshAfter = Hour"

definition NewMemory :: "'s wp_client \<Rightarrow> string \<Rightarrow> MemoryOptions \<Rightarrow> 's Memory" where
  "NewMemory c namespace opts = \<lparr>mem_client = c, mem_namespace = namespace, mem_opts = opts\<rparr>"

definition IndexPolicy :: "WorkloadPlacement \<Rightarrow> string list" where
  "IndexPolicy wp = [wp_policy (wp_spec wp)]"

definition recordName :: "string \<Rightarrow> string \<Rightarrow> string" where
  "recordName policy workload =
    ''wp-'' @ EncodeToString (take 16 (Sum256 (policy @ [CHR 0x00] @ workload)))"

definition recall :: "'s Memory \<Rightarrow> 's \<Rightarrow> string \<Rightarrow> string \<Rightarrow> WorkloadPlacement option" where
  "recall m s policy workload =
    (case wpGet (mem_client m) s (mem_namespace m) (recordName policy workload) of
       Inl _ \<Rightarrow> None
     | Inr wp \<Rightarrow> if wp_policy (wp_spec wp) \<noteq> policy \<or> wp_workload (wp_spec wp) \<noteq> workload
                then None else Some wp)"

definition live :: "'s Memory \<Rightarrow> go_time \<Rightarrow> WorkloadPlacement \<Rightarrow> bool" where
  "live m now wp \<longleftrightarrow> go_sub now (wp_lastPlacedAt (wp_spec wp)) < ExpireAfter (mem_opts m)"

definition sanitizeForLog :: "string \<Rightarrow> string" where
  "sanitizeForLog v = filter (\<lambda>c. c \<noteq> CHR 0x0D) (filter (\<lambda>c. c \<noteq> CHR 0x0A) v)"

datatype memory_error =
    CountError string api_error
  | ErrMemoryFull string int
  | CreateError string api_error
  | UpdateError string api_error

definition memory_create ::
  "'s Memory \<Rightarrow> 's \<Rightarrow> Decision \<Rightarrow> memo \<Rightarrow> go_time \<Rightarrow> memory_error option \<times> 's" where
  "memory_create m s d mm now =
    (case wpList (mem_client m) s (mem_namespace m) (Some (d_policy d)) of
       Inl e \<Rightarrow> (Some (CountError (d_policy d) e), s)
     | Inr held \<Rightarrow>
       if MaxPerPolicy (mem_opts m) \<le> int (length held)
       then (Some (ErrMemoryFull (d_policy d) (int (length held))), s)
       else
         (let wp = \<lparr>wp_name = recordName (d_policy d) (memo_workload mm),
                    wp_namespace = mem_namespace m, wp_resourceVersion = '''',
                    wp_owners = [\<lparr>owner_apiVersion = GroupVersion, owner_kind = ''PlacementPolicy'',
                                  owner_name = d_policy d, owner_uid = memo_policyUID mm\<rparr>],
                    wp_spec = \<lparr>wp_policy = d_policy d, wp_workload = memo_workload mm,
                               wp_cell = d_cell d, wp_lastPlacedAt = now\<rparr>\<rparr>
          in case wpCreate (mem_client m) s wp of
               (None, s') \<Rightarrow> (None, s')
             | (Some e, s') \<Rightarrow>
                 (if IsAlreadyExists e then None else Some (CreateError (memo_workload mm) e), s')))"

definition remember ::
  "'s Memory option \<Rightarrow> 's \<Rightarrow> go_time \<Rightarrow> Decision \<Rightarrow> memory_error option \<times> 's" where
  "remember mo s now d =
    (case mo of None \<Rightarrow> (None, s) | Some m \<Rightarrow>
     (case d_memo d of None \<Rightarrow> (None, s) | Some mm \<Rightarrow>
      (case memo_record mm of
         None \<Rightarrow> memory_create m s d mm now
       | Some rec \<Rightarrow>
         if wp_cell (wp_spec rec) = d_cell d \<and>
            go_sub now (wp_lastPlacedAt (wp_spec rec)) < refreshAfter
         then (None, s)
         else
           (case wpUpdate (mem_client m) s
                   (rec\<lparr>wp_spec := (wp_spec rec)\<lparr>wp_cell := d_cell d, wp_lastPlacedAt := now\<rparr>\<rparr>) of
              (None, s') \<Rightarrow> (None, s')
            | (Some e, s') \<Rightarrow>
                if IsNotFound e then memory_create m s' d mm now
                else if IsConflict e then (None, s')
                else (Some (UpdateError (sanitizeForLog (memo_workload mm)) e), s')))))"

text \<open>
  The sweep reads the clock once for each record it looks at: \<open>clock i\<close> is the reading for the
  \<open>i\<close>-th record listed. A delete that fails is logged, and the loop goes on.
\<close>

fun sweep_loop ::
  "'s Memory \<Rightarrow> (nat \<Rightarrow> go_time) \<Rightarrow> nat \<Rightarrow> WorkloadPlacement list \<Rightarrow> 's \<Rightarrow> 's" where
  "sweep_loop m clock i [] s = s"
| "sweep_loop m clock i (wp # wps) s =
    (if live m (clock i) wp then sweep_loop m clock (Suc i) wps s
     else sweep_loop m clock (Suc i) wps (snd (wpDelete (mem_client m) s wp (wp_resourceVersion wp))))"

definition sweep :: "'s Memory \<Rightarrow> (nat \<Rightarrow> go_time) \<Rightarrow> 's \<Rightarrow> 's" where
  "sweep m clock s =
    (case wpList (mem_client m) s (mem_namespace m) None of
       Inl _ \<Rightarrow> s
     | Inr all \<Rightarrow> sweep_loop m clock 0 all s)"

text \<open>\<open>Start\<close> sweeps at once and then on every tick until the context ends.\<close>

definition MemoryStart :: "'s Memory \<Rightarrow> (nat \<Rightarrow> go_time) list \<Rightarrow> 's \<Rightarrow> 's" where
  "MemoryStart m ticks s = foldl (\<lambda>s clock. sweep m clock s) s ticks"

section \<open>What the code relies on of the API server\<close>

text \<open>
  The documented behaviour of the API server and of a client that reads from an informer cache. An object read
  from the cache stands under its own name. A write that succeeds is stored, with its time at the
  second resolution of \<open>metav1.Time\<close>; a creation succeeds only where the server holds nothing, an update only
  on the resource version it names. The refusals the code tells apart say why, and change nothing. A
  delete touches no other name and removes only the version it is preconditioned on. Nothing is said
  of when the cache shows a write.
\<close>

type_synonym 's wp_held = "'s \<Rightarrow> string \<Rightarrow> string \<Rightarrow> WorkloadPlacement option"

definition stored_as :: "WorkloadPlacement \<Rightarrow> WorkloadPlacement \<Rightarrow> bool" where
  "stored_as wp got \<longleftrightarrow>
    wp_policy (wp_spec got) = wp_policy (wp_spec wp) \<and>
    wp_workload (wp_spec got) = wp_workload (wp_spec wp) \<and>
    wp_cell (wp_spec got) = wp_cell (wp_spec wp) \<and>
    wp_lastPlacedAt (wp_spec got) = wp_lastPlacedAt (wp_spec wp) div Second * Second"

definition wp_server :: "'s wp_held \<Rightarrow> 's wp_client \<Rightarrow> bool" where
  "wp_server held c \<longleftrightarrow>
    (\<forall>s ns n wp. wpGet c s ns n = Inr wp \<longrightarrow> wp_namespace wp = ns \<and> wp_name wp = n) \<and>
    (\<forall>s wp s'. wpCreate c s wp = (None, s') \<longrightarrow> held s (wp_namespace wp) (wp_name wp) = None \<and>
      (\<exists>got. held s' (wp_namespace wp) (wp_name wp) = Some got \<and> stored_as wp got)) \<and>
    (\<forall>s wp s'. wpUpdate c s wp = (None, s') \<longrightarrow>
      (\<exists>old got. held s (wp_namespace wp) (wp_name wp) = Some old \<and> wp_resourceVersion old = wp_resourceVersion wp \<and>
        held s' (wp_namespace wp) (wp_name wp) = Some got \<and> stored_as wp got)) \<and>
    (\<forall>s wp e s'. wpCreate c s wp = (Some e, s') \<longrightarrow> IsAlreadyExists e \<longrightarrow>
      held s' = held s \<and> held s (wp_namespace wp) (wp_name wp) \<noteq> None) \<and>
    (\<forall>s wp e s'. wpUpdate c s wp = (Some e, s') \<longrightarrow> IsNotFound e \<longrightarrow>
      held s' = held s \<and> held s (wp_namespace wp) (wp_name wp) = None) \<and>
    (\<forall>s wp e s'. wpUpdate c s wp = (Some e, s') \<longrightarrow> IsConflict e \<longrightarrow> held s' = held s \<and>
      (\<exists>old. held s (wp_namespace wp) (wp_name wp) = Some old \<and> wp_resourceVersion old \<noteq> wp_resourceVersion wp)) \<and>
    (\<forall>s wp v ns n. held (snd (wpDelete c s wp v)) ns n \<noteq> held s ns n \<longrightarrow>
      ns = wp_namespace wp \<and> n = wp_name wp \<and> held (snd (wpDelete c s wp v)) ns n = None \<and>
      (\<exists>old. held s ns n = Some old \<and> wp_resourceVersion old = v)) \<and>
    (\<forall>s wp v. fst (wpDelete c s wp v) = None \<longrightarrow>
      held (snd (wpDelete c s wp v)) (wp_namespace wp) (wp_name wp) = None)"

text \<open>The cache shows, under one name, what the server holds.\<close>

definition caught_up :: "'s wp_held \<Rightarrow> 's wp_client \<Rightarrow> 's \<Rightarrow> string \<Rightarrow> string \<Rightarrow> bool" where
  "caught_up held c s ns n \<longleftrightarrow> (\<forall>wp. wpGet c s ns n = Inr wp \<longleftrightarrow> held s ns n = Some wp)"

text \<open>What a list from the cache names are versions of objects: one the server still holds is the object listed.\<close>

definition lists_versions :: "'s wp_held \<Rightarrow> 's \<Rightarrow> string \<Rightarrow> WorkloadPlacement list \<Rightarrow> bool" where
  "lists_versions held s ns wps \<longleftrightarrow> (\<forall>wp \<in> set wps. wp_namespace wp = ns \<and>
    (\<forall>w. held s ns (wp_name wp) = Some w \<longrightarrow> wp_resourceVersion w = wp_resourceVersion wp \<longrightarrow> w = wp))"

section \<open>Lemmas\<close>

lemma recall_Some_iff:
  "recall m s policy workload = Some wp \<longleftrightarrow>
    wpGet (mem_client m) s (mem_namespace m) (recordName policy workload) = Inr wp \<and>
    wp_policy (wp_spec wp) = policy \<and> wp_workload (wp_spec wp) = workload"
  by (auto simp: recall_def split: sum.splits)

lemma sanitizeForLog_no_breaks: "CHR 0x0A \<notin> set (sanitizeForLog v)" "CHR 0x0D \<notin> set (sanitizeForLog v)"
  by (auto simp: sanitizeForLog_def)

lemma sanitizeForLog_id: "CHR 0x0A \<notin> set v \<Longrightarrow> CHR 0x0D \<notin> set v \<Longrightarrow> sanitizeForLog v = v"
  by (auto simp: sanitizeForLog_def filter_id_conv)

lemma live_earlier: "live m later wp \<Longrightarrow> now \<le> later \<Longrightarrow> live m now wp"
  unfolding live_def by (rule le_less_trans [OF go_sub_mono])

text \<open>The laws, one by one.\<close>

lemma wp_server_D:
  assumes "wp_server held c"
  shows wp_server_key: "wpGet c s ns n = Inr wp \<Longrightarrow> wp_namespace wp = ns \<and> wp_name wp = n"
    and wp_server_create: "wpCreate c s wp = (None, s') \<Longrightarrow> held s (wp_namespace wp) (wp_name wp) = None \<and>
      (\<exists>got. held s' (wp_namespace wp) (wp_name wp) = Some got \<and> stored_as wp got)"
    and wp_server_update: "wpUpdate c s wp = (None, s') \<Longrightarrow>
      \<exists>old got. held s (wp_namespace wp) (wp_name wp) = Some old \<and> wp_resourceVersion old = wp_resourceVersion wp \<and>
        held s' (wp_namespace wp) (wp_name wp) = Some got \<and> stored_as wp got"
    and wp_server_exists: "wpCreate c s wp = (Some e, s') \<Longrightarrow> IsAlreadyExists e \<Longrightarrow>
      held s' = held s \<and> held s (wp_namespace wp) (wp_name wp) \<noteq> None"
    and wp_server_missing: "wpUpdate c s wp = (Some e, s') \<Longrightarrow> IsNotFound e \<Longrightarrow>
      held s' = held s \<and> held s (wp_namespace wp) (wp_name wp) = None"
    and wp_server_conflict: "wpUpdate c s wp = (Some e, s') \<Longrightarrow> IsConflict e \<Longrightarrow> held s' = held s \<and>
      (\<exists>old. held s (wp_namespace wp) (wp_name wp) = Some old \<and> wp_resourceVersion old \<noteq> wp_resourceVersion wp)"
    and wp_server_delete: "held (snd (wpDelete c s wp v)) ns n \<noteq> held s ns n \<Longrightarrow>
      ns = wp_namespace wp \<and> n = wp_name wp \<and> held (snd (wpDelete c s wp v)) ns n = None \<and>
      (\<exists>old. held s ns n = Some old \<and> wp_resourceVersion old = v)"
    and wp_server_deleted: "fst (wpDelete c s wp v) = None \<Longrightarrow>
      held (snd (wpDelete c s wp v)) (wp_namespace wp) (wp_name wp) = None"
  using assms unfolding wp_server_def by metis+

text \<open>The record a decision leaves at the server, and the record that was there instead.\<close>

definition recorded :: "'s wp_held \<Rightarrow> 's Memory \<Rightarrow> 's \<Rightarrow> go_time \<Rightarrow> Decision \<Rightarrow> memo \<Rightarrow> WorkloadPlacement \<Rightarrow> bool" where
  "recorded held m s now d mm got \<longleftrightarrow>
    held s (mem_namespace m) (recordName (d_policy d) (memo_workload mm)) = Some got \<and>
    wp_policy (wp_spec got) = d_policy d \<and> wp_workload (wp_spec got) = memo_workload mm \<and>
    wp_cell (wp_spec got) = d_cell d \<and> wp_lastPlacedAt (wp_spec got) = now div Second * Second"

lemma memory_create_records:
  assumes "wp_server held (mem_client m)" and "memory_create m s d mm now = (None, s')"
  shows "held s (mem_namespace m) (recordName (d_policy d) (memo_workload mm)) = None \<and> (\<exists>got. recorded held m s' now d mm got) \<or>
    held s' = held s \<and> held s (mem_namespace m) (recordName (d_policy d) (memo_workload mm)) \<noteq> None"
proof -
  let ?wp = "\<lparr>wp_name = recordName (d_policy d) (memo_workload mm),
    wp_namespace = mem_namespace m, wp_resourceVersion = '''',
    wp_owners = [\<lparr>owner_apiVersion = GroupVersion, owner_kind = ''PlacementPolicy'',
      owner_name = d_policy d, owner_uid = memo_policyUID mm\<rparr>],
    wp_spec = \<lparr>wp_policy = d_policy d, wp_workload = memo_workload mm,
      wp_cell = d_cell d, wp_lastPlacedAt = now\<rparr>\<rparr>"
  obtain e where c: "wpCreate (mem_client m) s ?wp = (e, s')" and e: "\<forall>e'. e = Some e' \<longrightarrow> IsAlreadyExists e'"
    using assms(2) by (auto simp: memory_create_def Let_def split: sum.splits if_splits prod.splits option.splits)
  show ?thesis
  proof (cases e)
    case None
    from wp_server_create [OF assms(1) c [unfolded None]] show ?thesis by (auto simp: recorded_def stored_as_def)
  next
    case (Some e')
    with e wp_server_exists [OF assms(1) c [unfolded Some]] show ?thesis by simp
  qed
qed

lemma recorded_recall:
  assumes "recorded held m s now d mm got" and "caught_up held (mem_client m) s' (mem_namespace m) (recordName (d_policy d) (memo_workload mm))"
    and "held s' (mem_namespace m) (recordName (d_policy d) (memo_workload mm)) = Some got"
  shows "recall m s' (d_policy d) (memo_workload mm) = Some got"
  using assms by (simp add: recall_Some_iff recorded_def caught_up_def)

lemma live_iff:
  assumes "0 < ExpireAfter (mem_opts m)" and "in_int64 (ExpireAfter (mem_opts m))"
  shows "live m later wp \<longleftrightarrow> later < wp_lastPlacedAt (wp_spec wp) + ExpireAfter (mem_opts m)"
  using assms by (auto simp: live_def go_sub_less_iff min_int64_def)

text \<open>The sweep: a record the server holds in a version the sweep did not see expired is left alone.\<close>

lemma sweep_loop_only:
  assumes srv: "wp_server held (mem_client m)"
  shows "held (sweep_loop m clock i wps s) ns n = Some wp \<Longrightarrow> held s ns n = Some wp"
proof (induction wps arbitrary: i s)
  case (Cons w wps)
  show ?case
  proof (cases "live m (clock i) w")
    case True
    with Cons show ?thesis by simp
  next
    case False
    let ?s = "snd (wpDelete (mem_client m) s w (wp_resourceVersion w))"
    from Cons False have "held ?s ns n = Some wp" by simp
    with wp_server_delete [OF srv, of s w "wp_resourceVersion w" ns n] show ?thesis by fastforce
  qed
qed simp

lemma sweep_loop_keeps:
  assumes srv: "wp_server held (mem_client m)"
    and list: "\<And>w. w \<in> set wps \<Longrightarrow> wp_namespace w = ns \<Longrightarrow> wp_name w = n \<Longrightarrow>
      wp_resourceVersion wp = wp_resourceVersion w \<Longrightarrow> w = wp"
    and live: "\<And>i. live m (clock i) wp"
  shows "held s ns n = Some wp \<Longrightarrow> held (sweep_loop m clock i wps s) ns n = Some wp"
  using list
proof (induction wps arbitrary: i s)
  case (Cons w wps)
  show ?case
  proof (cases "live m (clock i) w")
    case True
    with Cons show ?thesis by simp
  next
    case False
    with live have "w \<noteq> wp" by auto
    with Cons.prems wp_server_delete [OF srv, of s w "wp_resourceVersion w" ns n]
    have "held (snd (wpDelete (mem_client m) s w (wp_resourceVersion w))) ns n = Some wp" by fastforce
    from Cons.IH [OF this] Cons.prems(2) False show ?thesis by simp
  qed
qed simp

lemma sweep_loop_removes:
  assumes srv: "wp_server held (mem_client m)"
    and del: "\<And>s. held s (wp_namespace w) (wp_name w) = Some w \<Longrightarrow> fst (wpDelete (mem_client m) s w (wp_resourceVersion w)) = None"
  shows "w \<in> set wps \<Longrightarrow> \<forall>i. \<not> live m (clock i) w \<Longrightarrow>
    held (sweep_loop m clock i wps s) (wp_namespace w) (wp_name w) \<noteq> Some w"
proof (induction wps arbitrary: i s)
  case (Cons x wps)
  show ?case
  proof (cases "x = w")
    case True
    let ?s = "snd (wpDelete (mem_client m) s w (wp_resourceVersion w))"
    have "held ?s (wp_namespace w) (wp_name w) \<noteq> Some w"
      using wp_server_deleted [OF srv del] wp_server_delete [OF srv, of s w "wp_resourceVersion w" "wp_namespace w" "wp_name w"]
      by (cases "held s (wp_namespace w) (wp_name w) = Some w") fastforce+
    then have "held (sweep_loop m clock (Suc i) wps ?s) (wp_namespace w) (wp_name w) \<noteq> Some w"
      using sweep_loop_only [OF srv] by blast
    with True Cons.prems(2) show ?thesis by simp
  next
    case False
    with Cons show ?thesis by simp
  qed
qed simp

section \<open>Properties\<close>

text \<open>
  C5. What is remembered is recalled, through a cache that may be behind. The decision read its record at some earlier state \<open>s0\<close>. When the
  write-back reports no error, then one of three things happened. The API server holds a record for that policy and workload naming the
  cell the decision chose and the second it was written, which replaced nothing but the version the decision had read; every replica
  whose cache shows it recalls it, and it is live exactly until the expiry counted from that second. Or nothing was written,
  because the record the decision read names that cell already and is less than an hour old. Or the server was left as it was,
  holding a record that is not the version the decision read: another replica won the race.
\<close>

theorem remember_then_recall:
  assumes "wp_server held (mem_client m)" and "key = recordName (d_policy d) (memo_workload mm)"
    and "d_memo d = Some mm" and "memo_record mm = recall m s0 (d_policy d) (memo_workload mm)"
    and "remember (Some m) s now d = (None, s')"
    and "0 < ExpireAfter (mem_opts m)" and "in_int64 (ExpireAfter (mem_opts m))"
  shows "(\<exists>got. held s' (mem_namespace m) key = Some got \<and> wp_cell (wp_spec got) = d_cell d \<and>
      (\<forall>old. held s (mem_namespace m) key = Some old \<longrightarrow>
        (\<exists>rec. memo_record mm = Some rec \<and> wp_resourceVersion rec = wp_resourceVersion old)) \<and>
      (\<forall>t. caught_up held (mem_client m) t (mem_namespace m) key \<longrightarrow> held t (mem_namespace m) key = Some got \<longrightarrow>
        recall m t (d_policy d) (memo_workload mm) = Some got) \<and>
      (\<forall>later. live m later got \<longleftrightarrow> later < now div Second * Second + ExpireAfter (mem_opts m))) \<or>
    (s' = s \<and> (\<exists>rec. memo_record mm = Some rec \<and> wp_cell (wp_spec rec) = d_cell d \<and>
      now < wp_lastPlacedAt (wp_spec rec) + refreshAfter)) \<or>
    (held s' = held s \<and> (\<exists>other. held s (mem_namespace m) key = Some other \<and>
      (\<forall>rec. memo_record mm = Some rec \<longrightarrow> wp_resourceVersion rec \<noteq> wp_resourceVersion other)))"
    (is "?written \<or> ?kept \<or> ?lost")
proof -
  have written: ?written if "recorded held m s' now d mm got" and "\<And>old. held s (mem_namespace m) key = Some old \<Longrightarrow>
      \<exists>rec. memo_record mm = Some rec \<and> wp_resourceVersion rec = wp_resourceVersion old" for got
    using that recorded_recall [OF that(1)] live_iff [OF assms(6,7), of _ got] unfolding assms(2)
    by (intro exI [of _ got]) (auto simp: recorded_def)
  show ?thesis
  proof (cases "memo_record mm")
    case None
    with assms(3,5) have "memory_create m s d mm now = (None, s')" by (simp add: remember_def)
    from memory_create_records [OF assms(1) this] written None assms(2) show ?thesis by auto
  next
    case (Some rec)
    let ?upd = "rec\<lparr>wp_spec := (wp_spec rec)\<lparr>wp_cell := d_cell d, wp_lastPlacedAt := now\<rparr>\<rparr>"
    from Some assms(4) have rec: "recall m s0 (d_policy d) (memo_workload mm) = Some rec" by simp
    then have key: "wp_namespace rec = mem_namespace m" "wp_name rec = key"
      using wp_server_key [OF assms(1)] by (auto simp: recall_Some_iff assms(2))
    consider (kept) "wp_cell (wp_spec rec) = d_cell d"
        "go_sub now (wp_lastPlacedAt (wp_spec rec)) < refreshAfter" "s' = s"
      | (updated) "wpUpdate (mem_client m) s ?upd = (None, s')"
      | (missing) e s1 where "wpUpdate (mem_client m) s ?upd = (Some e, s1)" "IsNotFound e"
        "memory_create m s1 d mm now = (None, s')"
      | (conflict) e where "wpUpdate (mem_client m) s ?upd = (Some e, s')" "IsConflict e"
      using assms(3,5) Some by (auto simp: remember_def split: if_splits prod.splits option.splits)
    then show ?thesis
    proof cases
      case kept
      then have "now < wp_lastPlacedAt (wp_spec rec) + refreshAfter"
        by (simp add: go_sub_less_iff in_int64_def refreshAfter_def duration_units min_int64_def max_int64_def)
      with kept Some show ?thesis by blast
    next
      case updated
      from wp_server_update [OF assms(1) updated] key obtain old got where
        o: "held s (mem_namespace m) key = Some old" "wp_resourceVersion old = wp_resourceVersion rec"
        and g: "held s' (mem_namespace m) key = Some got" "stored_as ?upd got" by auto
      from g rec have "recorded held m s' now d mm got" by (auto simp: recorded_def stored_as_def recall_Some_iff assms(2))
      with written [of got] o Some show ?thesis by auto
    next
      case missing
      from wp_server_missing [OF assms(1) missing(1,2)] key have n: "held s1 = held s" "held s (mem_namespace m) key = None" by simp_all
      with memory_create_records [OF assms(1) missing(3)] written show ?thesis unfolding assms(2) by auto
    next
      case conflict
      from wp_server_conflict [OF assms(1) conflict] key Some show ?thesis by force
    qed
  qed
qed

text \<open>
  The sweep bounds storage and changes no decision, although it works from a list that may be behind: it makes no record appear, and every
  record the server holds that is live when it is next read stays as it is, refreshed in the meantime or not. When the
  server accepts the deletes of what it still holds, no version listed that had expired is left behind.
\<close>

theorem sweep_changes_no_decision:
  assumes "wp_server held (mem_client m)" and "wpList (mem_client m) s (mem_namespace m) None = Inr wps"
    and "lists_versions held s (mem_namespace m) wps" and "\<forall>i. clock i \<le> now"
  shows "(held (sweep m clock s) ns n = Some wp \<longrightarrow> held s ns n = Some wp) \<and>
    (held s ns n = Some wp \<and> live m now wp \<longrightarrow> held (sweep m clock s) ns n = Some wp) \<and>
    ((\<forall>s w. held s (wp_namespace w) (wp_name w) = Some w \<longrightarrow> fst (wpDelete (mem_client m) s w (wp_resourceVersion w)) = None) \<and>
      w \<in> set wps \<and> (\<forall>i. \<not> live m (clock i) w) \<longrightarrow> held (sweep m clock s) (wp_namespace w) (wp_name w) \<noteq> Some w)"
proof -
  have sw: "sweep m clock s = sweep_loop m clock 0 wps s" by (simp add: sweep_def assms(2))
  have "held (sweep m clock s) ns n = Some wp" if h: "held s ns n = Some wp" and l: "live m now wp"
    unfolding sw
  proof (rule sweep_loop_keeps [OF assms(1) _ _ h])
    show "w = wp" if "w \<in> set wps" "wp_namespace w = ns" "wp_name w = n" "wp_resourceVersion wp = wp_resourceVersion w" for w
      using assms(3) that h unfolding lists_versions_def by fastforce
    show "live m (clock i) wp" for i using live_earlier [OF l] assms(4) by blast
  qed
  moreover have "held (sweep m clock s) ns n = Some wp \<longrightarrow> held s ns n = Some wp"
    unfolding sw using sweep_loop_only [OF assms(1)] by blast
  moreover have "held (sweep m clock s) (wp_namespace w) (wp_name w) \<noteq> Some w"
    if "\<forall>s w. held s (wp_namespace w) (wp_name w) = Some w \<longrightarrow> fst (wpDelete (mem_client m) s w (wp_resourceVersion w)) = None"
      "w \<in> set wps" "\<forall>i. \<not> live m (clock i) w"
    unfolding sw using sweep_loop_removes [OF assms(1), of w wps clock 0 s] that by blast
  ultimately show ?thesis by blast
qed

section \<open>Witnesses\<close>

text \<open>An API server that keeps the records in an association list by namespace and name.\<close>

type_synonym wp_store = "((string \<times> string) \<times> WorkloadPlacement) list"

definition wp_put :: "WorkloadPlacement \<Rightarrow> wp_store \<Rightarrow> wp_store" where
  "wp_put wp st = AList.update (wp_namespace wp, wp_name wp)
    (wp\<lparr>wp_spec := (wp_spec wp)\<lparr>wp_lastPlacedAt := wp_lastPlacedAt (wp_spec wp) div Second * Second\<rparr>\<rparr>) st"

definition store_get :: "wp_store \<Rightarrow> string \<Rightarrow> string \<Rightarrow> api_error + WorkloadPlacement" where
  "store_get st ns n = (case map_of st (ns, n) of
     Some wp \<Rightarrow> if wp_namespace wp = ns \<and> wp_name wp = n then Inr wp
       else Inl (ApiError NotFound ''not found'')
   | None \<Rightarrow> Inl (ApiError NotFound ''not found''))"

definition store_client :: "wp_store wp_client" where
  "store_client = \<lparr>wpGet = store_get,
    wpList = (\<lambda>st ns pol. Inr (filter (\<lambda>wp. store_get st ns (wp_name wp) = Inr wp \<and>
      (case pol of None \<Rightarrow> True | Some p \<Rightarrow> wp_policy (wp_spec wp) = p)) (map snd st))),
    wpCreate = (\<lambda>st wp. if map_of st (wp_namespace wp, wp_name wp) = None then (None, wp_put wp st)
      else (Some (ApiError AlreadyExists ''exists''), st)),
    wpUpdate = (\<lambda>st wp. if map_of st (wp_namespace wp, wp_name wp) = None
      then (Some (ApiError NotFound ''not found''), st) else (None, wp_put wp st)),
    wpDelete = (\<lambda>st wp v. (None, AList.delete (wp_namespace wp, wp_name wp) st))\<rparr>"

text \<open>
  An API server with versions, and a replica's cache of it that only follows when it is told to: the first list is what the server holds, the
  second what the cache shows.
\<close>

definition put_version :: "string \<Rightarrow> WorkloadPlacement \<Rightarrow> wp_store \<Rightarrow> wp_store" where
  "put_version v wp st = wp_put (wp\<lparr>wp_resourceVersion := v\<rparr>) st"

definition lagging_client :: "(wp_store \<times> wp_store) wp_client" where
  "lagging_client = \<lparr>wpGet = (\<lambda>s. store_get (snd s)),
    wpList = (\<lambda>s ns pol. wpList store_client (snd s) ns pol),
    wpCreate = (\<lambda>s wp. if map_of (fst s) (wp_namespace wp, wp_name wp) = None then (None, (put_version ''1'' wp (fst s), snd s))
      else (Some (ApiError AlreadyExists ''exists''), s)),
    wpUpdate = (\<lambda>s wp. case map_of (fst s) (wp_namespace wp, wp_name wp) of
        None \<Rightarrow> (Some (ApiError NotFound ''not found''), s)
      | Some old \<Rightarrow> if wp_resourceVersion old \<noteq> wp_resourceVersion wp then (Some (ApiError Conflict ''conflict''), s)
          else (None, (put_version (''1'' @ wp_resourceVersion old) wp (fst s), snd s))),
    wpDelete = (\<lambda>s wp v. case map_of (fst s) (wp_namespace wp, wp_name wp) of
        None \<Rightarrow> (Some (ApiError NotFound ''not found''), s)
      | Some old \<Rightarrow> if wp_resourceVersion old \<noteq> v then (Some (ApiError Conflict ''conflict''), s)
          else (None, (AList.delete (wp_namespace wp, wp_name wp) (fst s), snd s)))\<rparr>"

definition lagging_held :: "(wp_store \<times> wp_store) wp_held" where
  "lagging_held s ns n = map_of (fst s) (ns, n)"

lemma wp_server_lagging: "wp_server lagging_held lagging_client"
  unfolding wp_server_def
proof (intro conjI allI impI)
  show "wp_namespace wp = ns" "wp_name wp = n" if "wpGet lagging_client s ns n = Inr wp" for s ns n wp
    using that by (auto simp: lagging_client_def store_get_def split: option.splits if_splits)
qed (auto simp: lagging_client_def lagging_held_def put_version_def wp_put_def stored_as_def api_error_preds delete_conv' update_conv'
      split: option.splits if_splits)

definition sample_memory :: "wp_store Memory" where
  "sample_memory = NewMemory store_client ''cellcast'' \<lparr>ExpireAfter = DefaultExpireAfter, MaxPerPolicy = 2\<rparr>"

definition sample_decision :: "string \<Rightarrow> WorkloadPlacement option \<Rightarrow> Decision" where
  "sample_decision cell rec = \<lparr>d_cell = cell, d_policy = ''prod'', d_strategy = ScoringLeastLoaded,
    d_targetedDark = False, d_tokenTTL = None, d_candidates = [], d_previous = '''',
    d_memo = Some \<lparr>memo_workload = ''web'', memo_policyUID = ''u1'', memo_record = rec\<rparr>\<rparr>"

lemma sample_memory_simps [simp]:
  "mem_client sample_memory = store_client" "mem_namespace sample_memory = ''cellcast''"
  "ExpireAfter (mem_opts sample_memory) = DefaultExpireAfter" "MaxPerPolicy (mem_opts sample_memory) = 2"
  by (simp_all add: sample_memory_def NewMemory_def)

definition lagging_memory :: "(wp_store \<times> wp_store) Memory" where
  "lagging_memory = NewMemory lagging_client ''cellcast'' \<lparr>ExpireAfter = DefaultExpireAfter, MaxPerPolicy = 2\<rparr>"

lemma lagging_memory_simps [simp]:
  "mem_client lagging_memory = lagging_client" "mem_namespace lagging_memory = ''cellcast''"
  "ExpireAfter (mem_opts lagging_memory) = DefaultExpireAfter" "MaxPerPolicy (mem_opts lagging_memory) = 2"
  by (simp_all add: lagging_memory_def NewMemory_def)

text \<open>A first placement: the cache does not show the record until it has followed the server, and then it is recalled and live.\<close>

theorem remember_then_recall_witness:
  "\<exists>st got. remember (Some lagging_memory) ([], []) 5 (sample_decision ''blue'' None) = (None, (st, [])) \<and>
    recall lagging_memory (st, []) ''prod'' ''web'' = None \<and> recall lagging_memory (st, st) ''prod'' ''web'' = Some got \<and>
    wp_cell (wp_spec got) = ''blue'' \<and> live lagging_memory (DefaultExpireAfter - 1) got \<and> \<not> live lagging_memory DefaultExpireAfter got"
proof -
  let ?d = "sample_decision ''blue'' None" and ?key = "recordName ''prod'' ''web''"
  obtain st where s': "remember (Some lagging_memory) ([], []) 5 ?d = (None, (st, []))"
    and up: "caught_up lagging_held lagging_client (st, st) ''cellcast'' ?key"
    by (auto simp: remember_def sample_decision_def memory_create_def lagging_client_def store_client_def put_version_def wp_put_def
        caught_up_def lagging_held_def store_get_def)
  have e: "0 < DefaultExpireAfter" "in_int64 DefaultExpireAfter" "(5 :: int) div Second = 0"
    by (simp_all add: in_int64_def DefaultExpireAfter_def duration_units min_int64_def max_int64_def)
  have n: "recall lagging_memory ([], []) ''prod'' ''web'' = None" "recall lagging_memory (st, []) ''prod'' ''web'' = None"
    by (simp_all add: recall_def lagging_client_def store_get_def)
  have "lagging_held (st, st) = lagging_held (st, [])" by (intro ext) (simp add: lagging_held_def)
  with remember_then_recall [of lagging_held lagging_memory ?key ?d "the (d_memo ?d)" "([], [])" "([], [])" 5 "(st, [])"]
    wp_server_lagging s' up e n(1)
  obtain got where "recall lagging_memory (st, st) ''prod'' ''web'' = Some got" "wp_cell (wp_spec got) = ''blue''"
    "live lagging_memory (DefaultExpireAfter - 1) got" "\<not> live lagging_memory DefaultExpireAfter got"
    by (auto simp: sample_decision_def lagging_held_def)
  with s' n(2) show ?thesis by blast
qed

text \<open>A record the cache still shows as it was ninety days ago, refreshed at the server since: the sweep leaves it alone.\<close>

theorem sweep_changes_no_decision_witness:
  "\<exists>old new. \<not> live lagging_memory DefaultExpireAfter old \<and> new \<noteq> old \<and>
    lagging_held (sweep lagging_memory (\<lambda>_. DefaultExpireAfter)
      ([((''cellcast'', ''wp''), new)], [((''cellcast'', ''wp''), old)])) ''cellcast'' ''wp'' = Some new"
proof -
  let ?wp = "\<lambda>v t. \<lparr>wp_name = ''wp'', wp_namespace = ''cellcast'', wp_resourceVersion = v, wp_owners = [],
    wp_spec = \<lparr>wp_policy = ''prod'', wp_workload = ''web'', wp_cell = ''blue'', wp_lastPlacedAt = t\<rparr>\<rparr>"
  let ?s = "([((''cellcast'', ''wp''), ?wp ''2'' 10)], [((''cellcast'', ''wp''), ?wp ''1'' 0)])"
  have e: "0 < ExpireAfter (mem_opts lagging_memory)" "in_int64 (ExpireAfter (mem_opts lagging_memory))"
    by (simp_all add: in_int64_def DefaultExpireAfter_def duration_units min_int64_def max_int64_def)
  have l: "wpList (mem_client lagging_memory) ?s (mem_namespace lagging_memory) None = Inr [?wp ''1'' 0]"
    by (simp add: lagging_client_def store_client_def store_get_def)
  have v: "lists_versions lagging_held ?s (mem_namespace lagging_memory) [?wp ''1'' 0]"
    by (simp add: lists_versions_def lagging_held_def)
  have "lagging_held ?s ''cellcast'' ''wp'' = Some (?wp ''2'' 10)" "live lagging_memory DefaultExpireAfter (?wp ''2'' 10)"
    "\<not> live lagging_memory DefaultExpireAfter (?wp ''1'' 0)"
    by (simp_all add: lagging_held_def live_iff [OF e])
  with sweep_changes_no_decision [OF wp_server_lagging [folded lagging_memory_simps(1)] l v, of "\<lambda>_. DefaultExpireAfter" DefaultExpireAfter
      "''cellcast''" "''wp''" "?wp ''2'' 10"]
  show ?thesis by (intro exI [of _ "?wp ''1'' 0"] exI [of _ "?wp ''2'' 10"]) simp
qed

end
