(* ===== verification/Engine.thy ===== *)
theory Engine
  imports Capacity Memory
begin

text \<open>
  The placement engine: \<open>internal/hub/placement/engine.go\<close> and \<open>refused.go\<close>.

  \<open>LabelSelectorAsSelector\<close> of the Kubernetes libraries is the parameter \<open>asSelector\<close>, the cached
  reader is a \<open>reader\<close>, and the API server behind the memory is the store \<open>'s\<close>. Trace spans and
  log lines are left out. The clock is read twice on the way: at the snapshot of the capacity
  index and when a remembered record is aged.

  The lemmas show that the filter runs before the score, whatever the policy and the memory say: a
  chosen cell is permitted, in the requested state and freshly reported.
\<close>

section \<open>Requests, stages and errors\<close>

definition StagePermission :: string where [api_defs]: "StagePermission = ''permission''"
definition StageState :: string where [api_defs]: "StageState = ''state''"
definition StageCapacity :: string where [api_defs]: "StageCapacity = ''capacity''"
definition StageScore :: string where [api_defs]: "StageScore = ''score''"
definition StageStickiness :: string where [api_defs]: "StageStickiness = ''stickiness''"

record Request =
  req_workload :: string
  req_targetDark :: bool

record RefusedError =
  ref_err :: placement_sentinel
  ref_policy :: string
  ref_candidates :: "Candidate list"

text \<open>
  What \<open>Place\<close> returns beside a decision: a bare sentinel, a refusal with its reasoning, the two
  listing errors, an invalid selector, or \<open>Panic\<close> for an index out of range.
\<close>

datatype place_error =
    Bare placement_sentinel
  | Refused RefusedError
  | ListPoliciesError api_error
  | ListClustersError api_error
  | InvalidSelector string string
  | Panic

definition sentinel_text :: "placement_sentinel \<Rightarrow> string" where
  "sentinel_text e = (case e of
     ErrNoPolicy \<Rightarrow> ''no placement policy matches this caller''
   | ErrNoPermittedCells \<Rightarrow> ''policy permits no registered cell''
   | ErrNoEligibleCells \<Rightarrow> ''no permitted cell is currently accepting placements''
   | ErrCapacityUnknown \<Rightarrow> ''no permitted cell has usable capacity''
   | ErrDarkNotPermitted \<Rightarrow> ''policy does not permit dark targeting'')"

definition RefusedError_Error :: "RefusedError \<Rightarrow> string" where
  "RefusedError_Error e =
    (if ref_policy e = '''' then sentinel_text (ref_err e)
     else sentinel_text (ref_err e) @ '': policy '' @ ref_policy e)"

definition RefusedError_Unwrap :: "RefusedError \<Rightarrow> placement_sentinel" where
  "RefusedError_Unwrap e = ref_err e"

section \<open>Reading a decision\<close>

definition Kept :: "Decision \<Rightarrow> bool" where
  "Kept d \<longleftrightarrow> d_previous d \<noteq> '''' \<and> d_previous d = d_cell d"

type_synonym Confidence = string

definition ConfidenceHigh :: Confidence where [api_defs]: "ConfidenceHigh = ''high''"
definition ConfidenceDegraded :: Confidence where [api_defs]: "ConfidenceDegraded = ''degraded''"

definition Decision_Confidence :: "Decision \<Rightarrow> Confidence" where
  "Decision_Confidence d =
    (if list_ex (\<lambda>c. cand_stage c = StageCapacity) (d_candidates d)
     then ConfidenceDegraded else ConfidenceHigh)"

definition Admitted :: "Decision \<Rightarrow> Candidate list" where
  "Admitted d = filter cand_admitted (d_candidates d)"

section \<open>The engine\<close>

record 'sel reader =
  readPolicies :: "string \<Rightarrow> api_error + 'sel PlacementPolicy list"
  readClusters :: "string \<Rightarrow> api_error + Cluster list"

type_synonym 'sel as_selector = "'sel \<Rightarrow> string + (labels \<Rightarrow> bool)"

record 's Engine =
  eng_capacity :: "Registry option"
  eng_ns :: string
  eng_cursors :: "(string \<times> 64 word) list"
  eng_memory :: "'s Memory option"

definition NewEngine :: "Registry option \<Rightarrow> string \<Rightarrow> 's Memory option \<Rightarrow> 's Engine" where
  "NewEngine index namespace mem =
    \<lparr>eng_capacity = index, eng_ns = namespace, eng_cursors = [], eng_memory = mem\<rparr>"

definition Remember :: "'s Engine \<Rightarrow> 's \<Rightarrow> go_time \<Rightarrow> Decision \<Rightarrow> memory_error option \<times> 's" where
  "Remember e s now d = remember (eng_memory e) s now d"

definition stickinessOf :: "'sel PlacementPolicy \<Rightarrow> StickinessMode" where
  "stickinessOf policy =
    (case stickiness (pol_spec policy) of
       None \<Rightarrow> StickinessPreferred
     | Some st \<Rightarrow> if sticky_mode st = '''' then StickinessPreferred else sticky_mode st)"

definition strategyOf :: "'sel PlacementPolicy \<Rightarrow> ScoringStrategy" where
  "strategyOf policy =
    (if strategy (pol_spec policy) = '''' then ScoringLeastLoaded else strategy (pol_spec policy))"

definition policyFor :: "'s Engine \<Rightarrow> 'sel reader \<Rightarrow> Identity \<Rightarrow> place_error + 'sel PlacementPolicy" where
  "policyFor e rd idn =
    (case readPolicies rd (eng_ns e) of
       Inl err \<Rightarrow> Inl (ListPoliciesError err)
     | Inr policies \<Rightarrow>
       (case selectPolicy policies idn of
          Inl err \<Rightarrow> Inl (Bare err)
        | Inr (policy, _) \<Rightarrow> Inr policy))"

text \<open>One turn of the loop of \<open>filter\<close>: the first stage that refuses a cell is the one recorded.\<close>

definition filter_cell ::
  "(labels \<Rightarrow> bool) \<Rightarrow> bool \<Rightarrow> (string \<times> Entry) list \<Rightarrow> Cluster \<Rightarrow> Candidate" where
  "filter_cell selector wantDark snapshot cl =
    (let c = \<lparr>cand_cell = cl_name cl, cand_admitted = False, cand_stage = '''', cand_reason = '''',
              cand_utilisation = 0\<rparr>;
         reason = RejectsPlacement (state (cl_spec cl)) wantDark
     in if \<not> selector (cl_labels cl) then
          c\<lparr>cand_stage := StagePermission, cand_reason := ''cell is not permitted by this caller's policy''\<rparr>
        else if reason \<noteq> '''' then c\<lparr>cand_stage := StageState, cand_reason := reason\<rparr>
        else (case map_of snapshot (cl_name cl) of
            None \<Rightarrow> c\<lparr>cand_stage := StageCapacity,
              cand_reason := ''no capacity has ever been reported for this cell''\<rparr>
          | Some entry \<Rightarrow>
            if entry_health entry \<noteq> HealthFresh then c\<lparr>cand_stage := StageCapacity,
              cand_reason := ''capacity is stale; the cell is Unknown and excluded''\<rparr>
            else c\<lparr>cand_admitted := True, cand_utilisation := entry_utilisation entry\<rparr>))"

definition filter_cells ::
  "Cluster list \<Rightarrow> (labels \<Rightarrow> bool) \<Rightarrow> bool \<Rightarrow> (string \<times> Entry) list \<Rightarrow> Candidate list" where
  "filter_cells clusters selector wantDark snapshot =
    sort_key cand_cell (map (filter_cell selector wantDark snapshot) clusters)"

definition candidates ::
  "'s Engine \<Rightarrow> 'sel reader \<Rightarrow> 'sel as_selector \<Rightarrow> go_time \<Rightarrow> 'sel PlacementPolicy \<Rightarrow> bool \<Rightarrow>
    place_error + Candidate list" where
  "candidates e rd asSelector now policy wantDark =
    (case asSelector (permittedCells (pol_spec policy)) of
       Inl err \<Rightarrow> Inl (InvalidSelector (pol_name policy) err)
     | Inr selector \<Rightarrow>
       (case readClusters rd (eng_ns e) of
          Inl err \<Rightarrow> Inl (ListClustersError err)
        | Inr clusters \<Rightarrow>
          (let snapshot = (case eng_capacity e of None \<Rightarrow> [] | Some r \<Rightarrow> Snapshot r now)
           in Inr (filter_cells clusters selector wantDark snapshot))))"

definition refusalFor :: "Candidate list \<Rightarrow> placement_sentinel" where
  "refusalFor cands =
    (let permitted = list_ex (\<lambda>c. cand_stage c \<noteq> StagePermission) cands;
         eligible = list_ex (\<lambda>c. cand_stage c = StageCapacity) cands
     in if eligible then ErrCapacityUnknown
        else if permitted then ErrNoEligibleCells
        else ErrNoPermittedCells)"

text \<open>\<open>score\<close> indexes a list it is given; \<^const>\<open>None\<close> is the panic on an empty one.\<close>

definition score ::
  "'s Engine \<Rightarrow> 'sel PlacementPolicy \<Rightarrow> ScoringStrategy \<Rightarrow> Candidate list \<Rightarrow> string option \<times> 's Engine" where
  "score e policy strat admitted =
    (if strat = ScoringRoundRobin then
       (let n = (case map_of (eng_cursors e) (pol_name policy) of None \<Rightarrow> 0 | Some n \<Rightarrow> n);
            e' = e\<lparr>eng_cursors := AList.update (pol_name policy) (n + 1) (eng_cursors e)\<rparr>
        in if admitted = [] then (None, e')
           else (Some (cand_cell (admitted ! (unat n mod length admitted))), e'))
     else
       (case admitted of
          [] \<Rightarrow> (None, e)
        | first # rest \<Rightarrow>
          (Some (cand_cell (foldl (\<lambda>best c.
             if cand_utilisation c < cand_utilisation best then c else best) first rest)), e)))"

text \<open>\<open>keep\<close> returns the cell kept, empty for none, and the decision with what it recorded on it.\<close>

definition keep ::
  "'s Engine \<Rightarrow> 's \<Rightarrow> go_time \<Rightarrow> 'sel PlacementPolicy \<Rightarrow> Request \<Rightarrow> Decision \<Rightarrow> Candidate list \<Rightarrow>
    string \<times> Decision" where
  "keep e s now policy req d admitted =
    (case eng_memory e of None \<Rightarrow> ('''', d) | Some m \<Rightarrow>
     if req_targetDark req \<or> req_workload req = '''' \<or> stickinessOf policy = StickinessNone then ('''', d)
     else
       (let rec = recall m s (pol_name policy) (req_workload req);
            d1 = d\<lparr>d_memo := Some \<lparr>memo_workload = req_workload req, memo_policyUID = pol_uid policy,
                                   memo_record = rec\<rparr>\<rparr>
        in case rec of
             None \<Rightarrow> ('''', d1)
           | Some wp \<Rightarrow>
             if \<not> live m now wp then ('''', d1)
             else (let d2 = d1\<lparr>d_previous := wp_cell (wp_spec wp)\<rparr>
                   in case List.find (\<lambda>c. cand_cell c = d_previous d2) admitted of
                        None \<Rightarrow> ('''', d2)
                      | Some c \<Rightarrow> (cand_cell c, d2))))"

definition Place ::
  "'s Engine \<Rightarrow> 'sel reader \<Rightarrow> 'sel as_selector \<Rightarrow> 's \<Rightarrow> go_time \<Rightarrow> go_time \<Rightarrow>
    Identity option \<Rightarrow> Request \<Rightarrow> (place_error + Decision) \<times> 's Engine" where
  "Place e rd asSelector s tSnap tLive ido req =
    (case ido of None \<Rightarrow> (Inl (Bare ErrNoPolicy), e) | Some idn \<Rightarrow>
     (case policyFor e rd idn of Inl err \<Rightarrow> (Inl err, e) | Inr policy \<Rightarrow>
      if req_targetDark req \<and> \<not> allowDarkTargeting (pol_spec policy)
      then (Inl (Refused \<lparr>ref_err = ErrDarkNotPermitted, ref_policy = pol_name policy,
                          ref_candidates = []\<rparr>), e)
      else
        (case candidates e rd asSelector tSnap policy (req_targetDark req) of
           Inl err \<Rightarrow> (Inl err, e)
         | Inr cands \<Rightarrow>
           (let decision = \<lparr>d_cell = '''', d_policy = pol_name policy, d_strategy = strategyOf policy,
                  d_targetedDark = req_targetDark req, d_tokenTTL = tokenTTL (pol_spec policy),
                  d_candidates = cands, d_previous = '''', d_memo = None\<rparr>;
                admitted = Admitted decision
            in if admitted = [] then
                 (Inl (Refused \<lparr>ref_err = refusalFor (d_candidates decision),
                                ref_policy = pol_name policy,
                                ref_candidates = d_candidates decision\<rparr>), e)
               else
                 (case keep e s tLive policy req decision admitted of
                    (cell, d1) \<Rightarrow>
                      if cell \<noteq> '''' then (Inr (d1\<lparr>d_cell := cell\<rparr>), e)
                      else (case score e policy (d_strategy d1) admitted of
                              (None, e') \<Rightarrow> (Inl Panic, e')
                            | (Some cell', e') \<Rightarrow> (Inr (d1\<lparr>d_cell := cell'\<rparr>), e')))))))"

section \<open>The filter\<close>

lemma stages_distinct [simp]:
  "StagePermission \<noteq> StageState" "StageState \<noteq> StagePermission"
  "StagePermission \<noteq> StageCapacity" "StageCapacity \<noteq> StagePermission"
  "StageState \<noteq> StageCapacity" "StageCapacity \<noteq> StageState"
  "StagePermission \<noteq> ''''" "StageState \<noteq> ''''" "StageCapacity \<noteq> ''''"
  "'''' \<noteq> StagePermission" "'''' \<noteq> StageState" "'''' \<noteq> StageCapacity"
  by (simp_all add: api_defs)

text \<open>A capacity entry a cell may be scored on.\<close>

definition fresh_in :: "(string \<times> Entry) list \<Rightarrow> string \<Rightarrow> bool" where
  "fresh_in snapshot cell \<longleftrightarrow>
    (case map_of snapshot cell of None \<Rightarrow> False | Some entry \<Rightarrow> entry_health entry = HealthFresh)"

lemma filter_cell_name [simp]: "cand_cell (filter_cell sel dark snap cl) = cl_name cl"
  by (simp add: filter_cell_def Let_def split: option.split)

lemma filter_cell_admitted [simp]:
  "cand_admitted (filter_cell sel dark snap cl) \<longleftrightarrow>
    sel (cl_labels cl) \<and> AcceptsPlacement (state (cl_spec cl)) dark \<and> fresh_in snap (cl_name cl)"
  by (auto simp: filter_cell_def Let_def fresh_in_def split: option.split)

lemma filter_cell_stage:
  "cand_stage (filter_cell sel dark snap cl) =
    (if \<not> sel (cl_labels cl) then StagePermission
     else if \<not> AcceptsPlacement (state (cl_spec cl)) dark then StageState
     else if \<not> fresh_in snap (cl_name cl) then StageCapacity
     else '''')"
  by (auto simp: filter_cell_def Let_def fresh_in_def split: option.split)

lemma filter_cell_utilisation:
  "cand_admitted (filter_cell sel dark snap cl) \<Longrightarrow>
    cand_utilisation (filter_cell sel dark snap cl) = entry_utilisation (the (map_of snap (cl_name cl)))"
  by (auto simp: filter_cell_def Let_def split: option.split)

lemma set_filter_cells [simp]:
  "set (filter_cells cls sel dark snap) = filter_cell sel dark snap ` set cls"
  by (simp add: filter_cells_def)

lemma sorted_filter_cells [simp]: "sorted (map cand_cell (filter_cells cls sel dark snap))"
  by (simp add: filter_cells_def)

lemma length_filter_cells [simp]: "length (filter_cells cls sel dark snap) = length cls"
  by (simp add: filter_cells_def)

lemma mset_filter_cells: "mset (map cand_cell (filter_cells cls sel dark snap)) = mset (map cl_name cls)"
  by (simp add: filter_cells_def image_mset.compositionality comp_def)

section \<open>The score\<close>

abbreviation least_of :: "Candidate \<Rightarrow> Candidate list \<Rightarrow> Candidate" where
  "least_of \<equiv> foldl (\<lambda>best c. if cand_utilisation c < cand_utilisation best then c else best)"

lemma least_of_spec:
  assumes "sorted (map cand_cell (b # cs))"
  shows "least_of b cs \<in> set (b # cs) \<and>
    (\<forall>c \<in> set (b # cs). cand_utilisation (least_of b cs) \<le> cand_utilisation c \<and>
      (cand_utilisation c = cand_utilisation (least_of b cs) \<longrightarrow> cand_cell (least_of b cs) \<le> cand_cell c))"
  using assms
proof (induction cs arbitrary: b)
  case (Cons c cs)
  let ?b = "if cand_utilisation c < cand_utilisation b then c else b"
  let ?l = "least_of ?b cs"
  from Cons.prems have s: "sorted (map cand_cell (?b # cs))" and bc: "cand_cell b \<le> cand_cell c" by auto
  note IH = Cons.IH [OF s]
  show ?case
  proof (intro conjI ballI)
    from IH show "least_of b (c # cs) \<in> set (b # c # cs)" by (auto split: if_splits)
    fix x assume x: "x \<in> set (b # c # cs)"
    have "cand_utilisation ?l \<le> cand_utilisation x \<and>
      (cand_utilisation x = cand_utilisation ?l \<longrightarrow> cand_cell ?l \<le> cand_cell x)"
    proof (cases "x \<in> set (?b # cs)")
      case True
      with IH show ?thesis by blast
    next
      case False
      with x bc have x': "cand_utilisation ?b \<le> cand_utilisation x"
        "cand_utilisation x = cand_utilisation ?b \<Longrightarrow> cand_cell ?b \<le> cand_cell x"
        by (auto split: if_splits)
      from IH have l: "cand_utilisation ?l \<le> cand_utilisation ?b"
        "cand_utilisation ?b = cand_utilisation ?l \<Longrightarrow> cand_cell ?l \<le> cand_cell ?b" by simp_all
      show ?thesis
      proof (intro conjI impI)
        show "cand_utilisation ?l \<le> cand_utilisation x" using l(1) x'(1) by (rule order_trans)
        assume "cand_utilisation x = cand_utilisation ?l"
        with l(1) x'(1) have "cand_utilisation x = cand_utilisation ?b" "cand_utilisation ?b = cand_utilisation ?l"
          by simp_all
        with l(2) x'(2) show "cand_cell ?l \<le> cand_cell x" by (blast intro: order_trans)
      qed
    qed
    then show "cand_utilisation (least_of b (c # cs)) \<le> cand_utilisation x"
      and "cand_utilisation x = cand_utilisation (least_of b (c # cs)) \<longrightarrow>
        cand_cell (least_of b (c # cs)) \<le> cand_cell x"
      by simp_all
  qed
qed simp

lemma least_of_mem: "least_of b cs \<in> set (b # cs)"
  by (induction cs arbitrary: b) (auto split: if_splits)

lemma score_mem:
  assumes "admitted \<noteq> []"
  shows "\<exists>c \<in> set admitted. fst (score e policy strat admitted) = Some (cand_cell c)"
proof (cases "strat = ScoringRoundRobin")
  case True
  have "admitted ! (k mod length admitted) \<in> set admitted" for k using assms by simp
  with True assms show ?thesis by (auto simp: score_def Let_def)
next
  case False
  from assms obtain b cs where "admitted = b # cs" by (cases admitted) auto
  with False least_of_mem [of b cs] show ?thesis by (auto simp: score_def)
qed

lemma score_not_None: "admitted \<noteq> [] \<Longrightarrow> fst (score e policy strat admitted) \<noteq> None"
  using score_mem by fastforce

lemma score_frame [simp]:
  "eng_capacity (snd (score e policy strat admitted)) = eng_capacity e"
  "eng_ns (snd (score e policy strat admitted)) = eng_ns e"
  "eng_memory (snd (score e policy strat admitted)) = eng_memory e"
  by (auto simp: score_def Let_def split: list.splits)

section \<open>Stickiness\<close>

lemma keep_fields [simp]:
  "d_policy (snd (keep e s now policy req d admitted)) = d_policy d"
  "d_strategy (snd (keep e s now policy req d admitted)) = d_strategy d"
  "d_targetedDark (snd (keep e s now policy req d admitted)) = d_targetedDark d"
  "d_tokenTTL (snd (keep e s now policy req d admitted)) = d_tokenTTL d"
  "d_candidates (snd (keep e s now policy req d admitted)) = d_candidates d"
  by (auto simp: keep_def Let_def split: option.splits)

lemma keep_kept:
  assumes "fst (keep e s now policy req d admitted) \<noteq> ''''"
  obtains c where "c \<in> set admitted" and "fst (keep e s now policy req d admitted) = cand_cell c"
    and "d_previous (snd (keep e s now policy req d admitted)) = cand_cell c"
proof -
  from assms obtain m wp c where k: "eng_memory e = Some m"
    "\<not> (req_targetDark req \<or> req_workload req = '''' \<or> stickinessOf policy = StickinessNone)"
    "recall m s (pol_name policy) (req_workload req) = Some wp" "live m now wp"
    and f: "List.find (\<lambda>c. cand_cell c = wp_cell (wp_spec wp)) admitted = Some c"
    by (auto simp: keep_def Let_def split: option.splits if_splits)
  from find_SomeD [OF f] k f show thesis
    by (intro that [of c]) (simp_all add: keep_def Let_def)
qed

text \<open>What stickiness makes of a request: the cell a live record names, when the request may be kept at all.\<close>

definition sticky :: "'sel PlacementPolicy \<Rightarrow> Request \<Rightarrow> bool" where
  "sticky policy req \<longleftrightarrow> \<not> (req_targetDark req \<or> req_workload req = '''' \<or> stickinessOf policy = StickinessNone)"

definition remembered_cell :: "'s Memory \<Rightarrow> 's \<Rightarrow> go_time \<Rightarrow> 'sel PlacementPolicy \<Rightarrow> Request \<Rightarrow> string" where
  "remembered_cell m s now policy req =
    (if \<not> sticky policy req then ''''
     else (case recall m s (pol_name policy) (req_workload req) of
       None \<Rightarrow> '''' | Some wp \<Rightarrow> if live m now wp then wp_cell (wp_spec wp) else ''''))"

lemma find_cell:
  "(case List.find (\<lambda>c. cand_cell c = p) admitted of None \<Rightarrow> '''' | Some c \<Rightarrow> cand_cell c) =
    (if p \<in> cand_cell ` set admitted then p else '''')"
  by (induction admitted) auto

lemma keep_eq:
  assumes "eng_memory e = Some m" and "d_previous d = ''''" and "d_memo d = None"
  shows "fst (keep e s now policy req d admitted) =
      (let previous = remembered_cell m s now policy req in if previous \<in> cand_cell ` set admitted then previous else '''')"
    and "d_previous (snd (keep e s now policy req d admitted)) = remembered_cell m s now policy req"
    and "d_memo (snd (keep e s now policy req d admitted)) =
      (if sticky policy req then Some \<lparr>memo_workload = req_workload req, memo_policyUID = pol_uid policy,
         memo_record = recall m s (pol_name policy) (req_workload req)\<rparr> else None)"
proof -
  let ?k = "keep e s now policy req d admitted" and ?p = "remembered_cell m s now policy req"
  have "fst ?k = (let previous = ?p in if previous \<in> cand_cell ` set admitted then previous else '''') \<and> d_previous (snd ?k) = ?p \<and>
    d_memo (snd ?k) = (if sticky policy req then Some \<lparr>memo_workload = req_workload req, memo_policyUID = pol_uid policy,
         memo_record = recall m s (pol_name policy) (req_workload req)\<rparr> else None)"
  proof (cases "sticky policy req")
    case False
    then have "?k = ('''', d)" "?p = ''''" by (simp_all add: keep_def assms(1) sticky_def remembered_cell_def)
    with False assms show ?thesis by simp
  next
    case True
    note st = True [unfolded sticky_def]
    show ?thesis
    proof (cases "recall m s (pol_name policy) (req_workload req)")
      case None
      with st True assms show ?thesis by (simp add: keep_def remembered_cell_def)
    next
      case (Some wp)
      show ?thesis
      proof (cases "live m now wp")
        case False
        with Some st True assms show ?thesis by (simp add: keep_def remembered_cell_def)
      next
        case l: True
        from Some st True l have p: "?p = wp_cell (wp_spec wp)" by (simp add: remembered_cell_def)
        show ?thesis unfolding Let_def p find_cell [of "wp_cell (wp_spec wp)" admitted, symmetric]
          using Some st True l by (simp add: keep_def assms(1) split: option.split)
      qed
    qed
  qed
  then show "fst ?k = (let previous = ?p in if previous \<in> cand_cell ` set admitted then previous else '''')"
    "d_previous (snd ?k) = ?p" "d_memo (snd ?k) = (if sticky policy req then Some \<lparr>memo_workload = req_workload req,
      memo_policyUID = pol_uid policy, memo_record = recall m s (pol_name policy) (req_workload req)\<rparr> else None)" by blast+
qed

section \<open>A decision in full\<close>

definition snapshot_of :: "'s Engine \<Rightarrow> go_time \<Rightarrow> (string \<times> Entry) list" where
  "snapshot_of e now = (case eng_capacity e of None \<Rightarrow> [] | Some r \<Rightarrow> Snapshot r now)"

lemma fresh_in_snapshot_of:
  "fresh_in (snapshot_of e now) cell \<longleftrightarrow>
    (\<exists>r entry. eng_capacity e = Some r \<and> Lookup r now cell = Some entry \<and> entry_health entry = HealthFresh)"
  by (auto simp: fresh_in_def snapshot_of_def map_of_Snapshot split: option.splits)

lemma candidates_Inr_iff:
  "candidates e rd asSel now policy dark = Inr cands \<longleftrightarrow>
    (\<exists>sel cls. asSel (permittedCells (pol_spec policy)) = Inr sel \<and> readClusters rd (eng_ns e) = Inr cls \<and>
      cands = filter_cells cls sel dark (snapshot_of e now))"
  by (auto simp: candidates_def snapshot_of_def Let_def split: sum.splits)

lemma policyFor_Inr_iff:
  "policyFor e rd idn = Inr policy \<longleftrightarrow>
    (\<exists>ps amb. readPolicies rd (eng_ns e) = Inr ps \<and> selectPolicy ps idn = Inr (policy, amb))"
  by (auto simp: policyFor_def split: sum.splits)

text \<open>The decision \<open>Place\<close> starts from, and what it does once the filter has admitted a cell.\<close>

definition open_decision :: "'sel PlacementPolicy \<Rightarrow> Request \<Rightarrow> Candidate list \<Rightarrow> Decision" where
  "open_decision policy req cands =
    \<lparr>d_cell = '''', d_policy = pol_name policy, d_strategy = strategyOf policy,
     d_targetedDark = req_targetDark req, d_tokenTTL = tokenTTL (pol_spec policy),
     d_candidates = cands, d_previous = '''', d_memo = None\<rparr>"

lemma open_decision_simps [simp]:
  "d_policy (open_decision policy req cands) = pol_name policy"
  "d_strategy (open_decision policy req cands) = strategyOf policy"
  "d_targetedDark (open_decision policy req cands) = req_targetDark req"
  "d_tokenTTL (open_decision policy req cands) = tokenTTL (pol_spec policy)"
  "d_candidates (open_decision policy req cands) = cands"
  "d_previous (open_decision policy req cands) = ''''"
  "d_memo (open_decision policy req cands) = None"
  "Admitted (open_decision policy req cands) = filter cand_admitted cands"
  by (simp_all add: open_decision_def Admitted_def)

lemma Place_admitted:
  assumes "policyFor e rd idn = Inr policy"
    and "req_targetDark req \<longrightarrow> allowDarkTargeting (pol_spec policy)"
    and "candidates e rd asSel tSnap policy (req_targetDark req) = Inr cands"
    and "filter cand_admitted cands \<noteq> []"
  shows "Place e rd asSel s tSnap tLive (Some idn) req =
    (let k = keep e s tLive policy req (open_decision policy req cands) (filter cand_admitted cands);
         sc = score e policy (strategyOf policy) (filter cand_admitted cands)
     in if fst k \<noteq> '''' then (Inr ((snd k)\<lparr>d_cell := fst k\<rparr>), e)
        else (Inr ((snd k)\<lparr>d_cell := the (fst sc)\<rparr>), snd sc))"
proof -
  let ?k = "keep e s tLive policy req (open_decision policy req cands) (filter cand_admitted cands)"
  obtain cell e1 where sc: "score e policy (strategyOf policy) (filter cand_admitted cands) = (Some cell, e1)"
    using score_not_None [OF assms(4)] by (metis not_None_eq prod.collapse)
  have st: "d_strategy (snd ?k) = strategyOf policy" by simp
  show ?thesis
    using assms(1-4) sc st
    by (simp add: Place_def Let_def open_decision_def [symmetric] case_prod_beta)
qed

text \<open>Everything a successful \<open>Place\<close> says, and where each part comes from.\<close>

lemma Place_Inr:
  assumes "Place e rd asSel s tSnap tLive ido req = (Inr d, e')"
  obtains idn ps policy amb sel cls where
    "ido = Some idn" and "readPolicies rd (eng_ns e) = Inr ps"
    and "selectPolicy ps idn = Inr (policy, amb)"
    and "req_targetDark req \<longrightarrow> allowDarkTargeting (pol_spec policy)"
    and "asSel (permittedCells (pol_spec policy)) = Inr sel"
    and "readClusters rd (eng_ns e) = Inr cls"
    and "d_candidates d = filter_cells cls sel (req_targetDark req) (snapshot_of e tSnap)"
    and "d_policy d = pol_name policy" and "d_strategy d = strategyOf policy"
    and "d_targetedDark d = req_targetDark req" and "d_tokenTTL d = tokenTTL (pol_spec policy)"
    and "\<exists>c \<in> set (Admitted d). d_cell d = cand_cell c"
proof -
  from assms obtain idn where ido: "ido = Some idn"
    by (cases ido) (auto simp: Place_def)
  from assms ido obtain policy where pol: "policyFor e rd idn = Inr policy"
    by (auto simp: Place_def split: sum.splits)
  then obtain ps amb where ps: "readPolicies rd (eng_ns e) = Inr ps" "selectPolicy ps idn = Inr (policy, amb)"
    by (auto simp: policyFor_Inr_iff)
  from assms ido pol have dark: "req_targetDark req \<longrightarrow> allowDarkTargeting (pol_spec policy)"
    by (auto simp: Place_def split: if_splits)
  from assms ido pol dark obtain cands where
    cands: "candidates e rd asSel tSnap policy (req_targetDark req) = Inr cands"
    by (auto simp: Place_def split: sum.splits if_splits)
  then obtain sel cls where sc: "asSel (permittedCells (pol_spec policy)) = Inr sel"
    "readClusters rd (eng_ns e) = Inr cls"
    "cands = filter_cells cls sel (req_targetDark req) (snapshot_of e tSnap)"
    by (auto simp: candidates_Inr_iff)
  let ?k = "keep e s tLive policy req (open_decision policy req cands) (filter cand_admitted cands)"
  from assms ido pol dark cands have adm: "filter cand_admitted cands \<noteq> []"
    by (auto simp: Place_def Let_def Admitted_def split: if_splits)
  have "\<exists>c \<in> set (filter cand_admitted cands). d = (snd ?k)\<lparr>d_cell := cand_cell c\<rparr>"
  proof (cases "fst ?k = ''''")
    case False
    with assms ido have "d = (snd ?k)\<lparr>d_cell := fst ?k\<rparr>"
      by (auto simp: Place_admitted [OF pol dark cands adm] Let_def)
    with keep_kept [OF False] show ?thesis by metis
  next
    case True
    with assms ido have "d = (snd ?k)\<lparr>d_cell :=
        the (fst (score e policy (strategyOf policy) (filter cand_admitted cands)))\<rparr>"
      by (auto simp: Place_admitted [OF pol dark cands adm] Let_def)
    with score_mem [OF adm, of e policy "strategyOf policy"] show ?thesis by (metis option.sel)
  qed
  then have "\<exists>c \<in> set (Admitted d). d_cell d = cand_cell c" and "d_candidates d = cands"
    and "d_policy d = pol_name policy" and "d_strategy d = strategyOf policy"
    and "d_targetedDark d = req_targetDark req" and "d_tokenTTL d = tokenTTL (pol_spec policy)"
    by (auto simp: Admitted_def)
  with that ido ps dark sc show thesis by metis
qed

text \<open>The same with the last step shown: the cell is the one kept, or the one the score returned.\<close>

lemma Place_Inr_choice:
  assumes "Place e rd asSel s tSnap tLive (Some idn) req = (Inr d, e')"
  obtains policy sel cls cell where
    "policyFor e rd idn = Inr policy"
    and "d_candidates d = filter_cells cls sel (req_targetDark req) (snapshot_of e tSnap)"
    and "Admitted d \<noteq> []" and "d_strategy d = strategyOf policy"
    and "d = (snd (keep e s tLive policy req (open_decision policy req (d_candidates d)) (Admitted d)))
      \<lparr>d_cell := cell\<rparr>"
    and "(let k = fst (keep e s tLive policy req (open_decision policy req (d_candidates d)) (Admitted d));
              sc = score e policy (strategyOf policy) (Admitted d)
          in if k \<noteq> '''' then cell = k \<and> e' = e else Some cell = fst sc \<and> e' = snd sc)"
proof -
  obtain idn' ps policy amb sel cls where
    p: "Some idn = Some idn'" "readPolicies rd (eng_ns e) = Inr ps" "selectPolicy ps idn' = Inr (policy, amb)"
      "req_targetDark req \<longrightarrow> allowDarkTargeting (pol_spec policy)"
      "asSel (permittedCells (pol_spec policy)) = Inr sel" "readClusters rd (eng_ns e) = Inr cls"
    and c: "d_candidates d = filter_cells cls sel (req_targetDark req) (snapshot_of e tSnap)"
    and st: "d_strategy d = strategyOf policy"
    and adm: "\<exists>c \<in> set (Admitted d). d_cell d = cand_cell c"
    by (rule Place_Inr [OF assms])
  define cands where "cands = d_candidates d"
  have A: "Admitted d = filter cand_admitted cands" by (simp add: Admitted_def cands_def)
  from p have pol: "policyFor e rd idn = Inr policy" by (auto simp: policyFor_Inr_iff)
  from p c have cand: "candidates e rd asSel tSnap policy (req_targetDark req) = Inr cands"
    by (auto simp: candidates_Inr_iff cands_def)
  from adm have ne: "filter cand_admitted cands \<noteq> []" by (auto simp: A filter_empty_conv)
  let ?k = "keep e s tLive policy req (open_decision policy req cands) (filter cand_admitted cands)"
  let ?sc = "score e policy (strategyOf policy) (filter cand_admitted cands)"
  have sc: "Some (the (fst ?sc)) = fst ?sc" using score_not_None [OF ne, of e policy "strategyOf policy"] by auto
  note place = assms [unfolded Place_admitted [OF pol p(4) cand ne] Let_def]
  let ?cell = "if fst ?k \<noteq> '''' then fst ?k else the (fst ?sc)"
  have d: "d = (snd ?k)\<lparr>d_cell := ?cell\<rparr>" using place by (auto split: if_splits)
  have ch: "if fst ?k \<noteq> '''' then ?cell = fst ?k \<and> e' = e else Some ?cell = fst ?sc \<and> e' = snd ?sc"
    using place sc by (auto split: if_splits)
  show thesis
  proof (rule that [OF pol c _ st])
    show "Admitted d \<noteq> []" using ne by (simp add: A)
    show "d = (snd (keep e s tLive policy req (open_decision policy req (d_candidates d)) (Admitted d)))
        \<lparr>d_cell := ?cell\<rparr>" unfolding A cands_def [symmetric] by (rule d)
    show "let k = fst (keep e s tLive policy req (open_decision policy req (d_candidates d)) (Admitted d));
            sc = score e policy (strategyOf policy) (Admitted d)
          in if k \<noteq> '''' then ?cell = k \<and> e' = e else Some ?cell = fst sc \<and> e' = snd sc"
      unfolding A cands_def [symmetric] Let_def by (rule ch)
  qed
qed

lemma filter_admitted_Nil_iff:
  "filter cand_admitted (filter_cells cls sel dark snap) = [] \<longleftrightarrow>
    \<not> (\<exists>cl \<in> set cls. sel (cl_labels cl) \<and> AcceptsPlacement (state (cl_spec cl)) dark \<and> fresh_in snap (cl_name cl))"
  by (simp add: filter_empty_conv del: AcceptsPlacement_iff)

lemma list_ex_filter_cells:
  "list_ex P (filter_cells cls sel dark snap) \<longleftrightarrow> (\<exists>cl \<in> set cls. P (filter_cell sel dark snap cl))"
  by (simp add: list_ex_iff)

lemma stage_capacity_iff:
  "cand_stage (filter_cell sel dark snap cl) = StageCapacity \<longleftrightarrow>
    sel (cl_labels cl) \<and> AcceptsPlacement (state (cl_spec cl)) dark \<and> \<not> fresh_in snap (cl_name cl)"
  by (simp add: filter_cell_stage)

lemma stage_permission_iff:
  "cand_stage (filter_cell sel dark snap cl) = StagePermission \<longleftrightarrow> \<not> sel (cl_labels cl)"
  by (simp add: filter_cell_stage)

lemma refusalFor_filter_cells:
  assumes "filter cand_admitted (filter_cells cls sel dark snap) = []"
  shows "refusalFor (filter_cells cls sel dark snap) =
    (if \<exists>cl \<in> set cls. sel (cl_labels cl) \<and> AcceptsPlacement (state (cl_spec cl)) dark then ErrCapacityUnknown
     else if \<exists>cl \<in> set cls. sel (cl_labels cl) then ErrNoEligibleCells
     else ErrNoPermittedCells)"
proof -
  have cap: "list_ex (\<lambda>c. cand_stage c = StageCapacity) (filter_cells cls sel dark snap) \<longleftrightarrow>
      (\<exists>cl \<in> set cls. sel (cl_labels cl) \<and> AcceptsPlacement (state (cl_spec cl)) dark)"
    using assms unfolding filter_admitted_Nil_iff list_ex_filter_cells stage_capacity_iff by blast
  have perm: "list_ex (\<lambda>c. cand_stage c \<noteq> StagePermission) (filter_cells cls sel dark snap) \<longleftrightarrow>
      (\<exists>cl \<in> set cls. sel (cl_labels cl))"
    unfolding list_ex_filter_cells stage_permission_iff by blast
  show ?thesis unfolding refusalFor_def cap perm by (simp add: Let_def)
qed

lemma Place_permitted:
  assumes "Place e rd asSel s tSnap tLive ido req = (Inr d, e')"
  shows "\<exists>idn ps policy amb sel cls cl.
    ido = Some idn \<and> readPolicies rd (eng_ns e) = Inr ps \<and> selectPolicy ps idn = Inr (policy, amb) \<and>
    d_policy d = pol_name policy \<and> d_tokenTTL d = tokenTTL (pol_spec policy) \<and>
    asSel (permittedCells (pol_spec policy)) = Inr sel \<and>
    readClusters rd (eng_ns e) = Inr cls \<and> cl \<in> set cls \<and> cl_name cl = d_cell d \<and>
    sel (cl_labels cl) \<and>
    Normalize (state (cl_spec cl)) = (if req_targetDark req then ClusterStateDark else ClusterStateLive) \<and>
    (req_targetDark req \<longrightarrow> allowDarkTargeting (pol_spec policy)) \<and>
    (\<exists>r entry. eng_capacity e = Some r \<and> Lookup r tSnap (d_cell d) = Some entry \<and>
      entry_health entry = HealthFresh)"
proof -
  obtain idn ps policy amb sel cls where
    p: "ido = Some idn" "readPolicies rd (eng_ns e) = Inr ps" "selectPolicy ps idn = Inr (policy, amb)"
      "req_targetDark req \<longrightarrow> allowDarkTargeting (pol_spec policy)"
      "asSel (permittedCells (pol_spec policy)) = Inr sel" "readClusters rd (eng_ns e) = Inr cls"
    and c: "d_candidates d = filter_cells cls sel (req_targetDark req) (snapshot_of e tSnap)"
    and f: "d_policy d = pol_name policy" "d_tokenTTL d = tokenTTL (pol_spec policy)"
    and adm: "\<exists>c \<in> set (Admitted d). d_cell d = cand_cell c"
    by (rule Place_Inr [OF assms])
  from adm obtain cl where cl: "cl \<in> set cls" "cl_name cl = d_cell d" "sel (cl_labels cl)"
    "Normalize (state (cl_spec cl)) = (if req_targetDark req then ClusterStateDark else ClusterStateLive)"
    "fresh_in (snapshot_of e tSnap) (d_cell d)"
    unfolding Admitted_def c by auto
  from cl(5) have "\<exists>r entry. eng_capacity e = Some r \<and> Lookup r tSnap (d_cell d) = Some entry \<and>
      entry_health entry = HealthFresh" by (simp add: fresh_in_snapshot_of)
  with p f cl(1-4) show ?thesis by blast
qed

section \<open>Properties\<close>

text \<open>
  C6. Permission and eligibility come before the score. Whatever the strategy, the cursors and the memory
  say, a cell the engine returns belongs to a registered cluster that the selector of the caller's
  own policy matches, that is LIVE for an ordinary request and DARK for a dark-targeting one,
  and that has fresh capacity at the snapshot; a dark cell is returned only under a policy that allows it.
\<close>

theorem permission_before_score:
  assumes "Place e rd asSel s tSnap tLive ido req = (Inr d, e')"
  shows "\<exists>idn ps policy amb sel cls cl.
    ido = Some idn \<and> readPolicies rd (eng_ns e) = Inr ps \<and> selectPolicy ps idn = Inr (policy, amb) \<and>
    d_policy d = pol_name policy \<and> d_tokenTTL d = tokenTTL (pol_spec policy) \<and>
    asSel (permittedCells (pol_spec policy)) = Inr sel \<and>
    readClusters rd (eng_ns e) = Inr cls \<and> cl \<in> set cls \<and> cl_name cl = d_cell d \<and>
    sel (cl_labels cl) \<and>
    Normalize (state (cl_spec cl)) = (if req_targetDark req then ClusterStateDark else ClusterStateLive) \<and>
    (req_targetDark req \<longrightarrow> allowDarkTargeting (pol_spec policy)) \<and>
    (\<exists>r entry. eng_capacity e = Some r \<and> Lookup r tSnap (d_cell d) = Some entry \<and>
      entry_health entry = HealthFresh)"
  using assms by (rule Place_permitted)

text \<open>
  C7. A request fails only for the reason it is told. Once a policy governs the caller, dark
  targeting is allowed to it and the fleet can be listed, the engine places exactly when some
  cell is permitted, in the requested state and fresh; otherwise it refuses with the first stage
  that emptied the fleet, and with the full table of cells. It never panics.
\<close>

theorem place_refusal_is_classified:
  assumes "policyFor e rd idn = Inr policy"
    and "req_targetDark req \<longrightarrow> allowDarkTargeting (pol_spec policy)"
    and "asSel (permittedCells (pol_spec policy)) = Inr sel"
    and "readClusters rd (eng_ns e) = Inr cls"
  shows "if \<exists>cl \<in> set cls. sel (cl_labels cl) \<and> AcceptsPlacement (state (cl_spec cl)) (req_targetDark req) \<and>
        fresh_in (snapshot_of e tSnap) (cl_name cl)
      then \<exists>d e'. Place e rd asSel s tSnap tLive (Some idn) req = (Inr d, e')
      else Place e rd asSel s tSnap tLive (Some idn) req =
        (Inl (Refused \<lparr>ref_err =
            (if \<exists>cl \<in> set cls. sel (cl_labels cl) \<and> AcceptsPlacement (state (cl_spec cl)) (req_targetDark req)
             then ErrCapacityUnknown
             else if \<exists>cl \<in> set cls. sel (cl_labels cl) then ErrNoEligibleCells
             else ErrNoPermittedCells),
          ref_policy = pol_name policy,
          ref_candidates = filter_cells cls sel (req_targetDark req) (snapshot_of e tSnap)\<rparr>), e)"
proof -
  let ?cands = "filter_cells cls sel (req_targetDark req) (snapshot_of e tSnap)"
  have cands: "candidates e rd asSel tSnap policy (req_targetDark req) = Inr ?cands"
    using assms(3,4) by (auto simp: candidates_Inr_iff)
  show ?thesis
  proof (cases "filter cand_admitted ?cands = []")
    case True
    have "Place e rd asSel s tSnap tLive (Some idn) req =
        (Inl (Refused \<lparr>ref_err = refusalFor ?cands, ref_policy = pol_name policy, ref_candidates = ?cands\<rparr>), e)"
      using assms(1,2) cands True by (auto simp: Place_def Admitted_def)
    with True show ?thesis
      unfolding refusalFor_filter_cells [OF True] filter_admitted_Nil_iff by (simp only: if_False simp_thms)
  next
    case False
    then have "\<exists>cl \<in> set cls. sel (cl_labels cl) \<and> AcceptsPlacement (state (cl_spec cl)) (req_targetDark req) \<and>
        fresh_in (snapshot_of e tSnap) (cl_name cl)"
      unfolding filter_admitted_Nil_iff by blast
    moreover have "\<exists>d e'. Place e rd asSel s tSnap tLive (Some idn) req = (Inr d, e')"
      unfolding Place_admitted [OF assms(1,2) cands False] by (auto simp: Let_def)
    ultimately show ?thesis by simp
  qed
qed

text \<open>
  C8. The least-loaded strategy is least loaded: a decision that was not kept by stickiness and not made
  by round robin goes to the admitted cell with the smallest utilisation, and among equally
  loaded ones to the smallest name.
\<close>

theorem least_loaded_is_minimal:
  assumes "Place e rd asSel s tSnap tLive ido req = (Inr d, e')"
    and "d_strategy d \<noteq> ScoringRoundRobin" and "\<not> Kept d"
  shows "\<exists>b \<in> set (Admitted d). cand_cell b = d_cell d \<and>
    (\<forall>c \<in> set (Admitted d). cand_utilisation b \<le> cand_utilisation c \<and>
      (cand_utilisation c = cand_utilisation b \<longrightarrow> cand_cell b \<le> cand_cell c))"
proof -
  from assms(1) obtain idn where "ido = Some idn" by (cases ido) (auto simp: Place_def)
  with assms(1) have place: "Place e rd asSel s tSnap tLive (Some idn) req = (Inr d, e')" by simp
  obtain policy sel cls cell where "policyFor e rd idn = Inr policy"
    and c: "d_candidates d = filter_cells cls sel (req_targetDark req) (snapshot_of e tSnap)"
    and ne: "Admitted d \<noteq> []" and st: "d_strategy d = strategyOf policy"
    and d: "d = (snd (keep e s tLive policy req (open_decision policy req (d_candidates d)) (Admitted d)))
      \<lparr>d_cell := cell\<rparr>"
    and ch: "(let k = fst (keep e s tLive policy req (open_decision policy req (d_candidates d)) (Admitted d));
              sc = score e policy (strategyOf policy) (Admitted d)
          in if k \<noteq> '''' then cell = k \<and> e' = e else Some cell = fst sc \<and> e' = snd sc)"
    by (rule Place_Inr_choice [OF place])
  let ?k = "keep e s tLive policy req (open_decision policy req (d_candidates d)) (Admitted d)"
  have cell: "d_cell d = cell" using arg_cong [OF d, of d_cell] by simp
  have prev: "d_previous d = d_previous (snd ?k)" using arg_cong [OF d, of d_previous] by simp
  have "fst ?k = ''''"
  proof (rule ccontr)
    assume k: "fst ?k \<noteq> ''''"
    obtain b where "b \<in> set (Admitted d)" "fst ?k = cand_cell b" "d_previous (snd ?k) = cand_cell b" by (rule keep_kept [OF k])
    with k ch cell prev have "Kept d" by (simp add: Kept_def Let_def)
    with assms(3) show False by simp
  qed
  with ch cell have sc: "Some (d_cell d) = fst (score e policy (strategyOf policy) (Admitted d))"
    by (simp add: Let_def)
  from ne obtain b cs where bcs: "Admitted d = b # cs" by (cases "Admitted d") auto
  from sc assms(2) st have cell: "d_cell d = cand_cell (least_of b cs)" by (simp add: score_def bcs)
  have "sorted (map cand_cell (Admitted d))"
    unfolding Admitted_def c by (rule sorted_filter) simp
  then have "sorted (map cand_cell (b # cs))" by (simp add: bcs)
  from least_of_spec [OF this] cell show ?thesis
    unfolding bcs by (intro bexI [of _ "least_of b cs"]) auto
qed

text \<open>The cells round robin gives a policy over \<open>k\<close> placements with the same cells admitted.\<close>

fun score_run :: "'s Engine \<Rightarrow> 'sel PlacementPolicy \<Rightarrow> Candidate list \<Rightarrow> nat \<Rightarrow> string option list" where
  "score_run e policy admitted 0 = []"
| "score_run e policy admitted (Suc k) =
    (case score e policy ScoringRoundRobin admitted of
       (cell, e') \<Rightarrow> cell # score_run e' policy admitted k)"

definition cursor :: "'s Engine \<Rightarrow> 'sel PlacementPolicy \<Rightarrow> 64 word" where
  "cursor e policy = (case map_of (eng_cursors e) (pol_name policy) of None \<Rightarrow> 0 | Some n \<Rightarrow> n)"

lemma score_round_robin:
  assumes "admitted \<noteq> []"
  shows "fst (score e policy ScoringRoundRobin admitted) =
      Some (cand_cell (admitted ! (unat (cursor e policy) mod length admitted)))"
    and "cursor (snd (score e policy ScoringRoundRobin admitted)) policy = cursor e policy + 1"
  using assms by (simp_all add: score_def Let_def cursor_def)

lemma score_run_nth:
  assumes "admitted \<noteq> []" and "unat (cursor e policy) + k \<le> 2 ^ 64"
  shows "score_run e policy admitted k =
    map (\<lambda>i. Some (cand_cell (admitted ! ((unat (cursor e policy) + i) mod length admitted)))) [0..<k]"
  using assms(2)
proof (induction k arbitrary: e)
  case (Suc k)
  let ?e = "snd (score e policy ScoringRoundRobin admitted)"
  let ?n = "unat (cursor e policy)"
  note rr = score_round_robin [OF assms(1), of e policy]
  have "k = 0 \<or> unat (cursor ?e policy) = Suc ?n"
  proof (cases "k = 0")
    case False
    with Suc.prems have "Suc ?n < 2 ^ 64" by simp
    then show ?thesis
      unfolding rr(2) by (simp add: unat_word_ariths)
  qed simp
  then have "score_run ?e policy admitted k =
      map (\<lambda>i. Some (cand_cell (admitted ! ((?n + Suc i) mod length admitted)))) [0..<k]"
    using Suc.IH [of ?e] Suc.prems by (elim disjE) simp_all
  moreover have "[0..<Suc k] = 0 # map Suc [0..<k]" by (simp add: map_Suc_upt upt_conv_Cons)
  ultimately show ?case
    using rr(1) by (simp add: case_prod_beta comp_def del: upt_Suc)
qed simp

text \<open>
  C9. Round robin is fair: over any run of consecutive placements of a policy whose cells stay
  admitted, as long as its 64-bit cursor does not wrap, every window of as many placements as
  there are admitted cells uses each cell exactly once, and placements of a policy never move another one's
  cursor.
\<close>

theorem round_robin_is_fair:
  assumes "admitted \<noteq> []" and "unat (cursor e policy) + k \<le> 2 ^ 64"
    and "i + length admitted \<le> k"
  shows "mset (take (length admitted) (drop i (score_run e policy admitted k))) =
      mset (map (\<lambda>c. Some (cand_cell c)) admitted) \<and>
    (pol_name other \<noteq> pol_name policy \<longrightarrow>
      cursor (snd (score e policy strat admitted)) other = cursor e other)"
proof
  let ?n = "length admitted" and ?u = "unat (cursor e policy) + i"
  let ?f = "\<lambda>j. Some (cand_cell (admitted ! (j mod length admitted)))"
  have "take ?n (drop i (score_run e policy admitted k)) = map ?f [?u..<?u + ?n]"
    using assms(3) by (intro nth_equalityI)
      (simp_all add: score_run_nth [OF assms(1,2)] ac_simps)
  moreover have "mset (map ?f [u..<u + ?n]) = mset (map (\<lambda>c. Some (cand_cell c)) admitted)" for u
  proof (induction u)
    case 0
    have "map ?f [0..<0 + ?n] = map (\<lambda>c. Some (cand_cell c)) admitted"
      by (intro nth_equalityI) simp_all
    then show ?case by simp
  next
    case (Suc u)
    have "?f (u + ?n) = ?f u" by simp
    moreover have "[u..<u + ?n] = u # [Suc u..<u + ?n]" using assms(1) by (simp add: upt_conv_Cons)
    moreover have "[Suc u..<Suc u + ?n] = [Suc u..<u + ?n] @ [u + ?n]" using assms(1)
      by (simp add: Suc_leI)
    ultimately show ?case using Suc by simp
  qed
  ultimately show "mset (take ?n (drop i (score_run e policy admitted k))) =
      mset (map (\<lambda>c. Some (cand_cell c)) admitted)" by simp
  show "pol_name other \<noteq> pol_name policy \<longrightarrow>
      cursor (snd (score e policy strat admitted)) other = cursor e other"
    by (auto simp: score_def Let_def cursor_def split: list.splits)
qed

text \<open>
  C10. Stickiness is a preference, and never reaches past the filter. The cell remembered is the one a live record of this workload under this
  policy names, unless the request targets dark cells, has no workload or the policy's stickiness is None; those requests
  neither read nor record anything. The workload stays in the remembered cell exactly when the filter admits that
  cell, and then neither the score nor a cursor is touched; otherwise the cell is the one the policy's strategy scores among the
  admitted ones, whatever was remembered.
\<close>

theorem sticky_while_admitted:
  assumes "Place e rd asSel s tSnap tLive (Some idn) req = (Inr d, e')"
    and "policyFor e rd idn = Inr policy"
    and "eng_memory e = Some m"
  shows "if req_targetDark req \<or> req_workload req = '''' \<or> stickinessOf policy = StickinessNone
    then d_memo d = None \<and> d_previous d = '''' \<and>
      (Some (d_cell d), e') = score e policy (strategyOf policy) (Admitted d)
    else d_memo d = Some \<lparr>memo_workload = req_workload req, memo_policyUID = pol_uid policy,
        memo_record = recall m s (pol_name policy) (req_workload req)\<rparr> \<and>
      d_previous d = (case recall m s (pol_name policy) (req_workload req) of
        None \<Rightarrow> '''' | Some wp \<Rightarrow> if live m tLive wp then wp_cell (wp_spec wp) else '''') \<and>
      (if d_previous d \<noteq> '''' \<and> d_previous d \<in> cand_cell ` set (Admitted d)
       then d_cell d = d_previous d \<and> e' = e
       else d_cell d \<in> cand_cell ` set (Admitted d) \<and> (Some (d_cell d), e') = score e policy (strategyOf policy) (Admitted d))"
proof -
  obtain policy' sel cls cell where p: "policyFor e rd idn = Inr policy'"
    and "d_candidates d = filter_cells cls sel (req_targetDark req) (snapshot_of e tSnap)"
    and ne: "Admitted d \<noteq> []" and "d_strategy d = strategyOf policy'"
    and d: "d = (snd (keep e s tLive policy' req (open_decision policy' req (d_candidates d)) (Admitted d)))
      \<lparr>d_cell := cell\<rparr>"
    and ch: "(let k = fst (keep e s tLive policy' req (open_decision policy' req (d_candidates d)) (Admitted d));
              sc = score e policy' (strategyOf policy') (Admitted d)
          in if k \<noteq> '''' then cell = k \<and> e' = e else Some cell = fst sc \<and> e' = snd sc)"
    by (rule Place_Inr_choice [OF assms(1)])
  from p assms(2) have pp: "policy' = policy" by simp
  have o: "d_previous (open_decision policy req (d_candidates d)) = ''''" "d_memo (open_decision policy req (d_candidates d)) = None"
    by (simp_all add: open_decision_def)
  note k = keep_eq [OF assms(3) o, of s tLive policy req "Admitted d"]
  note d = d [unfolded pp] and ch = ch [unfolded pp k(1)]
  have cell: "d_cell d = cell" using arg_cong [OF d, of d_cell] by simp
  have prev: "d_previous d = remembered_cell m s tLive policy req" using arg_cong [OF d, of d_previous] by (simp add: k(2))
  have memo: "d_memo d = (if sticky policy req then Some \<lparr>memo_workload = req_workload req, memo_policyUID = pol_uid policy,
      memo_record = recall m s (pol_name policy) (req_workload req)\<rparr> else None)" using arg_cong [OF d, of d_memo] by (simp add: k(3))
  have "if d_previous d \<noteq> '''' \<and> d_previous d \<in> cand_cell ` set (Admitted d) then d_cell d = d_previous d \<and> e' = e
      else (Some (d_cell d), e') = score e policy (strategyOf policy) (Admitted d)"
    using ch unfolding cell prev Let_def by (simp add: prod_eq_iff split: if_splits)
  moreover have "fst (score e policy (strategyOf policy) (Admitted d)) = Some (d_cell d) \<Longrightarrow> d_cell d \<in> cand_cell ` set (Admitted d)"
    using score_mem [OF ne, of e policy "strategyOf policy"] by auto
  ultimately show ?thesis
    using memo prev unfolding sticky_def remembered_cell_def by (auto simp: prod_eq_iff split: if_splits)
qed

text \<open>
  C11. A caller learns nothing of the cells it may not reach. Two fleets that list the same names and labels and
  agree on the state and the capacity of the cells the caller's policy selects give the same answer,
  candidate table and refusal included, whatever the other cells' state and utilisation are.
\<close>

theorem unpermitted_cells_do_not_interfere:
  assumes "policyFor e rd idn = Inr policy" and "asSel (permittedCells (pol_spec policy)) = Inr sel"
    and "readClusters rd (eng_ns e) = Inr cls" and "readClusters rd' (eng_ns e) = Inr cls'"
    and "readPolicies rd' = readPolicies rd"
    and "list_all2 (\<lambda>cl cl'. cl_name cl' = cl_name cl \<and> cl_labels cl' = cl_labels cl \<and>
      (sel (cl_labels cl) \<longrightarrow> state (cl_spec cl') = state (cl_spec cl))) cls cls'"
    and "\<forall>cl \<in> set cls. sel (cl_labels cl) \<longrightarrow>
      map_of (snapshot_of (e\<lparr>eng_capacity := index'\<rparr>) tSnap) (cl_name cl) =
      map_of (snapshot_of e tSnap) (cl_name cl)"
  shows "fst (Place (e\<lparr>eng_capacity := index'\<rparr>) rd' asSel s tSnap tLive (Some idn) req) =
    fst (Place e rd asSel s tSnap tLive (Some idn) req)"
proof -
  let ?e = "e\<lparr>eng_capacity := index'\<rparr>" and ?dark = "req_targetDark req"
  have cell: "filter_cell sel ?dark snap' cl' = filter_cell sel ?dark snap cl"
    if "cl_name cl' = cl_name cl" "cl_labels cl' = cl_labels cl"
      "sel (cl_labels cl) \<longrightarrow> state (cl_spec cl') = state (cl_spec cl) \<and>
        map_of snap' (cl_name cl) = map_of snap (cl_name cl)" for cl cl' snap snap'
    using that by (cases "sel (cl_labels cl)") (simp_all add: filter_cell_def Let_def)
  have "map (filter_cell sel ?dark (snapshot_of ?e tSnap)) cls' =
      map (filter_cell sel ?dark (snapshot_of e tSnap)) cls"
    using assms(6,7) by (induction cls cls' rule: list_all2_induct) (simp_all add: cell)
  then have "filter_cells cls' sel ?dark (snapshot_of ?e tSnap) = filter_cells cls sel ?dark (snapshot_of e tSnap)"
    by (simp add: filter_cells_def)
  then have cands: "candidates ?e rd' asSel tSnap policy ?dark = candidates e rd asSel tSnap policy ?dark"
    using assms(2-4) by (simp add: candidates_def snapshot_of_def)
  have pol: "policyFor ?e rd' idn = Inr policy" using assms(1,5) by (simp add: policyFor_def)
  have keep: "keep ?e s tLive policy req d adm = keep e s tLive policy req d adm" for d adm
    by (simp add: keep_def)
  have score: "fst (score ?e policy st adm) = fst (score e policy st adm)" for st adm
    by (simp add: score_def Let_def split: list.split)
  show ?thesis
  proof (cases "candidates e rd asSel tSnap policy ?dark")
    case (Inl err)
    with cands pol assms(1) show ?thesis by (simp add: Place_def)
  next
    case (Inr cs)
    consider (dark) "?dark \<and> \<not> allowDarkTargeting (pol_spec policy)"
      | (empty) "?dark \<longrightarrow> allowDarkTargeting (pol_spec policy)" "filter cand_admitted cs = []"
      | (some) "?dark \<longrightarrow> allowDarkTargeting (pol_spec policy)" "filter cand_admitted cs \<noteq> []" by blast
    then show ?thesis
    proof cases
      case dark
      with pol assms(1) show ?thesis by (simp add: Place_def)
    next
      case empty
      with Inr cands pol assms(1) show ?thesis by (auto simp: Place_def Admitted_def)
    next
      case some
      from Inr cands have c: "candidates ?e rd' asSel tSnap policy ?dark = Inr cs" by simp
      show ?thesis
        unfolding Place_admitted [OF assms(1) some(1) Inr some(2)] Place_admitted [OF pol some(1) c some(2)]
        by (simp add: Let_def keep score)
    qed
  qed
qed

section \<open>Witnesses\<close>

definition sample_cluster :: "string \<Rightarrow> string \<Rightarrow> ClusterState \<Rightarrow> Cluster" where
  "sample_cluster name env st = \<lparr>cl_name = name, cl_namespace = ''cellcast'', cl_labels = [(''env'', env)],
    cl_generation = 1, cl_created = 0,
    cl_spec = \<lparr>endpoint = ''https://'' @ name, caBundle = '''', provider = ProviderGeneric,
      trustConfigRef = ''trust'', reporter = None, state = st\<rparr>,
    cl_status = \<lparr>observedState = '''', cl_observedGeneration = 0, stateSince = None, cl_conditions = []\<rparr>\<rparr>"

definition sample_as_selector :: "string as_selector" where
  "sample_as_selector env = Inr (\<lambda>l. map_of l ''env'' = Some env)"

definition sample_reader :: "Cluster list \<Rightarrow> string reader" where
  "sample_reader cls = \<lparr>readPolicies = (\<lambda>_. Inr [sample_policy ''prod'' [sample_selector '''' []] ''prod'']),
    readClusters = (\<lambda>_. Inr cls)\<rparr>"

definition sample_fleet :: "ClusterState \<Rightarrow> Cluster list" where
  "sample_fleet st = [sample_cluster ''green'' ''dev'' st, sample_cluster ''blue'' ''prod'' ClusterStateLive]"

definition sample_engine :: "int \<Rightarrow> wp_store Engine" where
  "sample_engine cpu = NewEngine (Some (capacity_run sample_options
    [Heartbeat 10 (sample_report ''blue'' 500), Heartbeat 10 (sample_report ''green'' cpu)]))
    ''cellcast'' (Some sample_memory)"

definition sample_request :: Request where
  "sample_request = \<lparr>req_workload = ''web'', req_targetDark = False\<rparr>"

abbreviation sample_place :: "go_time \<Rightarrow> (place_error + Decision) \<times> wp_store Engine" where
  "sample_place now \<equiv> Place (sample_engine 1) (sample_reader (sample_fleet ClusterStateLive))
    sample_as_selector [] now now (Some sample_identity) sample_request"

abbreviation sample_pol :: "string PlacementPolicy" where
  "sample_pol \<equiv> sample_policy ''prod'' [sample_selector '''' []] ''prod''"

lemma sample_policyFor [simp]:
  "policyFor (sample_engine cpu) (sample_reader cls) sample_identity = Inr sample_pol"
  by (simp add: policyFor_def sample_reader_def sample_policy_eval)

lemma sample_pol_simps [simp]:
  "sample_as_selector (permittedCells (pol_spec (sample_policy n sels env))) = Inr (\<lambda>l. map_of l ''env'' = Some env)"
  "allowDarkTargeting (pol_spec (sample_policy n sels env)) = False"
  "stickinessOf (sample_policy n sels env) = StickinessPreferred"
  "strategyOf (sample_policy n sels env) = ScoringLeastLoaded"
  "pol_name (sample_policy n sels env) = n" "pol_uid (sample_policy n sels env) = ''uid-'' @ n"
  "StickinessPreferred \<noteq> StickinessNone" "ScoringLeastLoaded \<noteq> ScoringRoundRobin"
  by (simp_all add: sample_as_selector_def sample_policy_def stickinessOf_def strategyOf_def api_defs)

lemma sample_simps [simp]:
  "req_targetDark sample_request = False" "req_workload sample_request = ''web''"
  "cl_name (sample_cluster n env st) = n" "cl_labels (sample_cluster n env st) = [(''env'', env)]"
  "state (cl_spec (sample_cluster n env st)) = st"
  "readClusters (sample_reader cls) ns = Inr cls"
  "eng_memory (sample_engine cpu) = Some sample_memory" "eng_ns (sample_engine cpu) = ''cellcast''"
  "recall sample_memory [] p w = None"
  by (simp_all add: sample_request_def sample_cluster_def sample_reader_def sample_engine_def NewEngine_def
      recall_def store_client_def store_get_def)

lemma sample_snapshot:
  assumes "0 \<le> cpu"
  shows "snapshot_of (sample_engine cpu) now =
    [(''blue'', entryLocked (New sample_options) \<lparr>st_report = sample_report ''blue'' 500, st_observedAt = 10\<rparr> now),
     (''green'', entryLocked (New sample_options) \<lparr>st_report = sample_report ''green'' cpu, st_observedAt = 10\<rparr> now)]"
  using assms by (simp add: snapshot_of_def sample_engine_def NewEngine_def Snapshot_def sample_eval)

lemma sample_candidates:
  "candidates (sample_engine 1) (sample_reader (sample_fleet st)) sample_as_selector 70
      sample_pol False =
    Inr [\<lparr>cand_cell = ''blue'', cand_admitted = True, cand_stage = '''', cand_reason = '''',
          cand_utilisation = Utilisation (sample_report ''blue'' 500)\<rparr>,
         \<lparr>cand_cell = ''green'', cand_admitted = False, cand_stage = StagePermission,
          cand_reason = ''cell is not permitted by this caller's policy'', cand_utilisation = 0\<rparr>]"
proof -
  have "filter_cells (sample_fleet st) (\<lambda>l. map_of l ''env'' = Some ''prod'') False
      (snapshot_of (sample_engine 1) 70) =
    [\<lparr>cand_cell = ''blue'', cand_admitted = True, cand_stage = '''', cand_reason = '''',
          cand_utilisation = Utilisation (sample_report ''blue'' 500)\<rparr>,
         \<lparr>cand_cell = ''green'', cand_admitted = False, cand_stage = StagePermission,
          cand_reason = ''cell is not permitted by this caller's policy'', cand_utilisation = 0\<rparr>]"
    by (simp add: sample_snapshot filter_cells_def sample_fleet_def filter_cell_def sample_eval)
  then show ?thesis by (auto simp: candidates_Inr_iff)
qed

text \<open>The placement itself: the workload is new, and blue is the only cell admitted.\<close>

lemma sample_place_blue:
  obtains d e' where "sample_place 70 = (Inr d, e')" and "d_cell d = ''blue''"
    and "d_strategy d = ScoringLeastLoaded" and "d_previous d = ''''" and "d_tokenTTL d = None"
proof -
  define b g where "b = \<lparr>cand_cell = ''blue'', cand_admitted = True, cand_stage = '''', cand_reason = '''',
      cand_utilisation = Utilisation (sample_report ''blue'' 500)\<rparr>"
    and "g = \<lparr>cand_cell = ''green'', cand_admitted = False, cand_stage = StagePermission,
      cand_reason = ''cell is not permitted by this caller's policy'', cand_utilisation = 0\<rparr>"
  have bg: "filter cand_admitted [b, g] = [b]" "cand_cell b = ''blue''" by (simp_all add: b_def g_def)
  let ?d = "open_decision sample_pol sample_request [b, g]"
  let ?k = "keep (sample_engine 1) [] 70 sample_pol sample_request ?d [b]"
  have keep: "fst ?k = ''''" "d_previous (snd ?k) = ''''" "d_tokenTTL (snd ?k) = None"
    by (simp_all add: keep_def open_decision_def sample_policy_def)
  have score: "fst (score (sample_engine 1) sample_pol ScoringLeastLoaded [b]) = Some ''blue''"
    by (simp add: score_def bg)
  have "sample_place 70 = (Inr ((snd ?k)\<lparr>d_cell := ''blue''\<rparr>),
      snd (score (sample_engine 1) sample_pol ScoringLeastLoaded [b]))"
    using Place_admitted [where e = "sample_engine 1" and rd = "sample_reader (sample_fleet ClusterStateLive)"
        and idn = sample_identity and policy = sample_pol and req = sample_request
        and asSel = sample_as_selector and tSnap = 70 and tLive = 70 and s = "[]" and cands = "[b, g]"]
      sample_candidates [of ClusterStateLive, folded b_def g_def] keep score bg
    by (simp add: Let_def)
  from that [OF this] keep show thesis by simp
qed

theorem permission_before_score_witness:
  "\<exists>d e' r entry. sample_place 70 = (Inr d, e') \<and> d_cell d = ''blue'' \<and>
    eng_capacity (sample_engine 1) = Some r \<and> Lookup r 70 ''blue'' = Some entry \<and>
    entry_health entry = HealthFresh"
proof (rule sample_place_blue)
  fix d e' assume p: "sample_place 70 = (Inr d, e')" and c: "d_cell d = ''blue''"
  from permission_before_score [OF p] obtain r entry where "eng_capacity (sample_engine 1) = Some r"
    "Lookup r 70 (d_cell d) = Some entry" "entry_health entry = HealthFresh" by blast
  with p c show ?thesis by (intro exI [of _ d] exI [of _ e'] exI [of _ r] exI [of _ entry]) simp
qed

theorem place_refusal_is_classified_witness:
  "\<exists>r. fst (sample_place 700) = Inl (Refused r) \<and> ref_err r = ErrCapacityUnknown \<and> ref_policy r = ''prod''"
proof -
  let ?cls = "sample_fleet ClusterStateLive" and ?sel = "\<lambda>l. map_of l ''env'' = Some ''prod''"
  have stale: "\<not> fresh_in (snapshot_of (sample_engine 1) 700) c" for c
    by (simp add: fresh_in_def sample_snapshot sample_eval api_defs)
  have blue: "\<exists>cl \<in> set ?cls. ?sel (cl_labels cl) \<and>
      AcceptsPlacement (state (cl_spec cl)) (req_targetDark sample_request)"
    by (simp add: sample_fleet_def)
  have "req_targetDark sample_request \<longrightarrow> allowDarkTargeting (pol_spec sample_pol)"
    and "sample_as_selector (permittedCells (pol_spec sample_pol)) = Inr ?sel"
    and "readClusters (sample_reader ?cls) (eng_ns (sample_engine 1)) = Inr ?cls" by simp_all
  note c = place_refusal_is_classified [where asSel = sample_as_selector and sel = ?sel and e = "sample_engine 1"
      and req = sample_request and policy = sample_pol and tSnap = 700 and tLive = 700 and s = "[]",
      OF sample_policyFor this]
  from c blue stale have "sample_place 700 = (Inl (Refused \<lparr>ref_err = ErrCapacityUnknown,
      ref_policy = pol_name sample_pol,
      ref_candidates = filter_cells ?cls ?sel (req_targetDark sample_request)
        (snapshot_of (sample_engine 1) 700)\<rparr>), sample_engine 1)"
    by (simp only: simp_thms Bex_def if_True if_False)
  then show ?thesis by simp
qed

theorem least_loaded_is_minimal_witness:
  "\<exists>d e' b. sample_place 70 = (Inr d, e') \<and> b \<in> set (Admitted d) \<and> cand_cell b = ''blue'' \<and>
    (\<forall>c \<in> set (Admitted d). cand_utilisation b \<le> cand_utilisation c)"
proof (rule sample_place_blue)
  fix d e' assume p: "sample_place 70 = (Inr d, e')" and c: "d_cell d = ''blue''"
    and s: "d_strategy d = ScoringLeastLoaded" and "d_previous d = ''''"
  then have "d_strategy d \<noteq> ScoringRoundRobin" "\<not> Kept d" by (simp_all add: Kept_def)
  from least_loaded_is_minimal [OF p this] obtain b where "b \<in> set (Admitted d)" "cand_cell b = d_cell d"
    "\<forall>c \<in> set (Admitted d). cand_utilisation b \<le> cand_utilisation c" by blast
  with p c show ?thesis by (intro exI [of _ d] exI [of _ e'] exI [of _ b]) simp
qed

theorem round_robin_is_fair_witness:
  "mset (take 2 (drop 1 (score_run (NewEngine None ''ns'' None :: wp_store Engine)
      (sample_policy ''prod'' [] ()) (filter_cells [sample_cluster ''a'' ''x'' '''', sample_cluster ''b'' ''x'' '''']
        (\<lambda>_. True) False []) 5))) = {#Some ''a'', Some ''b''#}"
proof -
  define adm where "adm = filter_cells [sample_cluster ''a'' ''x'' '''', sample_cluster ''b'' ''x'' '''']
    (\<lambda>_. True) False []"
  have names: "map cand_cell adm = [''a'', ''b'']"
    by (simp add: adm_def filter_cells_def)
  then have "map (\<lambda>c. Some (cand_cell c)) adm = [Some ''a'', Some ''b'']" by auto
  moreover have "length adm = 2" and "adm \<noteq> []" using names by auto
  moreover have "unat (cursor (NewEngine None ''ns'' None :: wp_store Engine) (sample_policy ''prod'' [] ())) = 0"
    by (simp add: cursor_def NewEngine_def)
  ultimately show ?thesis
    using round_robin_is_fair [of adm "NewEngine None ''ns'' None :: wp_store Engine"
      "sample_policy ''prod'' [] ()" 5 1 "sample_policy ''x'' [] ()" ScoringRoundRobin] unfolding adm_def [symmetric] by simp
qed

text \<open>Two permitted cells, of which green is the less loaded, and a workload remembered in blue: it stays there.\<close>

theorem sticky_while_admitted_witness:
  "\<exists>st d e'. recall sample_memory st ''prod'' ''web'' \<noteq> None \<and>
    Place (sample_engine 1) (sample_reader [sample_cluster ''green'' ''prod'' ClusterStateLive, sample_cluster ''blue'' ''prod'' ClusterStateLive])
      sample_as_selector st 70 70 (Some sample_identity) sample_request = (Inr d, e') \<and>
    d_cell d = ''blue'' \<and> d_previous d = ''blue'' \<and> e' = sample_engine 1"
proof -
  let ?fleet = "[sample_cluster ''green'' ''prod'' ClusterStateLive, sample_cluster ''blue'' ''prod'' ClusterStateLive]"
  let ?wp = "\<lparr>wp_name = recordName ''prod'' ''web'', wp_namespace = ''cellcast'', wp_resourceVersion = ''1'', wp_owners = [],
    wp_spec = \<lparr>wp_policy = ''prod'', wp_workload = ''web'', wp_cell = ''blue'', wp_lastPlacedAt = 0\<rparr>\<rparr>"
  let ?st = "[((''cellcast'', recordName ''prod'' ''web''), ?wp)]"
  have r: "recall sample_memory ?st ''prod'' ''web'' = Some ?wp" by (simp add: recall_def store_client_def store_get_def)
  have l: "live sample_memory 70 ?wp"
    by (simp add: live_def go_sub_def DefaultExpireAfter_def duration_units min_int64_def max_int64_def)
  define b g where "b = \<lparr>cand_cell = ''blue'', cand_admitted = True, cand_stage = '''', cand_reason = '''',
      cand_utilisation = Utilisation (sample_report ''blue'' 500)\<rparr>"
    and "g = \<lparr>cand_cell = ''green'', cand_admitted = True, cand_stage = '''', cand_reason = '''',
      cand_utilisation = Utilisation (sample_report ''green'' 1)\<rparr>"
  have "filter_cells ?fleet (\<lambda>l. map_of l ''env'' = Some ''prod'') False (snapshot_of (sample_engine 1) 70) = [b, g]"
    by (simp add: sample_snapshot filter_cells_def filter_cell_def sample_eval b_def g_def)
  then have c: "candidates (sample_engine 1) (sample_reader ?fleet) sample_as_selector 70 sample_pol (req_targetDark sample_request) = Inr [b, g]"
    by (auto simp: candidates_Inr_iff)
  have bg: "filter cand_admitted [b, g] = [b, g]" "cand_cell b = ''blue''" by (simp_all add: b_def g_def)
  let ?k = "keep (sample_engine 1) ?st 70 sample_pol sample_request (open_decision sample_pol sample_request [b, g]) [b, g]"
  have "fst ?k = ''blue''" by (simp add: keep_def r l bg)
  then have p: "Place (sample_engine 1) (sample_reader ?fleet) sample_as_selector ?st 70 70 (Some sample_identity) sample_request =
      (Inr ((snd ?k)\<lparr>d_cell := ''blue''\<rparr>), sample_engine 1)"
    using Place_admitted [where e = "sample_engine 1" and rd = "sample_reader ?fleet" and idn = sample_identity and policy = sample_pol
        and req = sample_request and asSel = sample_as_selector and tSnap = 70 and tLive = 70 and s = ?st and cands = "[b, g]"] c bg
    by (simp add: Let_def)
  from sticky_while_admitted [OF p sample_policyFor, of sample_memory] r l
  have "d_previous ((snd ?k)\<lparr>d_cell := ''blue''\<rparr>) = ''blue''" by simp
  with p r show ?thesis by (intro exI [of _ ?st] exI [of _ "(snd ?k)\<lparr>d_cell := ''blue''\<rparr>"]) simp
qed

theorem unpermitted_cells_do_not_interfere_witness:
  "fst (Place (sample_engine 900) (sample_reader (sample_fleet ClusterStateDraining))
      sample_as_selector [] 70 70 (Some sample_identity) sample_request) = fst (sample_place 70)"
proof -
  have e: "(sample_engine 1)\<lparr>eng_capacity := eng_capacity (sample_engine 900)\<rparr> = sample_engine 900"
    by (simp add: sample_engine_def NewEngine_def)
  let ?sel = "\<lambda>l. map_of l ''env'' = Some ''prod''"
  have "list_all2 (\<lambda>cl cl'. cl_name cl' = cl_name cl \<and> cl_labels cl' = cl_labels cl \<and>
      (?sel (cl_labels cl) \<longrightarrow> state (cl_spec cl') = state (cl_spec cl)))
      (sample_fleet ClusterStateLive) (sample_fleet ClusterStateDraining)"
    by (simp add: sample_fleet_def)
  moreover have "\<forall>cl \<in> set (sample_fleet ClusterStateLive). ?sel (cl_labels cl) \<longrightarrow>
      map_of (snapshot_of (sample_engine 900) 70) (cl_name cl) =
      map_of (snapshot_of (sample_engine 1) 70) (cl_name cl)"
    by (simp add: sample_fleet_def sample_snapshot)
  moreover have "readPolicies (sample_reader (sample_fleet ClusterStateDraining)) =
      readPolicies (sample_reader (sample_fleet ClusterStateLive))" by (simp add: sample_reader_def)
  ultimately show ?thesis
    using unpermitted_cells_do_not_interfere [where e = "sample_engine 1"
        and rd = "sample_reader (sample_fleet ClusterStateLive)" and idn = sample_identity
        and policy = sample_pol and asSel = sample_as_selector and sel = ?sel
        and cls = "sample_fleet ClusterStateLive" and rd' = "sample_reader (sample_fleet ClusterStateDraining)"
        and cls' = "sample_fleet ClusterStateDraining" and index' = "eng_capacity (sample_engine 900)"
        and tSnap = 70 and s = "[]" and tLive = 70 and req = sample_request]
    unfolding e by simp
qed

end
