(* ===== verification/Refusal.thy ===== *)
theory Refusal
  imports Prelude
begin

text \<open>
  The wire contract of a refused placement: \<open>internal/refusal/refusal.go\<close>. Both ends of the
  contract, the hub and the command line client, use these codes.
\<close>

type_synonym Reason = string

definition NoPolicy :: Reason where [api_defs]: "NoPolicy = ''NoPolicy''"
definition DarkNotPermitted :: Reason where [api_defs]: "DarkNotPermitted = ''DarkNotPermitted''"
definition NoPermittedCells :: Reason where [api_defs]: "NoPermittedCells = ''NoPermittedCells''"
definition InvalidRequest :: Reason where [api_defs]: "InvalidRequest = ''InvalidRequest''"
definition NoEligibleCells :: Reason where [api_defs]: "NoEligibleCells = ''NoEligibleCells''"
definition CapacityUnknown :: Reason where [api_defs]: "CapacityUnknown = ''CapacityUnknown''"
definition PlacementUnavailable :: Reason where [api_defs]: "PlacementUnavailable = ''PlacementUnavailable''"
definition RateLimited :: Reason where [api_defs]: "RateLimited = ''RateLimited''"
definition MintUnavailable :: Reason where [api_defs]: "MintUnavailable = ''MintUnavailable''"
definition MintFailed :: Reason where [api_defs]: "MintFailed = ''MintFailed''"
definition Unknown :: Reason where [api_defs]: "Unknown = ''Unknown''"

definition All_reasons :: "Reason list" where
  "All_reasons =
   [NoPolicy, DarkNotPermitted, NoPermittedCells, InvalidRequest, NoEligibleCells, CapacityUnknown,
    PlacementUnavailable, RateLimited, MintUnavailable, MintFailed, Unknown]"

definition Optimisation :: "Reason \<Rightarrow> bool" where
  "Optimisation r \<longleftrightarrow>
    r = NoEligibleCells \<or> r = CapacityUnknown \<or> r = PlacementUnavailable \<or> r = RateLimited"

lemma Optimisation_simps [simp]:
  "Optimisation NoEligibleCells" "Optimisation CapacityUnknown"
  "Optimisation PlacementUnavailable" "Optimisation RateLimited"
  "\<not> Optimisation NoPolicy" "\<not> Optimisation DarkNotPermitted" "\<not> Optimisation NoPermittedCells"
  "\<not> Optimisation InvalidRequest" "\<not> Optimisation MintUnavailable" "\<not> Optimisation MintFailed"
  "\<not> Optimisation Unknown"
  by (simp_all add: Optimisation_def api_defs)

lemma distinct_All_reasons: "distinct All_reasons"
  by (simp add: All_reasons_def api_defs)

end
