(* ===== verification/Ttl.thy ===== *)
theory Ttl
  imports Api
begin

text \<open>
  How long a credential may live: \<open>internal/hub/broker/ttl.go\<close>. Three layers of bounds,
  the cell's label, the caller's policy and the hub's ceiling, resolved against the provider's floor.
\<close>

definition EnvLabel :: string where [api_defs]: "EnvLabel = ''env''"

record Bounds =
  b_default :: duration
  b_max :: duration

definition envBounds :: "(string \<times> Bounds) list" where
  "envBounds =
   [(''prod'', \<lparr>b_default = 10 * Minute, b_max = 15 * Minute\<rparr>),
    (''production'', \<lparr>b_default = 10 * Minute, b_max = 15 * Minute\<rparr>),
    (''stage'', \<lparr>b_default = 15 * Minute, b_max = 30 * Minute\<rparr>),
    (''staging'', \<lparr>b_default = 15 * Minute, b_max = 30 * Minute\<rparr>),
    (''dev'', \<lparr>b_default = 30 * Minute, b_max = 60 * Minute\<rparr>),
    (''development'', \<lparr>b_default = 30 * Minute, b_max = 60 * Minute\<rparr>)]"

definition zero_bounds :: Bounds where
  "zero_bounds = \<lparr>b_default = 0, b_max = 0\<rparr>"

text \<open>Indexing a Go map with a missing key gives the zero value.\<close>

definition strictestBounds :: Bounds where
  "strictestBounds = (case map_of envBounds ''prod'' of Some b \<Rightarrow> b | None \<Rightarrow> zero_bounds)"

definition BoundsFor :: "labels \<Rightarrow> Bounds" where
  "BoundsFor ls =
    (case map_of envBounds (case map_of ls EnvLabel of None \<Rightarrow> '''' | Some v \<Rightarrow> v) of
       None \<Rightarrow> strictestBounds
     | Some b \<Rightarrow> b)"

record Resolution =
  res_granted :: duration
  res_default :: duration
  res_max :: duration
  res_requested :: duration
  res_clamped :: bool

datatype ttl_error = ErrTTLBelowProviderFloor duration duration

text \<open>The bounds once the policy and the hub's ceiling have been applied.\<close>

definition policy_bounds :: "Bounds \<Rightarrow> TokenTTLPolicy option \<Rightarrow> Bounds" where
  "policy_bounds b policy =
    (case policy of
       None \<Rightarrow> b
     | Some p \<Rightarrow>
       (let b1 = (case ttl_default p of
                    Some d \<Rightarrow> if d > 0 then b\<lparr>b_default := d\<rparr> else b
                  | None \<Rightarrow> b)
        in case ttl_max p of
             Some d \<Rightarrow> if d > 0 then b1\<lparr>b_max := d\<rparr> else b1
           | None \<Rightarrow> b1))"

definition ResolveTTL ::
  "labels \<Rightarrow> TokenTTLPolicy option \<Rightarrow> duration \<Rightarrow> duration \<Rightarrow> duration \<Rightarrow>
    Resolution \<times> ttl_error option" where
  "ResolveTTL cellLabels policy requested hubCeiling providerFloor =
    (let b0 = policy_bounds (BoundsFor cellLabels) policy;
         b1 = (if hubCeiling > 0 \<and> b_max b0 > hubCeiling then b0\<lparr>b_max := hubCeiling\<rparr> else b0);
         b = (if b_default b1 > b_max b1 then b1\<lparr>b_default := b_max b1\<rparr> else b1);
         res0 = \<lparr>res_granted = b_default b, res_default = b_default b, res_max = b_max b,
                 res_requested = requested, res_clamped = False\<rparr>;
         res1 = (if requested > 0 then
                   (if requested > b_max b then res0\<lparr>res_granted := b_max b, res_clamped := True\<rparr>
                    else res0\<lparr>res_granted := requested\<rparr>)
                 else res0)
     in if providerFloor > 0 \<and> b_max b < providerFloor
        then (res1, Some (ErrTTLBelowProviderFloor (b_max b) providerFloor))
        else if res_granted res1 < providerFloor
        then (res1\<lparr>res_granted := providerFloor\<rparr>, None)
        else (res1, None))"

section \<open>Lemmas\<close>

lemma strictestBounds_eq: "strictestBounds = \<lparr>b_default = 10 * Minute, b_max = 15 * Minute\<rparr>"
  by (simp add: strictestBounds_def envBounds_def)

lemma BoundsFor_table: "BoundsFor ls \<in> insert strictestBounds (snd ` set envBounds)"
  by (force simp: BoundsFor_def dest: map_of_SomeD split: option.splits)

lemma BoundsFor_range:
  "b_default strictestBounds \<le> b_default (BoundsFor ls) \<and> 0 < b_default (BoundsFor ls) \<and>
    b_default (BoundsFor ls) \<le> b_max (BoundsFor ls) \<and>
    b_max strictestBounds \<le> b_max (BoundsFor ls) \<and> b_max (BoundsFor ls) \<le> 60 * Minute"
proof -
  have "\<forall>b \<in> insert strictestBounds (snd ` set envBounds).
      b_default strictestBounds \<le> b_default b \<and> 0 < b_default b \<and> b_default b \<le> b_max b \<and>
      b_max strictestBounds \<le> b_max b \<and> b_max b \<le> 60 * Minute"
    by (simp add: envBounds_def strictestBounds_eq duration_units)
  with BoundsFor_table [of ls] show ?thesis by blast
qed

lemma policy_bounds_pos:
  "0 < b_default b \<Longrightarrow> 0 < b_max b \<Longrightarrow>
    0 < b_default (policy_bounds b policy) \<and> 0 < b_max (policy_bounds b policy)"
  by (auto simp: policy_bounds_def Let_def split: option.splits)

lemma policy_bounds_max:
  "b_max (policy_bounds b policy) =
    (case policy of None \<Rightarrow> b_max b
     | Some p \<Rightarrow> (case ttl_max p of None \<Rightarrow> b_max b | Some d \<Rightarrow> if d > 0 then d else b_max b))"
  by (auto simp: policy_bounds_def Let_def split: option.splits)

text \<open>The ceiling a request is resolved against: the operator's numbers, and nothing of the caller's.\<close>

definition effective_max :: "labels \<Rightarrow> TokenTTLPolicy option \<Rightarrow> duration \<Rightarrow> duration" where
  "effective_max ls policy hubCeiling =
    (let m = b_max (policy_bounds (BoundsFor ls) policy) in if hubCeiling > 0 then min m hubCeiling else m)"

lemma effective_max_pos: "0 < effective_max ls policy hubCeiling"
  using policy_bounds_pos [of "BoundsFor ls" policy] BoundsFor_range [of ls]
  by (simp add: effective_max_def Let_def)

lemma ResolveTTL_unfold:
  "ResolveTTL ls policy requested hubCeiling providerFloor =
    (let m = effective_max ls policy hubCeiling;
         d = min m (b_default (policy_bounds (BoundsFor ls) policy));
         g = (if requested > 0 then min m requested else d);
         r = \<lparr>res_granted = g, res_default = d, res_max = m, res_requested = requested,
              res_clamped = (requested > 0 \<and> requested > m)\<rparr>
     in if providerFloor > 0 \<and> m < providerFloor then (r, Some (ErrTTLBelowProviderFloor m providerFloor))
        else (r\<lparr>res_granted := max g providerFloor\<rparr>, None))"
proof -
  let ?b = "policy_bounds (BoundsFor ls) policy"
  let ?m = "effective_max ls policy hubCeiling"
  have b1: "(if hubCeiling > 0 \<and> b_max ?b > hubCeiling then ?b\<lparr>b_max := hubCeiling\<rparr> else ?b) = ?b\<lparr>b_max := ?m\<rparr>"
    by (auto simp: effective_max_def Let_def)
  have b: "(if b_default (?b\<lparr>b_max := ?m\<rparr>) > b_max (?b\<lparr>b_max := ?m\<rparr>)
      then ?b\<lparr>b_max := ?m\<rparr>\<lparr>b_default := b_max (?b\<lparr>b_max := ?m\<rparr>)\<rparr> else ?b\<lparr>b_max := ?m\<rparr>) =
      ?b\<lparr>b_max := ?m, b_default := min ?m (b_default ?b)\<rparr>"
    by simp
  show ?thesis unfolding ResolveTTL_def Let_def b1 b by (simp add: min_def max_def)
qed

lemma ResolveTTL_bounds:
  "case ResolveTTL ls policy requested hubCeiling providerFloor of (r, err) \<Rightarrow>
    res_max r = effective_max ls policy hubCeiling \<and>
    (if hubCeiling > 0 then res_max r \<le> hubCeiling else True) \<and>
    (err \<noteq> None \<longleftrightarrow> providerFloor > 0 \<and> effective_max ls policy hubCeiling < providerFloor) \<and>
    (err = None \<longrightarrow> 0 < res_granted r \<and> res_granted r \<le> res_max r \<and> providerFloor \<le> res_granted r \<and>
      (if requested > 0 then res_granted r \<le> max requested providerFloor else res_granted r \<le> max (res_default r) providerFloor) \<and>
      (if res_clamped r then requested > res_max r else requested \<le> res_max r))"
proof -
  define m where "m = effective_max ls policy hubCeiling"
  define d where "d = min m (b_default (policy_bounds (BoundsFor ls) policy))"
  have "0 < m" unfolding m_def by (rule effective_max_pos)
  moreover have "0 < b_default (policy_bounds (BoundsFor ls) policy)"
    using policy_bounds_pos [of "BoundsFor ls" policy] BoundsFor_range [of ls] by simp
  ultimately have "0 < d" "d \<le> m" by (simp_all add: d_def)
  moreover have "hubCeiling > 0 \<Longrightarrow> m \<le> hubCeiling" by (simp add: m_def effective_max_def Let_def)
  ultimately show ?thesis
    using \<open>0 < m\<close> unfolding ResolveTTL_unfold Let_def m_def [symmetric] d_def [symmetric]
    by (auto simp: min_def max_def)
qed

section \<open>Properties\<close>

text \<open>
  C12. A caller may ask for less and never for more. The lifetime granted is positive, never exceeds the
  effective maximum, which the operator's policy, the cell's label and the hub's ceiling fix without
  looking at the request, and never exceeds what was asked for except to reach the provider's
  floor. The resolution fails exactly when the operator's maximum is below that floor, and it is then
  never rounded up.
\<close>

theorem ttl_never_exceeds_bounds:
  "case ResolveTTL ls policy requested hubCeiling providerFloor of (r, err) \<Rightarrow>
    res_max r = effective_max ls policy hubCeiling \<and>
    (if hubCeiling > 0 then res_max r \<le> hubCeiling else True) \<and>
    (err \<noteq> None \<longleftrightarrow> providerFloor > 0 \<and> effective_max ls policy hubCeiling < providerFloor) \<and>
    (err = None \<longrightarrow> 0 < res_granted r \<and> res_granted r \<le> res_max r \<and> providerFloor \<le> res_granted r \<and>
      (if requested > 0 then res_granted r \<le> max requested providerFloor else res_granted r \<le> max (res_default r) providerFloor) \<and>
      (if res_clamped r then requested > res_max r else requested \<le> res_max r))"
  by (rule ResolveTTL_bounds)

text \<open>
  A cell nobody labelled gets the tightest bounds of the table: whatever its labels, no cell's
  built-in maximum is below the one an unlabelled or misspelt cell gets, and every built-in default
  is within its maximum.
\<close>

theorem unlabelled_is_strictest:
  "(map_of ls EnvLabel = None \<longrightarrow> BoundsFor ls = strictestBounds) \<and>
    (\<forall>v. map_of ls EnvLabel = Some v \<and> v \<notin> fst ` set envBounds \<longrightarrow> BoundsFor ls = strictestBounds) \<and>
    b_max strictestBounds \<le> b_max (BoundsFor ls') \<and> b_default strictestBounds \<le> b_default (BoundsFor ls') \<and>
    b_default (BoundsFor ls') \<le> b_max (BoundsFor ls')"
proof (intro conjI allI impI)
  show "BoundsFor ls = strictestBounds" if "map_of ls EnvLabel = None"
    using that by (simp add: BoundsFor_def envBounds_def)
  show "BoundsFor ls = strictestBounds" if "map_of ls EnvLabel = Some v \<and> v \<notin> fst ` set envBounds" for v
  proof -
    from that have "map_of envBounds v = None" by (simp add: map_of_eq_None_iff)
    with that show ?thesis by (simp add: BoundsFor_def)
  qed
  show "b_max strictestBounds \<le> b_max (BoundsFor ls')" "b_default (BoundsFor ls') \<le> b_max (BoundsFor ls')"
    "b_default strictestBounds \<le> b_default (BoundsFor ls')"
    using BoundsFor_range [of ls'] by simp_all
qed

section \<open>Witnesses\<close>

theorem ttl_never_exceeds_bounds_witness:
  "snd (ResolveTTL [(''env'', ''dev'')] None (2 * Hour) (45 * Minute) (10 * Minute)) = None \<and>
   res_granted (fst (ResolveTTL [(''env'', ''dev'')] None (2 * Hour) (45 * Minute) (10 * Minute))) \<le> 45 * Minute"
proof -
  let ?r = "ResolveTTL [(''env'', ''dev'')] None (2 * Hour) (45 * Minute) (10 * Minute)"
  have "snd ?r = None" and "0 < 45 * Minute"
    by (simp_all add: ResolveTTL_def BoundsFor_def envBounds_def EnvLabel_def policy_bounds_def duration_units)
  with ttl_never_exceeds_bounds [where ls = "[(''env'', ''dev'')]" and policy = None
      and requested = "2 * Hour" and hubCeiling = "45 * Minute" and providerFloor = "10 * Minute"]
  show ?thesis by (simp add: case_prod_beta)
qed

theorem unlabelled_is_strictest_witness:
  "map_of [] EnvLabel = None \<and> BoundsFor [] = strictestBounds \<and>
    BoundsFor [(''env'', ''prd'')] = strictestBounds"
proof -
  have "map_of [(''env'', ''prd'')] EnvLabel = Some ''prd''" "''prd'' \<notin> fst ` set envBounds"
    by (simp_all add: EnvLabel_def envBounds_def)
  with unlabelled_is_strictest [of "[]" "[]"] unlabelled_is_strictest [of "[(''env'', ''prd'')]" "[]"]
  show ?thesis by simp
qed

end
