(* ===== verification/Broker.thy ===== *)
theory Broker
  imports Ttl Float64
begin

text \<open>
  The credential broker: \<open>internal/hub/broker/broker.go\<close> and \<open>kubernetes.go\<close>.

  The API servers are parameters: the cached reader of trust configurations, the uncached reader
  of secrets, the parser of a kubeconfig, the client built from it and its \<open>TokenRequest\<close> call. The
  interface \<open>Provider\<close> is the locale \<open>credential_provider\<close>, which \<open>KubernetesProvider\<close>
  interprets. \<open>time.Until\<close> is evaluated at the time the check is made.
\<close>

section \<open>Credentials and errors\<close>

record Credential =
  cred_token :: string
  cred_expiresAt :: go_time
  cred_server :: string
  cred_caBundle :: string
  cred_namespace :: string
  cred_serviceAccount :: string

text \<open>\<open>formatTime\<close> is \<open>Time.Format(time.RFC3339)\<close>.\<close>

definition Credential_String :: "(go_time \<Rightarrow> string) \<Rightarrow> Credential \<Rightarrow> string" where
  "Credential_String formatTime c =
    ''Credential{ServiceAccount:'' @ cred_namespace c @ ''/'' @ cred_serviceAccount c @
    '' Server:'' @ cred_server c @ '' ExpiresAt:'' @ formatTime (cred_expiresAt c) @ '' Token:[redacted]}''"

datatype slog_value = SlogString string | SlogTime go_time | SlogInt int | SlogBool bool | SlogFloat rat
  | SlogDuration duration | SlogGroup "(string \<times> slog_value) list" | SlogList "(string \<times> slog_value) list list"

definition Credential_LogValue :: "Credential \<Rightarrow> (string \<times> slog_value) list" where
  "Credential_LogValue c =
    [(''service_account'', SlogString (cred_namespace c @ ''/'' @ cred_serviceAccount c)),
     (''server'', SlogString (cred_server c)),
     (''expires_at'', SlogTime (cred_expiresAt c))]"

datatype broker_sentinel =
  ErrTrustConfigMissing | ErrProviderNotImplemented | ErrTrustConfigInvalid | ErrCredentialMissing | ErrTTLFloor

text \<open>Every error of the two files, with what it names; \<open>broker_is\<close> is \<open>errors.Is\<close> on them.\<close>

datatype broker_error =
    TrustMissing (be_cell: string) (be_name: string)
  | ReadTrust (be_name: string) (be_api: api_error)
  | ProviderUnknown (be_name: string)
  | NoKubernetesBlock (be_name: string)
  | NoServiceAccountName (be_name: string)
  | NoNamespace (be_name: string)
  | UnknownProviderName (be_name: string) (be_provider: string)
  | SourceNotUnique (be_name: string)
  | SecretRefNoName (be_name: string)
  | LifetimeUnresolved (be_cell: string) (be_ttl: ttl_error)
  | MintingFailed (be_cell: string) (be_inner: broker_error)
  | OverCeiling (be_cell: string) (be_lifetime: duration) (be_max: duration)
  | Connecting (be_cell: string) (be_inner: broker_error)
  | ServiceAccountMissing (be_name: string) (be_cell: string) (be_api: api_error)
  | TokenRequestFailed (be_name: string) (be_cell: string) (be_api: api_error)
  | NoLocalConfig (be_name: string)
  | NoCredentialSource (be_name: string)
  | SecretMissing (be_name: string) (be_secret: string)
  | ReadSecret (be_name: string) (be_secret: string) (be_api: api_error)
  | SecretKeyMissing (be_secret: string) (be_key: string)
  | ParseKubeconfig (be_name: string) (be_secret: string) (be_text: string)
  | BuildClient (be_text: string)

fun broker_is :: "broker_error \<Rightarrow> broker_sentinel \<Rightarrow> bool" where
  "broker_is (TrustMissing _ _) s = (s = ErrTrustConfigMissing)"
| "broker_is (ProviderUnknown _) s = (s = ErrProviderNotImplemented)"
| "broker_is (NoKubernetesBlock _) s = (s = ErrTrustConfigInvalid)"
| "broker_is (NoServiceAccountName _) s = (s = ErrTrustConfigInvalid)"
| "broker_is (NoNamespace _) s = (s = ErrTrustConfigInvalid)"
| "broker_is (UnknownProviderName _ _) s = (s = ErrTrustConfigInvalid)"
| "broker_is (SourceNotUnique _) s = (s = ErrTrustConfigInvalid)"
| "broker_is (SecretRefNoName _) s = (s = ErrTrustConfigInvalid)"
| "broker_is (LifetimeUnresolved _ _) s = (s = ErrTTLFloor)"
| "broker_is (MintingFailed _ e) s = broker_is e s"
| "broker_is (Connecting _ e) s = broker_is e s"
| "broker_is (NoLocalConfig _) s = (s = ErrTrustConfigInvalid)"
| "broker_is (NoCredentialSource _) s = (s = ErrTrustConfigInvalid)"
| "broker_is (SecretMissing _ _) s = (s = ErrCredentialMissing)"
| "broker_is (SecretKeyMissing _ _) s = (s = ErrCredentialMissing)"
| "broker_is _ s = False"

section \<open>Trust configurations\<close>

definition ValidateTrust :: "TrustConfig \<Rightarrow> broker_error option" where
  "ValidateTrust trust =
    (let name = trust_name trust; spec = trust_spec trust; src = credentialSource spec;
         provider_error =
           (if trust_provider spec = TrustProviderKubernetes then
              (case kubernetes spec of
                 None \<Rightarrow> Some (NoKubernetesBlock name)
               | Some k \<Rightarrow>
                 if serviceAccountName k = '''' then Some (NoServiceAccountName name)
                 else if sa_namespace k = '''' then Some (NoNamespace name)
                 else None)
            else if trust_provider spec = TrustProviderAWS
            then Some (ProviderUnknown (trust_provider spec))
            else Some (UnknownProviderName name (trust_provider spec)))
     in case provider_error of
          Some e \<Rightarrow> Some e
        | None \<Rightarrow>
          if inCluster src = (secretRef src \<noteq> None) then Some (SourceNotUnique name)
          else (case secretRef src of
                  Some ref \<Rightarrow> if secret_name ref = '''' then Some (SecretRefNoName name) else None
                | None \<Rightarrow> None))"

section \<open>Providers\<close>

record MintRequest =
  mr_cluster :: Cluster
  mr_trust :: TrustConfig
  mr_ttl :: duration

record Provider_impl =
  prov_kind :: TrustProvider
  prov_minTTL :: duration
  prov_mint :: "MintRequest \<Rightarrow> broker_error + Credential"

definition KubernetesMinTTL :: duration where "KubernetesMinTTL = 10 * Minute"
definition mintTimeout :: duration where "mintTimeout = 15 * Second"

text \<open>
  \<open>int64(d.Seconds())\<close>: whole seconds and the fraction are each converted to float64, added
  there, and the sum truncated toward zero.
\<close>

definition int_seconds :: "duration \<Rightarrow> int" where
  "int_seconds d = trunc64 (f64 (f64_of_int (d sdiv Second) +
    f64_div (f64_of_int (d smod Second)) (f64_of_int 1000000000)))"

record TokenRequestSpec =
  tr_audiences :: "string list"
  tr_expirationSeconds :: int

definition KubernetesProvider_Mint ::
  "(Cluster \<Rightarrow> TrustConfig \<Rightarrow> broker_error + 'cs) \<Rightarrow>
   ('cs \<Rightarrow> string \<Rightarrow> string \<Rightarrow> TokenRequestSpec \<Rightarrow> api_error + (string \<times> go_time)) \<Rightarrow>
   MintRequest \<Rightarrow> broker_error + Credential" where
  "KubernetesProvider_Mint connect createToken req =
    (let cluster = mr_cluster req; trust = mr_trust req in
     case kubernetes (trust_spec trust) of
       None \<Rightarrow> Inl (NoKubernetesBlock (trust_name trust))
     | Some k \<Rightarrow>
       (case connect cluster trust of
          Inl e \<Rightarrow> Inl (Connecting (cl_name cluster) e)
        | Inr cs \<Rightarrow>
          (case createToken cs (sa_namespace k) (serviceAccountName k)
                  \<lparr>tr_audiences = audiences k, tr_expirationSeconds = int_seconds (mr_ttl req)\<rparr> of
             Inl e \<Rightarrow>
               Inl ((if IsNotFound e then ServiceAccountMissing else TokenRequestFailed)
                 (sa_namespace k @ ''/'' @ serviceAccountName k) (cl_name cluster) e)
           | Inr (token, expires) \<Rightarrow>
               Inr \<lparr>cred_token = token, cred_expiresAt = expires,
                    cred_server = endpoint (cl_spec cluster), cred_caBundle = caBundle (cl_spec cluster),
                    cred_namespace = sa_namespace k, cred_serviceAccount = serviceAccountName k\<rparr>)))"

definition KubernetesProvider ::
  "(Cluster \<Rightarrow> TrustConfig \<Rightarrow> broker_error + 'cs) \<Rightarrow>
   ('cs \<Rightarrow> string \<Rightarrow> string \<Rightarrow> TokenRequestSpec \<Rightarrow> api_error + (string \<times> go_time)) \<Rightarrow> Provider_impl" where
  "KubernetesProvider connect createToken =
    \<lparr>prov_kind = TrustProviderKubernetes, prov_minTTL = KubernetesMinTTL,
     prov_mint = KubernetesProvider_Mint connect createToken\<rparr>"

subsection \<open>Reaching a cell\<close>

text \<open>A \<open>rest.Config\<close>: what it was made from, and the two fields the connector sets on its copy.\<close>

record 'cfg restConfig =
  rc_base :: 'cfg
  rc_timeout :: duration
  rc_propagatesTrace :: bool

record ('cfg, 'cs) SecretConnector =
  sc_getSecret :: "string \<Rightarrow> string \<Rightarrow> api_error + (string \<times> string) list"
  sc_ns :: string
  sc_local :: "'cfg restConfig option"
  sc_parse :: "string \<Rightarrow> string + 'cfg restConfig"
  sc_build :: "'cfg restConfig \<Rightarrow> string + 'cs"

definition restConfigFor :: "('cfg, 'cs) SecretConnector \<Rightarrow> TrustConfig \<Rightarrow> broker_error + 'cfg restConfig" where
  "restConfigFor c trust =
    (let src = credentialSource (trust_spec trust); name = trust_name trust in
     if inCluster src then
       (case sc_local c of None \<Rightarrow> Inl (NoLocalConfig name) | Some cfg \<Rightarrow> Inr cfg)
     else (case secretRef src of
         None \<Rightarrow> Inl (NoCredentialSource name)
       | Some ref \<Rightarrow>
         (let key = (if secret_key ref = '''' then ''kubeconfig'' else secret_key ref) in
          case sc_getSecret c (sc_ns c) (secret_name ref) of
            Inl e \<Rightarrow> if IsNotFound e then Inl (SecretMissing name (secret_name ref))
                     else Inl (ReadSecret name (secret_name ref) e)
          | Inr data \<Rightarrow>
            (case map_of data key of
               None \<Rightarrow> Inl (SecretKeyMissing (secret_name ref) key)
             | Some raw \<Rightarrow>
               if raw = '''' then Inl (SecretKeyMissing (secret_name ref) key)
               else (case sc_parse c raw of
                       Inl e \<Rightarrow> Inl (ParseKubeconfig name (secret_name ref) e)
                     | Inr cfg \<Rightarrow> Inr cfg)))))"

definition Connect :: "('cfg, 'cs) SecretConnector \<Rightarrow> Cluster \<Rightarrow> TrustConfig \<Rightarrow> broker_error + 'cs" where
  "Connect c cluster trust =
    (case restConfigFor c trust of
       Inl e \<Rightarrow> Inl e
     | Inr cfg \<Rightarrow>
       (case sc_build c (cfg\<lparr>rc_timeout := mintTimeout, rc_propagatesTrace := True\<rparr>) of
          Inl e \<Rightarrow> Inl (BuildClient e)
        | Inr cs \<Rightarrow> Inr cs))"

section \<open>The broker\<close>

record Broker =
  br_getTrust :: "string \<Rightarrow> string \<Rightarrow> api_error + TrustConfig"
  br_ns :: string
  br_ceiling :: duration
  br_providers :: "(TrustProvider \<times> Provider_impl) list"

definition NewBroker ::
  "(string \<Rightarrow> string \<Rightarrow> api_error + TrustConfig) \<Rightarrow> string \<Rightarrow> duration \<Rightarrow> Provider_impl list \<Rightarrow> Broker" where
  "NewBroker getTrust namespace ceil providers =
    \<lparr>br_getTrust = getTrust, br_ns = namespace, br_ceiling = ceil,
     br_providers = foldl (\<lambda>m p. AList.update (prov_kind p) p m) [] providers\<rparr>"

definition trustFor :: "Broker \<Rightarrow> Cluster \<Rightarrow> broker_error + TrustConfig" where
  "trustFor b cluster =
    (let name = trustConfigRef (cl_spec cluster) in
     case br_getTrust b (br_ns b) name of
       Inl e \<Rightarrow> if IsNotFound e then Inl (TrustMissing (cl_name cluster) name) else Inl (ReadTrust name e)
     | Inr trust \<Rightarrow>
       (case ValidateTrust trust of Some e \<Rightarrow> Inl e | None \<Rightarrow> Inr trust))"

definition zero_resolution :: Resolution where
  "zero_resolution = \<lparr>res_granted = 0, res_default = 0, res_max = 0, res_requested = 0, res_clamped = False\<rparr>"

definition Mint ::
  "Broker \<Rightarrow> go_time \<Rightarrow> Cluster \<Rightarrow> TokenTTLPolicy option \<Rightarrow> duration \<Rightarrow>
    (broker_error + Credential) \<times> Resolution" where
  "Mint b now cluster ttlPolicy requested =
    (case trustFor b cluster of
       Inl e \<Rightarrow> (Inl e, zero_resolution)
     | Inr trust \<Rightarrow>
       (case map_of (br_providers b) (trust_provider (trust_spec trust)) of
          None \<Rightarrow> (Inl (ProviderUnknown (trust_provider (trust_spec trust))), zero_resolution)
        | Some prov \<Rightarrow>
          (case ResolveTTL (cl_labels cluster) ttlPolicy requested (br_ceiling b) (prov_minTTL prov) of
             (res, Some e) \<Rightarrow> (Inl (LifetimeUnresolved (cl_name cluster) e), res)
           | (res, None) \<Rightarrow>
             (case prov_mint prov \<lparr>mr_cluster = cluster, mr_trust = trust, mr_ttl = res_granted res\<rparr> of
                Inl e \<Rightarrow> (Inl (MintingFailed (cl_name cluster) e), res)
              | Inr cred \<Rightarrow>
                (let lifetime = go_sub (cred_expiresAt cred) now in
                 if lifetime > wrap64 (res_max res + Minute)
                 then (Inl (OverCeiling (cl_name cluster) lifetime (res_max res)), res)
                 else (Inr cred, res))))))"

section \<open>Lemmas\<close>

lemma trust_providers_distinct [simp]: "TrustProviderKubernetes \<noteq> TrustProviderAWS" "TrustProviderAWS \<noteq> TrustProviderKubernetes"
  by (simp_all add: api_defs)

lemma ValidateTrust_None_iff:
  "ValidateTrust trust = None \<longleftrightarrow>
    trust_provider (trust_spec trust) = TrustProviderKubernetes \<and>
    (\<exists>k. kubernetes (trust_spec trust) = Some k \<and> serviceAccountName k \<noteq> '''' \<and> sa_namespace k \<noteq> '''') \<and>
    (inCluster (credentialSource (trust_spec trust)) \<longleftrightarrow> secretRef (credentialSource (trust_spec trust)) = None) \<and>
    (\<forall>ref. secretRef (credentialSource (trust_spec trust)) = Some ref \<longrightarrow> secret_name ref \<noteq> '''')"
  by (auto simp: ValidateTrust_def Let_def split: option.splits)

lemma trustFor_Inr_iff:
  "trustFor b cluster = Inr trust \<longleftrightarrow>
    br_getTrust b (br_ns b) (trustConfigRef (cl_spec cluster)) = Inr trust \<and> ValidateTrust trust = None"
  by (auto simp: trustFor_def Let_def split: sum.splits option.splits)

lemma Mint_Inr:
  assumes "Mint b now cluster ttlPolicy requested = (Inr cred, res)"
  obtains trust prov where "trustFor b cluster = Inr trust"
    and "map_of (br_providers b) (trust_provider (trust_spec trust)) = Some prov"
    and "ResolveTTL (cl_labels cluster) ttlPolicy requested (br_ceiling b) (prov_minTTL prov) = (res, None)"
    and "prov_mint prov \<lparr>mr_cluster = cluster, mr_trust = trust, mr_ttl = res_granted res\<rparr> = Inr cred"
    and "go_sub (cred_expiresAt cred) now \<le> wrap64 (res_max res + Minute)"
  using assms
  by (auto simp: Mint_def Let_def split: sum.splits option.splits prod.splits if_splits)

lemma wrap64_le: "min_int64 \<le> x \<Longrightarrow> wrap64 x \<le> x"
  using zmod_le_nonneg_dividend [of "x + 9223372036854775808" 18446744073709551616]
  by (simp add: wrap64_def min_int64_def)

section \<open>The provider interface\<close>

text \<open>
  What the broker relies on of a provider: a positive floor, and a credential addressed to the cell
  it was asked for and confined to the service account the trust configuration names.
\<close>

locale credential_provider =
  fixes kind :: TrustProvider
    and minTTL :: duration
    and mint :: "MintRequest \<Rightarrow> broker_error + Credential"
  assumes minTTL_pos: "0 < minTTL"
    and addressed: "mint req = Inr cred \<Longrightarrow>
      cred_server cred = endpoint (cl_spec (mr_cluster req)) \<and>
      cred_caBundle cred = caBundle (cl_spec (mr_cluster req))"
    and confined: "mint req = Inr cred \<Longrightarrow> kubernetes (trust_spec (mr_trust req)) = Some k \<Longrightarrow>
      cred_namespace cred = sa_namespace k \<and> cred_serviceAccount cred = serviceAccountName k"
begin

abbreviation impl :: Provider_impl where
  "impl \<equiv> \<lparr>prov_kind = kind, prov_minTTL = minTTL, prov_mint = mint\<rparr>"

lemma broker_mint_scope:
  assumes "br_providers b = [(kind, impl)]"
    and "Mint b now cluster ttlPolicy requested = (Inr cred, res)"
  shows "cred_server cred = endpoint (cl_spec cluster) \<and> cred_caBundle cred = caBundle (cl_spec cluster) \<and>
    (\<exists>trust k. br_getTrust b (br_ns b) (trustConfigRef (cl_spec cluster)) = Inr trust \<and>
      ValidateTrust trust = None \<and> kubernetes (trust_spec trust) = Some k \<and>
      cred_namespace cred = sa_namespace k \<and> cred_serviceAccount cred = serviceAccountName k)"
proof -
  obtain trust prov where t: "trustFor b cluster = Inr trust"
    and p: "map_of (br_providers b) (trust_provider (trust_spec trust)) = Some prov"
    and m: "prov_mint prov \<lparr>mr_cluster = cluster, mr_trust = trust, mr_ttl = res_granted res\<rparr> = Inr cred"
    using assms(2) by (auto elim: Mint_Inr)
  from p assms(1) have "prov = impl" by (simp split: if_splits)
  with m have m: "mint \<lparr>mr_cluster = cluster, mr_trust = trust, mr_ttl = res_granted res\<rparr> = Inr cred"
    by simp
  from t have v: "br_getTrust b (br_ns b) (trustConfigRef (cl_spec cluster)) = Inr trust" "ValidateTrust trust = None"
    by (auto simp: trustFor_Inr_iff)
  then obtain k where "kubernetes (trust_spec trust) = Some k" by (auto simp: ValidateTrust_None_iff)
  with v addressed [OF m] confined [OF m] show ?thesis by auto
qed

lemma broker_mint_floor:
  assumes "br_providers b = [(kind, impl)]"
    and "Mint b now cluster ttlPolicy requested = (Inr cred, res)"
  shows "ResolveTTL (cl_labels cluster) ttlPolicy requested (br_ceiling b) minTTL = (res, None)"
  using assms(1) by (rule_tac Mint_Inr [OF assms(2)]) (auto split: if_splits)

end

interpretation kubernetes_provider:
  credential_provider TrustProviderKubernetes KubernetesMinTTL "KubernetesProvider_Mint connect createToken"
  for connect createToken
proof unfold_locales
  show "0 < KubernetesMinTTL" by (simp add: KubernetesMinTTL_def duration_units)
  fix req cred k assume m: "KubernetesProvider_Mint connect createToken req = Inr cred"
  then show "cred_server cred = endpoint (cl_spec (mr_cluster req)) \<and>
      cred_caBundle cred = caBundle (cl_spec (mr_cluster req))"
    by (auto simp: KubernetesProvider_Mint_def Let_def split: option.splits sum.splits)
  assume "kubernetes (trust_spec (mr_trust req)) = Some k"
  with m show "cred_namespace cred = sa_namespace k \<and> cred_serviceAccount cred = serviceAccountName k"
    by (auto simp: KubernetesProvider_Mint_def Let_def split: sum.splits)
qed

lemma kubernetes_broker_providers:
  "br_providers (NewBroker getTrust ns ceil [KubernetesProvider connect createToken]) =
    [(TrustProviderKubernetes, \<lparr>prov_kind = TrustProviderKubernetes, prov_minTTL = KubernetesMinTTL,
      prov_mint = KubernetesProvider_Mint connect createToken\<rparr>)]"
  by (simp add: NewBroker_def KubernetesProvider_def)

lemma Mint_within_ceiling:
  assumes "Mint (NewBroker getTrust ns ceil [KubernetesProvider connect createToken]) now cluster
      ttlPolicy requested = (Inr cred, res)"
    and "0 < ceil" and "ceil + Minute < max_int64"
  shows "KubernetesMinTTL \<le> res_granted res \<and> res_granted res \<le> res_max res \<and> res_max res \<le> ceil \<and>
    cred_expiresAt cred \<le> now + res_max res + Minute"
proof -
  let ?b = "NewBroker getTrust ns ceil [KubernetesProvider connect createToken]"
  have c: "br_ceiling ?b = ceil" by (simp add: NewBroker_def)
  note r = kubernetes_provider.broker_mint_floor [OF kubernetes_broker_providers assms(1), unfolded c]
  from ResolveTTL_bounds [of "cl_labels cluster" ttlPolicy ceil KubernetesMinTTL requested] r assms(2)
  have b: "KubernetesMinTTL \<le> res_granted res" "res_granted res \<le> res_max res" "res_max res \<le> ceil"
    "0 < res_granted res" by simp_all
  have "go_sub (cred_expiresAt cred) now \<le> wrap64 (res_max res + Minute)"
    using assms(1) by (auto elim: Mint_Inr)
  also have "\<dots> = res_max res + Minute"
    using b assms(3) by (intro wrap64_id) (simp add: in_int64_def min_int64_def duration_units)
  finally have "cred_expiresAt cred - now \<le> res_max res + Minute"
    using b assms(3) by (subst (asm) go_sub_le_iff) (simp_all add: min_int64_def duration_units)
  with b show ?thesis by simp
qed

lemma Mint_scoped:
  assumes "Mint (NewBroker getTrust ns ceil [KubernetesProvider connect createToken]) now cluster
      ttlPolicy requested = (Inr cred, res)"
  shows "cred_server cred = endpoint (cl_spec cluster) \<and> cred_caBundle cred = caBundle (cl_spec cluster) \<and>
    (\<exists>trust k. getTrust ns (trustConfigRef (cl_spec cluster)) = Inr trust \<and>
      trust_provider (trust_spec trust) = TrustProviderKubernetes \<and>
      kubernetes (trust_spec trust) = Some k \<and> serviceAccountName k \<noteq> '''' \<and> sa_namespace k \<noteq> '''' \<and>
      cred_namespace cred = sa_namespace k \<and> cred_serviceAccount cred = serviceAccountName k)"
proof -
  let ?b = "NewBroker getTrust ns ceil [KubernetesProvider connect createToken]"
  have g: "br_getTrust ?b = getTrust" "br_ns ?b = ns" by (simp_all add: NewBroker_def)
  from kubernetes_provider.broker_mint_scope [OF kubernetes_broker_providers assms] show ?thesis
    unfolding g by (auto simp: ValidateTrust_None_iff)
qed

section \<open>Properties\<close>

text \<open>
  A credential leaves the broker only within the operator's bounds. With a positive ceiling, the lifetime
  asked of the cell lies between the provider's floor and the effective maximum, which is at most
  the ceiling; and whatever expiry the cell reports, a credential that outlives the maximum by more than
  a minute at the time of the check is discarded.
\<close>

theorem minted_within_ceiling:
  assumes "Mint (NewBroker getTrust ns ceil [KubernetesProvider connect createToken]) now cluster
      ttlPolicy requested = (Inr cred, res)"
    and "0 < ceil" and "ceil + Minute < max_int64"
  shows "KubernetesMinTTL \<le> res_granted res \<and> res_granted res \<le> res_max res \<and> res_max res \<le> ceil \<and>
    cred_expiresAt cred \<le> now + res_max res + Minute"
  using assms by (rule Mint_within_ceiling)

text \<open>
  A credential is scoped by the operator and not by the caller: it is addressed to the registered
  endpoint of the chosen cell with the registered CA bundle, and it acts as the service account and
  namespace of a valid trust configuration, the one the cell references in the hub's namespace.
\<close>

theorem minted_credential_is_scoped:
  assumes "Mint (NewBroker getTrust ns ceil [KubernetesProvider connect createToken]) now cluster
      ttlPolicy requested = (Inr cred, res)"
  shows "cred_server cred = endpoint (cl_spec cluster) \<and> cred_caBundle cred = caBundle (cl_spec cluster) \<and>
    (\<exists>trust k. getTrust ns (trustConfigRef (cl_spec cluster)) = Inr trust \<and>
      trust_provider (trust_spec trust) = TrustProviderKubernetes \<and>
      kubernetes (trust_spec trust) = Some k \<and> serviceAccountName k \<noteq> '''' \<and> sa_namespace k \<noteq> '''' \<and>
      cred_namespace cred = sa_namespace k \<and> cred_serviceAccount cred = serviceAccountName k)"
  using assms by (rule Mint_scoped)

section \<open>Witnesses\<close>

definition sample_trust :: TrustConfig where
  "sample_trust = \<lparr>trust_name = ''trust'', trust_namespace = ''cellcast'', trust_generation = 1,
    trust_spec = \<lparr>trust_provider = TrustProviderKubernetes,
      credentialSource = \<lparr>inCluster = True, secretRef = None\<rparr>,
      kubernetes = Some \<lparr>serviceAccountName = ''deployer'', sa_namespace = ''apps'', audiences = []\<rparr>\<rparr>,
    trust_status = \<lparr>trust_observedGeneration = 0, trust_conditions = []\<rparr>\<rparr>"

definition sample_cell :: Cluster where
  "sample_cell = \<lparr>cl_name = ''blue'', cl_namespace = ''cellcast'', cl_labels = [(''env'', ''prod'')],
    cl_generation = 1, cl_created = 0,
    cl_spec = \<lparr>endpoint = ''https://blue'', caBundle = ''pem'', provider = ProviderGeneric,
      trustConfigRef = ''trust'', reporter = None, state = ''''\<rparr>,
    cl_status = \<lparr>observedState = '''', cl_observedGeneration = 0, stateSince = None, cl_conditions = []\<rparr>\<rparr>"

text \<open>A cell that issues a token for ten minutes whatever it is asked for.\<close>

definition sample_broker :: Broker where
  "sample_broker = NewBroker (\<lambda>_ _. Inr sample_trust) ''cellcast'' Hour
    [KubernetesProvider (\<lambda>_ _. Inr ()) (\<lambda>_ _ _ _. Inr (''secret'', 10 * Minute))]"

lemma sample_mint:
  obtains cred res where "Mint sample_broker 0 sample_cell None 0 = (Inr cred, res)"
proof -
  have t: "trustFor sample_broker sample_cell = Inr sample_trust"
    unfolding trustFor_Inr_iff ValidateTrust_None_iff
    by (simp add: sample_broker_def NewBroker_def sample_trust_def)
  have p: "map_of (br_providers sample_broker) TrustProviderKubernetes =
      Some (KubernetesProvider (\<lambda>_ _. Inr ()) (\<lambda>_ _ _ _. Inr (''secret'', 10 * Minute)))"
    by (simp add: sample_broker_def NewBroker_def KubernetesProvider_def)
  have r: "ResolveTTL (cl_labels sample_cell) None 0 (br_ceiling sample_broker) KubernetesMinTTL =
      (\<lparr>res_granted = 10 * Minute, res_default = 10 * Minute, res_max = 15 * Minute,
        res_requested = 0, res_clamped = False\<rparr>, None)"
    by (simp add: ResolveTTL_def BoundsFor_def envBounds_def EnvLabel_def policy_bounds_def sample_cell_def
        sample_broker_def NewBroker_def KubernetesMinTTL_def duration_units)
  have "trust_provider (trust_spec sample_trust) = TrustProviderKubernetes" by (simp add: sample_trust_def)
  with t p r that show thesis
    by (simp add: Mint_def KubernetesProvider_def KubernetesProvider_Mint_def sample_trust_def
        go_sub_def wrap64_def min_int64_def max_int64_def duration_units)
qed

theorem minted_within_ceiling_witness:
  "\<exists>cred res. Mint sample_broker 0 sample_cell None 0 = (Inr cred, res) \<and> res_granted res \<le> Hour \<and>
    cred_expiresAt cred \<le> Hour + Minute"
proof (rule sample_mint)
  fix cred res assume m: "Mint sample_broker 0 sample_cell None 0 = (Inr cred, res)"
  have "0 < Hour" "Hour + Minute < max_int64" by (simp_all add: duration_units max_int64_def)
  from minted_within_ceiling [OF m [unfolded sample_broker_def] this] m show ?thesis by fastforce
qed

theorem minted_credential_is_scoped_witness:
  "\<exists>cred res. Mint sample_broker 0 sample_cell None 0 = (Inr cred, res) \<and>
    cred_server cred = ''https://blue'' \<and> cred_serviceAccount cred = ''deployer''"
proof (rule sample_mint)
  fix cred res assume m: "Mint sample_broker 0 sample_cell None 0 = (Inr cred, res)"
  from minted_credential_is_scoped [OF m [unfolded sample_broker_def]]
  have "cred_server cred = ''https://blue''" "cred_serviceAccount cred = ''deployer''"
    by (auto simp: sample_cell_def sample_trust_def)
  with m show ?thesis by blast
qed

end
