(* ===== verification/AuditTrail.thy ===== *)
theory AuditTrail
  imports Refusal Sha256 Broker
begin

text \<open>
  The audit trail: \<open>internal/hub/audit/audit.go\<close>.

  A record is rendered to structured attributes; an attribute whose value is the text of a
  duration is \<open>SlogDuration\<close>, the text being \<open>Duration.String\<close> of it. The auditor writes the rendered
  record to its log and then hands the record to its notifiers, which act on a state \<open>'w\<close> of their own.
\<close>

definition Msg :: string where [api_defs]: "Msg = ''audit''"

type_synonym Event = string
type_synonym Outcome = string

definition EventPlacement :: Event where [api_defs]: "EventPlacement = ''placement''"
definition EventMint :: Event where [api_defs]: "EventMint = ''mint''"
definition OutcomeGranted :: Outcome where [api_defs]: "OutcomeGranted = ''granted''"
definition OutcomeDryRun :: Outcome where [api_defs]: "OutcomeDryRun = ''dry-run''"
definition OutcomeRefused :: Outcome where [api_defs]: "OutcomeRefused = ''refused''"

record audit_Candidate =
  ac_cell :: string
  ac_admitted :: bool
  ac_stage :: string
  ac_reason :: string
  ac_utilisation :: rat

record audit_Record =
  au_event :: Event
  au_outcome :: Outcome
  au_requestID :: string
  au_issuer :: string
  au_subject :: string
  au_claims :: labels
  au_workload :: string
  au_targetedDark :: bool
  au_requestedTTL :: duration
  au_cell :: string
  au_previousCell :: string
  au_policy :: string
  au_strategy :: string
  au_confidence :: string
  au_candidates :: "audit_Candidate list"
  au_provider :: string
  au_env :: string
  au_namespace :: string
  au_serviceAccount :: string
  au_grantedTTL :: duration
  au_expiresAt :: go_time
  au_tokenSHA256 :: string
  au_reason :: Reason
  au_error :: string

text \<open>The zero \<open>time.Time\<close>, the first of January of the year one.\<close>

definition zero_time :: go_time where
  "zero_time = - 62135596800 * Second"

type_synonym slog_attrs = "(string \<times> slog_value) list"

fun appendNonEmpty :: "slog_attrs \<Rightarrow> (string \<times> string) list \<Rightarrow> slog_attrs" where
  "appendNonEmpty attrs [] = attrs"
| "appendNonEmpty attrs ((k, v) # kvs) =
    appendNonEmpty (if v \<noteq> '''' then attrs @ [(k, SlogString v)] else attrs) kvs"

definition candidate_attrs :: "audit_Candidate \<Rightarrow> slog_attrs" where
  "candidate_attrs c =
    [(''cell'', SlogString (ac_cell c)), (''admitted'', SlogBool (ac_admitted c))] @
    (if ac_stage c = '''' then [] else [(''stage'', SlogString (ac_stage c))]) @
    (if ac_reason c = '''' then [] else [(''reason'', SlogString (ac_reason c))]) @
    [(''utilisation'', SlogFloat (ac_utilisation c))]"

definition attrs :: "audit_Record \<Rightarrow> slog_attrs" where
  "attrs r =
    (let a1 = [(''event'', SlogString (au_event r)), (''outcome'', SlogString (au_outcome r))];
         a2 = appendNonEmpty a1 [(''request_id'', au_requestID r), (''issuer'', au_issuer r),
                (''subject'', au_subject r)];
         a3 = (if au_claims r \<noteq> []
               then a2 @ [(''claims'', SlogGroup (map (\<lambda>(k, v). (k, SlogString v)) (au_claims r)))] else a2);
         a4 = appendNonEmpty a3 [(''workload'', au_workload r)];
         a5 = (if au_targetedDark r then a4 @ [(''targeted_dark'', SlogBool True)] else a4);
         a6 = (if au_requestedTTL r > 0
               then a5 @ [(''requested_ttl'', SlogDuration (au_requestedTTL r))] else a5);
         a7 = appendNonEmpty a6 [(''cell'', au_cell r), (''previous_cell'', au_previousCell r),
                (''policy'', au_policy r), (''strategy'', au_strategy r), (''confidence'', au_confidence r)];
         a8 = (if au_candidates r \<noteq> []
               then a7 @ [(''candidates'', SlogList (map candidate_attrs (au_candidates r)))] else a7);
         a9 = appendNonEmpty a8 [(''provider'', au_provider r), (''env'', au_env r),
                (''namespace'', au_namespace r), (''service_account'', au_serviceAccount r)];
         a10 = (if au_grantedTTL r > 0
                then a9 @ [(''granted_ttl'', SlogDuration (au_grantedTTL r))] else a9);
         a11 = (if au_expiresAt r \<noteq> zero_time
                then a10 @ [(''expires_at'', SlogTime (au_expiresAt r))] else a10)
     in appendNonEmpty a11 [(''token_sha256'', au_tokenSHA256 r), (''reason'', au_reason r),
          (''error'', au_error r)])"

definition untraced :: "(string \<times> bool) list" where
  "untraced = [(''claims'', True), (''candidates'', True), (''token_sha256'', True), (''error'', True)]"

definition TraceAttrs :: "audit_Record \<Rightarrow> slog_attrs" where
  "TraceAttrs r = filter (\<lambda>a. map_of untraced (fst a) \<noteq> Some True) (attrs r)"

definition HashToken :: "string \<Rightarrow> string" where
  "HashToken token = (if token = '''' then '''' else ''sha256:'' @ EncodeToString (Sum256 token))"

text \<open>A nil notifier is \<^const>\<open>None\<close>.\<close>

record 'w Auditor =
  notifiers :: "(audit_Record \<Rightarrow> 'w \<Rightarrow> 'w) option list"

definition NewAuditor :: "(audit_Record \<Rightarrow> 'w \<Rightarrow> 'w) option list \<Rightarrow> 'w Auditor" where
  "NewAuditor ns = \<lparr>notifiers = ns\<rparr>"

definition Auditor_With :: "'w Auditor \<Rightarrow> (audit_Record \<Rightarrow> 'w \<Rightarrow> 'w) option list \<Rightarrow> 'w Auditor" where
  "Auditor_With a ns = \<lparr>notifiers = notifiers a @ ns\<rparr>"

definition Auditor_Record ::
  "'w Auditor \<Rightarrow> audit_Record \<Rightarrow> (string \<times> slog_attrs) list \<times> 'w \<Rightarrow> (string \<times> slog_attrs) list \<times> 'w" where
  "Auditor_Record a rec st =
    (fst st @ [(Msg, attrs rec)],
     foldl (\<lambda>w n. case n of None \<Rightarrow> w | Some notify \<Rightarrow> notify rec w) (snd st) (notifiers a))"

section \<open>Lemmas\<close>

text \<open>
  A rendering is a table of optional attributes with the absent ones left out, in the order they are
  written; \<open>attr_table\<close> is that table, and its keys are fixed.
\<close>

definition present :: "string \<times> slog_value option \<Rightarrow> slog_attrs" where
  "present kv = (case snd kv of None \<Rightarrow> [] | Some v \<Rightarrow> [(fst kv, v)])"

definition given :: "bool \<Rightarrow> 'a \<Rightarrow> 'a option" where
  "given b v = (if b then Some v else None)"

definition attr_table :: "audit_Record \<Rightarrow> (string \<times> slog_value option) list" where
  "attr_table r =
    (let text = (\<lambda>v. given (v \<noteq> '''') (SlogString v)) in
    [(''event'', Some (SlogString (au_event r))), (''outcome'', Some (SlogString (au_outcome r))),
     (''request_id'', text (au_requestID r)), (''issuer'', text (au_issuer r)), (''subject'', text (au_subject r)),
     (''claims'', given (au_claims r \<noteq> []) (SlogGroup (map (\<lambda>(k, v). (k, SlogString v)) (au_claims r)))),
     (''workload'', text (au_workload r)), (''targeted_dark'', given (au_targetedDark r) (SlogBool True)),
     (''requested_ttl'', given (au_requestedTTL r > 0) (SlogDuration (au_requestedTTL r))),
     (''cell'', text (au_cell r)), (''previous_cell'', text (au_previousCell r)), (''policy'', text (au_policy r)),
     (''strategy'', text (au_strategy r)), (''confidence'', text (au_confidence r)),
     (''candidates'', given (au_candidates r \<noteq> []) (SlogList (map candidate_attrs (au_candidates r)))),
     (''provider'', text (au_provider r)), (''env'', text (au_env r)), (''namespace'', text (au_namespace r)),
     (''service_account'', text (au_serviceAccount r)),
     (''granted_ttl'', given (au_grantedTTL r > 0) (SlogDuration (au_grantedTTL r))),
     (''expires_at'', given (au_expiresAt r \<noteq> zero_time) (SlogTime (au_expiresAt r))),
     (''token_sha256'', text (au_tokenSHA256 r)), (''reason'', text (au_reason r)), (''error'', text (au_error r))])"

lemma present_simps:
  "present (k, Some v) = [(k, v)]"
  "present (k, given b v) = (if b then [(k, v)] else [])"
  by (simp_all add: present_def given_def)

lemma appendNonEmpty_eq:
  "appendNonEmpty as kvs = as @ concat (map (\<lambda>(k, v). present (k, given (v \<noteq> '''') (SlogString v))) kvs)"
  by (induction as kvs rule: appendNonEmpty.induct) (simp_all add: present_simps)

lemma if_append_present: "(if b then as @ [(k, v)] else as) = as @ present (k, given b v)"
  by (simp add: present_simps)

lemma attrs_table: "attrs r = concat (map present (attr_table r))"
  unfolding attrs_def Let_def appendNonEmpty_eq if_append_present attr_table_def
  by (simp only: list.map concat.simps prod.case append_assoc append_Cons append_Nil append_Nil2 present_simps(1))

lemma distinct_present:
  assumes "distinct (map fst kvs)"
  shows "distinct (map fst (concat (map present kvs))) \<and>
    set (map fst (concat (map present kvs))) \<subseteq> set (map fst kvs)"
  using assms by (induction kvs) (auto simp: present_def split: option.splits)

lemma attrs_keys:
  "distinct (map fst (attrs r)) \<and> set (map fst (attrs r)) \<subseteq> set (map fst (attr_table r))"
  unfolding attrs_table by (rule distinct_present) (simp add: attr_table_def Let_def)

lemma HashToken_shape:
  "token \<noteq> '''' \<Longrightarrow> length (HashToken token) = 71 \<and> take 7 (HashToken token) = ''sha256:''"
  by (simp add: HashToken_def)

lemma HashToken_digits: "set (drop 7 (HashToken token)) \<subseteq> set hex_digits"
  using set_EncodeToString by (simp add: HashToken_def)

section \<open>Properties\<close>

text \<open>
  A span never says more than the trail: its attributes are attributes of the audit record in the same order,
  and neither the claims, the candidate table, the token digest nor the error detail is among them. Every record
  is written to the log whatever the notifiers do.
\<close>

theorem trace_is_part_of_trail:
  "TraceAttrs r = filter (\<lambda>(k, v). k \<notin> {''claims'', ''candidates'', ''token_sha256'', ''error''}) (attrs r) \<and>
    distinct (map fst (attrs r)) \<and>
    fst (Auditor_Record a r (lines, w)) = lines @ [(Msg, attrs r)]"
proof (intro conjI)
  have "map_of untraced k \<noteq> Some True \<longleftrightarrow> k \<notin> {''claims'', ''candidates'', ''token_sha256'', ''error''}" for k
    by (simp add: untraced_def)
  then show "TraceAttrs r =
      filter (\<lambda>(k, v). k \<notin> {''claims'', ''candidates'', ''token_sha256'', ''error''}) (attrs r)"
    unfolding TraceAttrs_def by (intro filter_cong) (auto simp only: case_prod_beta)
  show "distinct (map fst (attrs r))" using attrs_keys by blast
  show "fst (Auditor_Record a r (lines, w)) = lines @ [(Msg, attrs r)]"
    by (simp add: Auditor_Record_def)
qed

end
