(* ===== verification/Ratelimit.thy ===== *)
theory Ratelimit
  imports Float64
begin

text \<open>
  Placements per caller: \<open>internal/hub/ratelimit.go\<close>. The token bucket of \<open>golang.org/x/time/rate\<close> is
  the parameter \<open>'b\<close> with the operations of \<open>bucket_ops\<close>: a full bucket of a limit and a burst, a reservation of one token
  with the delay it would need, and its cancellation.
\<close>

record 'b bucket_ops =
  newBucket :: "flt \<Rightarrow> int \<Rightarrow> 'b"
  reserve :: "'b \<Rightarrow> go_time \<Rightarrow> duration \<times> 'b"
  cancelAt :: "'b \<Rightarrow> go_time \<Rightarrow> 'b"

definition sweepEvery :: duration where "sweepEvery = Minute"

record 'b callerEntry =
  ce_lim :: 'b
  ce_seen :: go_time

record 'b callerLimiter =
  lim_limit :: flt
  lim_burst :: int
  lim_idle :: duration
  lim_callers :: "(string \<times> 'b callerEntry) list"
  lim_lastSweep :: go_time

text \<open>
  The refill time is computed in float64 and truncated to a duration; a quotient that is no int64, as for a rate that is not a number,
  converts to what the processor gives, on amd64 the least int64. The zero \<open>lastSweep\<close> is the zero time.
\<close>

definition refill_time :: "flt \<Rightarrow> int \<Rightarrow> duration" where
  "refill_time perSecond burst =
    (case perSecond of
       Fin q \<Rightarrow> (let t = trunc64 (f64_mul (f64_div (f64_of_int burst) q) (f64_of_int Second)) in if in_int64 t then t else min_int64)
     | PosInf \<Rightarrow> 0
     | _ \<Rightarrow> min_int64)"

definition newCallerLimiter :: "flt \<Rightarrow> int \<Rightarrow> 'b callerLimiter option" where
  "newCallerLimiter perSecond burst =
    (if flt_le perSecond (Fin 0) then None
     else Some \<lparr>lim_limit = perSecond, lim_burst = burst, lim_idle = max (refill_time perSecond burst) sweepEvery, lim_callers = [],
                lim_lastSweep = - 62135596800 * Second\<rparr>)"

definition limiter_sweep :: "'b callerLimiter \<Rightarrow> go_time \<Rightarrow> 'b callerLimiter" where
  "limiter_sweep l now =
    l\<lparr>lim_callers := filter (\<lambda>(key, e). \<not> (go_sub now (ce_seen e) \<ge> lim_idle l)) (lim_callers l),
      lim_lastSweep := now\<rparr>"

definition caller_key :: "string \<Rightarrow> string \<Rightarrow> string" where
  "caller_key issuer subject = issuer @ [CHR 0x00] @ subject"

definition allow ::
  "'b bucket_ops \<Rightarrow> 'b callerLimiter option \<Rightarrow> string \<Rightarrow> string \<Rightarrow> go_time \<Rightarrow>
    (bool \<times> duration) \<times> 'b callerLimiter option" where
  "allow ops lo issuer subject now =
    (case lo of None \<Rightarrow> ((True, 0), None) | Some l0 \<Rightarrow>
      (let key = caller_key issuer subject;
           l = (if go_sub now (lim_lastSweep l0) \<ge> sweepEvery then limiter_sweep l0 now else l0);
           lim = (case map_of (lim_callers l) key of Some e \<Rightarrow> ce_lim e | None \<Rightarrow> newBucket ops (lim_limit l) (lim_burst l))
       in case reserve ops lim now of
            (wait, lim') \<Rightarrow>
              if wait > 0
              then ((False, wait), Some (l\<lparr>lim_callers :=
                AList.update key \<lparr>ce_lim = cancelAt ops lim' now, ce_seen = now\<rparr> (lim_callers l)\<rparr>))
              else ((True, 0), Some (l\<lparr>lim_callers :=
                AList.update key \<lparr>ce_lim = lim', ce_seen = now\<rparr> (lim_callers l)\<rparr>))))"

section \<open>Lemmas\<close>

definition limiter_ok :: "'b callerLimiter option \<Rightarrow> bool" where
  "limiter_ok lo = (case lo of None \<Rightarrow> True | Some l \<Rightarrow> distinct (map fst (lim_callers l)))"

lemma limiter_ok_new: "limiter_ok (newCallerLimiter perSecond burst)"
  by (simp add: limiter_ok_def newCallerLimiter_def)

lemma limiter_ok_allow: "limiter_ok lo \<Longrightarrow> limiter_ok (snd (allow ops lo issuer subject now))"
  by (auto simp: limiter_ok_def allow_def limiter_sweep_def Let_def distinct_update distinct_map_fst_filter
      split: option.splits prod.splits)

lemma caller_key_inj:
  assumes "CHR 0x00 \<notin> set issuer" and "CHR 0x00 \<notin> set issuer'"
  shows "caller_key issuer subject = caller_key issuer' subject' \<longleftrightarrow> issuer = issuer' \<and> subject = subject'"
proof
  have tw: "takeWhile (\<lambda>c. c \<noteq> CHR 0x00) (i @ CHR 0x00 # s) = i" if "CHR 0x00 \<notin> set i" for i s :: string
    using that by (induction i) auto
  assume "caller_key issuer subject = caller_key issuer' subject'"
  then have eq: "issuer @ CHR 0x00 # subject = issuer' @ CHR 0x00 # subject'" by (simp add: caller_key_def)
  with tw [OF assms(1)] tw [OF assms(2)] have "issuer = issuer'" by metis
  with eq show "issuer = issuer' \<and> subject = subject'" by simp
qed simp

text \<open>What the limiter holds for a caller: the bucket it has, or the full one it would be given.\<close>

definition full_bucket :: "'b bucket_ops \<Rightarrow> 'b callerLimiter \<Rightarrow> 'b" where
  "full_bucket ops l = newBucket ops (lim_limit l) (lim_burst l)"

definition held :: "'b bucket_ops \<Rightarrow> 'b callerLimiter \<Rightarrow> string \<Rightarrow> string \<Rightarrow> 'b" where
  "held ops l issuer subject =
    (case map_of (lim_callers l) (caller_key issuer subject) of None \<Rightarrow> full_bucket ops l | Some e \<Rightarrow> ce_lim e)"

definition bucket_of :: "'b bucket_ops \<Rightarrow> 'b callerLimiter option \<Rightarrow> string \<Rightarrow> string \<Rightarrow> 'b option" where
  "bucket_of ops lo issuer subject = map_option (\<lambda>l. held ops l issuer subject) lo"

definition swept :: "'b callerLimiter option \<Rightarrow> string \<Rightarrow> string \<Rightarrow> go_time \<Rightarrow> bool" where
  "swept lo issuer subject now =
    (case lo of None \<Rightarrow> False | Some l \<Rightarrow>
      go_sub now (lim_lastSweep l) \<ge> sweepEvery \<and>
      (case map_of (lim_callers l) (caller_key issuer subject) of
         None \<Rightarrow> False | Some e \<Rightarrow> go_sub now (ce_seen e) \<ge> lim_idle l))"

section \<open>Forgetting a caller\<close>

text \<open>The answers of a limiter to a history of calls, and those of the specification: every caller has a bucket of its own for good.\<close>

type_synonym call = "string \<times> string \<times> go_time"

fun allow_history :: "'b bucket_ops \<Rightarrow> 'b callerLimiter option \<Rightarrow> call list \<Rightarrow> (bool \<times> duration) list" where
  "allow_history ops lo [] = []"
| "allow_history ops lo ((issuer, subject, now) # calls) =
    (case allow ops lo issuer subject now of (answer, lo') \<Rightarrow> answer # allow_history ops lo' calls)"

definition charge :: "'b bucket_ops \<Rightarrow> 'b \<Rightarrow> go_time \<Rightarrow> (bool \<times> duration) \<times> 'b" where
  "charge ops b now = (case reserve ops b now of (wait, b') \<Rightarrow>
    if wait > 0 then ((False, wait), cancelAt ops b' now) else ((True, 0), b'))"

fun bucket_history :: "'b bucket_ops \<Rightarrow> (string \<times> string \<Rightarrow> 'b) \<Rightarrow> call list \<Rightarrow> (bool \<times> duration) list" where
  "bucket_history ops m [] = []"
| "bucket_history ops m ((issuer, subject, now) # calls) =
    (case charge ops (m (issuer, subject)) now of (answer, b) \<Rightarrow>
      answer # bucket_history ops (m((issuer, subject) := b)) calls)"

text \<open>
  What \<open>golang.org/x/time/rate\<close> documents of a bucket: it holds \<open>burst\<close> tokens when full and is refilled at \<open>q\<close> tokens a second. So once as
  long as \<open>burst\<close> tokens take has passed since it was last used, it serves as a full one does. \<open>good b t\<close> says that \<open>b\<close> was last used
  at \<open>t\<close>. \<open>serves_full\<close> is the same for some idle time instead.
\<close>

definition refills :: "'b bucket_ops \<Rightarrow> rat \<Rightarrow> int \<Rightarrow> ('b \<Rightarrow> go_time \<Rightarrow> bool) \<Rightarrow> bool" where
  "refills ops q burst good \<longleftrightarrow>
    (\<forall>t. good (snd (charge ops (newBucket ops (Fin q) burst) t)) t) \<and>
    (\<forall>b t0 t. good b t0 \<longrightarrow> t0 \<le> t \<longrightarrow> good (snd (charge ops b t)) t) \<and>
    (\<forall>b t0 t. good b t0 \<longrightarrow> of_int (burst * Second) \<le> q * of_int (t - t0) \<longrightarrow>
      reserve ops b t = reserve ops (newBucket ops (Fin q) burst) t)"

definition serves_full :: "'b bucket_ops \<Rightarrow> 'b \<Rightarrow> duration \<Rightarrow> ('b \<Rightarrow> go_time \<Rightarrow> bool) \<Rightarrow> bool" where
  "serves_full ops full idle good \<longleftrightarrow>
    (\<forall>t. good (snd (charge ops full t)) t) \<and>
    (\<forall>b t0 t. good b t0 \<longrightarrow> t0 \<le> t \<longrightarrow> good (snd (charge ops b t)) t) \<and>
    (\<forall>b t0 t. good b t0 \<longrightarrow> idle \<le> t - t0 \<longrightarrow> reserve ops b t = reserve ops full t)"

lemma refills_serves_full:
  assumes "refills ops q burst good" and "0 < q" and "of_int (burst * Second) \<le> q * of_int idle"
  shows "serves_full ops (newBucket ops (Fin q) burst) idle good"
proof -
  have "rat_of_int (burst * Second) \<le> q * of_int d" if "idle \<le> d" for d
  proof -
    have "q * rat_of_int idle \<le> q * of_int d" using that assms(2) by (simp add: mult_le_cancel_left_pos)
    with assms(3) show ?thesis by (rule order_trans)
  qed
  with assms(1) show ?thesis unfolding refills_def serves_full_def by blast
qed

text \<open>The idle time against the time a refill takes, which the code computes with three roundings and a truncation.\<close>

lemma refill_time_lower:
  assumes "0 < q" and "0 \<le> burst" and "of_int (burst * Second) / q \<le> (2 :: rat) ^ 62"
  shows "of_int (burst * Second) / q * (1 - 3 / 2 ^ 53) < of_int (refill_time (Fin q) burst) + 1"
proof -
  define d :: rat where "d = 1 / 2 ^ 53"
  define b y z where "b = f64_of_int burst" and "y = f64_div b q" and "z = f64_mul y (f64_of_int Second)"
  let ?X = "rat_of_int (burst * Second) / q"
  have d: "0 < d" "d < 1" "(1 + d) ^ 3 \<le> 3 / 2" "1 - 3 * d \<le> (1 - d) ^ 3"
    by (simp_all add: d_def power3_eq_cube)
  have S: "f64_of_int Second = of_int Second" unfolding f64_of_int_def by (rule f64_int_exact) (simp_all add: Second_def)
  have B: "0 \<le> rat_of_int burst" using assms(2) by simp
  have b: "of_int burst * (1 - d) \<le> b" "b \<le> of_int burst * (1 + d)" "0 \<le> b"
    using f64_lower [OF B] f64_upper [OF B] f64_nonneg [OF B] by (simp_all add: b_def f64_of_int_def d_def)
  have bq: "0 \<le> b / q" using b(3) assms(1) by simp
  have y: "b / q * (1 - d) \<le> y" "y \<le> b / q * (1 + d)" "0 \<le> y"
    using f64_lower [OF bq] f64_upper [OF bq] f64_nonneg [OF bq] by (simp_all add: y_def f64_div_def d_def)
  have yS: "0 \<le> y * of_int Second" using y(3) by (simp add: Second_def)
  have z: "y * of_int Second * (1 - d) \<le> z" "z \<le> y * of_int Second * (1 + d)" "0 \<le> z"
    using f64_lower [OF yS] f64_upper [OF yS] f64_nonneg [OF yS] by (simp_all add: z_def f64_mul_def S d_def)
  have pos: "0 < rat_of_int Second" by (simp add: Second_def)
  have X: "0 \<le> ?X" using assms(1,2) by (simp add: Second_def)
  have "?X * (1 - d) ^ 3 = (of_int burst * (1 - d)) / q * (1 - d) * of_int Second * (1 - d)"
    by (simp add: power3_eq_cube)
  also have "\<dots> \<le> b / q * (1 - d) * of_int Second * (1 - d)"
    using b(1) assms(1) d pos by (intro mult_right_mono divide_right_mono) simp_all
  also have "\<dots> \<le> y * of_int Second * (1 - d)" using y(1) d pos by (intro mult_right_mono) simp_all
  finally have lo: "?X * (1 - d) ^ 3 \<le> z" using z(1) by simp
  have "z \<le> y * of_int Second * (1 + d)" by (rule z(2))
  also have "\<dots> \<le> b / q * (1 + d) * of_int Second * (1 + d)" using y(2) d pos by (intro mult_right_mono) simp_all
  also have "\<dots> \<le> (of_int burst * (1 + d)) / q * (1 + d) * of_int Second * (1 + d)"
    using b(2) assms(1) d pos by (intro mult_right_mono divide_right_mono) simp_all
  also have "\<dots> = ?X * (1 + d) ^ 3" by (simp add: power3_eq_cube)
  also have "\<dots> \<le> 2 ^ 62 * (3 / 2)" using assms(3) d X by (intro mult_mono) simp_all
  finally have "z < of_int (2 ^ 63 - 1)" by simp
  then have "\<lfloor>z\<rfloor> < 2 ^ 63 - 1" "0 \<le> \<lfloor>z\<rfloor>" using z(3) by (simp_all add: floor_less_iff)
  then have "in_int64 (trunc64 z)" using z(3) by (simp add: in_int64_def min_int64_def max_int64_def trunc64_def)
  then have r: "refill_time (Fin q) burst = \<lfloor>z\<rfloor>"
    using z(3) by (simp add: refill_time_def b_def y_def z_def trunc64_def Let_def)
  have "?X * (1 - 3 * d) \<le> ?X * (1 - d) ^ 3" using X d(4) by (rule mult_left_mono [rotated])
  also have "\<dots> \<le> z" by (rule lo)
  also have "z < of_int \<lfloor>z\<rfloor> + 1" by linarith
  finally show ?thesis by (simp add: r d_def)
qed

text \<open>Where the arithmetic is exact, or the minute between sweeps is enough, the idle time covers the refill.\<close>

lemma idle_covers_refill:
  assumes "0 < q" and "0 \<le> burst"
    and "of_int burst \<le> 60 * q \<or> (burst \<le> 2 ^ 53 \<and> (\<exists>n. of_int burst = of_int n * q \<and> n * Second \<le> 2 ^ 53))"
  shows "of_int (burst * Second) \<le> q * of_int (max (refill_time (Fin q) burst) sweepEvery)"
proof -
  let ?idle = "max (refill_time (Fin q) burst) sweepEvery"
  have up: "rat_of_int (burst * Second) \<le> q * of_int ?idle" if "rat_of_int (burst * Second) \<le> q * of_int t" "t \<le> ?idle" for t
  proof -
    have "q * rat_of_int t \<le> q * of_int ?idle" using that(2) assms(1) by (simp only: mult_le_cancel_left_pos of_int_le_iff)
    with that(1) show ?thesis by (rule order_trans)
  qed
  from assms(3) show ?thesis
  proof (elim disjE conjE exE)
    assume "rat_of_int burst \<le> 60 * q"
    then have "rat_of_int (burst * Second) \<le> q * of_int sweepEvery" by (simp add: sweepEvery_def duration_units)
    then show ?thesis by (rule up) simp
  next
    fix n assume b: "burst \<le> 2 ^ 53" and n: "rat_of_int burst = of_int n * q" "n * Second \<le> 2 ^ 53"
    have n0: "0 \<le> n"
    proof (rule ccontr)
      assume "\<not> 0 \<le> n"
      then have "rat_of_int n * q < 0" using assms(1) by (simp add: mult_neg_pos)
      with n(1) assms(2) show False by simp
    qed
    have "n \<le> n * Second" using n0 by (simp add: Second_def)
    with n(2) have n53: "n \<le> 2 ^ 53" by linarith
    have S: "f64_of_int Second = of_int Second" unfolding f64_of_int_def by (rule f64_int_exact) (simp_all add: Second_def)
    have "f64_of_int burst = of_int burst" unfolding f64_of_int_def by (rule f64_int_exact [OF assms(2) b])
    moreover have "rat_of_int burst / q = of_int n" using n(1) assms(1) by simp
    ultimately have "f64_div (f64_of_int burst) q = of_int n" by (simp add: f64_div_def f64_int_exact [OF n0 n53])
    moreover have "f64_mul (of_int n) (f64_of_int Second) = of_int (n * Second)"
      using f64_int_exact [of "n * Second"] n0 n(2) unfolding f64_mul_def S by (simp add: Second_def)
    moreover have "trunc64 (rat_of_int (n * Second)) = n * Second" by (simp only: trunc64_def floor_of_int ceiling_of_int if_cancel)
    moreover have "in_int64 (n * Second)" using n0 n(2) by (simp add: in_int64_def min_int64_def max_int64_def Second_def)
    ultimately have "refill_time (Fin q) burst = n * Second" by (simp only: refill_time_def flt.case Let_def if_True)
    moreover have "rat_of_int (burst * Second) \<le> q * of_int (n * Second)" by (simp add: n(1))
    ultimately show ?thesis using up [of "n * Second"] by simp
  qed
qed

definition tracks ::
  "'b bucket_ops \<Rightarrow> ('b \<Rightarrow> go_time \<Rightarrow> bool) \<Rightarrow> 'b callerLimiter \<Rightarrow> (string \<times> string \<Rightarrow> 'b) \<Rightarrow> go_time \<Rightarrow> bool" where
  "tracks ops good l m T \<longleftrightarrow> distinct (map fst (lim_callers l)) \<and> 0 < lim_idle l \<and>
    (\<forall>i s. CHR 0x00 \<notin> set i \<longrightarrow>
      (case map_of (lim_callers l) (caller_key i s) of
         Some e \<Rightarrow> ce_lim e = m (i, s) \<and> ce_seen e \<le> T \<and> good (ce_lim e) (ce_seen e)
       | None \<Rightarrow> m (i, s) = full_bucket ops l \<or> (\<exists>t0. t0 \<le> T \<and> good (m (i, s)) t0 \<and> lim_idle l \<le> T - t0)))"

lemma go_sub_ge: "0 < x \<Longrightarrow> x \<le> go_sub a b \<Longrightarrow> x \<le> a - b"
  by (auto simp: go_sub_def min_int64_def max_int64_def split: if_splits)

lemma tracks_sweep:
  assumes "tracks ops good l m T" and "T \<le> now"
  shows "tracks ops good (if go_sub now (lim_lastSweep l) \<ge> sweepEvery then limiter_sweep l now else l) m now"
proof -
  have keep: "tracks ops good l m now"
    using assms unfolding tracks_def by (fastforce split: option.splits)
  moreover have "tracks ops good (limiter_sweep l now) m now"
    unfolding tracks_def
  proof (intro conjI allI impI)
    from assms(1) have d: "distinct (map fst (lim_callers l))" and p: "0 < lim_idle l" by (auto simp: tracks_def)
    show "distinct (map fst (lim_callers (limiter_sweep l now)))" "0 < lim_idle (limiter_sweep l now)"
      using d p by (simp_all add: limiter_sweep_def distinct_map_fst_filter)
    fix i s :: string assume i: "CHR 0x00 \<notin> set i"
    have f: "full_bucket ops (limiter_sweep l now) = full_bucket ops l" "lim_idle (limiter_sweep l now) = lim_idle l"
      by (simp_all add: full_bucket_def limiter_sweep_def)
    show "case map_of (lim_callers (limiter_sweep l now)) (caller_key i s) of
        None \<Rightarrow> m (i, s) = full_bucket ops (limiter_sweep l now) \<or>
          (\<exists>t0. t0 \<le> now \<and> good (m (i, s)) t0 \<and> lim_idle (limiter_sweep l now) \<le> now - t0)
      | Some e \<Rightarrow> ce_lim e = m (i, s) \<and> ce_seen e \<le> now \<and> good (ce_lim e) (ce_seen e)"
      using keep i go_sub_ge [OF p] unfolding tracks_def f
      by (fastforce simp: limiter_sweep_def map_of_filter_key_distinct [OF d] split: option.splits if_splits)
  qed
  ultimately show ?thesis by simp
qed

lemma tracks_allow:
  assumes t: "tracks ops good l m T" and "T \<le> now" and i: "CHR 0x00 \<notin> set issuer"
    and r: "serves_full ops (full_bucket ops l) (lim_idle l) good"
  obtains l' where "allow ops (Some l) issuer subject now = (fst (charge ops (m (issuer, subject)) now), Some l')"
    and "tracks ops good l' (m((issuer, subject) := snd (charge ops (m (issuer, subject)) now))) now"
    and "full_bucket ops l' = full_bucket ops l" and "lim_idle l' = lim_idle l"
proof -
  define l1 where "l1 = (if go_sub now (lim_lastSweep l) \<ge> sweepEvery then limiter_sweep l now else l)"
  have f: "full_bucket ops l1 = full_bucket ops l" "lim_idle l1 = lim_idle l"
    by (simp_all add: l1_def full_bucket_def limiter_sweep_def)
  from tracks_sweep [OF t assms(2)] have t1: "tracks ops good l1 m now" by (simp add: l1_def)
  let ?m = "m (issuer, subject)"
  from t1 i have c: "case map_of (lim_callers l1) (caller_key issuer subject) of
      None \<Rightarrow> ?m = full_bucket ops l \<or> (\<exists>t0. t0 \<le> now \<and> good ?m t0 \<and> lim_idle l \<le> now - t0)
    | Some e \<Rightarrow> ce_lim e = ?m \<and> ce_seen e \<le> now \<and> good (ce_lim e) (ce_seen e)" unfolding tracks_def f by blast
  then have same: "reserve ops (held ops l1 issuer subject) now = reserve ops ?m now"
    using r unfolding held_def f serves_full_def by (auto split: option.splits)
  from c r have g: "good (snd (charge ops ?m now)) now"
    unfolding serves_full_def by (auto split: option.splits)
  define l' where "l' = l1\<lparr>lim_callers := AList.update (caller_key issuer subject)
    \<lparr>ce_lim = snd (charge ops ?m now), ce_seen = now\<rparr> (lim_callers l1)\<rparr>"
  have "allow ops (Some l) issuer subject now = (fst (charge ops ?m now), Some l')"
    using same unfolding held_def full_bucket_def charge_def l'_def
    by (cases "reserve ops ?m now") (auto simp: allow_def Let_def l1_def [symmetric] split: option.splits)
  moreover have "tracks ops good l' (m((issuer, subject) := snd (charge ops ?m now))) now"
    unfolding tracks_def
  proof (intro conjI allI impI)
    show "distinct (map fst (lim_callers l'))" "0 < lim_idle l'"
      using t1 by (simp_all add: tracks_def l'_def distinct_update)
    fix j u :: string assume j: "CHR 0x00 \<notin> set j"
    with t1 have "case map_of (lim_callers l1) (caller_key j u) of
        None \<Rightarrow> m (j, u) = full_bucket ops l1 \<or> (\<exists>t0. t0 \<le> now \<and> good (m (j, u)) t0 \<and> lim_idle l1 \<le> now - t0)
      | Some e \<Rightarrow> ce_lim e = m (j, u) \<and> ce_seen e \<le> now \<and> good (ce_lim e) (ce_seen e)" unfolding tracks_def by blast
    then show "case map_of (lim_callers l') (caller_key j u) of
        None \<Rightarrow> (m((issuer, subject) := snd (charge ops ?m now))) (j, u) = full_bucket ops l' \<or>
          (\<exists>t0. t0 \<le> now \<and> good ((m((issuer, subject) := snd (charge ops ?m now))) (j, u)) t0 \<and> lim_idle l' \<le> now - t0)
      | Some e \<Rightarrow> ce_lim e = (m((issuer, subject) := snd (charge ops ?m now))) (j, u) \<and> ce_seen e \<le> now \<and> good (ce_lim e) (ce_seen e)"
      using g by (cases "(j, u) = (issuer, subject)") (auto simp: l'_def full_bucket_def caller_key_inj [OF j i] update_conv' split: option.splits)
  qed
  moreover have "full_bucket ops l' = full_bucket ops l" "lim_idle l' = lim_idle l"
    using f by (simp_all add: l'_def full_bucket_def)
  ultimately show thesis by (rule that)
qed

lemma tracks_history:
  assumes "tracks ops good l m T" and "sorted (T # map (snd \<circ> snd) calls)" and "\<forall>c \<in> set calls. CHR 0x00 \<notin> set (fst c)"
    and "serves_full ops (full_bucket ops l) (lim_idle l) good"
  shows "allow_history ops (Some l) calls = bucket_history ops m calls"
  using assms
proof (induction calls arbitrary: l m T)
  case (Cons c calls)
  obtain i s t where c: "c = (i, s, t)" by (cases c)
  with Cons.prems have "T \<le> t" "CHR 0x00 \<notin> set i" by simp_all
  from tracks_allow [OF Cons.prems(1) this Cons.prems(4), of s] obtain l' where
    l': "allow ops (Some l) i s t = (fst (charge ops (m (i, s)) t), Some l')"
      "tracks ops good l' (m((i, s) := snd (charge ops (m (i, s)) t))) t"
      "full_bucket ops l' = full_bucket ops l" "lim_idle l' = lim_idle l" .
  obtain answer b where ch: "charge ops (m (i, s)) t = (answer, b)" by fastforce
  have "allow_history ops (Some l') calls = bucket_history ops (m((i, s) := b)) calls"
    using Cons.IH [OF l'(2)] Cons.prems(2-4) l'(3,4) c ch by (simp add: fun_upd_def)
  then show ?case using c ch by (simp add: l'(1))
qed simp

section \<open>Properties\<close>

text \<open>
  One caller cannot spend another's placements. For callers whose issuers hold no NUL, asking on behalf of one
  leaves the bucket of the other as it was, except that a bucket not seen for the idle time is
  replaced by a full one; a caller is refused exactly when its own bucket asks it to wait, and a refused
  reservation is cancelled.
\<close>

theorem callers_are_isolated:
  assumes "limiter_ok (Some l)" and "CHR 0x00 \<notin> set issuer" and "CHR 0x00 \<notin> set issuer'"
  shows "((issuer', subject') \<noteq> (issuer, subject) \<longrightarrow>
      bucket_of ops (snd (allow ops (Some l) issuer subject now)) issuer' subject' =
        Some (if swept (Some l) issuer' subject' now then full_bucket ops l else held ops l issuer' subject')) \<and>
    (let b = (if swept (Some l) issuer subject now then full_bucket ops l else held ops l issuer subject);
         (wait, b') = reserve ops b now
     in fst (allow ops (Some l) issuer subject now) = (\<not> wait > 0, if wait > 0 then wait else 0) \<and>
        bucket_of ops (snd (allow ops (Some l) issuer subject now)) issuer subject =
          Some (if wait > 0 then cancelAt ops b' now else b'))"
proof -
  from assms(1) have d: "distinct (map fst (lim_callers l))" by (simp add: limiter_ok_def)
  define l1 where "l1 = (if go_sub now (lim_lastSweep l) \<ge> sweepEvery then limiter_sweep l now else l)"
  have l1: "lim_limit l1 = lim_limit l" "lim_burst l1 = lim_burst l" by (simp_all add: l1_def limiter_sweep_def)
  have look: "held ops l1 i s = (if swept (Some l) i s now then full_bucket ops l else held ops l i s)" for i s
    using d by (auto simp: l1_def limiter_sweep_def swept_def held_def full_bucket_def map_of_filter_key_distinct split: option.splits)
  obtain wait b' where r: "reserve ops (held ops l1 issuer subject) now = (wait, b')" by force
  have a: "allow ops (Some l) issuer subject now =
    ((\<not> wait > 0, if wait > 0 then wait else 0),
     Some (l1\<lparr>lim_callers := AList.update (caller_key issuer subject)
       \<lparr>ce_lim = if wait > 0 then cancelAt ops b' now else b', ce_seen = now\<rparr> (lim_callers l1)\<rparr>))"
    using r unfolding held_def full_bucket_def by (auto simp: allow_def Let_def l1_def [symmetric] split: option.splits)
  have key: "caller_key issuer' subject' = caller_key issuer subject \<longleftrightarrow> (issuer', subject') = (issuer, subject)"
    using caller_key_inj [OF assms(3,2)] by simp
  have other: "(issuer', subject') \<noteq> (issuer, subject) \<Longrightarrow>
      bucket_of ops (snd (allow ops (Some l) issuer subject now)) issuer' subject' = Some (held ops l1 issuer' subject')"
    unfolding a bucket_of_def held_def full_bucket_def using key by (auto split: option.split)
  have own: "bucket_of ops (snd (allow ops (Some l) issuer subject now)) issuer subject =
      Some (if wait > 0 then cancelAt ops b' now else b')"
    unfolding a by (simp add: bucket_of_def held_def)
  from r have r': "reserve ops (if swept (Some l) issuer subject now then full_bucket ops l
      else held ops l issuer subject) now = (wait, b')" unfolding look .
  show ?thesis
    unfolding r' Let_def prod.case own using other unfolding look by (simp add: a)
qed

text \<open>
  C13. Forgetting a caller cannot be observed. The limiter keeps all callers in one table under one key each, and drops the bucket of a caller it has
  not seen for the idle time. For every finite rate and burst whose refill takes less than 146 years, that idle time, computed in float64 and
  truncated, falls short of the time a refill takes by less than a nanosecond and three parts in \<open>2^53\<close>. Where a bucket refills within the minute
  between sweeps, or in a whole number of seconds a float64 holds exactly, it does not fall short at all: the answers to
  any history of calls in the order of time, over callers whose issuers hold no NUL, are those of a limiter that gives every
  caller a token bucket of its own and never forgets one. So no caller spends or resets another's placements, and none wins any
  by staying away.
\<close>

theorem forgetting_is_unobservable:
  assumes "0 < q" and "0 \<le> burst" and "of_int (burst * Second) / q \<le> 2 ^ 62"
  shows "\<exists>l. newCallerLimiter (Fin q) burst = Some l \<and>
    of_int (burst * Second) / q * (1 - 3 / 2 ^ 53) < of_int (lim_idle l) + 1 \<and>
    (refills ops q burst good \<and>
      (of_int burst \<le> 60 * q \<or> (burst \<le> 2 ^ 53 \<and> (\<exists>n. of_int burst = of_int n * q \<and> n * Second \<le> 2 ^ 53))) \<and>
      sorted (map (snd \<circ> snd) calls) \<and> (\<forall>c \<in> set calls. CHR 0x00 \<notin> set (fst c)) \<longrightarrow>
      allow_history ops (Some l) calls = bucket_history ops (\<lambda>_. newBucket ops (Fin q) burst) calls)"
proof -
  from assms(1) obtain l where n: "newCallerLimiter (Fin q) burst = Some l" and l: "full_bucket ops l = newBucket ops (Fin q) burst"
    "lim_idle l = max (refill_time (Fin q) burst) sweepEvery" "lim_callers l = []"
    by (simp add: newCallerLimiter_def full_bucket_def flt_le_def)
  have idle: "0 < lim_idle l" by (simp add: l(2) sweepEvery_def duration_units)
  have "rat_of_int (refill_time (Fin q) burst) \<le> of_int (lim_idle l)" by (simp add: l(2) del: of_int_max)
  with refill_time_lower [OF assms] have "of_int (burst * Second) / q * (1 - 3 / 2 ^ 53) < of_int (lim_idle l) + 1" by linarith
  moreover have "allow_history ops (Some l) calls = bucket_history ops (\<lambda>_. newBucket ops (Fin q) burst) calls"
    if "refills ops q burst good"
      "of_int burst \<le> 60 * q \<or> (burst \<le> 2 ^ 53 \<and> (\<exists>n. of_int burst = of_int n * q \<and> n * Second \<le> 2 ^ 53))"
      "sorted (map (snd \<circ> snd) calls)" "\<forall>c \<in> set calls. CHR 0x00 \<notin> set (fst c)"
  proof (cases calls)
    case (Cons c cs)
    have "tracks ops good l (\<lambda>_. newBucket ops (Fin q) burst) (snd (snd c))" using idle by (simp add: tracks_def l(1,3))
    moreover have "serves_full ops (full_bucket ops l) (lim_idle l) good"
      unfolding l(1,2) by (rule refills_serves_full [OF that(1) assms(1) idle_covers_refill [OF assms(1,2) that(2)]])
    ultimately show ?thesis using tracks_history [of ops good l _ "snd (snd c)" calls] that(3,4) Cons by simp
  qed simp
  ultimately show ?thesis using n by blast
qed

section \<open>Witnesses\<close>

text \<open>A bucket of two tokens that never refills.\<close>

definition sample_bucket :: "nat bucket_ops" where
  "sample_bucket = \<lparr>newBucket = (\<lambda>_ _. 2), reserve = (\<lambda>b now. if b = 0 then (Second, 0) else (0, b - 1)),
    cancelAt = (\<lambda>b now. b)\<rparr>"

definition sample_limiter :: "nat callerLimiter" where
  "sample_limiter = \<lparr>lim_limit = Fin 5, lim_burst = 2, lim_idle = Hour,
    lim_callers = [(caller_key ''i'' ''a'', \<lparr>ce_lim = 1, ce_seen = 0\<rparr>)], lim_lastSweep = 0\<rparr>"

theorem callers_are_isolated_witness:
  "bucket_of sample_bucket (snd (allow sample_bucket (Some sample_limiter) ''i'' ''b'' 5)) ''i'' ''a'' = Some 1 \<and>
    fst (allow sample_bucket (Some sample_limiter) ''i'' ''b'' 5) = (True, 0)"
proof -
  have "limiter_ok (Some sample_limiter)" by (simp add: limiter_ok_def sample_limiter_def)
  then show ?thesis
    using callers_are_isolated [of sample_limiter "''i''" "''i''" "''a''" "''b''" sample_bucket 5]
    by (simp add: swept_def sample_limiter_def bucket_of_def held_def full_bucket_def caller_key_def sample_bucket_def
        go_sub_def sweepEvery_def duration_units min_int64_def max_int64_def)
qed

text \<open>
  The token bucket as documented, in exact arithmetic: the rate, the burst, the tokens left and when they were counted. A reservation that
  leaves less than none waits until they are back.
\<close>

type_synonym token_bucket = "rat \<times> int \<times> rat \<times> go_time"

fun tokens_at :: "token_bucket \<Rightarrow> go_time \<Rightarrow> rat" where
  "tokens_at (q, burst, tokens, counted) now = min (of_int burst) (tokens + q * of_int (max 0 (now - counted)) / of_int Second)"

definition token_buckets :: "token_bucket bucket_ops" where
  "token_buckets = \<lparr>newBucket = (\<lambda>lim burst. (case lim of Fin q \<Rightarrow> q | _ \<Rightarrow> 1, burst, of_int burst, 0)),
    reserve = (\<lambda>b now. let left = tokens_at b now - 1; q = fst b
      in (if left < 0 then \<lceil>- left / q * of_int Second\<rceil> else 0, (q, fst (snd b), left, now))),
    cancelAt = (\<lambda>(q, burst, left, counted) now. (q, burst, left + 1, counted))\<rparr>"

definition used_at :: "rat \<Rightarrow> int \<Rightarrow> token_bucket \<Rightarrow> go_time \<Rightarrow> bool" where
  "used_at q burst b t \<longleftrightarrow> (\<exists>tokens. b = (q, burst, tokens, t) \<and> 0 \<le> tokens)"

lemma used_at_charge:
  assumes "0 < q" and "0 \<le> tokens_at (q, burst, tokens, t0) t"
  shows "used_at q burst (snd (charge token_buckets (q, burst, tokens, t0) t)) t"
proof -
  define left where "left = tokens_at (q, burst, tokens, t0) t - 1"
  have r: "reserve token_buckets (q, burst, tokens, t0) t =
      (if left < 0 then \<lceil>- left / q * of_int Second\<rceil> else 0, (q, burst, left, t))"
    unfolding left_def by (simp only: token_buckets_def bucket_ops.simps Let_def fst_conv snd_conv)
  show ?thesis
  proof (cases "left < 0")
    case True
    then have "0 < - left / q * rat_of_int Second" using assms(1) by (simp add: Second_def divide_neg_pos)
    then have "0 < \<lceil>- left / q * rat_of_int Second\<rceil>" by (simp only: zero_less_ceiling)
    moreover have "0 \<le> left + 1" using assms(2) by (simp add: left_def)
    ultimately show ?thesis using True by (simp add: charge_def r used_at_def) (simp add: token_buckets_def)
  next
    case False
    then show ?thesis by (simp add: charge_def r used_at_def)
  qed
qed

lemma token_buckets_refill:
  assumes "0 < q" and "1 \<le> burst"
  shows "refills token_buckets q burst (used_at q burst)"
  unfolding refills_def
proof (intro conjI allI impI)
  have n: "newBucket token_buckets (Fin q) burst = (q, burst, of_int burst, 0)" by (simp add: token_buckets_def)
  have full: "tokens_at (q, burst, of_int burst, 0) t = of_int burst" for t using assms by (simp add: Second_def min_def)
  show "used_at q burst (snd (charge token_buckets (newBucket token_buckets (Fin q) burst) t)) t" for t
    unfolding n by (rule used_at_charge [OF assms(1)]) (use assms(2) in \<open>simp only: full of_int_0_le_iff\<close>)
  show "used_at q burst (snd (charge token_buckets b t)) t" if "used_at q burst b t0" "t0 \<le> t" for b t0 t
  proof -
    from that(1) obtain tokens where b: "b = (q, burst, tokens, t0)" "0 \<le> tokens" by (auto simp: used_at_def)
    have "0 \<le> tokens_at (q, burst, tokens, t0) t" using b(2) assms that(2) by (simp add: Second_def)
    from used_at_charge [OF assms(1) this] show ?thesis by (simp add: b(1))
  qed
  show "reserve token_buckets b t = reserve token_buckets (newBucket token_buckets (Fin q) burst) t"
    if u: "used_at q burst b t0" and r: "of_int (burst * Second) \<le> q * of_int (t - t0)" for b t0 t
  proof -
    from u obtain tokens where b: "b = (q, burst, tokens, t0)" "0 \<le> tokens" by (auto simp: used_at_def)
    have "0 < rat_of_int (burst * Second)" using assms(2) by (simp add: Second_def)
    with r have "0 < q * rat_of_int (t - t0)" by linarith
    with assms(1) have "t0 < t" by (simp add: zero_less_mult_iff)
    then have m: "max 0 (t - t0) = t - t0" by simp
    have "rat_of_int burst \<le> q * of_int (t - t0) / of_int Second" using r by (simp add: Second_def field_simps)
    with b(2) have "tokens_at b t = of_int burst" by (simp only: b(1) tokens_at.simps m min_def) simp
    then show ?thesis using full [of t] by (simp add: token_buckets_def b(1) Let_def del: tokens_at.simps)
  qed
qed

text \<open>
  Two placements, then one every 64 seconds: a bucket that takes 128 seconds to refill, more than the minute between sweeps. The caller spends
  it, is refused, is forgotten while another calls, and comes back to what its own bucket would have held.
\<close>

theorem forgetting_is_unobservable_witness:
  "\<exists>l. newCallerLimiter (Fin (1 / 64)) 2 = Some l \<and>
    allow_history token_buckets (Some l) [(''i'', ''a'', 0), (''i'', ''a'', 0), (''i'', ''a'', 0), (''i'', ''b'', 129 * Second),
      (''i'', ''a'', 130 * Second), (''i'', ''a'', 130 * Second), (''i'', ''a'', 130 * Second)] =
    [(True, 0), (True, 0), (False, 64 * Second), (True, 0), (True, 0), (True, 0), (False, 64 * Second)]"
proof -
  let ?calls = "[(''i'', ''a'', 0), (''i'', ''a'', 0), (''i'', ''a'', 0), (''i'', ''b'', 129 * Second),
      (''i'', ''a'', 130 * Second), (''i'', ''a'', 130 * Second), (''i'', ''a'', 130 * Second)]"
  have a: "(0 :: rat) < 1 / 64" "(0 :: int) \<le> 2" "of_int (2 * Second) / (1 / 64) \<le> (2 :: rat) ^ 62" by (simp_all add: Second_def)
  have r: "refills token_buckets (1 / 64) 2 (used_at (1 / 64) 2)" by (rule token_buckets_refill) simp_all
  have n: "(2 :: int) \<le> 2 ^ 53 \<and> (\<exists>n. rat_of_int 2 = of_int n * (1 / 64) \<and> n * Second \<le> 2 ^ 53)"
    by (intro conjI exI [of _ 128]) (simp_all add: Second_def)
  have s: "sorted (map (snd \<circ> snd) ?calls)" "\<forall>c \<in> set ?calls. CHR 0x00 \<notin> set (fst c)" by (simp_all add: Second_def)
  have "bucket_history token_buckets (\<lambda>_. newBucket token_buckets (Fin (1 / 64)) 2) ?calls =
    [(True, 0), (True, 0), (False, 64 * Second), (True, 0), (True, 0), (True, 0), (False, 64 * Second)]"
    by (simp add: charge_def token_buckets_def Let_def Second_def)
  with forgetting_is_unobservable [OF a, of token_buckets "used_at (1 / 64) 2" ?calls] r n s show ?thesis by auto
qed

end
