(* ===== verification/GoText.thy ===== *)
theory GoText
  imports Prelude
begin

text \<open>
  What the program uses of Go's text packages: \<open>strings\<close> (\<open>Cut\<close>, \<open>Split\<close>,
  \<open>TrimSpace\<close>, \<open>EqualFold\<close>), \<open>encoding/base64\<close>, and the typed half of
  \<open>encoding/json\<close>, which stores a JSON value into a Go variable. The half of \<open>encoding/json\<close> that reads text
  into values is a parameter wherever it is used. A JSON number keeps its literal, because an int64 accepts
  only an integer literal.
\<close>

section \<open>Strings\<close>

definition go_cut :: "char \<Rightarrow> string \<Rightarrow> string \<times> string \<times> bool" where
  "go_cut c s =
    (case dropWhile (\<lambda>x. x \<noteq> c) s of
       [] \<Rightarrow> (s, '''', False)
     | _ # rest \<Rightarrow> (takeWhile (\<lambda>x. x \<noteq> c) s, rest, True))"

fun go_split :: "char \<Rightarrow> string \<Rightarrow> string list" where
  "go_split c [] = [[]]"
| "go_split c (x # xs) =
    (if x = c then [] # go_split c xs
     else (case go_split c xs of [] \<Rightarrow> [[x]] | p # ps \<Rightarrow> (x # p) # ps))"

text \<open>The UTF-8 encodings of the runes \<open>unicode.IsSpace\<close> accepts.\<close>

definition space_runes :: "string list" where
  "space_runes =
   [[CHR 0x09], [CHR 0x0A], [CHR 0x0B], [CHR 0x0C], [CHR 0x0D], [CHR 0x20], [CHR 0xC2, CHR 0x85],
     [CHR 0xC2, CHR 0xA0], [CHR 0xE1, CHR 0x9A, CHR 0x80], [CHR 0xE2, CHR 0x80, CHR 0x80],
     [CHR 0xE2, CHR 0x80, CHR 0x81], [CHR 0xE2, CHR 0x80, CHR 0x82], [CHR 0xE2, CHR 0x80, CHR 0x83],
     [CHR 0xE2, CHR 0x80, CHR 0x84], [CHR 0xE2, CHR 0x80, CHR 0x85], [CHR 0xE2, CHR 0x80, CHR 0x86],
     [CHR 0xE2, CHR 0x80, CHR 0x87], [CHR 0xE2, CHR 0x80, CHR 0x88], [CHR 0xE2, CHR 0x80, CHR 0x89],
     [CHR 0xE2, CHR 0x80, CHR 0x8A], [CHR 0xE2, CHR 0x80, CHR 0xA8], [CHR 0xE2, CHR 0x80, CHR 0xA9],
     [CHR 0xE2, CHR 0x80, CHR 0xAF], [CHR 0xE2, CHR 0x81, CHR 0x9F], [CHR 0xE3, CHR 0x80, CHR 0x80]]"

definition strip_one :: "string list \<Rightarrow> string \<Rightarrow> string option" where
  "strip_one rs s = map_option (\<lambda>r. drop (length r) s) (find (\<lambda>r. take (length r) s = r \<and> r \<noteq> []) rs)"

lemma strip_one_shorter: "strip_one rs s = Some t \<Longrightarrow> length t < length s"
proof -
  assume "strip_one rs s = Some t"
  then obtain r where r: "find (\<lambda>r. take (length r) s = r \<and> r \<noteq> []) rs = Some r" "t = drop (length r) s"
    by (auto simp: strip_one_def)
  then have "take (length r) s = r" "r \<noteq> []" by (auto simp: find_Some_iff)
  then have "length r \<le> length s" "0 < length r" by (metis length_take min.absorb_iff1 min.commute, simp)
  with r(2) show ?thesis by (cases s) auto
qed

function trim_left :: "string list \<Rightarrow> string \<Rightarrow> string" where
  "trim_left rs s = (case strip_one rs s of None \<Rightarrow> s | Some t \<Rightarrow> trim_left rs t)"
  by pat_completeness auto
termination
  by (relation "measure (\<lambda>(rs, s). length s)") (auto dest: strip_one_shorter)

declare trim_left.simps [simp del]

definition TrimSpace :: "string \<Rightarrow> string" where
  "TrimSpace s = rev (trim_left (map rev space_runes) (rev (trim_left space_runes s)))"

text \<open>
  \<open>EqualFold\<close> against an ASCII word: ASCII letters without their case, and the two runes outside ASCII that fold to
  a letter, the long s (\<open>U+017F\<close>) and the Kelvin sign (\<open>U+212A\<close>).
\<close>

definition lower :: "char \<Rightarrow> char" where
  "lower c = (if of_char c \<in> {65..90 :: nat} then char_of (of_char c + 32 :: nat) else c)"

function fold_name :: "string \<Rightarrow> string" where
  "fold_name s =
    (case s of [] \<Rightarrow> []
     | c # cs \<Rightarrow>
       if take 2 s = [CHR 0xC5, CHR 0xBF] then CHR ''s'' # fold_name (drop 1 cs)
       else if take 3 s = [CHR 0xE2, CHR 0x84, CHR 0xAA] then CHR ''k'' # fold_name (drop 2 cs)
       else lower c # fold_name cs)"
  by pat_completeness auto
termination
  by (relation "measure length") auto

declare fold_name.simps [simp del]

definition EqualFold :: "string \<Rightarrow> string \<Rightarrow> bool" where
  "EqualFold s word \<longleftrightarrow> fold_name s = fold_name word"

definition has_prefix :: "string \<Rightarrow> string \<Rightarrow> bool" where
  "has_prefix s p \<longleftrightarrow> take (length p) s = p"

definition has_suffix :: "string \<Rightarrow> string \<Rightarrow> bool" where
  "has_suffix s p \<longleftrightarrow> has_prefix (rev s) (rev p)"

section \<open>Base 64\<close>

text \<open>\<open>base64.StdEncoding.EncodeToString\<close>.\<close>

definition base64_alphabet :: string where
  "base64_alphabet = ''ABCDEFGHIJKLMNOPQRSTUVWXYZabcdefghijklmnopqrstuvwxyz0123456789+/''"

definition base64_digit :: "nat \<Rightarrow> char" where
  "base64_digit n = base64_alphabet ! (n mod 64)"

fun base64_encode :: "string \<Rightarrow> string" where
  "base64_encode [] = []"
| "base64_encode [a] =
    (let n = of_char a * 16 in [base64_digit (n div 64), base64_digit n, CHR ''='', CHR ''=''])"
| "base64_encode [a, b] =
    (let n = (of_char a * 256 + of_char b) * 4
     in [base64_digit (n div 4096), base64_digit (n div 64), base64_digit n, CHR ''=''])"
| "base64_encode (a # b # c # cs) =
    (let n = (of_char a * 256 + of_char b) * 256 + of_char c
     in [base64_digit (n div 262144), base64_digit (n div 4096), base64_digit (n div 64), base64_digit n] @
        base64_encode cs)"

definition base64_url :: string where
  "base64_url = ''ABCDEFGHIJKLMNOPQRSTUVWXYZabcdefghijklmnopqrstuvwxyz0123456789-_''"

definition base64_value :: "string \<Rightarrow> char \<Rightarrow> nat option" where
  "base64_value alphabet c =
    (let i = length (takeWhile (\<lambda>x. x \<noteq> c) alphabet) in if i < length alphabet then Some i else None)"

fun sextets :: "nat list \<Rightarrow> nat list option" where
  "sextets [] = Some []"
| "sextets [a] = None"
| "sextets [a, b] = Some [a * 4 + b div 16]"
| "sextets [a, b, c] = Some [a * 4 + b div 16, b mod 16 * 16 + c div 4]"
| "sextets (a # b # c # d # r) =
    map_option (\<lambda>bs. [a * 4 + b div 16, b mod 16 * 16 + c div 4, c mod 4 * 64 + d] @ bs) (sextets r)"

text \<open>\<open>base64.RawURLEncoding.DecodeString\<close>: line breaks are skipped, and no padding is expected.\<close>

definition RawURL_DecodeString :: "string \<Rightarrow> string option" where
  "RawURL_DecodeString s =
    (case those (map (base64_value base64_url) (filter (\<lambda>c. c \<noteq> CHR 0x0A \<and> c \<noteq> CHR 0x0D) s)) of
       None \<Rightarrow> None
     | Some ns \<Rightarrow> map_option (map char_of) (sextets ns))"

text \<open>\<open>base64.StdEncoding.DecodeString\<close>: line breaks are skipped, and the last quantum is padded.\<close>

fun std_quanta :: "string \<Rightarrow> nat list option" where
  "std_quanta [] = Some []"
| "std_quanta (a # b # c # d # r) =
    (if d = CHR ''='' then
       (if r \<noteq> [] then None
        else (case those (map (base64_value base64_alphabet) (if c = CHR ''='' then [a, b] else [a, b, c])) of
                None \<Rightarrow> None
              | Some ns \<Rightarrow> sextets ns))
     else (case those (map (base64_value base64_alphabet) [a, b, c, d]) of
             None \<Rightarrow> None
           | Some ns \<Rightarrow> (case sextets ns of None \<Rightarrow> None
                         | Some bs \<Rightarrow> map_option (\<lambda>rest. bs @ rest) (std_quanta r))))"
| "std_quanta _ = None"

definition Std_DecodeString :: "string \<Rightarrow> string option" where
  "Std_DecodeString s = map_option (map char_of) (std_quanta (filter (\<lambda>c. c \<noteq> CHR 0x0A \<and> c \<noteq> CHR 0x0D) s))"


section \<open>JSON\<close>

datatype json =
    JNull | JBool bool | JNum string | JStr string | JArr "json list" | JObj "(string \<times> json) list"

text \<open>\<open>strconv.ParseInt(lit, 10, 64)\<close> on a JSON number literal.\<close>

definition digit_value :: "char \<Rightarrow> int option" where
  "digit_value c = (if of_char c \<in> {48..57 :: nat} then Some (of_char c - 48) else None)"

fun digits_value :: "int \<Rightarrow> string \<Rightarrow> int option" where
  "digits_value acc [] = Some acc"
| "digits_value acc (c # cs) = (case digit_value c of None \<Rightarrow> None | Some d \<Rightarrow> digits_value (acc * 10 + d) cs)"

definition ParseInt64 :: "string \<Rightarrow> int option" where
  "ParseInt64 lit =
    (let v = (case lit of
                [] \<Rightarrow> None
              | c # cs \<Rightarrow> if c = CHR ''-'' then (if cs = [] then None else map_option uminus (digits_value 0 cs))
                           else digits_value 0 (c # cs))
     in case v of None \<Rightarrow> None | Some n \<Rightarrow> if in_int64 n then Some n else None)"

text \<open>
  \<open>json.Unmarshal\<close> into a variable: \<open>null\<close> leaves it as it is, and a value of another type is an error.
\<close>

fun into_string :: "string \<Rightarrow> json \<Rightarrow> string option" where
  "into_string cur JNull = Some cur"
| "into_string cur (JStr s) = Some s"
| "into_string cur _ = None"

fun into_int64 :: "int \<Rightarrow> json \<Rightarrow> int option" where
  "into_int64 cur JNull = Some cur"
| "into_int64 cur (JNum lit) = ParseInt64 lit"
| "into_int64 cur _ = None"

fun into_bool :: "bool \<Rightarrow> json \<Rightarrow> bool option" where
  "into_bool cur JNull = Some cur"
| "into_bool cur (JBool b) = Some b"
| "into_bool cur _ = None"

fun into_strings :: "json \<Rightarrow> string list option" where
  "into_strings JNull = Some []"
| "into_strings (JArr vs) = those (map (into_string '''') vs)"
| "into_strings _ = None"

text \<open>A \<open>map[string]json.RawMessage\<close>; of a repeated key the last value stays.\<close>

fun into_map :: "json \<Rightarrow> (string \<times> json) list option" where
  "into_map JNull = Some []"
| "into_map (JObj kvs) = Some kvs"
| "into_map _ = None"

definition raw_claim :: "(string \<times> json) list \<Rightarrow> string \<Rightarrow> json option" where
  "raw_claim kvs k = map_of (rev kvs) k"

text \<open>
  One string field of a struct: every key that matches the field's name without its case is stored, in the order of
  the text, and unknown keys are ignored.
\<close>

definition into_field :: "string \<Rightarrow> json \<Rightarrow> string option" where
  "into_field name v =
    (case into_map v of
       None \<Rightarrow> None
     | Some kvs \<Rightarrow>
       foldl (\<lambda>acc (k, x). case acc of None \<Rightarrow> None
                           | Some cur \<Rightarrow> if EqualFold k name then into_string cur x else Some cur)
         (Some '''') kvs)"

text \<open>
  A struct whose decoder disallows unknown fields: a key selects the field of that name or, failing that, the one
  it equals without its case.
\<close>

definition struct_key :: "string list \<Rightarrow> string \<Rightarrow> string option" where
  "struct_key names k = (if k \<in> set names then Some k else find (\<lambda>n. EqualFold k n) names)"

definition struct_pairs :: "string list \<Rightarrow> json \<Rightarrow> (string \<times> json) list option" where
  "struct_pairs names v =
    (case into_map v of
       None \<Rightarrow> None
     | Some kvs \<Rightarrow> those (map (\<lambda>(k, x). map_option (\<lambda>n. (n, x)) (struct_key names k)) kvs))"

definition field_of :: "('a \<Rightarrow> json \<Rightarrow> 'a option) \<Rightarrow> 'a \<Rightarrow> (string \<times> json) list \<Rightarrow> string \<Rightarrow> 'a option" where
  "field_of into zero pairs name =
    foldl (\<lambda>acc (n, x). case acc of None \<Rightarrow> None | Some cur \<Rightarrow> if n = name then into cur x else Some cur)
      (Some zero) pairs"

text \<open>
  \<open>Decoder.More\<close> after a value, on what follows it: another byte, but for white space and, as \<open>More\<close> is
  meant for the inside of an array or an object, but for a closing bracket.
\<close>

definition dec_More :: "string \<Rightarrow> bool" where
  "dec_More rest =
    (case dropWhile (\<lambda>c. c \<in> {CHR '' '', CHR 0x09, CHR 0x0A, CHR 0x0D}) rest of
       [] \<Rightarrow> False
     | c # _ \<Rightarrow> c \<noteq> CHR '']'' \<and> c \<noteq> CHR ''}'')"

text \<open>\<open>json.Unmarshal\<close> wants nothing but white space after the value.\<close>

definition Unmarshal :: "(string \<Rightarrow> (json \<times> string) option) \<Rightarrow> string \<Rightarrow> json option" where
  "Unmarshal decode body =
    (case decode body of None \<Rightarrow> None
     | Some (v, rest) \<Rightarrow> if list_all (\<lambda>c. c \<in> {CHR '' '', CHR 0x09, CHR 0x0A, CHR 0x0D}) rest then Some v else None)"

text \<open>\<open>strconv.Itoa\<close>.\<close>

fun nat_text :: "nat \<Rightarrow> string" where
  "nat_text n = (if n < 10 then [char_of (48 + n)] else nat_text (n div 10) @ [char_of (48 + n mod 10)])"

declare nat_text.simps [simp del]

definition int_text :: "int \<Rightarrow> string" where
  "int_text n = (if n < 0 then CHR ''-'' # nat_text (nat (- n)) else nat_text (nat n))"

section \<open>Facts\<close>

lemma go_cut_append: "go_cut c s = (a, b, True) \<Longrightarrow> s = a @ c # b \<and> c \<notin> set a"
proof -
  assume h: "go_cut c s = (a, b, True)"
  then obtain x where d: "dropWhile (\<lambda>x. x \<noteq> c) s = x # b" and a: "a = takeWhile (\<lambda>x. x \<noteq> c) s"
    by (auto simp: go_cut_def split: list.splits)
  from d have "x = c" using hd_dropWhile [of "\<lambda>x. x \<noteq> c" s] by simp
  have "s = a @ c # b" using takeWhile_dropWhile_id [of "\<lambda>x. x \<noteq> c" s] unfolding d a \<open>x = c\<close> by simp
  moreover have "c \<notin> set a" unfolding a by (auto dest: set_takeWhileD)
  ultimately show ?thesis by simp
qed

lemma fold_name_simps [simp]: "fold_name [] = []"
  by (simp add: fold_name.simps [of "[]"])

lemma in_int64_ParseInt64: "ParseInt64 lit = Some n \<Longrightarrow> in_int64 n"
  by (auto simp: ParseInt64_def Let_def split: option.splits if_splits)

text \<open>Decoding reads back what encoding wrote.\<close>

lemma base64_digit_simps:
  "base64_value base64_alphabet (base64_digit n) = Some (n mod 64)" "base64_digit n \<noteq> CHR ''=''"
  "base64_digit n \<noteq> CHR 0x0A" "base64_digit n \<noteq> CHR 0x0D"
proof -
  have "list_all (\<lambda>i. base64_value base64_alphabet (base64_alphabet ! i) = Some i \<and> base64_alphabet ! i \<noteq> CHR ''='' \<and>
      base64_alphabet ! i \<noteq> CHR 0x0A \<and> base64_alphabet ! i \<noteq> CHR 0x0D) [0..<64]"
    by code_simp
  then have "i < 64 \<Longrightarrow> base64_value base64_alphabet (base64_alphabet ! i) = Some i \<and> base64_alphabet ! i \<noteq> CHR ''='' \<and>
      base64_alphabet ! i \<noteq> CHR 0x0A \<and> base64_alphabet ! i \<noteq> CHR 0x0D" for i
    by (simp add: list_all_iff)
  from this [of "n mod 64"] show "base64_value base64_alphabet (base64_digit n) = Some (n mod 64)"
    "base64_digit n \<noteq> CHR ''=''" "base64_digit n \<noteq> CHR 0x0A" "base64_digit n \<noteq> CHR 0x0D"
    by (simp_all add: base64_digit_def)
qed

lemma base64_encode_no_breaks: "filter (\<lambda>c. c \<noteq> CHR 0x0A \<and> c \<noteq> CHR 0x0D) (base64_encode s) = base64_encode s"
  by (induction s rule: base64_encode.induct) (simp_all add: Let_def base64_digit_simps)

lemma quotrem: "n = m * k + r \<Longrightarrow> r < m \<Longrightarrow> n div m = k \<and> n mod m = r" for n m k r :: nat
  by simp

lemma pad2_arith:
  fixes a :: nat
  assumes "a < 256"
  shows "a * 16 div 64 mod 64 * 4 + a * 16 mod 64 div 16 = a"
proof -
  define x y where "x = a div 4" and "y = a mod 4"
  have a: "a = 4 * x + y" and b: "x < 64" "y < 4" using assms by (simp_all add: x_def y_def)
  have "a * 16 = 64 * x + 16 * y" "16 * y < 64" using a b by simp_all
  then have "a * 16 div 64 = x" "a * 16 mod 64 = 16 * y" using quotrem by blast+
  then show ?thesis using a b by simp
qed

lemma pad1_arith:
  fixes a b :: nat
  assumes "a < 256" "b < 256"
  defines "n \<equiv> (a * 256 + b) * 4"
  shows "n div 4096 mod 64 * 4 + n div 64 mod 64 div 16 = a" "n div 64 mod 64 mod 16 * 16 + n mod 64 div 4 = b"
proof -
  define x y u v where "x = a div 4" and "y = a mod 4" and "u = b div 16" and "v = b mod 16"
  have a: "a = 4 * x + y" "x < 64" "y < 4" and b: "b = 16 * u + v" "u < 16" "v < 16"
    using assms by (simp_all add: x_def y_def u_def v_def)
  have "n = 4096 * x + (1024 * y + 64 * u + 4 * v)" "1024 * y + 64 * u + 4 * v < 4096"
    using a b by (simp_all add: n_def)
  then have 1: "n div 4096 = x" using quotrem by blast
  have "n = 64 * (64 * x + 16 * y + u) + 4 * v" "4 * v < 64" using a b by (simp_all add: n_def)
  then have 2: "n div 64 = 64 * x + 16 * y + u" "n mod 64 = 4 * v" using quotrem by blast+
  have "64 * x + 16 * y + u = 64 * x + (16 * y + u)" "16 * y + u < 64" using a b by simp_all
  then have 3: "(64 * x + 16 * y + u) mod 64 = 16 * y + u" using quotrem by blast
  have 4: "(16 * y + u) div 16 = y" "(16 * y + u) mod 16 = u" using b quotrem [of "16 * y + u" 16 y u] by simp_all
  show "n div 4096 mod 64 * 4 + n div 64 mod 64 div 16 = a" unfolding 1 2(1) 3 4 using a by simp
  show "n div 64 mod 64 mod 16 * 16 + n mod 64 div 4 = b" unfolding 2 3 4 using b by simp
qed

lemma full_arith:
  fixes a b c :: nat
  assumes "a < 256" "b < 256" "c < 256"
  defines "n \<equiv> (a * 256 + b) * 256 + c"
  shows "n div 262144 mod 64 * 4 + n div 4096 mod 64 div 16 = a"
    "n div 4096 mod 64 mod 16 * 16 + n div 64 mod 64 div 4 = b"
    "n div 64 mod 64 mod 4 * 64 + n mod 64 = c"
proof -
  define x y u v p q where "x = a div 4" and "y = a mod 4" and "u = b div 16" and "v = b mod 16"
    and "p = c div 64" and "q = c mod 64"
  have a: "a = 4 * x + y" "x < 64" "y < 4" and b: "b = 16 * u + v" "u < 16" "v < 16" and c: "c = 64 * p + q" "p < 4" "q < 64"
    using assms by (simp_all add: x_def y_def u_def v_def p_def q_def)
  have "n = 262144 * x + (65536 * y + 4096 * u + 256 * v + 64 * p + q)" "65536 * y + 4096 * u + 256 * v + 64 * p + q < 262144"
    using a b c by (simp_all add: n_def)
  then have 1: "n div 262144 = x" using quotrem by blast
  have "n = 4096 * (64 * x + 16 * y + u) + (256 * v + 64 * p + q)" "256 * v + 64 * p + q < 4096"
    using a b c by (simp_all add: n_def)
  then have 2: "n div 4096 = 64 * x + 16 * y + u" using quotrem by blast
  have "64 * x + 16 * y + u = 64 * x + (16 * y + u)" "16 * y + u < 64" using a b by simp_all
  then have 3: "(64 * x + 16 * y + u) mod 64 = 16 * y + u" using quotrem by blast
  have 4: "(16 * y + u) div 16 = y" "(16 * y + u) mod 16 = u" using b quotrem [of "16 * y + u" 16 y u] by simp_all
  have "n = 64 * (4096 * x + 1024 * y + 64 * u + 4 * v + p) + q" using a b c by (simp add: n_def)
  then have 5: "n div 64 = 4096 * x + 1024 * y + 64 * u + 4 * v + p" "n mod 64 = q" using c quotrem by blast+
  have "4096 * x + 1024 * y + 64 * u + 4 * v + p = 64 * (64 * x + 16 * y + u) + (4 * v + p)" "4 * v + p < 64" using b c by simp_all
  then have 6: "(4096 * x + 1024 * y + 64 * u + 4 * v + p) mod 64 = 4 * v + p" using quotrem by blast
  have 7: "(4 * v + p) div 4 = v" "(4 * v + p) mod 4 = p" using c quotrem [of "4 * v + p" 4 v p] by simp_all
  show "n div 262144 mod 64 * 4 + n div 4096 mod 64 div 16 = a" unfolding 1 2 3 4 using a by simp
  show "n div 4096 mod 64 mod 16 * 16 + n div 64 mod 64 div 4 = b" unfolding 2 3 4 5 6 7 using b by simp
  show "n div 64 mod 64 mod 4 * 64 + n mod 64 = c" unfolding 5 6 7 using c by simp
qed
lemma std_quanta_encode: "std_quanta (base64_encode s) = Some (map of_char s)"
proof (induction s rule: base64_encode.induct)
  case 1
  then show ?case by simp
next
  case (2 a)
  have "(of_char a :: nat) div 4 < 64" by (rule less_mult_imp_div_less) simp
  then have "(of_char a :: nat) div 4 mod 64 = of_char a div 4" by (rule mod_less)
  with pad2_arith [of "of_char a"] show ?case by (simp add: Let_def base64_digit_simps)
next
  case (3 a b)
  from pad1_arith [of "of_char a" "of_char b"] show ?case by (simp add: Let_def base64_digit_simps)
next
  case (4 a b c cs)
  from 4 full_arith [of "of_char a" "of_char b" "of_char c"] show ?case by (simp add: Let_def base64_digit_simps)
qed

lemma Std_Decode_encode: "Std_DecodeString (base64_encode s) = Some s"
  by (simp add: Std_DecodeString_def base64_encode_no_breaks std_quanta_encode comp_def)

section \<open>Decimal text\<close>

lemma digit_value_char: "n < 10 \<Longrightarrow> digit_value (char_of (48 + n)) = Some (int n)" for n :: nat
proof -
  assume "n < 10"
  then have "of_char (char_of (48 + n) :: char) = (48 + n :: nat)" by simp
  then have "(of_char (char_of (48 + n) :: char) :: int) = 48 + int n" by (metis of_nat_add of_nat_numeral of_nat_of_char)
  with \<open>n < 10\<close> show ?thesis by (simp add: digit_value_def)
qed

lemma digits_value_append:
  "digits_value acc (xs @ [c]) =
    (case digits_value acc xs of None \<Rightarrow> None | Some a \<Rightarrow> map_option (\<lambda>d. a * 10 + d) (digit_value c))"
  by (induction xs arbitrary: acc) (auto split: option.splits)

lemma digits_value_nat_text: "digits_value 0 (nat_text n) = Some (int n)"
proof (induction n rule: nat_text.induct)
  case (1 n)
  show ?case
  proof (cases "n < 10")
    case True
    then show ?thesis by (subst nat_text.simps) (simp add: digit_value_char)
  next
    case False
    have "int (n div 10) * 10 + int (n mod 10) = int n" by (metis mod_div_mult_eq add.commute of_nat_add of_nat_mult of_nat_numeral)
    with 1 False show ?thesis by (subst nat_text.simps) (simp add: digits_value_append digit_value_char)
  qed
qed

lemma nat_text_hd: "\<exists>c cs. nat_text n = c # cs \<and> c \<noteq> CHR ''-''"
proof (induction n rule: nat_text.induct)
  case (1 n)
  show ?case
  proof (cases "n < 10")
    case True
    then have "nat_text n = [char_of (48 + n)]" by (simp add: nat_text.simps)
    moreover have "(char_of (48 + n) :: char) \<noteq> CHR ''-''"
    proof
      assume "(char_of (48 + n) :: char) = CHR ''-''"
      then have "of_char (char_of (48 + n) :: char) = (of_char (CHR ''-'') :: nat)" by simp
      with True show False by simp
    qed
    ultimately show ?thesis by simp
  next
    case False
    with 1 show ?thesis by (subst nat_text.simps) auto
  qed
qed

lemma nat_text_length: "n < 10 ^ k \<Longrightarrow> 0 < k \<Longrightarrow> length (nat_text n) \<le> k"
proof (induction n arbitrary: k rule: nat_text.induct)
  case (1 n)
  show ?case
  proof (cases "n < 10")
    case True
    with 1(3) show ?thesis by (subst nat_text.simps) simp
  next
    case False
    with 1(2,3) obtain j where j: "k = Suc j" "0 < j" by (cases k; cases "k - 1") auto
    with 1(2) have "n div 10 < 10 ^ j" by (simp add: div_less_iff_less_mult mult.commute)
    with 1(1) False j have "length (nat_text (n div 10)) \<le> j" by blast
    with False j show ?thesis by (subst nat_text.simps) simp
  qed
qed

lemma ParseInt64_int_text: "in_int64 n \<Longrightarrow> ParseInt64 (int_text n) = Some n"
proof -
  assume n: "in_int64 n"
  show ?thesis
  proof (cases "n < 0")
    case True
    obtain c cs where "nat_text (nat (- n)) = c # cs" using nat_text_hd by blast
    then have "nat_text (nat (- n)) \<noteq> []" by simp
    with n True show ?thesis by (simp add: ParseInt64_def int_text_def digits_value_nat_text)
  next
    case False
    obtain c cs where c: "nat_text (nat n) = c # cs" "c \<noteq> CHR ''-''" using nat_text_hd by blast
    have "digits_value 0 (c # cs) = Some n" using digits_value_nat_text [of "nat n"] False by (simp only: c(1)) simp
    with n False c show ?thesis by (simp add: ParseInt64_def int_text_def Let_def del: digits_value.simps)
  qed
qed

lemma int_text_length: "in_int64 n \<Longrightarrow> length (int_text n) \<le> 20"
proof -
  assume n: "in_int64 n"
  then have "nat n < 10 ^ 19" "nat (- n) < 10 ^ 19" by (auto simp: in_int64_def min_int64_def max_int64_def)
  with nat_text_length [of "nat n" 19] nat_text_length [of "nat (- n)" 19] show ?thesis by (auto simp: int_text_def)
qed

end
