(* ===== verification/PlacementApi.thy ===== *)
theory PlacementApi
  imports Engine AuditTrail Ratelimit GoText
begin

text \<open>
  The placement route: \<open>internal/hub/placement_api.go\<close> and the seams of \<open>minter.go\<close>.

  A handler is a function of the server's state and the request to the response and the state after it. The
  state is the limiter, the placer, the warmth latch and the audit trail; \<open>Placer\<close>, \<open>Minter\<close> and the
  registry client are functions of \<open>hub_env\<close>, and so are \<open>time.ParseDuration\<close> and the texts of broker errors. The
  body arrives decoded: \<^const>\<open>None\<close> is a decoder error (malformed JSON, an unknown field, a body over
  \<open>maxPlacementBytes\<close>). Log lines, trace spans and the latency metric are left out; a duration in a
  response stands for its text.

  The locale \<open>placement_route\<close> is what the handler relies on of the placer and the minter; the engine and the broker
  interpret it.
\<close>

section \<open>Requests and responses\<close>

definition maxPlacementBytes :: int where "maxPlacementBytes = 4 * 1024"

record placementRequest =
  pr_workload :: string
  pr_targetDark :: bool
  pr_ttl :: string
  pr_dryRun :: bool
  pr_explain :: bool

record candidateResponse =
  cr_cell :: string
  cr_admitted :: bool
  cr_stage :: string
  cr_reason :: string
  cr_utilisation :: rat
  cr_chosen :: bool

record credentialResponse =
  crd_server :: string
  crd_caData :: string
  crd_namespace :: string
  crd_serviceAccount :: string
  crd_token :: string
  crd_expiresAt :: go_time

record ttlResponse =
  tr_granted :: duration
  tr_default :: duration
  tr_max :: duration
  tr_requested :: "duration option"
  tr_clamped :: bool

record identityResponse =
  ir_issuer :: string
  ir_subject :: string
  ir_claims :: labels

definition identityOf :: "Identity option \<Rightarrow> identityResponse option" where
  "identityOf ido =
    (case ido of None \<Rightarrow> None
     | Some i \<Rightarrow> Some \<lparr>ir_issuer = id_issuer i, ir_subject = id_subject i, ir_claims = id_claims i\<rparr>)"

record placementResponse =
  plr_cell :: string
  plr_policy :: string
  plr_strategy :: string
  plr_confidence :: string
  plr_previousCell :: string
  plr_decidedFor :: string
  plr_targetedDark :: bool
  plr_dryRun :: bool
  plr_credential :: "credentialResponse option"
  plr_ttl :: "ttlResponse option"
  plr_candidates :: "candidateResponse list"
  plr_identity :: "identityResponse option"

datatype response_body =
    RefusalBody (body_reason: Reason) (body_error: string) (body_identity: "identityResponse option")
  | PlacementBody (body_placement: placementResponse)

record http_response =
  rsp_status :: int
  rsp_retryAfter :: "int option"
  rsp_body :: response_body

record http_request =
  rq_identity :: "Identity option"
  rq_id :: string
  rq_body :: "placementRequest option"

section \<open>Rendering decisions and refusals\<close>

definition explain :: "Decision \<Rightarrow> candidateResponse list" where
  "explain d = map (\<lambda>c.
    (let row = \<lparr>cr_cell = cand_cell c, cr_admitted = cand_admitted c, cr_stage = cand_stage c,
                cr_reason = cand_reason c, cr_utilisation = cand_utilisation c,
                cr_chosen = (cand_cell c = d_cell d)\<rparr>
     in if cr_chosen row \<and> Kept d
        then row\<lparr>cr_stage := StageStickiness, cr_reason := ''placed here last time, and still eligible''\<rparr>
        else row)) (d_candidates d)"

definition auditCandidates :: "Candidate list \<Rightarrow> audit_Candidate list" where
  "auditCandidates cands = map (\<lambda>c.
    \<lparr>ac_cell = cand_cell c, ac_admitted = cand_admitted c, ac_stage = cand_stage c,
     ac_reason = cand_reason c, ac_utilisation = cand_utilisation c\<rparr>) cands"

text \<open>\<open>errors.Is\<close> of an engine error against the sentinels.\<close>

definition place_error_is :: "place_error \<Rightarrow> placement_sentinel \<Rightarrow> bool" where
  "place_error_is err sentinel =
    (case err of Bare e \<Rightarrow> e = sentinel | Refused r \<Rightarrow> RefusedError_Unwrap r = sentinel | _ \<Rightarrow> False)"

definition placementRefusal :: "place_error \<Rightarrow> int \<times> Reason" where
  "placementRefusal err =
    (if place_error_is err ErrNoPolicy then (403, NoPolicy)
     else if place_error_is err ErrDarkNotPermitted then (403, DarkNotPermitted)
     else if place_error_is err ErrNoPermittedCells then (409, NoPermittedCells)
     else if place_error_is err ErrNoEligibleCells then (503, NoEligibleCells)
     else if place_error_is err ErrCapacityUnknown then (503, CapacityUnknown)
     else (500, MintFailed))"

definition refusalMessage :: "Reason \<Rightarrow> string" where
  "refusalMessage reason =
    (if reason = NoPolicy then ''no placement policy permits this caller''
     else if reason = DarkNotPermitted then ''this caller may not target dark cells''
     else if reason = NoPermittedCells then ''the matching policy permits no registered cell''
     else if reason = NoEligibleCells then ''no permitted cell is currently accepting placements''
     else if reason = CapacityUnknown then ''no permitted cell has usable capacity''
     else ''internal error'')"

definition place_error_text :: "place_error \<Rightarrow> string" where
  "place_error_text err =
    (case err of
       Bare e \<Rightarrow> sentinel_text e
     | Refused r \<Rightarrow> RefusedError_Error r
     | ListPoliciesError e \<Rightarrow> ''listing placement policies: '' @ api_message e
     | ListClustersError e \<Rightarrow> ''listing clusters: '' @ api_message e
     | InvalidSelector p e \<Rightarrow> ''policy '' @ p @ '' has an invalid permittedCells selector: '' @ e
     | Panic \<Rightarrow> '''')"

definition writeRefusal :: "int \<Rightarrow> int option \<Rightarrow> Reason \<Rightarrow> string \<Rightarrow> identityResponse option \<Rightarrow> http_response" where
  "writeRefusal status retryAfter reason msg echo =
    \<lparr>rsp_status = status, rsp_retryAfter = retryAfter, rsp_body = RefusalBody reason msg echo\<rparr>"

section \<open>The handler\<close>

record ('p, 'b) hub_env =
  env_place :: "'p \<Rightarrow> Identity \<Rightarrow> Request \<Rightarrow> (place_error + Decision) \<times> 'p"
  env_remember :: "'p \<Rightarrow> Decision \<Rightarrow> memory_error option \<times> 'p"
  env_mint :: "(Cluster \<Rightarrow> TokenTTLPolicy option \<Rightarrow> duration \<Rightarrow> (broker_error + Credential) \<times> Resolution) option"
  env_getCluster :: "(string \<Rightarrow> string \<Rightarrow> api_error + Cluster) option"
  env_namespace :: string
  env_buckets :: "'b bucket_ops"
  env_parseDuration :: "string \<Rightarrow> duration option"
  env_brokerText :: "broker_error \<Rightarrow> string"
  env_now :: go_time

record ('p, 'b) Server =
  srv_limiter :: "'b callerLimiter option"
  srv_placer :: "'p option"
  srv_warm :: bool
  srv_trail :: "audit_Record list"

definition new_record :: "Event \<Rightarrow> string \<Rightarrow> audit_Record" where
  "new_record ev rid =
    \<lparr>au_event = ev, au_outcome = '''', au_requestID = rid, au_issuer = '''', au_subject = '''', au_claims = [],
     au_workload = '''', au_targetedDark = False, au_requestedTTL = 0, au_cell = '''', au_previousCell = '''',
     au_policy = '''', au_strategy = '''', au_confidence = '''', au_candidates = [], au_provider = '''',
     au_env = '''', au_namespace = '''', au_serviceAccount = '''', au_grantedTTL = 0, au_expiresAt = zero_time,
     au_tokenSHA256 = '''', au_reason = '''', au_error = ''''\<rparr>"

definition audit_trail :: "('p, 'b) Server \<Rightarrow> audit_Record \<Rightarrow> ('p, 'b) Server" where
  "audit_trail srv rec = srv\<lparr>srv_trail := srv_trail srv @ [rec]\<rparr>"

text \<open>The closure \<open>refuse\<close>: every early return goes through it.\<close>

definition refuse ::
  "('p, 'b) Server \<Rightarrow> audit_Record \<Rightarrow> int \<Rightarrow> int option \<Rightarrow> Reason \<Rightarrow> string \<Rightarrow> string option \<Rightarrow>
    http_response \<times> ('p, 'b) Server" where
  "refuse srv rec status retryAfter reason msg cause =
    (let rec1 = rec\<lparr>au_outcome := OutcomeRefused, au_reason := reason\<rparr>;
         rec2 = (case cause of None \<Rightarrow> rec1 | Some e \<Rightarrow> rec1\<lparr>au_error := e\<rparr>);
         echo = (if au_issuer rec2 \<noteq> '''' \<or> au_subject rec2 \<noteq> ''''
                 then Some \<lparr>ir_issuer = au_issuer rec2, ir_subject = au_subject rec2, ir_claims = au_claims rec2\<rparr>
                 else None)
     in (writeRefusal status retryAfter reason msg echo, audit_trail srv rec2))"

definition clusterByName :: "('p, 'b) hub_env \<Rightarrow> string \<Rightarrow> string + Cluster" where
  "clusterByName env name =
    (case env_getCluster env of
       None \<Rightarrow> Inl ''registry unavailable''
     | Some get \<Rightarrow>
       (case get (env_namespace env) name of
          Inl e \<Rightarrow> Inl (''reading cell '' @ name @ '': '' @ api_message e)
        | Inr cl \<Rightarrow> Inr cl))"

text \<open>\<open>Duration.Seconds\<close>.\<close>

definition Seconds :: "duration \<Rightarrow> rat" where
  "Seconds d = f64 (f64_of_int (d sdiv Second) + f64_div (f64_of_int (d smod Second)) (f64_of_int 1000000000))"

text \<open>\<open>max(1, int(math.Ceil(wait.Seconds())))\<close>.\<close>

definition retry_seconds :: "duration \<Rightarrow> int" where
  "retry_seconds wait = max 1 \<lceil>Seconds wait\<rceil>"

definition credential_response :: "Credential \<Rightarrow> credentialResponse" where
  "credential_response cred =
    \<lparr>crd_server = cred_server cred,
     crd_caData = (if cred_caBundle cred \<noteq> '''' then base64_encode (cred_caBundle cred) else ''''),
     crd_namespace = cred_namespace cred, crd_serviceAccount = cred_serviceAccount cred,
     crd_token = cred_token cred, crd_expiresAt = cred_expiresAt cred\<rparr>"

definition ttl_response :: "Resolution \<Rightarrow> ttlResponse" where
  "ttl_response ttl =
    \<lparr>tr_granted = res_granted ttl, tr_default = res_default ttl, tr_max = res_max ttl,
     tr_requested = (if res_requested ttl > 0 then Some (res_requested ttl) else None),
     tr_clamped = res_clamped ttl\<rparr>"

text \<open>The second half of the handler, from the mint record on.\<close>

definition mint_stage ::
  "('p, 'b) hub_env \<Rightarrow> ('p, 'b) Server \<Rightarrow> 'p \<Rightarrow> audit_Record \<Rightarrow> Decision \<Rightarrow> duration \<Rightarrow>
    placementResponse \<Rightarrow> http_response \<times> ('p, 'b) Server" where
  "mint_stage env srv p rec0 decision requested resp =
    (let rec = rec0\<lparr>au_event := EventMint, au_outcome := '''', au_reason := '''', au_error := '''',
                    au_candidates := []\<rparr>
     in case env_mint env of
          None \<Rightarrow> refuse srv rec 503 None MintUnavailable ''credential broker unavailable'' None
        | Some mint \<Rightarrow>
          (case clusterByName env (d_cell decision) of
             Inl e \<Rightarrow> refuse srv rec 500 None MintFailed ''internal error'' (Some e)
           | Inr cluster \<Rightarrow>
             (let rec1 = rec\<lparr>au_provider := provider (cl_spec cluster),
                    au_env := (case map_of (cl_labels cluster) EnvLabel of None \<Rightarrow> '''' | Some v \<Rightarrow> v)\<rparr>
              in case mint cluster (d_tokenTTL decision) requested of
                   (Inl e, _) \<Rightarrow>
                     refuse srv rec1 503 None MintFailed ''could not mint a credential for the chosen cell''
                       (Some (env_brokerText env e))
                 | (Inr cred, ttl) \<Rightarrow>
                   (let rec2 = rec1\<lparr>au_outcome := OutcomeGranted, au_namespace := cred_namespace cred,
                          au_serviceAccount := cred_serviceAccount cred, au_grantedTTL := res_granted ttl,
                          au_expiresAt := cred_expiresAt cred,
                          au_tokenSHA256 := HashToken (cred_token cred)\<rparr>;
                        srv1 = audit_trail srv rec2;
                        p' = snd (env_remember env p decision)
                    in (\<lparr>rsp_status = 200, rsp_retryAfter = None,
                         rsp_body = PlacementBody (resp\<lparr>plr_credential := Some (credential_response cred),
                           plr_ttl := Some (ttl_response ttl)\<rparr>)\<rparr>,
                        srv1\<lparr>srv_placer := Some p'\<rparr>)))))"

text \<open>The decision and everything after it, for a request that was read and understood.\<close>

definition place_stage ::
  "('p, 'b) hub_env \<Rightarrow> ('p, 'b) Server \<Rightarrow> 'p \<Rightarrow> audit_Record \<Rightarrow> Identity \<Rightarrow> placementRequest \<Rightarrow> duration \<Rightarrow>
    http_response \<times> ('p, 'b) Server" where
  "place_stage env srv0 p0 rec idn req requested =
    (case env_place env p0 idn \<lparr>req_workload = pr_workload req, req_targetDark = pr_targetDark req\<rparr> of
       (Inl err, p) \<Rightarrow>
         (let (status, reason) = placementRefusal err;
              rec1 = (case err of Refused r \<Rightarrow> rec\<lparr>au_policy := ref_policy r,
                        au_candidates := auditCandidates (ref_candidates r)\<rparr> | _ \<Rightarrow> rec)
          in refuse (srv0\<lparr>srv_placer := Some p\<rparr>) rec1 status None reason (refusalMessage reason)
               (Some (place_error_text err)))
     | (Inr decision, p) \<Rightarrow>
         (let rec1 = rec\<lparr>au_cell := d_cell decision, au_previousCell := d_previous decision,
                au_policy := d_policy decision, au_strategy := d_strategy decision,
                au_confidence := Decision_Confidence decision,
                au_candidates := auditCandidates (d_candidates decision),
                au_outcome := (if pr_dryRun req then OutcomeDryRun else OutcomeGranted)\<rparr>;
              srv = audit_trail (srv0\<lparr>srv_placer := Some p\<rparr>) rec1;
              resp = \<lparr>plr_cell = d_cell decision, plr_policy = d_policy decision,
                plr_strategy = d_strategy decision, plr_confidence = Decision_Confidence decision,
                plr_previousCell = d_previous decision, plr_decidedFor = id_subject idn,
                plr_targetedDark = d_targetedDark decision, plr_dryRun = pr_dryRun req,
                plr_credential = None, plr_ttl = None,
                plr_candidates = (if pr_explain req then explain decision else []),
                plr_identity = identityOf (Some idn)\<rparr>
          in if pr_dryRun req
             then (\<lparr>rsp_status = 200, rsp_retryAfter = None, rsp_body = PlacementBody resp\<rparr>, srv)
             else mint_stage env srv p rec1 decision requested resp))"

text \<open>Reading the body, for a caller within its limit at a hub that can place.\<close>

definition read_stage ::
  "('p, 'b) hub_env \<Rightarrow> ('p, 'b) Server \<Rightarrow> 'p \<Rightarrow> audit_Record \<Rightarrow> Identity \<Rightarrow> http_request \<Rightarrow>
    http_response \<times> ('p, 'b) Server" where
  "read_stage env srv p rec idn r =
    (case rq_body r of
       None \<Rightarrow> refuse srv rec 400 None InvalidRequest ''request body is not valid placement JSON'' None
     | Some req \<Rightarrow>
       (let rec2 = rec\<lparr>au_workload := pr_workload req, au_targetedDark := pr_targetDark req\<rparr> in
        if pr_workload req = ''''
        then refuse srv rec2 400 None InvalidRequest ''workload must be set'' None
        else if pr_ttl req = '''' then place_stage env srv p rec2 idn req 0
        else (case env_parseDuration env (pr_ttl req) of
          None \<Rightarrow> refuse srv rec2 400 None InvalidRequest
            ''ttl must be a positive Go duration, for example 15m'' None
        | Some d \<Rightarrow>
          if d \<le> 0 then refuse srv rec2 400 None InvalidRequest
            ''ttl must be a positive Go duration, for example 15m'' None
          else place_stage env srv p (rec2\<lparr>au_requestedTTL := d\<rparr>) idn req d)))"

definition handlePlacement ::
  "('p, 'b) hub_env \<Rightarrow> ('p, 'b) Server \<Rightarrow> http_request \<Rightarrow> http_response \<times> ('p, 'b) Server" where
  "handlePlacement env srv r =
    (let rec = new_record EventPlacement (rq_id r) in
     case rq_identity r of
       None \<Rightarrow> refuse srv rec 401 None NoPolicy ''unauthenticated'' None
     | Some idn \<Rightarrow>
       (let rec1 = rec\<lparr>au_issuer := id_issuer idn, au_subject := id_subject idn, au_claims := id_claims idn\<rparr>;
            verdict = allow (env_buckets env) (srv_limiter srv) (id_issuer idn) (id_subject idn) (env_now env);
            srv1 = srv\<lparr>srv_limiter := snd verdict\<rparr>
        in if \<not> fst (fst verdict)
           then refuse srv1 rec1 429 (Some (retry_seconds (snd (fst verdict)))) RateLimited
             ''too many placement requests from this caller'' None
           else (case srv_placer srv1 of
             None \<Rightarrow> refuse srv1 rec1 503 None PlacementUnavailable ''placement unavailable'' None
           | Some p \<Rightarrow>
             if \<not> srv_warm srv1
             then refuse srv1 rec1 503 None PlacementUnavailable ''hub is still warming up'' None
             else read_stage env srv1 p rec1 idn r)))"

section \<open>Lemmas\<close>

lemma refuse_simps [simp]:
  "body_reason (rsp_body (fst (refuse srv rec status ra reason msg cause))) = reason"
  "is_RefusalBody (rsp_body (fst (refuse srv rec status ra reason msg cause)))"
  "rsp_status (fst (refuse srv rec status ra reason msg cause)) = status"
  "rsp_body (fst (refuse srv rec status ra reason msg cause)) \<noteq> PlacementBody b"
  "srv_limiter (snd (refuse srv rec status ra reason msg cause)) = srv_limiter srv"
  "srv_placer (snd (refuse srv rec status ra reason msg cause)) = srv_placer srv"
  "srv_warm (snd (refuse srv rec status ra reason msg cause)) = srv_warm srv"
  by (simp_all add: refuse_def writeRefusal_def audit_trail_def Let_def)

text \<open>The record a refusal leaves: the one accumulated so far, with the outcome, the reason and the cause.\<close>

lemma refuse_trail:
  "srv_trail (snd (refuse srv rec status ra reason msg cause)) = srv_trail srv @
    [rec\<lparr>au_outcome := OutcomeRefused, au_reason := reason,
      au_error := (case cause of None \<Rightarrow> au_error rec | Some e \<Rightarrow> e)\<rparr>]"
  by (simp add: refuse_def audit_trail_def Let_def split: option.split)

text \<open>The requests that never reach the placer, and the ones that do.\<close>

definition early_reasons :: "Reason set" where
  "early_reasons = {NoPolicy, RateLimited, PlacementUnavailable, InvalidRequest}"

text \<open>What every record carries before a decision is made for it.\<close>

definition opened :: "http_request \<Rightarrow> audit_Record \<Rightarrow> bool" where
  "opened r rec \<longleftrightarrow> au_event rec = EventPlacement \<and> au_requestID rec = rq_id r \<and> au_tokenSHA256 rec = '''' \<and>
    (\<forall>idn. rq_identity r = Some idn \<longrightarrow> au_subject rec = id_subject idn \<and> au_issuer rec = id_issuer idn)"

lemma read_stage_cases:
  assumes "opened r rec"
  obtains (early) rec' msg where "read_stage env srv p rec idn r = refuse srv rec' 400 None InvalidRequest msg None"
    "opened r rec'"
  | (placed) req rec' requested where "rq_body r = Some req" "pr_workload req \<noteq> ''''" "opened r rec'"
    "read_stage env srv p rec idn r = place_stage env srv p rec' idn req requested"
proof (cases "rq_body r")
  case None
  with assms early show thesis by (simp add: read_stage_def)
next
  case (Some req)
  let ?rec = "rec\<lparr>au_workload := pr_workload req, au_targetedDark := pr_targetDark req\<rparr>"
  from assms have o: "opened r ?rec" "opened r (?rec\<lparr>au_requestedTTL := d\<rparr>)" for d
    by (simp_all add: opened_def)
  note h = read_stage_def [of env srv p rec idn r, unfolded Some option.case Let_def]
  have "(\<exists>msg. read_stage env srv p rec idn r = refuse srv ?rec 400 None InvalidRequest msg None) \<or>
      (\<exists>d rec'. rec' \<in> {?rec, ?rec\<lparr>au_requestedTTL := d\<rparr>} \<and> pr_workload req \<noteq> '''' \<and>
        read_stage env srv p rec idn r = place_stage env srv p rec' idn req d)"
    unfolding h by (cases "env_parseDuration env (pr_ttl req)") auto
  then consider (bad) msg where "read_stage env srv p rec idn r = refuse srv ?rec 400 None InvalidRequest msg None"
    | (go) d rec' where "rec' \<in> {?rec, ?rec\<lparr>au_requestedTTL := d\<rparr>}" "pr_workload req \<noteq> ''''"
      "read_stage env srv p rec idn r = place_stage env srv p rec' idn req d" by blast
  then show thesis
  proof cases
    case (bad msg)
    from early [OF bad o(1)] show thesis .
  next
    case (go d rec')
    with o have "opened r rec'" by auto
    from placed [OF Some go(2) this go(3)] show thesis .
  qed
qed

lemma handlePlacement_cases:
  obtains (early) rec status ra reason msg lim where
    "handlePlacement env srv r = refuse (srv\<lparr>srv_limiter := lim\<rparr>) rec status ra reason msg None"
    "reason \<in> early_reasons" "reason = NoPolicy \<longleftrightarrow> rq_identity r = None" "status \<noteq> 200" "opened r rec"
  | (placed) idn p req rec requested lim where
    "rq_identity r = Some idn" "srv_placer srv = Some p" "srv_warm srv" "rq_body r = Some req" "pr_workload req \<noteq> ''''"
    "handlePlacement env srv r = place_stage env (srv\<lparr>srv_limiter := lim\<rparr>) p rec idn req requested" "opened r rec"
proof (cases "rq_identity r")
  case None
  then have "handlePlacement env srv r = refuse (srv\<lparr>srv_limiter := srv_limiter srv\<rparr>)
      (new_record EventPlacement (rq_id r)) 401 None NoPolicy ''unauthenticated'' None"
    by (simp add: handlePlacement_def)
  from early [OF this] None show thesis by (simp add: early_reasons_def new_record_def opened_def)
next
  case (Some idn)
  define v where "v = allow (env_buckets env) (srv_limiter srv) (id_issuer idn) (id_subject idn) (env_now env)"
  define rec where "rec = (new_record EventPlacement (rq_id r))\<lparr>au_issuer := id_issuer idn,
    au_subject := id_subject idn, au_claims := id_claims idn\<rparr>"
  let ?srv = "srv\<lparr>srv_limiter := snd v\<rparr>"
  have o: "opened r rec" by (simp add: rec_def opened_def new_record_def Some)
  have ne: "RateLimited \<noteq> NoPolicy" "PlacementUnavailable \<noteq> NoPolicy" "InvalidRequest \<noteq> NoPolicy"
    by (simp_all add: api_defs)
  note h = handlePlacement_def [of env srv r, unfolded Some option.case Let_def v_def [symmetric] rec_def [symmetric]]
  have "(\<exists>status ra reason msg. handlePlacement env srv r = refuse ?srv rec status ra reason msg None \<and>
        reason \<in> {RateLimited, PlacementUnavailable} \<and> status \<noteq> 200) \<or>
      (\<exists>p. srv_placer srv = Some p \<and> srv_warm srv \<and> handlePlacement env srv r = read_stage env ?srv p rec idn r)"
    unfolding h by (cases "srv_placer srv") fastforce+
  then consider (no) status ra reason msg where
      "handlePlacement env srv r = refuse ?srv rec status ra reason msg None"
      "reason \<in> {RateLimited, PlacementUnavailable}" "status \<noteq> 200"
    | (read) p where "srv_placer srv = Some p" "srv_warm srv"
      "handlePlacement env srv r = read_stage env ?srv p rec idn r" by blast
  then show thesis
  proof cases
    case no
    then show thesis by (intro early [OF no(1)]) (auto simp: early_reasons_def ne ne [symmetric] Some o)
  next
    case (read p)
    show thesis
    proof (rule read_stage_cases [OF o, of env ?srv p idn])
      fix rec' msg assume "read_stage env ?srv p rec idn r = refuse ?srv rec' 400 None InvalidRequest msg None" "opened r rec'"
      with read(3) show thesis by (intro early) (auto simp: early_reasons_def ne Some)
    next
      fix req rec' requested assume q: "rq_body r = Some req" "pr_workload req \<noteq> ''''" "opened r rec'"
        "read_stage env ?srv p rec idn r = place_stage env ?srv p rec' idn req requested"
      show thesis by (rule placed [OF Some read(1,2) q(1,2) _ q(3)]) (simp add: read(3) q(4))
    qed
  qed
qed

lemma placementRefusal_status: "fst (placementRefusal err) \<in> {403, 409, 503, 500}"
  by (auto simp: placementRefusal_def)

lemma auditCandidates_cells: "map ac_cell (auditCandidates cands) = map cand_cell cands"
  by (simp add: auditCandidates_def comp_def)

text \<open>The two ways the second half of the handler ends.\<close>

definition mint_record :: "audit_Record \<Rightarrow> audit_Record" where
  "mint_record rec = rec\<lparr>au_event := EventMint, au_outcome := '''', au_reason := '''', au_error := '''',
    au_candidates := []\<rparr>"

lemma mint_stage_cases:
  obtains (refused) rec' status reason msg cause where
    "mint_stage env srv p rec decision requested resp = refuse srv rec' status None reason msg cause"
    "status \<noteq> 200" "reason \<in> {MintUnavailable, MintFailed}"
    "rec' = (mint_record rec)\<lparr>au_provider := au_provider rec', au_env := au_env rec'\<rparr>"
  | (minted) mint cluster cred ttl rec' where
    "env_mint env = Some mint" "clusterByName env (d_cell decision) = Inr cluster"
    "mint cluster (d_tokenTTL decision) requested = (Inr cred, ttl)"
    "rec' = (mint_record rec)\<lparr>au_provider := au_provider rec', au_env := au_env rec',
      au_outcome := OutcomeGranted, au_namespace := cred_namespace cred,
      au_serviceAccount := cred_serviceAccount cred, au_grantedTTL := res_granted ttl,
      au_expiresAt := cred_expiresAt cred, au_tokenSHA256 := HashToken (cred_token cred)\<rparr>"
    "mint_stage env srv p rec decision requested resp =
      (\<lparr>rsp_status = 200, rsp_retryAfter = None,
        rsp_body = PlacementBody (resp\<lparr>plr_credential := Some (credential_response cred),
          plr_ttl := Some (ttl_response ttl)\<rparr>)\<rparr>,
       (audit_trail srv rec')\<lparr>srv_placer := Some (snd (env_remember env p decision))\<rparr>)"
proof (cases "env_mint env")
  case None
  then show thesis
    by (intro refused [of "mint_record rec" 503 MintUnavailable "''credential broker unavailable''" None])
      (simp_all add: mint_stage_def mint_record_def)
next
  case (Some mint)
  note m = Some
  show thesis
  proof (cases "clusterByName env (d_cell decision)")
    case (Inl e)
    with m show thesis
      by (intro refused [of "mint_record rec" 500 MintFailed "''internal error''" "Some e"])
        (simp_all add: mint_stage_def mint_record_def)
  next
    case (Inr cluster)
    let ?rec = "(mint_record rec)\<lparr>au_provider := provider (cl_spec cluster),
      au_env := (case map_of (cl_labels cluster) EnvLabel of None \<Rightarrow> '''' | Some v \<Rightarrow> v)\<rparr>"
    obtain out ttl where o: "mint cluster (d_tokenTTL decision) requested = (out, ttl)" by force
    show thesis
    proof (cases out)
      case (Inl e)
      with m Inr o show thesis
        by (intro refused [of ?rec 503 MintFailed "''could not mint a credential for the chosen cell''"
              "Some (env_brokerText env e)"])
          (simp_all add: mint_stage_def mint_record_def)
    next
      case out: (Inr cred)
      show thesis
        by (rule minted [OF m Inr o [unfolded out], of "?rec\<lparr>au_outcome := OutcomeGranted,
              au_namespace := cred_namespace cred, au_serviceAccount := cred_serviceAccount cred,
              au_grantedTTL := res_granted ttl, au_expiresAt := cred_expiresAt cred,
              au_tokenSHA256 := HashToken (cred_token cred)\<rparr>"])
          (simp_all add: mint_stage_def mint_record_def m Inr o out)
    qed
  qed
qed

text \<open>What the decision puts on the record and in the response.\<close>

definition decided_record :: "audit_Record \<Rightarrow> Decision \<Rightarrow> bool \<Rightarrow> audit_Record" where
  "decided_record rec d dry = rec\<lparr>au_cell := d_cell d, au_previousCell := d_previous d,
    au_policy := d_policy d, au_strategy := d_strategy d, au_confidence := Decision_Confidence d,
    au_candidates := auditCandidates (d_candidates d),
    au_outcome := (if dry then OutcomeDryRun else OutcomeGranted)\<rparr>"

definition decided_response :: "Identity \<Rightarrow> placementRequest \<Rightarrow> Decision \<Rightarrow> placementResponse" where
  "decided_response idn req d = \<lparr>plr_cell = d_cell d, plr_policy = d_policy d, plr_strategy = d_strategy d,
    plr_confidence = Decision_Confidence d, plr_previousCell = d_previous d, plr_decidedFor = id_subject idn,
    plr_targetedDark = d_targetedDark d, plr_dryRun = pr_dryRun req, plr_credential = None, plr_ttl = None,
    plr_candidates = (if pr_explain req then explain d else []), plr_identity = identityOf (Some idn)\<rparr>"

lemma place_stage_cases:
  obtains (refused) err p' rec' where
    "env_place env p idn \<lparr>req_workload = pr_workload req, req_targetDark = pr_targetDark req\<rparr> = (Inl err, p')"
    "place_stage env srv p rec idn req requested = refuse (srv\<lparr>srv_placer := Some p'\<rparr>) rec'
      (fst (placementRefusal err)) None (snd (placementRefusal err)) (refusalMessage (snd (placementRefusal err)))
      (Some (place_error_text err))"
    "rec' = rec\<lparr>au_policy := au_policy rec', au_candidates := au_candidates rec'\<rparr>"
  | (dry) d p' where
    "env_place env p idn \<lparr>req_workload = pr_workload req, req_targetDark = pr_targetDark req\<rparr> = (Inr d, p')"
    "pr_dryRun req"
    "place_stage env srv p rec idn req requested =
      (\<lparr>rsp_status = 200, rsp_retryAfter = None, rsp_body = PlacementBody (decided_response idn req d)\<rparr>,
       audit_trail (srv\<lparr>srv_placer := Some p'\<rparr>) (decided_record rec d True))"
  | (mint) d p' where
    "env_place env p idn \<lparr>req_workload = pr_workload req, req_targetDark = pr_targetDark req\<rparr> = (Inr d, p')"
    "\<not> pr_dryRun req"
    "place_stage env srv p rec idn req requested =
      mint_stage env (audit_trail (srv\<lparr>srv_placer := Some p'\<rparr>) (decided_record rec d False)) p'
        (decided_record rec d False) d requested (decided_response idn req d)"
proof -
  let ?q = "\<lparr>req_workload = pr_workload req, req_targetDark = pr_targetDark req\<rparr>"
  obtain out p' where o: "env_place env p idn ?q = (out, p')" by force
  show thesis
  proof (cases out)
    case (Inl err)
    let ?rec = "case err of Refused r \<Rightarrow> rec\<lparr>au_policy := ref_policy r,
      au_candidates := auditCandidates (ref_candidates r)\<rparr> | _ \<Rightarrow> rec"
    have "?rec = rec\<lparr>au_policy := au_policy ?rec, au_candidates := au_candidates ?rec\<rparr>"
      by (cases err) simp_all
    then show thesis
      by (rule refused [OF o [unfolded Inl], rotated]) (simp add: place_stage_def o Inl case_prod_beta Let_def)
  next
    case (Inr d)
    note defs = place_stage_def o Inr Let_def decided_record_def decided_response_def
    show thesis
    proof (cases "pr_dryRun req")
      case True
      then show thesis by (intro dry [OF o [unfolded Inr]]) (simp_all add: defs)
    next
      case False
      then show thesis by (intro mint [OF o [unfolded Inr]]) (simp_all add: defs)
    qed
  qed
qed

text \<open>
  A placement that was answered: the server after it, with the decision behind it and, unless it was a dry run, the
  mint behind its credential.
\<close>

definition minted_reply ::
  "('p, 'b) hub_env \<Rightarrow> Decision \<Rightarrow> audit_Record \<Rightarrow> placementResponse \<Rightarrow> audit_Record \<Rightarrow> bool" where
  "minted_reply env d rec b rec' \<longleftrightarrow>
    (\<exists>mint cluster cred ttl requested prov ev. env_mint env = Some mint \<and> clusterByName env (d_cell d) = Inr cluster \<and>
      mint cluster (d_tokenTTL d) requested = (Inr cred, ttl) \<and>
      plr_credential b = Some (credential_response cred) \<and>
      rec' = (mint_record (decided_record rec d False))\<lparr>au_provider := prov, au_env := ev,
        au_outcome := OutcomeGranted, au_namespace := cred_namespace cred,
        au_serviceAccount := cred_serviceAccount cred, au_grantedTTL := res_granted ttl,
        au_expiresAt := cred_expiresAt cred, au_tokenSHA256 := HashToken (cred_token cred)\<rparr>)"

lemma handlePlacement_ok:
  assumes "handlePlacement env srv r = (rsp, srv')" and "rsp_body rsp = PlacementBody b"
  obtains idn p req d p' rec lim where
    "rq_identity r = Some idn" "srv_placer srv = Some p" "srv_warm srv" "rq_body r = Some req"
    "env_place env p idn \<lparr>req_workload = pr_workload req, req_targetDark = pr_targetDark req\<rparr> = (Inr d, p')"
    "plr_cell b = d_cell d" "opened r rec" "rsp_status rsp = 200"
    "if pr_dryRun req
      then plr_credential b = None \<and>
        srv' = audit_trail (srv\<lparr>srv_limiter := lim, srv_placer := Some p'\<rparr>) (decided_record rec d True)
      else \<exists>rec'. minted_reply env d rec b rec' \<and>
        srv' = (audit_trail (audit_trail (srv\<lparr>srv_limiter := lim, srv_placer := Some p'\<rparr>)
          (decided_record rec d False)) rec')\<lparr>srv_placer := Some (snd (env_remember env p' d))\<rparr>"
proof (cases rule: handlePlacement_cases [of env srv r])
  case early
  with assms show thesis by (metis fst_conv refuse_simps(4))
next
  case (placed idn p req rec requested lim)
  let ?srv = "srv\<lparr>srv_limiter := lim\<rparr>"
  show thesis
  proof (cases rule: place_stage_cases [of env p idn req ?srv rec requested])
    case refused
    with assms placed(6) show thesis by (metis fst_conv refuse_simps(4))
  next
    case (dry d p')
    with assms placed(6) show thesis
      by (intro that [OF placed(1-4) dry(1) _ placed(7), of lim]) (auto simp: decided_response_def)
  next
    case (mint d p')
    show thesis
    proof (cases rule: mint_stage_cases [of env "audit_trail (?srv\<lparr>srv_placer := Some p'\<rparr>)
        (decided_record rec d False)" p' "decided_record rec d False" d requested "decided_response idn req d"])
      case refused
      with assms placed(6) mint(3) show thesis by (metis fst_conv refuse_simps(4))
    next
      case (minted m cluster cred ttl rec')
      from assms placed(6) mint(3) minted(5)
      have b: "b = (decided_response idn req d)\<lparr>plr_credential := Some (credential_response cred),
          plr_ttl := Some (ttl_response ttl)\<rparr>"
        and s: "srv' = (audit_trail (audit_trail (?srv\<lparr>srv_placer := Some p'\<rparr>) (decided_record rec d False)) rec')
          \<lparr>srv_placer := Some (snd (env_remember env p' d))\<rparr>" and "rsp_status rsp = 200" by auto
      have m: "minted_reply env d rec b rec'"
        unfolding minted_reply_def using minted(1-4) b
        by (intro exI [of _ m] exI [of _ cluster] exI [of _ cred] exI [of _ ttl] exI [of _ requested]
            exI [of _ "au_provider rec'"] exI [of _ "au_env rec'"]) simp
      show thesis
        by (rule that [OF placed(1-4) mint(1) _ placed(7) \<open>rsp_status rsp = 200\<close>, of lim])
          (use m mint(2) in \<open>auto simp: b decided_response_def s\<close>)
    qed
  qed
qed

section \<open>The interface to the placer and the minter\<close>

text \<open>
  What the route relies on: a decision names a cell the caller may reach, and a credential is addressed to the
  cluster it was minted for. \<open>reaches\<close> is the placer's own account of permission.
\<close>

locale placement_route =
  fixes place :: "'p \<Rightarrow> Identity \<Rightarrow> Request \<Rightarrow> (place_error + Decision) \<times> 'p"
    and mint :: "Cluster \<Rightarrow> TokenTTLPolicy option \<Rightarrow> duration \<Rightarrow> (broker_error + Credential) \<times> Resolution"
    and reaches :: "'p \<Rightarrow> Identity \<Rightarrow> bool \<Rightarrow> string \<Rightarrow> bool"
  assumes place_reaches: "place p idn req = (Inr d, p') \<Longrightarrow> reaches p idn (req_targetDark req) (d_cell d)"
    and mint_addressed: "mint cl pol t = (Inr cred, res) \<Longrightarrow> cred_server cred = endpoint (cl_spec cl)"
begin

lemma placement_reaches:
  assumes "env_place env = place" and "handlePlacement env srv r = (rsp, srv')"
    and "rsp_body rsp = PlacementBody b"
  shows "\<exists>idn p req. rq_identity r = Some idn \<and> srv_placer srv = Some p \<and> rq_body r = Some req \<and>
    reaches p idn (pr_targetDark req) (plr_cell b)"
proof (rule handlePlacement_ok [OF assms(2,3)])
  fix idn p req d p'
  assume "rq_identity r = Some idn" "srv_placer srv = Some p" "rq_body r = Some req" "plr_cell b = d_cell d"
    "env_place env p idn \<lparr>req_workload = pr_workload req, req_targetDark = pr_targetDark req\<rparr> = (Inr d, p')"
  with assms(1) place_reaches [of p idn] show ?thesis by fastforce
qed

lemma credential_addressed:
  assumes "env_mint env = Some mint" and "handlePlacement env srv r = (rsp, srv')"
    and "rsp_body rsp = PlacementBody b" and "plr_credential b = Some c"
  shows "\<exists>cluster pol t cred res. clusterByName env (plr_cell b) = Inr cluster \<and>
    mint cluster pol t = (Inr cred, res) \<and> c = credential_response cred \<and>
    crd_server c = endpoint (cl_spec cluster)"
proof (rule handlePlacement_ok [OF assms(2,3)])
  fix req d rec p' lim p
  assume cell: "plr_cell b = d_cell d"
    and r: "if pr_dryRun req
      then plr_credential b = None \<and>
        srv' = audit_trail (srv\<lparr>srv_limiter := lim, srv_placer := Some p'\<rparr>) (decided_record rec d True)
      else \<exists>rec'. minted_reply env d rec b rec' \<and>
        srv' = (audit_trail (audit_trail (srv\<lparr>srv_limiter := lim, srv_placer := Some p'\<rparr>)
          (decided_record rec d False)) rec')\<lparr>srv_placer := Some (snd (env_remember env p' d))\<rparr>"
  with assms(4) obtain rec' where "minted_reply env d rec b rec'" by (auto split: if_splits)
  with assms(1,4) cell obtain cluster cred ttl requested where "clusterByName env (plr_cell b) = Inr cluster"
    and m: "mint cluster (d_tokenTTL d) requested = (Inr cred, ttl)" and "c = credential_response cred"
    by (auto simp: minted_reply_def)
  moreover from this mint_addressed [OF m] have "crd_server c = endpoint (cl_spec cluster)"
    by (simp add: credential_response_def)
  ultimately show ?thesis by blast
qed

end

text \<open>A placement that was refused: where it stopped, and the record that says so.\<close>

lemma handlePlacement_refused:
  assumes "handlePlacement env srv r = (rsp, srv')" and "rsp_body rsp = RefusalBody reason msg echo"
  shows "rsp_status rsp \<noteq> 200 \<and> (\<exists>recs x. srv_trail srv' = srv_trail srv @ recs @ [x] \<and>
    (\<forall>y \<in> set recs. au_requestID y = rq_id r \<and> au_tokenSHA256 y = '''') \<and>
    au_requestID x = rq_id r \<and> au_tokenSHA256 x = '''' \<and>
    au_outcome x = OutcomeRefused \<and> au_reason x = reason)"
proof -
  have finish: ?thesis if "(rsp, srv') = refuse s rec status ra reason' msg' cause" "status \<noteq> 200"
      "srv_trail s = srv_trail srv @ recs" "\<forall>y \<in> set recs. au_requestID y = rq_id r \<and> au_tokenSHA256 y = ''''"
      "au_requestID rec = rq_id r" "au_tokenSHA256 rec = ''''" for s rec status ra reason' msg' cause recs
  proof -
    let ?x = "rec\<lparr>au_outcome := OutcomeRefused, au_reason := reason',
      au_error := (case cause of None \<Rightarrow> au_error rec | Some e \<Rightarrow> e)\<rparr>"
    from that(1) have r: "rsp = fst (refuse s rec status ra reason' msg' cause)"
      and s: "srv' = snd (refuse s rec status ra reason' msg' cause)" by (metis fst_conv, metis snd_conv)
    from r assms(2) have "reason' = reason" by (metis refuse_simps(1) response_body.sel(1))
    moreover from s that(3) have "srv_trail srv' = srv_trail srv @ recs @ [?x]" by (simp add: refuse_trail)
    moreover from r that(2) have "rsp_status rsp \<noteq> 200" by simp
    ultimately show ?thesis using that(4-6) by (intro conjI exI [of _ recs] exI [of _ ?x]) simp_all
  qed
  show ?thesis
  proof (cases rule: handlePlacement_cases [of env srv r])
    case early
    show ?thesis
      by (rule finish [OF trans [OF assms(1) [symmetric] early(1)] early(4), of "[]"]) (use early(5) in \<open>simp_all add: opened_def\<close>)
  next
    case (placed idn p req rec requested lim)
    let ?srv = "srv\<lparr>srv_limiter := lim\<rparr>"
    show ?thesis
    proof (cases rule: place_stage_cases [of env p idn req ?srv rec requested])
      case (refused err p' rec')
      from arg_cong [OF refused(3), of au_requestID] arg_cong [OF refused(3), of au_tokenSHA256] placed(7)
      have "au_requestID rec' = rq_id r" "au_tokenSHA256 rec' = ''''" by (simp_all add: opened_def)
      then show ?thesis
        by (intro finish [OF trans [OF assms(1) [symmetric] trans [OF placed(6) refused(2)]], of "[]"])
          (use placementRefusal_status [of err] in auto)
    next
      case (dry d p')
      with assms placed(6) show ?thesis by auto
    next
      case (mint d p')
      let ?s = "audit_trail (?srv\<lparr>srv_placer := Some p'\<rparr>) (decided_record rec d False)"
      show ?thesis
      proof (cases rule: mint_stage_cases [of env ?s p' "decided_record rec d False" d requested
            "decided_response idn req d"])
        case (refused rec' status reason' msg' cause)
        from placed(7) have o: "au_requestID (decided_record rec d False) = rq_id r"
          "au_tokenSHA256 (decided_record rec d False) = ''''" by (simp_all add: opened_def decided_record_def)
        with arg_cong [OF refused(4), of au_requestID] arg_cong [OF refused(4), of au_tokenSHA256]
        have "au_requestID rec' = rq_id r" "au_tokenSHA256 rec' = ''''" by (simp_all add: mint_record_def)
        with o show ?thesis
          by (intro finish [OF trans [OF assms(1) [symmetric] trans [OF placed(6) trans [OF mint(3) refused(1)]]]
                refused(2), of "[decided_record rec d False]"]) (simp_all add: audit_trail_def)
      next
        case minted
        with assms placed(6) mint(3) show ?thesis by auto
      qed
    qed
  qed
qed

section \<open>Properties\<close>

text \<open>
  C14. Nothing leaves the hub unrecorded. Every answer to a placement appends at least one audit record that carries
  the request's id: a refusal ends the trail with a refused record naming the reason the caller was given; a
  dry run leaves one dry-run record naming the cell; a credential leaves two, the decision and then the
  mint, whose digest, expiry, scope and cell are those of the credential handed out. And a credential is
  never sent with a status other than 200.
\<close>

theorem every_answer_is_audited:
  assumes "handlePlacement env srv r = (rsp, srv')"
  shows "case rsp_body rsp of
      RefusalBody reason msg echo \<Rightarrow> rsp_status rsp \<noteq> 200 \<and>
        (\<exists>recs x. srv_trail srv' = srv_trail srv @ recs @ [x] \<and> au_requestID x = rq_id r \<and>
          au_outcome x = OutcomeRefused \<and> au_reason x = reason)
    | PlacementBody b \<Rightarrow> rsp_status rsp = 200 \<and>
        (case plr_credential b of
           None \<Rightarrow> \<exists>x. srv_trail srv' = srv_trail srv @ [x] \<and> au_requestID x = rq_id r \<and>
             au_event x = EventPlacement \<and> au_outcome x = OutcomeDryRun \<and> au_cell x = plr_cell b
         | Some c \<Rightarrow> \<exists>x y. srv_trail srv' = srv_trail srv @ [x, y] \<and>
             au_requestID x = rq_id r \<and> au_event x = EventPlacement \<and> au_outcome x = OutcomeGranted \<and>
             au_cell x = plr_cell b \<and>
             au_requestID y = rq_id r \<and> au_event y = EventMint \<and> au_outcome y = OutcomeGranted \<and>
             au_cell y = plr_cell b \<and> au_tokenSHA256 y = HashToken (crd_token c) \<and>
             au_expiresAt y = crd_expiresAt c \<and> au_namespace y = crd_namespace c \<and>
             au_serviceAccount y = crd_serviceAccount c)"
proof (cases "rsp_body rsp")
  case (RefusalBody reason msg echo)
  from handlePlacement_refused [OF assms RefusalBody] show ?thesis by (auto simp: RefusalBody)
next
  case (PlacementBody b)
  show ?thesis
  proof (rule handlePlacement_ok [OF assms PlacementBody])
    fix idn p req d p' rec lim
    assume cell: "plr_cell b = d_cell d" and o: "opened r rec" and st: "rsp_status rsp = 200"
      and res: "if pr_dryRun req
      then plr_credential b = None \<and>
        srv' = audit_trail (srv\<lparr>srv_limiter := lim, srv_placer := Some p'\<rparr>) (decided_record rec d True)
      else \<exists>rec'. minted_reply env d rec b rec' \<and>
        srv' = (audit_trail (audit_trail (srv\<lparr>srv_limiter := lim, srv_placer := Some p'\<rparr>)
          (decided_record rec d False)) rec')\<lparr>srv_placer := Some (snd (env_remember env p' d))\<rparr>"
    have dec: "au_requestID (decided_record rec d dry) = rq_id r" "au_event (decided_record rec d dry) = EventPlacement"
      "au_cell (decided_record rec d dry) = plr_cell b"
      "au_outcome (decided_record rec d dry) = (if dry then OutcomeDryRun else OutcomeGranted)" for dry
      using o cell by (simp_all add: opened_def decided_record_def)
    show ?thesis
    proof (cases "pr_dryRun req")
      case True
      with res st dec [of True] show ?thesis by (simp add: PlacementBody audit_trail_def)
    next
      case False
      with res obtain rec' where m: "minted_reply env d rec b rec'"
        and t: "srv_trail srv' = srv_trail srv @ [decided_record rec d False, rec']" by (auto simp: audit_trail_def)
      from m obtain cred prov ev and ttl :: Resolution where cr: "plr_credential b = Some (credential_response cred)"
        and r': "rec' = (mint_record (decided_record rec d False))\<lparr>au_provider := prov,
          au_env := ev, au_outcome := OutcomeGranted, au_namespace := cred_namespace cred,
          au_serviceAccount := cred_serviceAccount cred, au_grantedTTL := res_granted ttl,
          au_expiresAt := cred_expiresAt cred, au_tokenSHA256 := HashToken (cred_token cred)\<rparr>"
        unfolding minted_reply_def by blast
      have "au_requestID rec' = rq_id r" "au_event rec' = EventMint" "au_outcome rec' = OutcomeGranted"
        "au_cell rec' = plr_cell b" "au_tokenSHA256 rec' = HashToken (cred_token cred)"
        "au_expiresAt rec' = cred_expiresAt cred" "au_namespace rec' = cred_namespace cred"
        "au_serviceAccount rec' = cred_serviceAccount cred"
        using dec [of False] by (simp_all add: r' mint_record_def)
      with t st cr dec [of False] show ?thesis by (simp add: PlacementBody credential_response_def)
    qed
  qed
qed

end
