(* ===== verification/PlacementRoute.thy ===== *)
theory PlacementRoute
  imports PlacementApi
begin

text \<open>
  The placement route with the engine and the broker behind it, and what a dry run and the trail keep of a
  placement. \<open>engine_place\<close> and \<open>engine_remember\<close> are the engine as the \<open>Placer\<close> of
  \<open>internal/hub/minter.go\<close>, over its own state and the API server's; the broker is the \<open>Minter\<close>. Both
  interpret \<^const>\<open>placement_route\<close>.
\<close>

section \<open>The engine as placer\<close>

type_synonym 's placer = "'s Engine \<times> 's"

definition engine_place ::
  "'sel reader \<Rightarrow> 'sel as_selector \<Rightarrow> go_time \<Rightarrow> go_time \<Rightarrow> 's placer \<Rightarrow> Identity \<Rightarrow> Request \<Rightarrow>
    (place_error + Decision) \<times> 's placer" where
  "engine_place rd asSel tSnap tLive p idn req =
    (case Place (fst p) rd asSel (snd p) tSnap tLive (Some idn) req of (out, e) \<Rightarrow> (out, (e, snd p)))"

definition engine_remember :: "go_time \<Rightarrow> 's placer \<Rightarrow> Decision \<Rightarrow> memory_error option \<times> 's placer" where
  "engine_remember now p d = (case Remember (fst p) (snd p) now d of (err, s) \<Rightarrow> (err, (fst p, s)))"

text \<open>A caller reaches a cell through the policy that governs it, in the state the request asks for.\<close>

definition engine_reaches ::
  "'sel reader \<Rightarrow> 'sel as_selector \<Rightarrow> go_time \<Rightarrow> 's placer \<Rightarrow> Identity \<Rightarrow> bool \<Rightarrow> string \<Rightarrow> bool" where
  "engine_reaches rd asSel tSnap p idn dark cell \<longleftrightarrow>
    (\<exists>ps policy amb sel cls cl r entry. readPolicies rd (eng_ns (fst p)) = Inr ps \<and>
      selectPolicy ps idn = Inr (policy, amb) \<and> asSel (permittedCells (pol_spec policy)) = Inr sel \<and>
      readClusters rd (eng_ns (fst p)) = Inr cls \<and> cl \<in> set cls \<and> cl_name cl = cell \<and> sel (cl_labels cl) \<and>
      Normalize (state (cl_spec cl)) = (if dark then ClusterStateDark else ClusterStateLive) \<and>
      (dark \<longrightarrow> allowDarkTargeting (pol_spec policy)) \<and>
      eng_capacity (fst p) = Some r \<and> Lookup r tSnap cell = Some entry \<and> entry_health entry = HealthFresh)"

lemma engine_place_reaches:
  assumes "engine_place rd asSel tSnap tLive p idn req = (Inr d, p')"
  shows "engine_reaches rd asSel tSnap p idn (req_targetDark req) (d_cell d)"
proof -
  from assms obtain e' where "Place (fst p) rd asSel (snd p) tSnap tLive (Some idn) req = (Inr d, e')"
    by (auto simp: engine_place_def split: prod.splits)
  from Place_permitted [OF this] show ?thesis unfolding engine_reaches_def option.inject by blast
qed

interpretation hub_route: placement_route
  "engine_place rd asSel tSnap tLive"
  "Mint (NewBroker getTrust ns ceil [KubernetesProvider connect createToken]) now"
  "engine_reaches rd asSel tSnap"
  for rd asSel tSnap tLive getTrust ns ceil connect createToken now
proof unfold_locales
  show "engine_reaches rd asSel tSnap p idn (req_targetDark req) (d_cell d)"
    if "engine_place rd asSel tSnap tLive p idn req = (Inr d, p')" for p idn req d p'
    using that by (rule engine_place_reaches)
  show "cred_server cred = endpoint (cl_spec cl)"
    if "Mint (NewBroker getTrust ns ceil [KubernetesProvider connect createToken]) now cl pol t = (Inr cred, res)"
    for cl pol t cred res
    using Mint_scoped [OF that] by simp
qed

section \<open>The trail and the token\<close>

text \<open>A minter that issues other tokens, and a record without its digest.\<close>

definition retoken ::
  "(string \<Rightarrow> string) \<Rightarrow> (Cluster \<Rightarrow> TokenTTLPolicy option \<Rightarrow> duration \<Rightarrow> (broker_error + Credential) \<times> Resolution) \<Rightarrow>
    Cluster \<Rightarrow> TokenTTLPolicy option \<Rightarrow> duration \<Rightarrow> (broker_error + Credential) \<times> Resolution" where
  "retoken f mint cl pol t =
    (case mint cl pol t of
       (Inl e, res) \<Rightarrow> (Inl e, res)
     | (Inr cred, res) \<Rightarrow> (Inr (cred\<lparr>cred_token := f (cred_token cred)\<rparr>), res))"

definition undigested :: "audit_Record \<Rightarrow> audit_Record" where
  "undigested rec = rec\<lparr>au_tokenSHA256 := ''''\<rparr>"

lemma clusterByName_cong: "clusterByName (env\<lparr>env_mint := m\<rparr>) = clusterByName env"
  by (rule ext) (simp add: clusterByName_def split: option.split)

lemma mint_stage_retoken:
  "map undigested (srv_trail (snd (mint_stage (env\<lparr>env_mint := map_option (retoken f) (env_mint env)\<rparr>) srv p rec d t b))) =
    map undigested (srv_trail (snd (mint_stage env srv p rec d t b)))"
  by (simp add: mint_stage_def clusterByName_cong retoken_def Let_def undigested_def audit_trail_def
      split: option.split sum.split prod.split)

lemma place_stage_retoken:
  "map undigested (srv_trail (snd (place_stage (env\<lparr>env_mint := map_option (retoken f) (env_mint env)\<rparr>) srv p rec idn q t))) =
    map undigested (srv_trail (snd (place_stage env srv p rec idn q t)))"
  by (simp add: place_stage_def Let_def mint_stage_retoken split: sum.split prod.split)

lemma read_stage_retoken:
  "map undigested (srv_trail (snd (read_stage (env\<lparr>env_mint := map_option (retoken f) (env_mint env)\<rparr>) srv p rec idn r))) =
    map undigested (srv_trail (snd (read_stage env srv p rec idn r)))"
  by (simp add: read_stage_def Let_def place_stage_retoken split: option.split)

text \<open>The digests a trail holds, and the one an answer should leave there.\<close>

definition digests :: "audit_Record list \<Rightarrow> string list" where
  "digests recs = filter (\<lambda>h. h \<noteq> '''') (map au_tokenSHA256 recs)"

fun handed_token :: "response_body \<Rightarrow> string" where
  "handed_token (RefusalBody _ _ _) = ''''"
| "handed_token (PlacementBody b) = (case plr_credential b of None \<Rightarrow> '''' | Some c \<Rightarrow> crd_token c)"

definition token_digest :: "string \<Rightarrow> string list" where
  "token_digest token = (if token = '''' then [] else [''sha256:'' @ EncodeToString (Sum256 token)])"

lemma digests_simps [simp]:
  "digests [] = []" "digests (xs @ ys) = digests xs @ digests ys"
  "digests [rec] = (if au_tokenSHA256 rec = '''' then [] else [au_tokenSHA256 rec])"
  by (simp_all add: digests_def)

lemma refuse_digests:
  assumes "au_tokenSHA256 rec = ''''"
  shows "digests (srv_trail (snd (refuse srv rec status ra reason msg cause))) =
    digests (srv_trail srv) @ token_digest (handed_token (rsp_body (fst (refuse srv rec status ra reason msg cause))))"
  using assms by (simp add: refuse_def writeRefusal_def audit_trail_def token_digest_def Let_def split: option.split)

lemma mint_stage_digests:
  assumes "au_tokenSHA256 rec = ''''"
  shows "digests (srv_trail (snd (mint_stage env srv p rec d t b))) =
    digests (srv_trail srv) @ token_digest (handed_token (rsp_body (fst (mint_stage env srv p rec d t b))))"
proof (cases rule: mint_stage_cases [of env srv p rec d t b])
  case (refused rec' status reason msg cause)
  from arg_cong [OF refused(4), of au_tokenSHA256] assms have "au_tokenSHA256 rec' = ''''" by (simp add: mint_record_def)
  then show ?thesis unfolding refused(1) by (simp add: refuse_digests)
next
  case (minted mint cluster cred ttl rec')
  from arg_cong [OF minted(4), of au_tokenSHA256] have "au_tokenSHA256 rec' = HashToken (cred_token cred)" by simp
  then show ?thesis unfolding minted(5)
    by (simp add: audit_trail_def credential_response_def token_digest_def HashToken_def)
qed

lemma place_stage_digests:
  assumes "au_tokenSHA256 rec = ''''"
  shows "digests (srv_trail (snd (place_stage env srv p rec idn req t))) =
    digests (srv_trail srv) @ token_digest (handed_token (rsp_body (fst (place_stage env srv p rec idn req t))))"
proof (cases rule: place_stage_cases [of env p idn req srv rec t])
  case (refused err p' rec')
  from arg_cong [OF refused(3), of au_tokenSHA256] assms have "au_tokenSHA256 rec' = ''''" by simp
  then show ?thesis unfolding refused(2) by (simp add: refuse_digests)
next
  case (dry d p')
  show ?thesis unfolding dry(3) using assms by (simp add: audit_trail_def decided_record_def decided_response_def token_digest_def)
next
  case (mint d p')
  have r: "au_tokenSHA256 (decided_record rec d False) = ''''" using assms by (simp add: decided_record_def)
  show ?thesis unfolding mint(3) mint_stage_digests [OF r] using r by (simp add: audit_trail_def)
qed

lemma handlePlacement_digests:
  "digests (srv_trail (snd (handlePlacement env srv r))) =
    digests (srv_trail srv) @ token_digest (handed_token (rsp_body (fst (handlePlacement env srv r))))"
proof (cases rule: handlePlacement_cases [of env srv r])
  case (early rec status ra reason msg lim)
  from early(5) have "au_tokenSHA256 rec = ''''" by (simp add: opened_def)
  then show ?thesis unfolding early(1) by (simp add: refuse_digests)
next
  case (placed idn p req rec requested lim)
  from placed(7) have "au_tokenSHA256 rec = ''''" by (simp add: opened_def)
  then show ?thesis unfolding placed(6) by (simp add: place_stage_digests)
qed

section \<open>Dry runs\<close>

lemma place_stage_dry:
  assumes "pr_dryRun req"
  shows "place_stage (env\<lparr>env_mint := m, env_remember := f, env_getCluster := g\<rparr>) srv p rec idn req t =
    place_stage env srv p rec idn req t"
  using assms by (simp add: place_stage_def Let_def split: sum.split prod.split)

lemma handlePlacement_dry:
  assumes "rq_body r = Some req" and "pr_dryRun req"
  shows "handlePlacement (env\<lparr>env_mint := m, env_remember := f, env_getCluster := g\<rparr>) srv r =
    handlePlacement env srv r"
  using assms by (simp add: handlePlacement_def read_stage_def Let_def place_stage_dry split: option.split)

text \<open>The real request and its dry run go through the same gates.\<close>

definition as_dry :: "bool \<Rightarrow> http_request \<Rightarrow> http_request" where
  "as_dry dry r = r\<lparr>rq_body := map_option (\<lambda>req. req\<lparr>pr_dryRun := dry\<rparr>) (rq_body r)\<rparr>"

definition agrees :: "http_response \<Rightarrow> http_response \<Rightarrow> bool" where
  "agrees got dry \<longleftrightarrow>
    (case rsp_body dry of
       RefusalBody _ _ _ \<Rightarrow> got = dry
     | PlacementBody b \<Rightarrow>
       (case rsp_body got of
          RefusalBody reason _ _ \<Rightarrow> reason \<in> {MintUnavailable, MintFailed}
        | PlacementBody b' \<Rightarrow> b = b'\<lparr>plr_dryRun := True, plr_credential := None, plr_ttl := None\<rparr>))"

lemma agrees_refuse: "agrees (fst (refuse s rec st ra reason msg c)) (fst (refuse s rec st ra reason msg c))"
  using refuse_simps(2) [of s rec st ra reason msg c] by (auto simp: agrees_def split: response_body.splits)

lemma refuse_fst: "fst (refuse s rec st ra reason msg c) = fst (refuse s' rec st ra reason msg c)"
  by (simp add: refuse_def Let_def)

lemma mint_stage_agrees:
  "(case rsp_body (fst (mint_stage env srv p rec d t b)) of
      RefusalBody reason _ _ \<Rightarrow> reason \<in> {MintUnavailable, MintFailed}
    | PlacementBody b' \<Rightarrow> \<exists>c ttl. b' = b\<lparr>plr_credential := Some c, plr_ttl := Some ttl\<rparr>)"
proof (cases rule: mint_stage_cases [of env srv p rec d t b])
  case (refused rec' status reason msg cause)
  from refused(3) show ?thesis unfolding refused(1) by (simp add: refuse_def writeRefusal_def Let_def)
next
  case minted
  then show ?thesis by auto
qed

lemma place_stage_agrees:
  "agrees (fst (place_stage env srv p rec idn (req\<lparr>pr_dryRun := False\<rparr>) t))
    (fst (place_stage env srv p rec idn (req\<lparr>pr_dryRun := True\<rparr>) t))"
proof (cases "env_place env p idn \<lparr>req_workload = pr_workload req, req_targetDark = pr_targetDark req\<rparr>")
  case (Pair out p')
  show ?thesis
  proof (cases out)
    case (Inl err)
    then show ?thesis by (simp add: place_stage_def Pair Let_def agrees_refuse split: prod.split)
  next
    case (Inr d)
    let ?r = "place_stage env srv p rec idn (req\<lparr>pr_dryRun := False\<rparr>) t"
    obtain s' rec' where m: "?r = mint_stage env s' p' rec' d t (decided_response idn (req\<lparr>pr_dryRun := False\<rparr>) d)"
      by (simp add: place_stage_def Pair Inr Let_def decided_response_def)
    have "rsp_body (fst (place_stage env srv p rec idn (req\<lparr>pr_dryRun := True\<rparr>) t)) =
        PlacementBody (decided_response idn (req\<lparr>pr_dryRun := True\<rparr>) d)"
      by (simp add: place_stage_def Pair Inr Let_def decided_response_def)
    with mint_stage_agrees [where env = env and srv = s' and p = p' and rec = rec' and d = d and t = t
        and b = "decided_response idn (req\<lparr>pr_dryRun := False\<rparr>) d"]
    show ?thesis unfolding m agrees_def
      by (auto simp: decided_response_def split: response_body.splits)
  qed
qed

lemma read_stage_agrees:
  "agrees (fst (read_stage env srv p rec idn (as_dry False r))) (fst (read_stage env srv p rec idn (as_dry True r)))"
  by (cases "rq_body r") (simp_all add: read_stage_def as_dry_def Let_def agrees_refuse place_stage_agrees split: option.split)

lemma handlePlacement_agrees:
  "agrees (fst (handlePlacement env srv (as_dry False r))) (fst (handlePlacement env srv (as_dry True r)))"
proof -
  have [simp]: "rq_id (as_dry dry r) = rq_id r" "rq_identity (as_dry dry r) = rq_identity r" for dry
    by (simp_all add: as_dry_def)
  show ?thesis by (simp add: handlePlacement_def Let_def agrees_refuse read_stage_agrees split: option.split)
qed

section \<open>Properties\<close>

text \<open>
  C15. The audit trail knows a token only by its digest. The one field of the trail's records a token reaches is the digest of a granted mint:
  replacing every token the minter issues by any other leaves every other field of every record as it was. And what that
  field holds is no part of the token: the digests a request adds to the trail are the SHA-256 digest, in hexadecimal under
  its prefix, of the token the answer carries, and none if it carries none.
\<close>

theorem token_only_as_digest:
  "map (\<lambda>rec. rec\<lparr>au_tokenSHA256 := ''''\<rparr>)
      (srv_trail (snd (handlePlacement (env\<lparr>env_mint := map_option (retoken f) (env_mint env)\<rparr>) srv r))) =
    map (\<lambda>rec. rec\<lparr>au_tokenSHA256 := ''''\<rparr>) (srv_trail (snd (handlePlacement env srv r))) \<and>
   filter (\<lambda>h. h \<noteq> '''') (map au_tokenSHA256 (srv_trail (snd (handlePlacement env srv r)))) =
     filter (\<lambda>h. h \<noteq> '''') (map au_tokenSHA256 (srv_trail srv)) @
     (case rsp_body (fst (handlePlacement env srv r)) of
        RefusalBody _ _ _ \<Rightarrow> []
      | PlacementBody b \<Rightarrow>
        (case plr_credential b of
           None \<Rightarrow> []
         | Some c \<Rightarrow> if crd_token c = '''' then [] else [''sha256:'' @ EncodeToString (Sum256 (crd_token c))]))"
proof (rule conjI)
  show "map (\<lambda>rec. rec\<lparr>au_tokenSHA256 := ''''\<rparr>)
      (srv_trail (snd (handlePlacement (env\<lparr>env_mint := map_option (retoken f) (env_mint env)\<rparr>) srv r))) =
    map (\<lambda>rec. rec\<lparr>au_tokenSHA256 := ''''\<rparr>) (srv_trail (snd (handlePlacement env srv r)))"
    using read_stage_retoken [of f env]
    by (simp add: handlePlacement_def Let_def undigested_def [abs_def] split: option.split)
qed (use handlePlacement_digests [of env srv r] in \<open>simp add: digests_def token_digest_def split: response_body.split option.split\<close>)

text \<open>
  C16. A dry run answers the question the real call asks and changes nothing: it reads neither the minter nor
  the registry and writes no memory, a request refused as a dry run is refused identically for real,
  and one that is placed names the same cell, policy, candidates and caller as the real answer, unless the
  mint itself fails.
\<close>

theorem dry_run_answers_the_same_question:
  "handlePlacement (env\<lparr>env_mint := m, env_remember := f, env_getCluster := g\<rparr>) srv (as_dry True r) =
      handlePlacement env srv (as_dry True r) \<and>
    (case rsp_body (fst (handlePlacement env srv (as_dry True r))) of
       RefusalBody _ _ _ \<Rightarrow> fst (handlePlacement env srv (as_dry False r)) = fst (handlePlacement env srv (as_dry True r))
     | PlacementBody b \<Rightarrow>
       (case rsp_body (fst (handlePlacement env srv (as_dry False r))) of
          RefusalBody reason _ _ \<Rightarrow> reason \<in> {MintUnavailable, MintFailed}
        | PlacementBody b' \<Rightarrow> b = b'\<lparr>plr_dryRun := True, plr_credential := None, plr_ttl := None\<rparr>))"
proof (rule conjI)
  show "handlePlacement (env\<lparr>env_mint := m, env_remember := f, env_getCluster := g\<rparr>) srv (as_dry True r) =
      handlePlacement env srv (as_dry True r)"
  proof (cases "rq_body r")
    case None
    then show ?thesis by (simp add: handlePlacement_def read_stage_def as_dry_def Let_def split: option.split)
  next
    case (Some req)
    then show ?thesis by (intro handlePlacement_dry [of _ "req\<lparr>pr_dryRun := True\<rparr>"]) (simp_all add: as_dry_def)
  qed
qed (rule handlePlacement_agrees [unfolded agrees_def])

end
