(* ===== verification/Oidc.thy ===== *)
theory Oidc
  imports Policy GoText
begin

text \<open>
  Who is asking: \<open>internal/hub/oidc\<close> and the authenticator seam of \<open>internal/hub/identity.go\<close>.

  Parameters (\<open>oidc_env\<close>): reading JSON text, \<open>url.Parse\<close>, the discovery document of an issuer
  (\<open>coreosoidc.NewProvider\<close> and its claims), the remote key set of a URL and its signature check, the text of a
  JSON number as a float64, and the clock. The state is the cache of key sources. \<open>singleflight\<close> makes concurrent
  discoveries of one issuer one, so each \<open>sourceFor\<close> is a step; a history is a sequence of requests and refreshes.
\<close>

section \<open>Rejections\<close>

datatype rejection =
    ErrNoToken | ErrMalformedToken | ErrTokenTooLarge | ErrIssuerNotAllowed | ErrAlgNotAllowed | ErrSignature
  | ErrAudience | ErrExpired | ErrNotYetValid | ErrIssuedInFuture | ErrNoSubject

fun RejectionReason :: "rejection \<Rightarrow> string" where
  "RejectionReason ErrNoToken = ''NoToken''"
| "RejectionReason ErrMalformedToken = ''MalformedToken''"
| "RejectionReason ErrTokenTooLarge = ''TokenTooLarge''"
| "RejectionReason ErrIssuerNotAllowed = ''IssuerNotAllowed''"
| "RejectionReason ErrAlgNotAllowed = ''AlgNotAllowed''"
| "RejectionReason ErrSignature = ''Signature''"
| "RejectionReason ErrAudience = ''Audience''"
| "RejectionReason ErrExpired = ''Expired''"
| "RejectionReason ErrNotYetValid = ''NotYetValid''"
| "RejectionReason ErrIssuedInFuture = ''IssuedInFuture''"
| "RejectionReason ErrNoSubject = ''NoSubject''"

datatype discover_error =
    NotAllowlisted string | UnknownProvider string | DiscoveryFailed string | MetadataUnreadable string
  | UnusableJWKS string

datatype auth_error = Rejected rejection | Undiscovered discover_error | NoAuthenticator

text \<open>\<open>rejectionReason\<close> of the middleware: the label of a failure.\<close>

definition rejectionReason :: "auth_error \<Rightarrow> string" where
  "rejectionReason err =
    (case err of Rejected r \<Rightarrow> RejectionReason r | Undiscovered _ \<Rightarrow> ''Unclassified''
     | NoAuthenticator \<Rightarrow> ''NoAuthenticator'')"

section \<open>Providers and claims\<close>

record oidc_Provider =
  prov_claims :: "string list"

definition providers :: "(string \<times> oidc_Provider) list" where
  "providers =
    [(''github'', \<lparr>prov_claims = [''repository'', ''ref'', ''environment'', ''job_workflow_ref'']\<rparr>),
     (''buildkite'', \<lparr>prov_claims = [''organization_slug'', ''pipeline_slug'', ''build_branch'']\<rparr>),
     (''generic'', \<lparr>prov_claims = []\<rparr>)]"

definition providerNames :: "string list" where
  "providerNames = sort (map fst providers)"

definition ProviderFor :: "string \<Rightarrow> discover_error + oidc_Provider" where
  "ProviderFor name = (case map_of providers name of None \<Rightarrow> Inl (UnknownProvider name) | Some p \<Rightarrow> Inr p)"

fun claimString :: "(string \<Rightarrow> string option) \<Rightarrow> json \<Rightarrow> string option" where
  "claimString floatText (JStr s) = Some s"
| "claimString floatText (JBool b) = Some (if b then ''true'' else ''false'')"
| "claimString floatText (JNum lit) = floatText lit"
| "claimString floatText _ = None"

definition extract_claims :: "(string \<Rightarrow> string option) \<Rightarrow> oidc_Provider \<Rightarrow> (string \<times> json) list \<Rightarrow> labels" where
  "extract_claims floatText p payload =
    foldl (\<lambda>out name. case raw_claim payload name of
             None \<Rightarrow> out
           | Some raw \<Rightarrow> (case claimString floatText raw of None \<Rightarrow> out | Some v \<Rightarrow> AList.update name v out))
      [] (prov_claims p)"

section \<open>Configuration\<close>

definition DefaultClockSkew :: duration where "DefaultClockSkew = 60 * Second"
definition DefaultRefreshInterval :: duration where "DefaultRefreshInterval = 15 * Minute"
definition DefaultHTTPTimeout :: duration where "DefaultHTTPTimeout = 10 * Second"
definition MaxTokenBytes :: nat where "MaxTokenBytes = 8192"

definition supportedAlgorithms :: "string list" where
  "supportedAlgorithms =
    [''RS256'', ''RS384'', ''RS512'', ''ES256'', ''ES384'', ''ES512'', ''PS256'', ''PS384'', ''PS512'']"

record IssuerConfig =
  ic_issuer :: string
  ic_provider :: string

record oidc_Config =
  oc_issuers :: "IssuerConfig list"
  oc_audience :: string
  oc_clockSkew :: duration
  oc_refreshInterval :: duration
  oc_httpTimeout :: duration
  oc_caFile :: string

definition oidc_DefaultConfig :: oidc_Config where
  "oidc_DefaultConfig = \<lparr>oc_issuers = [], oc_audience = '''', oc_clockSkew = DefaultClockSkew,
    oc_refreshInterval = DefaultRefreshInterval, oc_httpTimeout = DefaultHTTPTimeout, oc_caFile = ''''\<rparr>"

record URL =
  url_scheme :: string
  url_host :: string
  url_user :: bool
  url_rawQuery :: string
  url_fragment :: string

datatype url_error = UrlEmpty | UrlInvalid | UrlNotHttps | UrlNoHost | UrlQueryOrFragment

definition validateIssuerURL :: "(string \<Rightarrow> URL option) \<Rightarrow> string \<Rightarrow> url_error option" where
  "validateIssuerURL parse raw =
    (if raw = '''' then Some UrlEmpty
     else (case parse raw of
             None \<Rightarrow> Some UrlInvalid
           | Some u \<Rightarrow>
             if url_scheme u \<noteq> ''https'' then Some UrlNotHttps
             else if url_host u = '''' then Some UrlNoHost
             else if url_rawQuery u \<noteq> '''' \<or> url_fragment u \<noteq> '''' then Some UrlQueryOrFragment
             else None))"

datatype oidc_config_error =
    NoIssuers | NoAudience | NegativeSkew | ExcessiveSkew | BadRefreshInterval | BadHTTPTimeout
  | BadIssuerURL string url_error | DuplicateIssuer string | UnknownIssuerProvider string string

fun validate_issuers ::
  "(string \<Rightarrow> URL option) \<Rightarrow> string list \<Rightarrow> IssuerConfig list \<Rightarrow> oidc_config_error option" where
  "validate_issuers parse seen [] = None"
| "validate_issuers parse seen (iss # rest) =
    (case validateIssuerURL parse (ic_issuer iss) of
       Some e \<Rightarrow> Some (BadIssuerURL (ic_issuer iss) e)
     | None \<Rightarrow>
       if ic_issuer iss \<in> set seen then Some (DuplicateIssuer (ic_issuer iss))
       else if map_of providers (ic_provider iss) = None
       then Some (UnknownIssuerProvider (ic_issuer iss) (ic_provider iss))
       else validate_issuers parse (ic_issuer iss # seen) rest)"

definition oidc_Validate :: "(string \<Rightarrow> URL option) \<Rightarrow> oidc_Config \<Rightarrow> oidc_config_error option" where
  "oidc_Validate parse c =
    (if oc_issuers c = [] then Some NoIssuers
     else if oc_audience c = '''' then Some NoAudience
     else if oc_clockSkew c < 0 then Some NegativeSkew
     else if oc_clockSkew c > 5 * Minute then Some ExcessiveSkew
     else if oc_refreshInterval c \<le> 0 then Some BadRefreshInterval
     else if oc_httpTimeout c \<le> 0 then Some BadHTTPTimeout
     else validate_issuers parse [] (oc_issuers c))"

definition ParseIssuerFlag :: "string \<Rightarrow> string + IssuerConfig" where
  "ParseIssuerFlag raw =
    (case go_cut (CHR ''='') raw of
       (issuerURL, prov, ok) \<Rightarrow>
         if \<not> ok then Inl (''issuer '' @ raw @ '' must be given as url=provider'')
         else Inr \<lparr>ic_issuer = issuerURL, ic_provider = prov\<rparr>)"

text \<open>
  The transport to the issuers: the system roots, with the configured bundle added to them. There is no transport
  without verification.
\<close>

datatype transport = DefaultTransport | RootsWith string

datatype transport_error = NoSystemPool | UnreadableCAFile string | NoUsableCertificate string

definition issuerTransport ::
  "bool \<Rightarrow> (string \<Rightarrow> string option) \<Rightarrow> (string \<Rightarrow> bool) \<Rightarrow> string \<Rightarrow> transport_error + transport" where
  "issuerTransport systemPool readFile appendCerts caFile =
    (if caFile = '''' then Inr DefaultTransport
     else if \<not> systemPool then Inl NoSystemPool
     else (case readFile caFile of
             None \<Rightarrow> Inl (UnreadableCAFile caFile)
           | Some pem \<Rightarrow> if appendCerts pem then Inr (RootsWith pem) else Inl (NoUsableCertificate caFile)))"

section \<open>Keys\<close>

record 'k keySource =
  ks_issuer :: string
  ks_jwksURL :: string
  ks_provider :: oidc_Provider
  ks_keys :: 'k

record 'k keyRegistry =
  kr_allowed :: "(string \<times> IssuerConfig) list"
  kr_sources :: "(string \<times> 'k keySource) list"

record 'k oidc_env =
  oe_parseJSON :: "string \<Rightarrow> json option"
  oe_parseURL :: "string \<Rightarrow> URL option"
  oe_discover :: "string \<Rightarrow> string option"
  oe_jwksURI :: "string \<Rightarrow> string option"
  oe_newKeySet :: "string \<Rightarrow> 'k"
  oe_verify :: "'k \<Rightarrow> string \<Rightarrow> string option"
  oe_floatText :: "string \<Rightarrow> string option"
  oe_now :: go_time

definition newKeyRegistry :: "oidc_Config \<Rightarrow> 'k keyRegistry" where
  "newKeyRegistry cfg =
    \<lparr>kr_allowed = foldl (\<lambda>m iss. AList.update (ic_issuer iss) iss m) [] (oc_issuers cfg), kr_sources = []\<rparr>"

definition permitted :: "'k keyRegistry \<Rightarrow> string \<Rightarrow> IssuerConfig option" where
  "permitted r issuer = map_of (kr_allowed r) issuer"

text \<open>
  \<open>oe_discover\<close> is \<open>NewProvider\<close>, which yields the document it fetched, and \<open>oe_jwksURI\<close> the
  \<open>jwks_uri\<close> of that document.
\<close>

definition discoverJWKSURL :: "'k oidc_env \<Rightarrow> string \<Rightarrow> discover_error + string" where
  "discoverJWKSURL env issuer =
    (case oe_discover env issuer of
       None \<Rightarrow> Inl (DiscoveryFailed issuer)
     | Some doc \<Rightarrow>
       (case oe_jwksURI env doc of
          None \<Rightarrow> Inl (MetadataUnreadable issuer)
        | Some jwks \<Rightarrow>
          if validateIssuerURL (oe_parseURL env) jwks \<noteq> None then Inl (UnusableJWKS issuer) else Inr jwks))"

definition discover :: "'k oidc_env \<Rightarrow> 'k keyRegistry \<Rightarrow> string \<Rightarrow> discover_error + 'k keySource" where
  "discover env r issuer =
    (case permitted r issuer of
       None \<Rightarrow> Inl (NotAllowlisted issuer)
     | Some issCfg \<Rightarrow>
       (case ProviderFor (ic_provider issCfg) of
          Inl e \<Rightarrow> Inl e
        | Inr p \<Rightarrow>
          (case discoverJWKSURL env issuer of
             Inl e \<Rightarrow> Inl e
           | Inr jwks \<Rightarrow> Inr \<lparr>ks_issuer = issuer, ks_jwksURL = jwks, ks_provider = p,
                              ks_keys = oe_newKeySet env jwks\<rparr>)))"

definition sourceFor ::
  "'k oidc_env \<Rightarrow> 'k keyRegistry \<Rightarrow> string \<Rightarrow> (discover_error + 'k keySource) \<times> 'k keyRegistry" where
  "sourceFor env r issuer =
    (case map_of (kr_sources r) issuer of
       Some src \<Rightarrow> (Inr src, r)
     | None \<Rightarrow>
       (case discover env r issuer of
          Inl e \<Rightarrow> (Inl e, r)
        | Inr src \<Rightarrow> (Inr src, r\<lparr>kr_sources := AList.update issuer src (kr_sources r)\<rparr>)))"

text \<open>One iteration of the refresh, for one of the issuers known when it started.\<close>

definition refresh_issuer :: "'k oidc_env \<Rightarrow> 'k keyRegistry \<Rightarrow> string \<Rightarrow> 'k keyRegistry" where
  "refresh_issuer env r issuer =
    (case discoverJWKSURL env issuer of
       Inl e \<Rightarrow> r
     | Inr jwks \<Rightarrow>
       (case map_of (kr_sources r) issuer of
          None \<Rightarrow> r
        | Some src \<Rightarrow>
          if ks_jwksURL src \<noteq> jwks
          then r\<lparr>kr_sources := AList.update issuer
                   \<lparr>ks_issuer = ks_issuer src, ks_jwksURL = jwks, ks_provider = ks_provider src,
                    ks_keys = oe_newKeySet env jwks\<rparr> (kr_sources r)\<rparr>
          else r))"

definition refreshOnce :: "'k oidc_env \<Rightarrow> 'k keyRegistry \<Rightarrow> 'k keyRegistry" where
  "refreshOnce env r = foldl (refresh_issuer env) r (map fst (kr_sources r))"

section \<open>Tokens\<close>

definition bearerToken :: "string \<Rightarrow> rejection + string" where
  "bearerToken header =
    (if header = '''' then Inl ErrNoToken
     else (case go_cut (CHR '' '') header of
       (scheme, token, ok) \<Rightarrow>
         if \<not> ok \<or> \<not> EqualFold scheme ''bearer'' then Inl ErrNoToken
         else (let t = TrimSpace token in
               if t = '''' then Inl ErrNoToken
               else if length t > MaxTokenBytes then Inl ErrTokenTooLarge
               else Inr t)))"

text \<open>\<open>decodeSegment\<close> into a struct with the one string field \<open>name\<close>.\<close>

definition decodeSegment :: "'k oidc_env \<Rightarrow> string \<Rightarrow> string \<Rightarrow> rejection + string" where
  "decodeSegment env name segment =
    (case RawURL_DecodeString segment of
       None \<Rightarrow> Inl ErrMalformedToken
     | Some decoded \<Rightarrow>
       (case oe_parseJSON env decoded of
          None \<Rightarrow> Inl ErrMalformedToken
        | Some v \<Rightarrow> (case into_field name v of None \<Rightarrow> Inl ErrMalformedToken | Some s \<Rightarrow> Inr s)))"

record unverifiedHeader =
  uh_alg :: string
  uh_issuer :: string

definition peekIssuer :: "'k oidc_env \<Rightarrow> string \<Rightarrow> rejection + unverifiedHeader" where
  "peekIssuer env raw =
    (case go_split (CHR ''.'') raw of
       [hdr, payload, signature] \<Rightarrow>
         (case decodeSegment env ''alg'' hdr of
            Inl e \<Rightarrow> Inl e
          | Inr alg \<Rightarrow>
            if alg = '''' then Inl ErrMalformedToken
            else (case decodeSegment env ''iss'' payload of
                    Inl e \<Rightarrow> Inl e
                  | Inr iss \<Rightarrow> if iss = '''' then Inl ErrIssuerNotAllowed
                               else Inr \<lparr>uh_alg = alg, uh_issuer = iss\<rparr>))
     | _ \<Rightarrow> Inl ErrMalformedToken)"

record standard =
  std_issuer :: string
  std_subject :: string
  std_audience :: "string list"
  std_expiry :: int
  std_notBefore :: int
  std_issuedAt :: int

definition decodeClaim ::
  "('a \<Rightarrow> json \<Rightarrow> 'a option) \<Rightarrow> (string \<times> json) list \<Rightarrow> string \<Rightarrow> 'a \<Rightarrow> rejection + 'a" where
  "decodeClaim into claims name zero =
    (case raw_claim claims name of
       None \<Rightarrow> Inr zero
     | Some raw \<Rightarrow> (case into zero raw of None \<Rightarrow> Inl ErrMalformedToken | Some v \<Rightarrow> Inr v))"

definition audience_claim :: "(string \<times> json) list \<Rightarrow> rejection + string list" where
  "audience_claim claims =
    (case raw_claim claims ''aud'' of
       None \<Rightarrow> Inr []
     | Some raw \<Rightarrow>
       (case into_string '''' raw of
          Some single \<Rightarrow> Inr [single]
        | None \<Rightarrow> (case into_strings raw of None \<Rightarrow> Inl ErrMalformedToken | Some l \<Rightarrow> Inr l)))"

definition standardClaims :: "(string \<times> json) list \<Rightarrow> rejection + standard" where
  "standardClaims claims =
    (case decodeClaim into_string claims ''iss'' '''' of Inl e \<Rightarrow> Inl e | Inr iss \<Rightarrow>
    (case decodeClaim into_string claims ''sub'' '''' of Inl e \<Rightarrow> Inl e | Inr sub \<Rightarrow>
    (case decodeClaim into_int64 claims ''exp'' 0 of Inl e \<Rightarrow> Inl e | Inr expiry \<Rightarrow>
    (case decodeClaim into_int64 claims ''nbf'' 0 of Inl e \<Rightarrow> Inl e | Inr nbf \<Rightarrow>
    (case decodeClaim into_int64 claims ''iat'' 0 of Inl e \<Rightarrow> Inl e | Inr iat \<Rightarrow>
    (case audience_claim claims of Inl e \<Rightarrow> Inl e | Inr aud \<Rightarrow>
      Inr \<lparr>std_issuer = iss, std_subject = sub, std_audience = aud, std_expiry = expiry,
           std_notBefore = nbf, std_issuedAt = iat\<rparr>))))))"

text \<open>
  \<open>time.Unix(sec, 0).Add(d)\<close>: the seconds are counted from the year one in an int64, which wraps.
\<close>

definition unixToInternal :: int where "unixToInternal = 62135596800"

definition unix_plus :: "int \<Rightarrow> duration \<Rightarrow> go_time" where
  "unix_plus sec d = (wrap64 (sec + unixToInternal + d div Second) - unixToInternal) * Second + d mod Second"

definition validateTimes :: "go_time \<Rightarrow> duration \<Rightarrow> standard \<Rightarrow> rejection option" where
  "validateTimes now skew std =
    (if std_expiry std = 0 then Some ErrExpired
     else if now > unix_plus (std_expiry std) skew then Some ErrExpired
     else if std_notBefore std \<noteq> 0 \<and> now < unix_plus (std_notBefore std) (- skew) then Some ErrNotYetValid
     else if std_issuedAt std \<noteq> 0 \<and> now < unix_plus (std_issuedAt std) (- skew) then Some ErrIssuedInFuture
     else None)"

definition containsAudience :: "string list \<Rightarrow> string \<Rightarrow> bool" where
  "containsAudience auds want \<longleftrightarrow> list_ex (\<lambda>got. got = want) auds"

section \<open>The authenticator\<close>

record 'k Authenticator =
  an_cfg :: oidc_Config
  an_transport :: transport
  an_keys :: "'k keyRegistry"

datatype oidc_new_error = InvalidConfig oidc_config_error | NoTransport transport_error

definition NewAuthenticator ::
  "(string \<Rightarrow> URL option) \<Rightarrow> (string \<Rightarrow> transport_error + transport) \<Rightarrow> oidc_Config \<Rightarrow>
    oidc_new_error + 'k Authenticator" where
  "NewAuthenticator parse issuerTransport_of cfg =
    (case oidc_Validate parse cfg of
       Some e \<Rightarrow> Inl (InvalidConfig e)
     | None \<Rightarrow>
       (case issuerTransport_of (oc_caFile cfg) of
          Inl e \<Rightarrow> Inl (NoTransport e)
        | Inr t \<Rightarrow> Inr \<lparr>an_cfg = cfg, an_transport = t, an_keys = newKeyRegistry cfg\<rparr>))"

text \<open>The second half of \<open>Authenticate\<close>: the checks on the payload whose signature was verified.\<close>

definition check_payload ::
  "'k oidc_env \<Rightarrow> oidc_Config \<Rightarrow> string \<Rightarrow> oidc_Provider \<Rightarrow> string \<Rightarrow> rejection + Identity" where
  "check_payload env cfg issuer prov payload =
    (case oe_parseJSON env payload of None \<Rightarrow> Inl ErrMalformedToken | Some v \<Rightarrow>
    (case into_map v of None \<Rightarrow> Inl ErrMalformedToken | Some claims \<Rightarrow>
    (case standardClaims claims of Inl e \<Rightarrow> Inl e | Inr std \<Rightarrow>
     if std_issuer std \<noteq> issuer then Inl ErrIssuerNotAllowed
     else (case validateTimes (oe_now env) (oc_clockSkew cfg) std of Some e \<Rightarrow> Inl e | None \<Rightarrow>
       if \<not> containsAudience (std_audience std) (oc_audience cfg) then Inl ErrAudience
       else if std_subject std = '''' then Inl ErrNoSubject
       else Inr \<lparr>id_issuer = std_issuer std, id_subject = std_subject std,
                 id_claims = extract_claims (oe_floatText env) prov claims\<rparr>))))"

definition Authenticate ::
  "'k oidc_env \<Rightarrow> 'k Authenticator \<Rightarrow> string \<Rightarrow> (auth_error + Identity) \<times> 'k Authenticator" where
  "Authenticate env a header =
    (case bearerToken header of Inl e \<Rightarrow> (Inl (Rejected e), a) | Inr raw \<Rightarrow>
    (case peekIssuer env raw of Inl e \<Rightarrow> (Inl (Rejected e), a) | Inr unverified \<Rightarrow>
    (case permitted (an_keys a) (uh_issuer unverified) of
       None \<Rightarrow> (Inl (Rejected ErrIssuerNotAllowed), a)
     | Some issCfg \<Rightarrow>
       if uh_alg unverified \<notin> set supportedAlgorithms then (Inl (Rejected ErrAlgNotAllowed), a)
       else (case sourceFor env (an_keys a) (ic_issuer issCfg) of
         (Inl e, keys) \<Rightarrow> (Inl (Undiscovered e), a\<lparr>an_keys := keys\<rparr>)
       | (Inr src, keys) \<Rightarrow>
         (case oe_verify env (ks_keys src) raw of
            None \<Rightarrow> (Inl (Rejected ErrSignature), a\<lparr>an_keys := keys\<rparr>)
          | Some payload \<Rightarrow>
            (case check_payload env (an_cfg a) (ic_issuer issCfg) (ks_provider src) payload of
               Inl e \<Rightarrow> (Inl (Rejected e), a\<lparr>an_keys := keys\<rparr>)
             | Inr idn \<Rightarrow> (Inr idn, a\<lparr>an_keys := keys\<rparr>)))))))"

text \<open>The default: a hub with no authenticator refuses everyone.\<close>

definition denyAll :: "string \<Rightarrow> auth_error + Identity" where
  "denyAll header = Inl NoAuthenticator"

section \<open>The key registry\<close>

text \<open>
  What the cache holds: one source per issuer, for an issuer of the allowlist, under the provider that entry names, with the
  key set of the URL it records, which is an https URL that the discovery document of that very issuer named at some step of the
  history, whose surroundings are \<open>envs\<close>.
\<close>

definition published :: "'k oidc_env list \<Rightarrow> string \<Rightarrow> string \<Rightarrow> bool" where
  "published envs issuer jwks \<longleftrightarrow> (\<exists>e \<in> set envs. \<exists>doc. oe_discover e issuer = Some doc \<and> oe_jwksURI e doc = Some jwks)"

definition source_ok :: "(string \<Rightarrow> URL option) \<Rightarrow> (string \<Rightarrow> 'k) \<Rightarrow> 'k oidc_env list \<Rightarrow> 'k keyRegistry \<Rightarrow> string \<Rightarrow> 'k keySource \<Rightarrow> bool" where
  "source_ok parse keySet envs r issuer src \<longleftrightarrow>
    ks_issuer src = issuer \<and> ks_keys src = keySet (ks_jwksURL src) \<and>
    validateIssuerURL parse (ks_jwksURL src) = None \<and> published envs issuer (ks_jwksURL src) \<and>
    (\<exists>c. permitted r issuer = Some c \<and> ProviderFor (ic_provider c) = Inr (ks_provider src))"

definition registry_ok :: "(string \<Rightarrow> URL option) \<Rightarrow> (string \<Rightarrow> 'k) \<Rightarrow> 'k oidc_env list \<Rightarrow> oidc_Config \<Rightarrow> 'k keyRegistry \<Rightarrow> bool" where
  "registry_ok parse keySet envs cfg r \<longleftrightarrow>
    distinct (map fst (kr_sources r)) \<and>
    (\<forall>issuer c. permitted r issuer = Some c \<longrightarrow> ic_issuer c = issuer \<and> c \<in> set (oc_issuers cfg)) \<and>
    (\<forall>issuer src. map_of (kr_sources r) issuer = Some src \<longrightarrow> source_ok parse keySet envs r issuer src)"

lemma registry_okD:
  assumes "registry_ok parse keySet envs cfg r"
  shows "permitted r issuer = Some c \<Longrightarrow> ic_issuer c = issuer \<and> c \<in> set (oc_issuers cfg)"
    and "map_of (kr_sources r) issuer = Some src \<Longrightarrow> source_ok parse keySet envs r issuer src"
    and "distinct (map fst (kr_sources r))"
  using assms by (auto simp: registry_ok_def)

lemma source_ok_cong [simp]: "source_ok parse keySet envs (r\<lparr>kr_sources := ss\<rparr>) = source_ok parse keySet envs r"
  by (intro ext) (simp add: source_ok_def permitted_def)

lemma permitted_cong [simp]: "permitted (r\<lparr>kr_sources := ss\<rparr>) = permitted r"
  by (rule ext) (simp add: permitted_def)

lemma registry_ok_update:
  assumes "registry_ok parse keySet envs cfg r" and "source_ok parse keySet envs r issuer src"
  shows "registry_ok parse keySet envs cfg (r\<lparr>kr_sources := AList.update issuer src (kr_sources r)\<rparr>)"
  using assms by (auto simp: registry_ok_def distinct_update update_conv' split: if_splits)

lemma newKeyRegistry_permitted:
  assumes "permitted (newKeyRegistry cfg) issuer = Some c"
  shows "ic_issuer c = issuer \<and> c \<in> set (oc_issuers cfg)"
proof -
  have "map_of (foldl (\<lambda>m iss. AList.update (ic_issuer iss) iss m) m cs) issuer = Some c \<Longrightarrow>
      map_of m issuer = Some c \<or> (ic_issuer c = issuer \<and> c \<in> set cs)" for m cs
    by (induction cs arbitrary: m) (fastforce simp: update_conv' split: if_splits)+
  with assms show ?thesis by (fastforce simp: permitted_def newKeyRegistry_def)
qed

lemma newKeyRegistry_ok: "registry_ok parse keySet envs cfg (newKeyRegistry cfg)"
  using newKeyRegistry_permitted [of cfg] by (auto simp: registry_ok_def newKeyRegistry_def [of cfg])

lemma discoverJWKSURL_https:
  "discoverJWKSURL env issuer = Inr jwks \<Longrightarrow> validateIssuerURL (oe_parseURL env) jwks = None"
  by (auto simp: discoverJWKSURL_def split: option.splits if_splits)

lemma discoverJWKSURL_published:
  "discoverJWKSURL env issuer = Inr jwks \<Longrightarrow> env \<in> set envs \<Longrightarrow> published envs issuer jwks"
  by (auto simp: discoverJWKSURL_def published_def split: option.splits if_splits)

lemma registry_ok_later:
  assumes "registry_ok parse keySet envs cfg r"
  shows "registry_ok parse keySet (env # envs) cfg r"
proof -
  have "published envs issuer jwks \<Longrightarrow> published (env # envs) issuer jwks" for issuer jwks by (auto simp: published_def)
  then have "source_ok parse keySet envs r issuer src \<Longrightarrow> source_ok parse keySet (env # envs) r issuer src" for issuer src
    by (simp add: source_ok_def)
  with assms show ?thesis unfolding registry_ok_def by blast
qed

lemma discover_ok:
  assumes "discover env r issuer = Inr src" and "env \<in> set envs"
  shows "source_ok (oe_parseURL env) (oe_newKeySet env) envs r issuer src"
  using assms by (auto simp: discover_def source_ok_def discoverJWKSURL_https discoverJWKSURL_published split: option.splits sum.splits)

lemma sourceFor_ok:
  assumes "registry_ok (oe_parseURL env) (oe_newKeySet env) envs cfg r" and "sourceFor env r issuer = (out, r')" and "env \<in> set envs"
  shows "registry_ok (oe_parseURL env) (oe_newKeySet env) envs cfg r' \<and>
    (\<forall>src. out = Inr src \<longrightarrow> source_ok (oe_parseURL env) (oe_newKeySet env) envs r issuer src)"
  using assms registry_okD(2) [OF assms(1), of issuer] discover_ok [OF _ assms(3), of r issuer]
  by (auto simp: sourceFor_def intro: registry_ok_update split: option.splits sum.splits)

lemma refresh_issuer_ok:
  assumes "registry_ok (oe_parseURL env) (oe_newKeySet env) envs cfg r" and "env \<in> set envs"
  shows "registry_ok (oe_parseURL env) (oe_newKeySet env) envs cfg (refresh_issuer env r issuer)"
proof (cases "discoverJWKSURL env issuer")
  case (Inl e)
  with assms show ?thesis by (simp add: refresh_issuer_def)
next
  case (Inr jwks)
  show ?thesis
  proof (cases "map_of (kr_sources r) issuer")
    case None
    with assms Inr show ?thesis by (simp add: refresh_issuer_def)
  next
    case (Some src)
    from registry_okD(2) [OF assms(1) Some] discoverJWKSURL_https [OF Inr] discoverJWKSURL_published [OF Inr assms(2)]
    have "source_ok (oe_parseURL env) (oe_newKeySet env) envs r issuer \<lparr>ks_issuer = ks_issuer src, ks_jwksURL = jwks,
        ks_provider = ks_provider src, ks_keys = oe_newKeySet env jwks\<rparr>"
      by (simp add: source_ok_def)
    from registry_ok_update [OF assms(1) this] assms Inr Some show ?thesis by (simp add: refresh_issuer_def)
  qed
qed

lemma refreshOnce_ok:
  assumes "registry_ok (oe_parseURL env) (oe_newKeySet env) envs cfg r" and "env \<in> set envs"
  shows "registry_ok (oe_parseURL env) (oe_newKeySet env) envs cfg (refreshOnce env r)"
proof -
  have "registry_ok (oe_parseURL env) (oe_newKeySet env) envs cfg s \<Longrightarrow>
      registry_ok (oe_parseURL env) (oe_newKeySet env) envs cfg (foldl (refresh_issuer env) s is)" for s "is"
    by (induction "is" arbitrary: s) (simp_all add: refresh_issuer_ok assms(2))
  with assms show ?thesis by (simp add: refreshOnce_def)
qed

text \<open>What one refresh leaves of a cached source.\<close>

definition refreshed :: "'k oidc_env \<Rightarrow> string \<Rightarrow> 'k keySource \<Rightarrow> 'k keySource" where
  "refreshed env issuer src =
    (case discoverJWKSURL env issuer of
       Inl _ \<Rightarrow> src
     | Inr jwks \<Rightarrow> if jwks = ks_jwksURL src then src
                   else src\<lparr>ks_jwksURL := jwks, ks_keys := oe_newKeySet env jwks\<rparr>)"

lemma refresh_issuer_lookup:
  "map_of (kr_sources (refresh_issuer env r issuer)) i =
    (if i = issuer then map_option (refreshed env i) (map_of (kr_sources r) i) else map_of (kr_sources r) i)"
  by (cases "map_of (kr_sources r) issuer")
    (auto simp: refresh_issuer_def refreshed_def update_conv' split: sum.split option.split)

lemma refreshOnce_lookup:
  assumes "distinct (map fst (kr_sources r))"
  shows "map_of (kr_sources (refreshOnce env r)) i = map_option (refreshed env i) (map_of (kr_sources r) i)"
proof -
  have "distinct issuers \<Longrightarrow> map_of (kr_sources (foldl (refresh_issuer env) s issuers)) i =
      (if i \<in> set issuers then map_option (refreshed env i) (map_of (kr_sources s) i) else map_of (kr_sources s) i)"
    for s issuers
    by (induction issuers arbitrary: s) (auto simp: refresh_issuer_lookup)
  from this [OF assms, of r] show ?thesis
    unfolding refreshOnce_def by (cases "map_of (kr_sources r) i") (auto simp: rev_image_eqI dest!: map_of_SomeD)
qed

section \<open>Claims and times\<close>

lemma extract_claims_lookup:
  "map_of (extract_claims ft p claims) k =
    (if k \<in> set (prov_claims p) then Option.bind (raw_claim claims k) (claimString ft) else None)"
proof -
  have "map_of (foldl (\<lambda>out name. case raw_claim claims name of None \<Rightarrow> out
      | Some raw \<Rightarrow> (case claimString ft raw of None \<Rightarrow> out | Some v \<Rightarrow> AList.update name v out)) m ns) k =
      (if k \<in> set ns \<and> Option.bind (raw_claim claims k) (claimString ft) \<noteq> None
       then Option.bind (raw_claim claims k) (claimString ft) else map_of m k)" for m ns
    by (induction ns arbitrary: m) (auto simp: update_conv' split: option.splits)
  then show ?thesis unfolding extract_claims_def by auto
qed

lemma unix_plus_exact:
  assumes "\<bar>sec\<bar> < 2 ^ 62" and "\<bar>d\<bar> \<le> Hour"
  shows "unix_plus sec d = sec * Second + d"
proof -
  have "\<bar>d div Second\<bar> \<le> 3600" using assms(2) by (simp add: duration_units abs_le_iff) linarith
  with assms(1) have "in_int64 (sec + unixToInternal + d div Second)"
    by (auto simp: in_int64_def min_int64_def max_int64_def unixToInternal_def abs_if split: if_splits)
  then have "unix_plus sec d = (sec + d div Second) * Second + d mod Second"
    by (simp add: unix_plus_def wrap64_id)
  also have "\<dots> = sec * Second + d" by (simp add: distrib_right minus_mod_eq_div_mult [symmetric])
  finally show ?thesis .
qed

lemma validateTimes_None_iff:
  "validateTimes now skew std = None \<longleftrightarrow>
    std_expiry std \<noteq> 0 \<and> now \<le> unix_plus (std_expiry std) skew \<and>
    (std_notBefore std \<noteq> 0 \<longrightarrow> unix_plus (std_notBefore std) (- skew) \<le> now) \<and>
    (std_issuedAt std \<noteq> 0 \<longrightarrow> unix_plus (std_issuedAt std) (- skew) \<le> now)"
  by (auto simp: validateTimes_def)

lemma bearerToken_bound: "bearerToken header = Inr raw \<Longrightarrow> raw \<noteq> '''' \<and> length raw \<le> MaxTokenBytes"
  by (auto simp: bearerToken_def Let_def split: if_splits prod.splits)

lemma check_payload_Inr:
  assumes "check_payload env cfg issuer prov payload = Inr idn"
  obtains v claims std where "oe_parseJSON env payload = Some v" "into_map v = Some claims"
    "standardClaims claims = Inr std" "std_issuer std = issuer"
    "validateTimes (oe_now env) (oc_clockSkew cfg) std = None" "oc_audience cfg \<in> set (std_audience std)"
    "std_subject std \<noteq> ''''"
    "idn = \<lparr>id_issuer = issuer, id_subject = std_subject std,
      id_claims = extract_claims (oe_floatText env) prov claims\<rparr>"
  using assms
  by (auto simp: check_payload_def containsAudience_def list_ex_iff split: option.splits sum.splits if_splits)

lemma oidc_Validate_None:
  assumes "oidc_Validate parse cfg = None"
  shows "oc_audience cfg \<noteq> ''''" "0 \<le> oc_clockSkew cfg" "oc_clockSkew cfg \<le> 5 * Minute"
  using assms by (auto simp: oidc_Validate_def split: if_splits)

section \<open>Histories\<close>

text \<open>
  The authenticators a process can reach: built from a valid configuration, then any sequence of requests and
  background refreshes. The clock, the documents and the verdicts differ from step to step and are kept, the latest first; the URL
  parser and the key set of a URL do not.
\<close>

inductive auth_history ::
  "(string \<Rightarrow> URL option) \<Rightarrow> (string \<Rightarrow> 'k) \<Rightarrow> oidc_Config \<Rightarrow> 'k oidc_env list \<Rightarrow> 'k Authenticator \<Rightarrow> bool"
  for parse keySet cfg where
  start: "NewAuthenticator parse tr cfg = Inr a \<Longrightarrow> auth_history parse keySet cfg [] a"
| request: "auth_history parse keySet cfg envs a \<Longrightarrow> oe_parseURL env = parse \<Longrightarrow> oe_newKeySet env = keySet \<Longrightarrow>
    auth_history parse keySet cfg (env # envs) (snd (Authenticate env a header))"
| refresh: "auth_history parse keySet cfg envs a \<Longrightarrow> oe_parseURL env = parse \<Longrightarrow> oe_newKeySet env = keySet \<Longrightarrow>
    auth_history parse keySet cfg (env # envs) (a\<lparr>an_keys := refreshOnce env (an_keys a)\<rparr>)"

definition auth_reachable :: "(string \<Rightarrow> URL option) \<Rightarrow> (string \<Rightarrow> 'k) \<Rightarrow> oidc_Config \<Rightarrow> 'k Authenticator \<Rightarrow> bool" where
  "auth_reachable parse keySet cfg a \<longleftrightarrow> (\<exists>envs. auth_history parse keySet cfg envs a)"

lemma Authenticate_cases:
  obtains (early) e where "Authenticate env a header = (Inl (Rejected e), a)"
  | (asked) raw u c out keys where "bearerToken header = Inr raw" "peekIssuer env raw = Inr u"
    "permitted (an_keys a) (uh_issuer u) = Some c" "uh_alg u \<in> set supportedAlgorithms"
    "sourceFor env (an_keys a) (ic_issuer c) = (out, keys)"
    "Authenticate env a header =
      (case out of
         Inl e \<Rightarrow> (Inl (Undiscovered e), a\<lparr>an_keys := keys\<rparr>)
       | Inr src \<Rightarrow>
         (case oe_verify env (ks_keys src) raw of
            None \<Rightarrow> (Inl (Rejected ErrSignature), a\<lparr>an_keys := keys\<rparr>)
          | Some payload \<Rightarrow>
            (case check_payload env (an_cfg a) (ic_issuer c) (ks_provider src) payload of
               Inl e \<Rightarrow> (Inl (Rejected e), a\<lparr>an_keys := keys\<rparr>)
             | Inr idn \<Rightarrow> (Inr idn, a\<lparr>an_keys := keys\<rparr>))))"
proof -
  have "(\<exists>e. Authenticate env a header = (Inl (Rejected e), a)) \<or>
    (\<exists>raw u c. bearerToken header = Inr raw \<and> peekIssuer env raw = Inr u \<and>
      permitted (an_keys a) (uh_issuer u) = Some c \<and> uh_alg u \<in> set supportedAlgorithms)"
    unfolding Authenticate_def by (auto split: sum.split option.split)
  then consider (e) e where "Authenticate env a header = (Inl (Rejected e), a)"
    | (go) raw u c where "bearerToken header = Inr raw" "peekIssuer env raw = Inr u"
      "permitted (an_keys a) (uh_issuer u) = Some c" "uh_alg u \<in> set supportedAlgorithms" by blast
  then show thesis
  proof cases
    case e
    then show thesis by (rule early)
  next
    case go
    show thesis
      by (rule asked [OF go surjective_pairing])
        (simp add: Authenticate_def go case_prod_beta split: sum.split option.split)
  qed
qed

lemma Authenticate_keeps_config: "an_cfg (snd (Authenticate env a header)) = an_cfg a"
  by (cases rule: Authenticate_cases [of env a header]) (simp_all split: sum.split option.split)

lemma Authenticate_registry:
  assumes "registry_ok (oe_parseURL env) (oe_newKeySet env) envs cfg (an_keys a)" and "env \<in> set envs"
  shows "registry_ok (oe_parseURL env) (oe_newKeySet env) envs cfg (an_keys (snd (Authenticate env a header)))"
proof (cases rule: Authenticate_cases [of env a header])
  case early
  with assms show ?thesis by simp
next
  case asked
  from sourceFor_ok [OF assms(1) asked(5) assms(2)] show ?thesis unfolding asked(6) by (simp split: sum.split option.split)
qed

lemma auth_history_ok:
  "auth_history parse keySet cfg envs a \<Longrightarrow>
    registry_ok parse keySet envs cfg (an_keys a) \<and> an_cfg a = cfg \<and> oidc_Validate parse cfg = None"
proof (induction rule: auth_history.induct)
  case (start tr a)
  then show ?case by (auto simp: NewAuthenticator_def newKeyRegistry_ok split: option.splits sum.splits)
next
  case (request envs a env header)
  then show ?case using Authenticate_registry [of env "env # envs" cfg a header] registry_ok_later [of parse keySet envs cfg "an_keys a" env]
    by (simp add: Authenticate_keeps_config)
next
  case (refresh envs a env)
  then show ?case using refreshOnce_ok [of env "env # envs" cfg "an_keys a"] registry_ok_later [of parse keySet envs cfg "an_keys a" env] by simp
qed

lemma auth_reachable_ok:
  assumes "auth_reachable parse keySet cfg a"
  obtains envs where "registry_ok parse keySet envs cfg (an_keys a)" "an_cfg a = cfg"
  using assms auth_history_ok unfolding auth_reachable_def by metis

lemma Authenticate_Inr:
  assumes "registry_ok (oe_parseURL env) (oe_newKeySet env) envs cfg (an_keys a)" and "env \<in> set envs"
    and "Authenticate env a header = (Inr idn, a')"
  obtains raw u c src payload where "bearerToken header = Inr raw" "peekIssuer env raw = Inr u"
    "c \<in> set (oc_issuers cfg)" "ic_issuer c = uh_issuer u" "uh_alg u \<in> set supportedAlgorithms"
    "source_ok (oe_parseURL env) (oe_newKeySet env) envs (an_keys a) (ic_issuer c) src"
    "ProviderFor (ic_provider c) = Inr (ks_provider src)"
    "oe_verify env (ks_keys src) raw = Some payload"
    "check_payload env (an_cfg a) (ic_issuer c) (ks_provider src) payload = Inr idn"
proof (cases rule: Authenticate_cases [of env a header])
  case early
  with assms(3) show thesis by simp
next
  case (asked raw u c out keys)
  from asked(6) assms(3) obtain src payload where o: "out = Inr src" "oe_verify env (ks_keys src) raw = Some payload"
    "check_payload env (an_cfg a) (ic_issuer c) (ks_provider src) payload = Inr idn"
    by (auto split: sum.splits option.splits)
  from registry_okD(1) [OF assms(1) asked(3)] have c: "ic_issuer c = uh_issuer u" "c \<in> set (oc_issuers cfg)" by simp_all
  from sourceFor_ok [OF assms(1) asked(5) assms(2)] o(1)
  have s: "source_ok (oe_parseURL env) (oe_newKeySet env) envs (an_keys a) (ic_issuer c) src" by simp
  with asked(3) c(1) have "ProviderFor (ic_provider c) = Inr (ks_provider src)" by (simp add: source_ok_def)
  from that [OF asked(1,2) c(2,1) asked(4) s this o(2,3)] show thesis .
qed

text \<open>
  What it takes to vouch for a caller, for surroundings \<open>env\<close> of the request and \<open>envs\<close> of the history up to it: a bounded token under an
  allowlisted algorithm, a configured issuer, the key set its discovery document named, and a payload that key set
  verified, from which the whole identity is read.
\<close>

definition oidc_vouches :: "'k oidc_env list \<Rightarrow> 'k oidc_env \<Rightarrow> oidc_Config \<Rightarrow> string \<Rightarrow> Identity \<Rightarrow> bool" where
  "oidc_vouches envs env cfg header idn \<longleftrightarrow>
    (\<exists>raw c alg e doc jwks prov payload v claims std.
      bearerToken header = Inr raw \<and> length raw \<le> MaxTokenBytes \<and> alg \<in> set supportedAlgorithms \<and>
      peekIssuer env raw = Inr \<lparr>uh_alg = alg, uh_issuer = id_issuer idn\<rparr> \<and>
      c \<in> set (oc_issuers cfg) \<and> ic_issuer c = id_issuer idn \<and> ProviderFor (ic_provider c) = Inr prov \<and>
      e \<in> set envs \<and> oe_discover e (id_issuer idn) = Some doc \<and> oe_jwksURI e doc = Some jwks \<and>
      validateIssuerURL (oe_parseURL env) jwks = None \<and> oe_verify env (oe_newKeySet env jwks) raw = Some payload \<and>
      oe_parseJSON env payload = Some v \<and> into_map v = Some claims \<and> standardClaims claims = Inr std \<and>
      std_issuer std = id_issuer idn \<and> std_subject std = id_subject idn \<and> id_subject idn \<noteq> '''' \<and>
      oc_audience cfg \<noteq> '''' \<and> oc_audience cfg \<in> set (std_audience std) \<and> std_expiry std \<noteq> 0 \<and>
      (\<bar>std_expiry std\<bar> < 2 ^ 62 \<longrightarrow> oe_now env \<le> std_expiry std * Second + 5 * Minute) \<and>
      (\<forall>k x. map_of (id_claims idn) k = Some x \<longrightarrow> k \<in> set (prov_claims prov) \<and>
        Option.bind (raw_claim claims k) (claimString (oe_floatText env)) = Some x))"

lemma Authenticate_vouches:
  assumes "auth_history (oe_parseURL env) (oe_newKeySet env) cfg envs a"
    and "Authenticate env a header = (Inr idn, a')"
  shows "oidc_vouches (env # envs) env cfg header idn"
proof -
  from auth_history_ok [OF assms(1)] have r: "registry_ok (oe_parseURL env) (oe_newKeySet env) (env # envs) cfg (an_keys a)"
    and cfg: "an_cfg a = cfg" and v: "oidc_Validate (oe_parseURL env) cfg = None" by (simp_all add: registry_ok_later)
  show ?thesis
  proof (rule Authenticate_Inr [OF r _ assms(2)])
    fix raw u c src payload
    assume t: "bearerToken header = Inr raw" "peekIssuer env raw = Inr u"
      and c: "c \<in> set (oc_issuers cfg)" "ic_issuer c = uh_issuer u" "uh_alg u \<in> set supportedAlgorithms"
      and s: "source_ok (oe_parseURL env) (oe_newKeySet env) (env # envs) (an_keys a) (ic_issuer c) src"
        "ProviderFor (ic_provider c) = Inr (ks_provider src)" "oe_verify env (ks_keys src) raw = Some payload"
      and k: "check_payload env (an_cfg a) (ic_issuer c) (ks_provider src) payload = Inr idn"
    from k obtain jv claims std where p: "oe_parseJSON env payload = Some jv" "into_map jv = Some claims"
      "standardClaims claims = Inr std" "std_issuer std = ic_issuer c"
      "validateTimes (oe_now env) (oc_clockSkew cfg) std = None" "oc_audience cfg \<in> set (std_audience std)"
      "std_subject std \<noteq> ''''"
      "idn = \<lparr>id_issuer = ic_issuer c, id_subject = std_subject std,
        id_claims = extract_claims (oe_floatText env) (ks_provider src) claims\<rparr>"
      unfolding cfg by (rule check_payload_Inr)
    have "oe_now env \<le> std_expiry std * Second + 5 * Minute" if "\<bar>std_expiry std\<bar> < 2 ^ 62"
    proof -
      from oidc_Validate_None [OF v] have "\<bar>oc_clockSkew cfg\<bar> \<le> Hour" by (simp add: duration_units)
      from unix_plus_exact [OF that this] p(5) oidc_Validate_None(3) [OF v] show ?thesis
        by (simp add: validateTimes_None_iff)
    qed
    moreover have i: "id_claims idn = extract_claims (oe_floatText env) (ks_provider src) claims"
      "id_issuer idn = ic_issuer c" "id_subject idn = std_subject std" using p(8) by simp_all
    moreover have "peekIssuer env raw = Inr \<lparr>uh_alg = uh_alg u, uh_issuer = id_issuer idn\<rparr>"
      using t(2) c(2) i(2) by simp
    moreover have "\<forall>k x. map_of (id_claims idn) k = Some x \<longrightarrow> k \<in> set (prov_claims (ks_provider src)) \<and>
        Option.bind (raw_claim claims k) (claimString (oe_floatText env)) = Some x"
      unfolding i(1) extract_claims_lookup by (metis option.distinct(1))
    moreover have "validateIssuerURL (oe_parseURL env) (ks_jwksURL src) = None"
      "oe_verify env (oe_newKeySet env (ks_jwksURL src)) raw = Some payload"
      using s(1,3) by (simp_all add: source_ok_def)
    moreover obtain e doc where "e \<in> set (env # envs)" "oe_discover e (ic_issuer c) = Some doc" "oe_jwksURI e doc = Some (ks_jwksURL src)"
      using s(1) unfolding source_ok_def published_def by blast
    moreover have "std_expiry std \<noteq> 0" using p(5) by (simp add: validateTimes_None_iff)
    ultimately show ?thesis unfolding oidc_vouches_def
      using t(1) c(1,3) s(2) p(1-4,6,7) bearerToken_bound [OF t(1)] oidc_Validate_None(1) [OF v]
      by - (rule exI [of _ raw], rule exI [of _ c], rule exI [of _ "uh_alg u"], rule exI [of _ e], rule exI [of _ doc],
          rule exI [of _ "ks_jwksURL src"], rule exI [of _ "ks_provider src"], rule exI [of _ payload], rule exI [of _ jv],
          rule exI [of _ claims], rule exI [of _ std], intro conjI, simp_all)
  qed simp
qed

section \<open>Properties\<close>

text \<open>
  C18. Authentication is sound. In every history of requests and refreshes, a caller is identified only by a token of at most
  8 KiB whose header names an asymmetric algorithm of the allowlist; its issuer is one of the configured ones, compared
  literally; and its signature is verified by the key set at the https URL which that issuer's own discovery document named, now or
  at an earlier step of the history. The identity is read from the verified payload: its issuer, its non-empty
  subject, the hub's audience among its audiences, an expiry that exists and has not passed by more than five minutes,
  and only the claims the issuer's platform declares.
\<close>

theorem authenticated_is_vouched:
  assumes "auth_history (oe_parseURL env) (oe_newKeySet env) cfg envs a"
    and "Authenticate env a header = (Inr idn, a')"
  shows "\<exists>raw c alg e doc jwks prov payload v claims std.
    bearerToken header = Inr raw \<and> length raw \<le> MaxTokenBytes \<and> alg \<in> set supportedAlgorithms \<and>
    peekIssuer env raw = Inr \<lparr>uh_alg = alg, uh_issuer = id_issuer idn\<rparr> \<and>
    c \<in> set (oc_issuers cfg) \<and> ic_issuer c = id_issuer idn \<and> ProviderFor (ic_provider c) = Inr prov \<and>
    e \<in> set (env # envs) \<and> oe_discover e (id_issuer idn) = Some doc \<and> oe_jwksURI e doc = Some jwks \<and>
    validateIssuerURL (oe_parseURL env) jwks = None \<and> oe_verify env (oe_newKeySet env jwks) raw = Some payload \<and>
    oe_parseJSON env payload = Some v \<and> into_map v = Some claims \<and> standardClaims claims = Inr std \<and>
    std_issuer std = id_issuer idn \<and> std_subject std = id_subject idn \<and> id_subject idn \<noteq> '''' \<and>
    oc_audience cfg \<noteq> '''' \<and> oc_audience cfg \<in> set (std_audience std) \<and> std_expiry std \<noteq> 0 \<and>
    (\<bar>std_expiry std\<bar> < 2 ^ 62 \<longrightarrow> oe_now env \<le> std_expiry std * Second + 5 * Minute) \<and>
    (\<forall>k x. map_of (id_claims idn) k = Some x \<longrightarrow> k \<in> set (prov_claims prov) \<and>
      Option.bind (raw_claim claims k) (claimString (oe_floatText env)) = Some x)"
  by (rule Authenticate_vouches [OF assms, unfolded oidc_vouches_def])

text \<open>
  C19. An unknown caller costs the hub nothing. A token that is absent, oversized or malformed, that names an issuer outside
  the allowlist or an algorithm outside it, is rejected with the cache untouched and without a discovery, a key or a signature
  check: the answer is the same whatever the issuers, their keys and the clock are.
\<close>

theorem unlisted_caller_reaches_no_issuer:
  assumes "auth_reachable parse keySet cfg a" and "oe_parseJSON env' = oe_parseJSON env"
    and "\<And>raw u. bearerToken header = Inr raw \<Longrightarrow> peekIssuer env raw = Inr u \<Longrightarrow>
      uh_issuer u \<notin> ic_issuer ` set (oc_issuers cfg) \<or> uh_alg u \<notin> set supportedAlgorithms"
  shows "Authenticate env' a header = Authenticate env a header \<and> snd (Authenticate env a header) = a \<and>
    (\<exists>e. fst (Authenticate env a header) = Inl (Rejected e))"
proof -
  from assms(1) obtain envs where r: "registry_ok parse keySet envs cfg (an_keys a)" by (rule auth_reachable_ok)
  have "decodeSegment env' = decodeSegment env" by (intro ext) (simp add: decodeSegment_def assms(2) split: option.split)
  then have p: "peekIssuer env' = peekIssuer env" by (intro ext) (simp add: peekIssuer_def cong: list.case_cong sum.case_cong if_cong)
  have n: "permitted (an_keys a) (uh_issuer u) = None \<or> uh_alg u \<notin> set supportedAlgorithms"
    if "bearerToken header = Inr raw" "peekIssuer env raw = Inr u" for raw u
    using assms(3) [OF that] registry_okD(1) [OF r, of "uh_issuer u"]
    by (cases "permitted (an_keys a) (uh_issuer u)") (auto simp: image_iff)
  show ?thesis
  proof (cases "bearerToken header")
    case (Inl e)
    then show ?thesis by (simp add: Authenticate_def)
  next
    case (Inr raw)
    note b = Inr
    show ?thesis
    proof (cases "peekIssuer env raw")
      case (Inl e)
      with b p show ?thesis by (simp add: Authenticate_def)
    next
      case (Inr u)
      from n [OF b Inr] b Inr p show ?thesis by (auto simp: Authenticate_def split: option.split)
    qed
  qed
qed

text \<open>
  A refresh never widens what the hub accepts. It touches only the issuers already in the cache, keeps the cached keys of an
  issuer whose discovery fails or whose key URL has not moved, and otherwise replaces them by the key set of
  the new https URL, under the same issuer and the same claims.
\<close>

theorem refresh_is_conservative:
  assumes "auth_reachable parse keySet cfg a"
  shows "map_of (kr_sources (refreshOnce env (an_keys a))) issuer =
      map_option (\<lambda>src. case discoverJWKSURL env issuer of
          Inl _ \<Rightarrow> src
        | Inr jwks \<Rightarrow> if jwks = ks_jwksURL src then src
                      else src\<lparr>ks_jwksURL := jwks, ks_keys := oe_newKeySet env jwks\<rparr>)
        (map_of (kr_sources (an_keys a)) issuer)"
proof -
  from assms obtain envs where "registry_ok parse keySet envs cfg (an_keys a)" by (rule auth_reachable_ok)
  from refreshOnce_lookup [OF registry_okD(3) [OF this], of env issuer] show ?thesis by (simp only: refreshed_def [abs_def])
qed

section \<open>Witnesses\<close>

definition sample_json :: "string \<Rightarrow> json option" where
  "sample_json s =
    (if s = ''i'' then Some (JObj [(''alg'', JStr ''RS256'')])
     else if s = ''m'' then Some (JObj [(''iss'', JStr ''https://ci'')])
     else if s = ''p'' then Some (JObj [(''iss'', JStr ''https://ci''), (''sub'', JStr ''repo:a''),
       (''exp'', JNum ''100''), (''aud'', JStr ''cellcast''), (''ref'', JStr ''main''), (''admin'', JBool True)])
     else None)"

definition sample_oidc :: "string oidc_env" where
  "sample_oidc = \<lparr>oe_parseJSON = sample_json,
    oe_parseURL = (\<lambda>_. Some \<lparr>url_scheme = ''https'', url_host = ''ci'', url_user = False, url_rawQuery = '''', url_fragment = ''''\<rparr>),
    oe_discover = (\<lambda>_. Some ''doc''), oe_jwksURI = (\<lambda>_. Some ''https://ci/keys''), oe_newKeySet = (\<lambda>u. u),
    oe_verify = (\<lambda>k raw. if k = ''https://ci/keys'' then Some ''p'' else None), oe_floatText = (\<lambda>_. None), oe_now = 50 * Second\<rparr>"

definition sample_oidc_config :: oidc_Config where
  "sample_oidc_config = oidc_DefaultConfig\<lparr>oc_issuers := [\<lparr>ic_issuer = ''https://ci'', ic_provider = ''github''\<rparr>],
    oc_audience := ''cellcast''\<rparr>"

definition sample_authenticator :: "string Authenticator" where
  "sample_authenticator = \<lparr>an_cfg = sample_oidc_config, an_transport = DefaultTransport,
    an_keys = newKeyRegistry sample_oidc_config\<rparr>"

lemma sample_auth_history:
  "auth_history (oe_parseURL sample_oidc) (oe_newKeySet sample_oidc) sample_oidc_config [] sample_authenticator"
  by (rule auth_history.start [where tr = "issuerTransport True (\<lambda>_. None) (\<lambda>_. False)"])
    (simp add: NewAuthenticator_def oidc_Validate_def validateIssuerURL_def sample_oidc_def sample_oidc_config_def
      oidc_DefaultConfig_def providers_def DefaultClockSkew_def DefaultRefreshInterval_def DefaultHTTPTimeout_def
      duration_units issuerTransport_def sample_authenticator_def)

lemma sample_auth_reachable:
  "auth_reachable (oe_parseURL sample_oidc) (oe_newKeySet sample_oidc) sample_oidc_config sample_authenticator"
  using sample_auth_history by (auto simp: auth_reachable_def)

lemma sample_bearer: "bearerToken ''Bearer aa.bb.cc'' = Inr ''aa.bb.cc''"
proof -
  have "strip_one space_runes ''aa.bb.cc'' = None" "strip_one (map rev space_runes) ''cc.bb.aa'' = None"
    by (simp_all add: strip_one_def space_runes_def)
  then have "TrimSpace ''aa.bb.cc'' = ''aa.bb.cc''" by (simp add: TrimSpace_def trim_left.simps)
  moreover have "EqualFold ''Bearer'' ''bearer''" by (simp add: EqualFold_def fold_name.simps lower_def char_of_def bit_0)
  ultimately show ?thesis by (simp add: bearerToken_def go_cut_def MaxTokenBytes_def)
qed

lemma sample_segments: "RawURL_DecodeString ''aa'' = Some ''i''" "RawURL_DecodeString ''bb'' = Some ''m''"
  by (simp_all add: RawURL_DecodeString_def base64_value_def base64_url_def char_of_def bit_0)

lemma sample_fields:
  "into_field ''alg'' (JObj [(''alg'', JStr ''RS256'')]) = Some ''RS256''"
  "into_field ''iss'' (JObj [(''iss'', JStr ''https://ci'')]) = Some ''https://ci''"
  by (simp_all add: into_field_def EqualFold_def)

lemma sample_peek: "peekIssuer sample_oidc ''aa.bb.cc'' = Inr \<lparr>uh_alg = ''RS256'', uh_issuer = ''https://ci''\<rparr>"
  by (simp add: peekIssuer_def decodeSegment_def sample_segments sample_oidc_def sample_json_def sample_fields)

lemma sample_authenticated:
  obtains a' where "Authenticate sample_oidc sample_authenticator ''Bearer aa.bb.cc'' =
    (Inr \<lparr>id_issuer = ''https://ci'', id_subject = ''repo:a'', id_claims = [(''ref'', ''main'')]\<rparr>, a')"
proof -
  have "permitted (newKeyRegistry sample_oidc_config :: string keyRegistry) ''https://ci'' = Some \<lparr>ic_issuer = ''https://ci'', ic_provider = ''github''\<rparr>"
    by (simp add: permitted_def newKeyRegistry_def sample_oidc_config_def)
  moreover have "check_payload sample_oidc sample_oidc_config ''https://ci''
      \<lparr>prov_claims = [''repository'', ''ref'', ''environment'', ''job_workflow_ref'']\<rparr> ''p'' =
    Inr \<lparr>id_issuer = ''https://ci'', id_subject = ''repo:a'', id_claims = [(''ref'', ''main'')]\<rparr>"
    by (simp add: check_payload_def sample_oidc_def sample_json_def standardClaims_def decodeClaim_def raw_claim_def
        audience_claim_def validateTimes_def containsAudience_def sample_oidc_config_def oidc_DefaultConfig_def
        extract_claims_def ParseInt64_def digit_value_def in_int64_def min_int64_def max_int64_def
        unix_plus_def unixToInternal_def wrap64_def DefaultClockSkew_def duration_units)
  moreover have "oe_discover sample_oidc i = Some ''doc''" "oe_jwksURI sample_oidc d = Some ''https://ci/keys''"
    "validateIssuerURL (oe_parseURL sample_oidc) ''https://ci/keys'' = None" "oe_newKeySet sample_oidc k = k"
    "oe_verify sample_oidc ''https://ci/keys'' raw = Some ''p''" for i d k raw
    by (simp_all add: sample_oidc_def validateIssuerURL_def)
  moreover have "kr_sources (newKeyRegistry sample_oidc_config :: string keyRegistry) = []" by (simp add: newKeyRegistry_def)
  ultimately have "fst (Authenticate sample_oidc sample_authenticator ''Bearer aa.bb.cc'') =
      Inr \<lparr>id_issuer = ''https://ci'', id_subject = ''repo:a'', id_claims = [(''ref'', ''main'')]\<rparr>"
    by (simp add: Authenticate_def sample_bearer sample_peek sample_authenticator_def supportedAlgorithms_def
        sourceFor_def discover_def discoverJWKSURL_def ProviderFor_def providers_def)
  with that show thesis by (cases "Authenticate sample_oidc sample_authenticator ''Bearer aa.bb.cc''") simp
qed

theorem authenticated_is_vouched_witness:
  "\<exists>idn a' c. Authenticate sample_oidc sample_authenticator ''Bearer aa.bb.cc'' = (Inr idn, a') \<and>
    c \<in> set (oc_issuers sample_oidc_config) \<and> ic_issuer c = id_issuer idn \<and> id_subject idn = ''repo:a''"
proof (rule sample_authenticated)
  fix a' assume h: "Authenticate sample_oidc sample_authenticator ''Bearer aa.bb.cc'' =
    (Inr \<lparr>id_issuer = ''https://ci'', id_subject = ''repo:a'', id_claims = [(''ref'', ''main'')]\<rparr>, a')"
  from authenticated_is_vouched [OF sample_auth_history h]
  have "\<exists>c \<in> set (oc_issuers sample_oidc_config). ic_issuer c = ''https://ci''" by auto
  with h show ?thesis by auto
qed

theorem unlisted_caller_reaches_no_issuer_witness:
  "fst (Authenticate sample_oidc sample_authenticator '''') = Inl (Rejected ErrNoToken) \<and>
    Authenticate (sample_oidc\<lparr>oe_discover := \<lambda>_. None\<rparr>) sample_authenticator '''' =
      Authenticate sample_oidc sample_authenticator ''''"
  using unlisted_caller_reaches_no_issuer [OF sample_auth_reachable, where env = sample_oidc and header = "''''"
      and env' = "sample_oidc\<lparr>oe_discover := \<lambda>_. None\<rparr>"]
  by (simp add: bearerToken_def Authenticate_def)

theorem refresh_is_conservative_witness:
  "map_of (kr_sources (refreshOnce sample_oidc (an_keys sample_authenticator))) ''https://ci'' = None"
  using refresh_is_conservative [OF sample_auth_reachable, of sample_oidc "''https://ci''"]
  by (simp add: sample_authenticator_def newKeyRegistry_def)

end
