(* ===== verification/CapacityApi.thy ===== *)
theory CapacityApi
  imports Capacity Policy GoText
begin

text \<open>
  The capacity routes and the relay between replicas: \<open>internal/hub/capacity.go\<close> and \<open>relay.go\<close>.

  The handler is a function of the index, the clock and the request to the response, the index after it and the report it
  hands to the relay, if any. \<open>decode\<close> reads one JSON value off a text and returns what follows it; \<open>get\<close> reads
  a cluster. The text of an error stands as a value of \<open>capacity_problem\<close>. Log lines and trace propagation are left out, but
  for the log of the relay, whose point is that it logs only changes.

  \<open>fleet\<close> at the end is the hub as a set of replicas that relay to each other: messages in flight and a step that delivers one.
\<close>

section \<open>Heartbeats\<close>

definition maxCapacityBytes :: nat where "maxCapacityBytes = 4 * 1024"

definition relayHeader :: string where "relayHeader = ''X-Cellcast-Relay''"

record capacityReport =
  cr_nodes :: int
  cr_cpuMilliAllocatable :: int
  cr_cpuMilliCommitted :: int
  cr_memoryBytesAllocatable :: int
  cr_memoryBytesCommitted :: int
  cr_pods :: int
  cr_podCapacity :: int

record capacityEntryResponse =
  ce_cell :: string
  ce_health :: string
  ce_utilisation :: rat
  ce_observedAt :: go_time
  ce_nodes :: int
  ce_cpuMilliAllocatable :: int
  ce_cpuMilliCommitted :: int
  ce_memoryBytesAllocatable :: int
  ce_memoryBytesCommitted :: int
  ce_pods :: int
  ce_podCapacity :: int

definition newCapacityEntryResponse :: "string \<Rightarrow> Entry \<Rightarrow> capacityEntryResponse" where
  "newCapacityEntryResponse cell e =
    \<lparr>ce_cell = cell, ce_health = entry_health e, ce_utilisation = entry_utilisation e,
     ce_observedAt = entry_observedAt e, ce_nodes = Nodes (entry_report e),
     ce_cpuMilliAllocatable = CPUMilliAllocatable (entry_report e),
     ce_cpuMilliCommitted = CPUMilliCommitted (entry_report e),
     ce_memoryBytesAllocatable = MemoryBytesAllocatable (entry_report e),
     ce_memoryBytesCommitted = MemoryBytesCommitted (entry_report e),
     ce_pods = Pods (entry_report e), ce_podCapacity = PodCapacity (entry_report e)\<rparr>"

datatype capacity_problem =
    RegistryUnavailable | IndexUnavailable | NoSuchCluster | InternalError | NotTheReporter
  | BodyTooLarge | BodyNotReport | BodyTrailing | ReportRefused report_error

datatype capacity_body =
    CapacityError capacity_problem | CapacityEntry capacityEntryResponse
  | CapacityList "capacityEntryResponse list" duration

record capacity_response =
  cap_status :: int
  cap_body :: capacity_body

record capacity_request =
  cq_name :: string
  cq_identity :: "Identity option"
  cq_authorization :: string
  cq_relayed :: string
  cq_body :: string

definition capacity_fields :: "string list" where
  "capacity_fields = [''nodes'', ''cpuMilliAllocatable'', ''cpuMilliCommitted'', ''memoryBytesAllocatable'',
    ''memoryBytesCommitted'', ''pods'', ''podCapacity'']"

definition into_capacityReport :: "json \<Rightarrow> capacityReport option" where
  "into_capacityReport v =
    (case struct_pairs capacity_fields v of None \<Rightarrow> None | Some ps \<Rightarrow>
     (case those (map (field_of into_int64 0 ps) capacity_fields) of
        Some [a, b, c, d, e, f, g] \<Rightarrow>
          Some \<lparr>cr_nodes = a, cr_cpuMilliAllocatable = b, cr_cpuMilliCommitted = c, cr_memoryBytesAllocatable = d,
                cr_memoryBytesCommitted = e, cr_pods = f, cr_podCapacity = g\<rparr>
      | _ \<Rightarrow> None))"

definition decodeCapacityReport ::
  "(string \<Rightarrow> (json \<times> string) option) \<Rightarrow> string \<Rightarrow> string \<Rightarrow> capacity_problem + Report" where
  "decodeCapacityReport decode body cell =
    (if length body > maxCapacityBytes then Inl BodyTooLarge
     else (case decode body of
       None \<Rightarrow> Inl BodyNotReport
     | Some (v, rest) \<Rightarrow>
       (case into_capacityReport v of
          None \<Rightarrow> Inl BodyNotReport
        | Some r \<Rightarrow>
          if dec_More rest then Inl BodyTrailing
          else Inr \<lparr>Cell = cell, Nodes = cr_nodes r, CPUMilliAllocatable = cr_cpuMilliAllocatable r,
                    CPUMilliCommitted = cr_cpuMilliCommitted r, MemoryBytesAllocatable = cr_memoryBytesAllocatable r,
                    MemoryBytesCommitted = cr_memoryBytesCommitted r, Pods = cr_pods r, PodCapacity = cr_podCapacity r\<rparr>)))"

datatype reporter_error = ReporterUnauthenticated | NoReporterDeclared | ReporterMismatch ReporterIdentity

definition authorizeReporter :: "Cluster \<Rightarrow> Identity option \<Rightarrow> reporter_error option" where
  "authorizeReporter cl ido =
    (case ido of
       None \<Rightarrow> Some ReporterUnauthenticated
     | Some idn \<Rightarrow>
       (case reporter (cl_spec cl) of
          None \<Rightarrow> Some NoReporterDeclared
        | Some rep \<Rightarrow>
          if id_issuer idn \<noteq> reporter_issuer rep \<or> id_subject idn \<noteq> reporter_subject rep
          then Some (ReporterMismatch rep) else None))"

definition capacity_error :: "int \<Rightarrow> capacity_problem \<Rightarrow> capacity_response" where
  "capacity_error status p = \<lparr>cap_status = status, cap_body = CapacityError p\<rparr>"

text \<open>The zero value of an \<^typ>\<open>Entry\<close>, which a lookup that finds nothing returns.\<close>

definition zero_Entry :: Entry where
  "zero_Entry = \<lparr>entry_report = \<lparr>Cell = '''', Nodes = 0, CPUMilliAllocatable = 0, CPUMilliCommitted = 0,
      MemoryBytesAllocatable = 0, MemoryBytesCommitted = 0, Pods = 0, PodCapacity = 0\<rparr>,
    entry_observedAt = - 62135596800 * Second, entry_health = '''', entry_utilisation = 0\<rparr>"

text \<open>What a replica hands to its relay.\<close>

record relay_message =
  rm_cell :: string
  rm_body :: string
  rm_authorization :: string

definition handleReportCapacity ::
  "(string \<Rightarrow> (json \<times> string) option) \<Rightarrow> (string \<Rightarrow> api_error + Cluster) option \<Rightarrow> bool \<Rightarrow>
    go_time \<Rightarrow> Registry option \<Rightarrow> capacity_request \<Rightarrow>
    capacity_response \<times> Registry option \<times> relay_message option" where
  "handleReportCapacity decode k8s relay now index req =
    (case k8s of None \<Rightarrow> (capacity_error 503 RegistryUnavailable, index, None) | Some get \<Rightarrow>
    (case index of None \<Rightarrow> (capacity_error 503 RegistryUnavailable, index, None) | Some reg \<Rightarrow>
    (case get (cq_name req) of
       Inl e \<Rightarrow> (if IsNotFound e then capacity_error 404 NoSuchCluster else capacity_error 500 InternalError, index, None)
     | Inr cl \<Rightarrow>
       (case authorizeReporter cl (cq_identity req) of
          Some e \<Rightarrow> (capacity_error 403 NotTheReporter, index, None)
        | None \<Rightarrow>
          (case decodeCapacityReport decode (cq_body req) (cq_name req) of
             Inl p \<Rightarrow> (capacity_error 400 p, index, None)
           | Inr rep \<Rightarrow>
             (case RegistryReport reg now rep of
                (Some e, reg') \<Rightarrow>
                  (capacity_error (case e of ErrTooManyCells _ \<Rightarrow> 507 | _ \<Rightarrow> 400) (ReportRefused e), Some reg', None)
              | (None, reg') \<Rightarrow>
                (\<lparr>cap_status = 202,
                  cap_body = CapacityEntry (newCapacityEntryResponse (cq_name req)
                    (case Lookup reg' now (cq_name req) of Some entry \<Rightarrow> entry | None \<Rightarrow> zero_Entry))\<rparr>,
                 Some reg',
                 if relay \<and> cq_relayed req = ''''
                 then Some \<lparr>rm_cell = cq_name req, rm_body = cq_body req, rm_authorization = cq_authorization req\<rparr>
                 else None)))))))"

definition handleListCapacity :: "go_time \<Rightarrow> Registry option \<Rightarrow> capacity_response" where
  "handleListCapacity now index =
    (case index of
       None \<Rightarrow> capacity_error 503 IndexUnavailable
     | Some reg \<Rightarrow>
       \<lparr>cap_status = 200,
        cap_body = CapacityList (sort_key ce_cell (map (\<lambda>(cell, e). newCapacityEntryResponse cell e) (Snapshot reg now)))
          (Staleness (opts reg))\<rparr>)"

section \<open>The relay\<close>

definition relayTimeout :: duration where "relayTimeout = 5 * Second"

datatype relay_log = PeerFailing string string | PeerRecovered string | LookupFailing | LookupRecovered

record PeerRelay =
  pr_failing :: "(string \<times> bool) list"
  pr_lookupFailed :: bool

definition NewPeerRelay :: PeerRelay where
  "NewPeerRelay = \<lparr>pr_failing = [], pr_lookupFailed = False\<rparr>"

definition note_peer :: "string \<Rightarrow> string \<Rightarrow> bool \<Rightarrow> PeerRelay \<Rightarrow> relay_log list \<times> PeerRelay" where
  "note_peer peer cell failed p =
    (let was = (map_of (pr_failing p) peer = Some True);
         p' = (if failed then p\<lparr>pr_failing := AList.update peer True (pr_failing p)\<rparr>
               else p\<lparr>pr_failing := AList.delete peer (pr_failing p)\<rparr>)
     in (if failed \<and> \<not> was then [PeerFailing peer cell]
         else if \<not> failed \<and> was then [PeerRecovered peer] else [], p'))"

definition noteLookup :: "bool \<Rightarrow> PeerRelay \<Rightarrow> relay_log list \<times> PeerRelay" where
  "noteLookup failed p =
    (let was = pr_lookupFailed p
     in (if failed \<and> \<not> was then [LookupFailing] else if \<not> failed \<and> was then [LookupRecovered] else [],
         p\<lparr>pr_lookupFailed := failed\<rparr>))"

definition forgetAllBut :: "string list \<Rightarrow> PeerRelay \<Rightarrow> PeerRelay" where
  "forgetAllBut peers p = p\<lparr>pr_failing := filter (\<lambda>(peer, _). peer \<in> set peers) (pr_failing p)\<rparr>"

text \<open>
  The request \<open>send\<close> makes of a message, and whether the peer's answer is a failure: \<^const>\<open>None\<close> is an error of the client.
\<close>

definition relayed_request :: "relay_message \<Rightarrow> capacity_request" where
  "relayed_request m =
    \<lparr>cq_name = rm_cell m, cq_identity = None, cq_authorization = rm_authorization m, cq_relayed = ''1'', cq_body = rm_body m\<rparr>"

definition send_failed :: "int option \<Rightarrow> bool" where
  "send_failed answer = (case answer of None \<Rightarrow> True | Some status \<Rightarrow> status \<noteq> 202)"

fun note_peers ::
  "(string \<Rightarrow> capacity_request \<Rightarrow> int option) \<Rightarrow> relay_message \<Rightarrow> string list \<Rightarrow> PeerRelay \<Rightarrow> relay_log list \<times> PeerRelay" where
  "note_peers post m [] p = ([], p)"
| "note_peers post m (peer # peers) p =
    (let (l, p1) = note_peer peer (rm_cell m) (send_failed (post peer (relayed_request m))) p;
         (l', p2) = note_peers post m peers p1
     in (l @ l', p2))"

definition relay ::
  "string list option \<Rightarrow> (string \<Rightarrow> capacity_request \<Rightarrow> int option) \<Rightarrow> relay_message \<Rightarrow> PeerRelay \<Rightarrow>
    relay_log list \<times> PeerRelay" where
  "relay lookup post m p =
    (let (l, p1) = noteLookup (lookup = None) p
     in case lookup of
          None \<Rightarrow> (l, p1)
        | Some peers \<Rightarrow> (let (l', p2) = note_peers post m peers (forgetAllBut peers p1) in (l @ l', p2)))"

definition JoinHostPort :: "string \<Rightarrow> string \<Rightarrow> string" where
  "JoinHostPort host port =
    (if CHR '':'' \<in> set host then ''['' @ host @ '']:'' @ port else host @ '':'' @ port)"

text \<open>\<open>parseIP\<close> is \<open>net.ParseIP\<close>, rendered back; \<open>self\<close> the addresses of this process.\<close>

definition resolvePeers ::
  "string \<Rightarrow> (string \<Rightarrow> string list option) \<Rightarrow> (string \<Rightarrow> string option) \<Rightarrow> string list \<Rightarrow> string \<Rightarrow> string list option" where
  "resolvePeers port lookup parseIP self host =
    map_option (\<lambda>addrs. map (\<lambda>addr. JoinHostPort addr port)
      (filter (\<lambda>addr. case parseIP addr of Some ip \<Rightarrow> ip \<notin> set self | None \<Rightarrow> True) addrs)) (lookup host)"

section \<open>A fleet of replicas\<close>

text \<open>
  Replicas hold one index each. A message is a request to a replica: from an agent, or relayed by another one. A step
  delivers one: it is lost, or its token authenticates nobody, or the replica handles it and relays what it
  accepted to the peers it sees. \<open>auth\<close> is the authenticator of each replica, \<open>get\<close> its view of the registry.
\<close>

type_synonym 'r fleet = "('r \<Rightarrow> Registry) \<times> ('r \<times> capacity_request) list"

definition relays :: "('r \<Rightarrow> 'r list) \<Rightarrow> 'r \<Rightarrow> relay_message option \<Rightarrow> ('r \<times> capacity_request) list" where
  "relays peers r out = (case out of None \<Rightarrow> [] | Some m \<Rightarrow> map (\<lambda>p. (p, relayed_request m)) (peers r))"

inductive fleet_step ::
  "(string \<Rightarrow> (json \<times> string) option) \<Rightarrow> ('r \<Rightarrow> string \<Rightarrow> api_error + Cluster) \<Rightarrow> ('r \<Rightarrow> string \<Rightarrow> Identity option) \<Rightarrow>
    ('r \<Rightarrow> 'r list) \<Rightarrow> 'r fleet \<Rightarrow> 'r fleet \<Rightarrow> bool"
  for decode get auth peers where
  lost: "fleet_step decode get auth peers (index, before @ (r, req) # after) (index, before @ after)"
| handled: "auth r (cq_authorization req) = Some idn \<Longrightarrow>
    handleReportCapacity decode (Some (get r)) True now (Some (index r)) (req\<lparr>cq_identity := Some idn\<rparr>) =
      (rsp, Some reg, out) \<Longrightarrow>
    fleet_step decode get auth peers (index, before @ (r, req) # after)
      (index(r := reg), before @ after @ relays peers r out)"

inductive_cases fleet_stepE: "fleet_step decode get auth peers s t"

section \<open>Lemmas\<close>

text \<open>The two outcomes of a report: refused, with everything as it was, or accepted.\<close>

lemma handleReportCapacity_cases:
  obtains (refused) rsp where "cap_status rsp \<noteq> 202"
    "handleReportCapacity decode (Some get) rl now (Some reg) req = (rsp, Some reg, None)"
  | (accepted) cl idn who rep reg' where "get (cq_name req) = Inr cl" "cq_identity req = Some idn"
    "reporter (cl_spec cl) = Some who" "id_issuer idn = reporter_issuer who" "id_subject idn = reporter_subject who"
    "decodeCapacityReport decode (cq_body req) (cq_name req) = Inr rep" "RegistryReport reg now rep = (None, reg')"
    "handleReportCapacity decode (Some get) rl now (Some reg) req =
      (\<lparr>cap_status = 202, cap_body = CapacityEntry (newCapacityEntryResponse (cq_name req)
          (case Lookup reg' now (cq_name req) of Some entry \<Rightarrow> entry | None \<Rightarrow> zero_Entry))\<rparr>, Some reg',
       if rl \<and> cq_relayed req = ''''
       then Some \<lparr>rm_cell = cq_name req, rm_body = cq_body req, rm_authorization = cq_authorization req\<rparr> else None)"
proof -
  have unchanged: "RegistryReport reg now rep = (Some e, reg') \<Longrightarrow> reg' = reg" for rep e reg'
    by (auto simp: RegistryReport_def split: option.splits if_splits)
  have "(\<exists>rsp. cap_status rsp \<noteq> 202 \<and> handleReportCapacity decode (Some get) rl now (Some reg) req = (rsp, Some reg, None)) \<or>
    (\<exists>cl rep reg'. get (cq_name req) = Inr cl \<and> authorizeReporter cl (cq_identity req) = None \<and>
      decodeCapacityReport decode (cq_body req) (cq_name req) = Inr rep \<and> RegistryReport reg now rep = (None, reg'))"
    unfolding handleReportCapacity_def
    by (auto simp: capacity_error_def unchanged split: sum.split option.split prod.split report_error.split)
  then consider (r) rsp where "cap_status rsp \<noteq> 202"
      "handleReportCapacity decode (Some get) rl now (Some reg) req = (rsp, Some reg, None)"
    | (a) cl rep reg' where "get (cq_name req) = Inr cl" "authorizeReporter cl (cq_identity req) = None"
      "decodeCapacityReport decode (cq_body req) (cq_name req) = Inr rep" "RegistryReport reg now rep = (None, reg')"
    by blast
  then show thesis
  proof cases
    case r
    then show thesis by (rule refused)
  next
    case a
    from a(2) obtain idn who where "cq_identity req = Some idn" "reporter (cl_spec cl) = Some who"
      "id_issuer idn = reporter_issuer who" "id_subject idn = reporter_subject who"
      by (auto simp: authorizeReporter_def split: option.splits if_splits)
    from accepted [OF a(1) this a(3,4)] show thesis by (simp add: handleReportCapacity_def a)
  qed
qed

lemma decoded_cell: "decodeCapacityReport decode body cell = Inr rep \<Longrightarrow> Cell rep = cell"
  by (auto simp: decodeCapacityReport_def split: if_splits option.splits)

lemma RegistryReport_other:
  "RegistryReport reg now rep = (None, reg') \<Longrightarrow> c \<noteq> Cell rep \<Longrightarrow> Lookup reg' t c = Lookup reg t c"
  by (auto simp: RegistryReport_def Lookup_def entryLocked_def update_conv' split: option.splits if_splits)

lemma RegistryReport_own:
  "RegistryReport reg now rep = (None, reg') \<Longrightarrow> \<exists>e. Lookup reg' now (Cell rep) = Some e \<and> entry_report e = rep"
  by (auto simp: RegistryReport_def Lookup_def entryLocked_def update_conv' split: option.splits if_splits)

text \<open>How much relaying the messages in flight can still cause.\<close>

definition message_weight :: "('r \<Rightarrow> 'r list) \<Rightarrow> 'r \<times> capacity_request \<Rightarrow> nat" where
  "message_weight peers m = (if cq_relayed (snd m) = '''' then 1 + length (peers (fst m)) else 1)"

definition potential :: "('r \<Rightarrow> 'r list) \<Rightarrow> 'r fleet \<Rightarrow> nat" where
  "potential peers s = sum_list (map (message_weight peers) (snd s))"

lemma relays_weight: "sum_list (map (message_weight peers) (relays peers r out)) = (if out = None then 0 else length (peers r))"
proof -
  have "message_weight peers (p, relayed_request m) = 1" for p m by (simp add: message_weight_def relayed_request_def)
  then show ?thesis by (auto simp: relays_def sum_list_triv comp_def split: option.split)
qed

lemma fleet_step_potential:
  assumes "fleet_step decode get auth peers s t"
  shows "potential peers t < potential peers s"
  using assms
proof (cases rule: fleet_step.cases)
  case (lost index before r req after)
  then show ?thesis by (simp add: potential_def message_weight_def)
next
  case (handled r req idn now index rsp reg out before after)
  have "sum_list (map (message_weight peers) (relays peers r out)) < message_weight peers (r, req)"
  proof (cases rule: handleReportCapacity_cases [of decode "get r" True now "index r" "req\<lparr>cq_identity := Some idn\<rparr>"])
    case refused
    with handled(4) show ?thesis by (simp add: relays_weight message_weight_def)
  next
    case accepted
    with handled(4) show ?thesis by (auto simp: relays_weight message_weight_def split: if_splits)
  qed
  with handled(1,2) show ?thesis by (simp add: potential_def)
qed

text \<open>The log of one peer, as a run of outcomes.\<close>

fun note_run :: "string \<Rightarrow> string \<Rightarrow> bool list \<Rightarrow> PeerRelay \<Rightarrow> relay_log list \<times> PeerRelay" where
  "note_run peer cell [] p = ([], p)"
| "note_run peer cell (failed # rest) p =
    (let (l, p1) = note_peer peer cell failed p; (l', p2) = note_run peer cell rest p1 in (l @ l', p2))"

lemma note_peer_simps:
  "fst (note_peer peer cell failed p) =
    (if failed = (map_of (pr_failing p) peer = Some True) then []
     else if failed then [PeerFailing peer cell] else [PeerRecovered peer])"
  "map_of (pr_failing (snd (note_peer peer cell failed p))) peer = Some True \<longleftrightarrow> failed"
  by (auto simp: note_peer_def Let_def update_conv' delete_conv')

fun changes :: "bool \<Rightarrow> bool list \<Rightarrow> bool list" where
  "changes was [] = []"
| "changes was (x # xs) = (if x = was then changes x xs else x # changes x xs)"

lemma changes_remdups: "changes was xs = tl (remdups_adj (was # xs))"
proof (induction xs arbitrary: was)
  case Nil
  then show ?case by simp
next
  case (Cons x xs)
  have k: "x # tl (remdups_adj (x # xs)) = remdups_adj (x # xs)"
    using remdups_adj_Cons_alt [of x xs] by simp
  show ?case
  proof (cases "x = was")
    case True
    then show ?thesis using Cons.IH [of was] by simp
  next
    case False
    then have "changes was (x # xs) = remdups_adj (x # xs)" using Cons.IH [of x] k by simp
    also have "\<dots> = tl (remdups_adj (was # x # xs))" using False by simp
    finally show ?thesis .
  qed
qed

lemma note_run_changes:
  "fst (note_run peer cell outcomes p) =
    map (\<lambda>failed. if failed then PeerFailing peer cell else PeerRecovered peer)
      (changes (map_of (pr_failing p) peer = Some True) outcomes)"
proof (induction outcomes arbitrary: p)
  case Nil
  show ?case by simp
next
  case (Cons failed rest)
  have "fst (note_run peer cell (failed # rest) p) =
      fst (note_peer peer cell failed p) @ fst (note_run peer cell rest (snd (note_peer peer cell failed p)))"
    by (simp add: case_prod_beta)
  also have "\<dots> = fst (note_peer peer cell failed p) @
      map (\<lambda>failed. if failed then PeerFailing peer cell else PeerRecovered peer) (changes failed rest)"
    unfolding Cons.IH note_peer_simps(2) ..
  finally show ?case by (cases failed) (simp_all add: note_peer_simps(1))
qed

section \<open>Properties\<close>

text \<open>
  C20. Only a cell's declared reporter changes what the hub believes of it. In a fleet of replicas that relay to each
  other, the index of a replica changes only on a message whose own token that replica authenticated, as the issuer and subject
  the cell's registration names, for a report that decodes and is accepted; the cell changed is the one of the
  path, its entry is the report, and every other cell reads as before.
\<close>

theorem only_the_reporter_is_heard:
  assumes "fleet_step decode get auth peers (index, msgs) (index', msgs')" and "index' r \<noteq> index r"
  shows "\<exists>req idn cl who rep now. (r, req) \<in> set msgs \<and> auth r (cq_authorization req) = Some idn \<and>
    get r (cq_name req) = Inr cl \<and> reporter (cl_spec cl) = Some who \<and>
    id_issuer idn = reporter_issuer who \<and> id_subject idn = reporter_subject who \<and>
    decodeCapacityReport decode (cq_body req) (cq_name req) = Inr rep \<and>
    (\<exists>e. Lookup (index' r) now (cq_name req) = Some e \<and> entry_report e = rep) \<and>
    (\<forall>c t. c \<noteq> cq_name req \<longrightarrow> Lookup (index' r) t c = Lookup (index r) t c)"
  using assms(1)
proof (cases rule: fleet_step.cases)
  case lost
  with assms(2) show ?thesis by simp
next
  case (handled r' req idn now rsp reg out before after)
  with assms(2) have r: "r' = r" "index' = index(r := reg)" "(r, req) \<in> set msgs"
    by (auto split: if_splits)
  note a = handled(4) [unfolded r(1)] and h = handled(5) [unfolded r(1)]
  show ?thesis
  proof (cases rule: handleReportCapacity_cases [of decode "get r" True now "index r" "req\<lparr>cq_identity := Some idn\<rparr>"])
    case refused
    with h r assms(2) show ?thesis by auto
  next
    case (accepted cl idn' who rep reg')
    from accepted(8) h have reg: "reg = reg'" by simp
    from accepted(6) have cell: "Cell rep = cq_name req" by (auto dest: decoded_cell)
    from RegistryReport_own [OF accepted(7)] RegistryReport_other [OF accepted(7)] accepted(1-6) a r reg cell
    show ?thesis
      by (intro exI [of _ req] exI [of _ idn] exI [of _ cl] exI [of _ who] exI [of _ rep] exI [of _ now]) simp
  qed
qed

text \<open>
  C21. A relay storm is impossible. Whatever the replicas see of each other, delivering reports ends: there is no infinite run of
  deliveries, because a relayed report is never relayed again.
\<close>

theorem relays_terminate: "wfP (\<lambda>t s. fleet_step decode get auth peers s t)"
proof (rule wfp_if_convertible_to_nat [of _ "potential peers"])
  show "potential peers t < potential peers s" if "fleet_step decode get auth peers s t" for s t
    using that by (rule fleet_step_potential)
qed

text \<open>
  The relay logs a peer's failures once, however many reports fail: over any run of outcomes the lines written
  are exactly the changes of the run, in order, each with the outcome it announces.
\<close>

theorem relay_logs_only_changes:
  "fst (note_run peer cell outcomes p) =
    map (\<lambda>failed. if failed then PeerFailing peer cell else PeerRecovered peer)
      (tl (remdups_adj ((map_of (pr_failing p) peer = Some True) # outcomes)))"
  by (simp add: note_run_changes changes_remdups)

section \<open>Witnesses\<close>

definition reporting_cell :: Cluster where
  "reporting_cell = \<lparr>cl_name = ''blue'', cl_namespace = ''cellcast'', cl_labels = [], cl_generation = 1, cl_created = 0,
    cl_spec = \<lparr>endpoint = ''https://blue'', caBundle = '''', provider = ProviderGeneric, trustConfigRef = ''trust'',
      reporter = Some \<lparr>reporter_issuer = ''https://blue-oidc'', reporter_subject = ''agent''\<rparr>, state = ''''\<rparr>,
    cl_status = \<lparr>observedState = '''', cl_observedGeneration = 0, stateSince = None, cl_conditions = []\<rparr>\<rparr>"

definition sample_heartbeat :: capacity_request where
  "sample_heartbeat = \<lparr>cq_name = ''blue'', cq_identity = None, cq_authorization = ''Bearer t'', cq_relayed = '''', cq_body = ''{}''\<rparr>"

definition sample_decode :: "string \<Rightarrow> (json \<times> string) option" where
  "sample_decode s = Some (JObj [(''nodes'', JNum ''3''), (''cpuMilliAllocatable'', JNum ''1000''),
    (''cpuMilliCommitted'', JNum ''500''), (''memoryBytesAllocatable'', JNum ''4096''),
    (''memoryBytesCommitted'', JNum ''1024''), (''pods'', JNum ''7''), (''podCapacity'', JNum ''110'')], '''')"

lemma sample_decoded: "decodeCapacityReport sample_decode ''{}'' ''blue'' = Inr (sample_report ''blue'' 500)"
proof -
  have "into_capacityReport (fst (the (sample_decode s))) = Some \<lparr>cr_nodes = 3, cr_cpuMilliAllocatable = 1000,
      cr_cpuMilliCommitted = 500, cr_memoryBytesAllocatable = 4096, cr_memoryBytesCommitted = 1024, cr_pods = 7,
      cr_podCapacity = 110\<rparr>" for s
    by (simp add: into_capacityReport_def struct_pairs_def struct_key_def capacity_fields_def field_of_def sample_decode_def
        ParseInt64_def digit_value_def in_int64_def min_int64_def max_int64_def)
  then show ?thesis
    by (simp add: decodeCapacityReport_def sample_decode_def maxCapacityBytes_def dec_More_def sample_report_def)
qed

lemma sample_fleet_step:
  obtains reg where "fleet_step sample_decode (\<lambda>r n. Inr reporting_cell)
      (\<lambda>r t. Some \<lparr>id_issuer = ''https://blue-oidc'', id_subject = ''agent'', id_claims = []\<rparr>) (\<lambda>r. [1 - r])
      (\<lambda>r :: nat. New sample_options, [(0, sample_heartbeat)])
      ((\<lambda>r. New sample_options)(0 := reg),
       [(1, sample_heartbeat\<lparr>cq_relayed := ''1''\<rparr>)])"
    and "reg \<noteq> New sample_options"
proof -
  define reg where "reg = snd (RegistryReport (New sample_options) 10 (sample_report ''blue'' 500))"
  have r: "RegistryReport (New sample_options) 10 (sample_report ''blue'' 500) = (None, reg)"
    by (simp add: reg_def sample_eval)
  have "map_of (entries reg) ''blue'' \<noteq> None" by (simp add: reg_def sample_eval)
  then have "reg \<noteq> New sample_options" by (auto simp: sample_eval)
  moreover have "fleet_step sample_decode (\<lambda>r n. Inr reporting_cell)
      (\<lambda>r t. Some \<lparr>id_issuer = ''https://blue-oidc'', id_subject = ''agent'', id_claims = []\<rparr>) (\<lambda>r. [1 - r])
      (\<lambda>r :: nat. New sample_options, [] @ (0, sample_heartbeat) # [])
      ((\<lambda>r. New sample_options)(0 := reg), [] @ [] @ relays (\<lambda>r. [1 - r]) 0
        (Some \<lparr>rm_cell = ''blue'', rm_body = ''{}'', rm_authorization = ''Bearer t''\<rparr>))"
    by (rule fleet_step.handled [where now = 10 and idn = "\<lparr>id_issuer = ''https://blue-oidc'', id_subject = ''agent'', id_claims = []\<rparr>"])
      (simp_all add: handleReportCapacity_def authorizeReporter_def reporting_cell_def sample_heartbeat_def sample_decoded r)
  then have "fleet_step sample_decode (\<lambda>r n. Inr reporting_cell)
      (\<lambda>r t. Some \<lparr>id_issuer = ''https://blue-oidc'', id_subject = ''agent'', id_claims = []\<rparr>) (\<lambda>r. [1 - r])
      (\<lambda>r :: nat. New sample_options, [(0, sample_heartbeat)])
      ((\<lambda>r. New sample_options)(0 := reg), [(1, sample_heartbeat\<lparr>cq_relayed := ''1''\<rparr>)])"
    by (simp add: relays_def relayed_request_def sample_heartbeat_def)
  ultimately show thesis using that by blast
qed

theorem only_the_reporter_is_heard_witness:
  "\<exists>reg e. reg \<noteq> New sample_options \<and> (\<exists>t. Lookup reg t ''blue'' = Some e) \<and> entry_report e = sample_report ''blue'' 500"
proof (rule sample_fleet_step)
  fix reg assume h: "fleet_step sample_decode (\<lambda>r n. Inr reporting_cell)
      (\<lambda>r t. Some \<lparr>id_issuer = ''https://blue-oidc'', id_subject = ''agent'', id_claims = []\<rparr>) (\<lambda>r. [1 - r])
      (\<lambda>r :: nat. New sample_options, [(0, sample_heartbeat)])
      ((\<lambda>r. New sample_options)(0 := reg), [(1, sample_heartbeat\<lparr>cq_relayed := ''1''\<rparr>)])"
    and n: "reg \<noteq> New sample_options"
  from only_the_reporter_is_heard [OF h, of 0] n sample_decoded show ?thesis
    by (auto simp: sample_heartbeat_def)
qed

end
