(* ===== verification/HubServer.thy ===== *)
theory HubServer
  imports PlacementRoute Oidc CapacityApi
begin

text \<open>
  The hub process: \<open>internal/hub/config.go\<close>, \<open>middleware.go\<close>, \<open>warmup.go\<close> and \<open>server.go\<close>.

  A configuration is a record and its validation a function. A handler takes the caller and a state and may panic
  (\<^const>\<open>None\<close>); the middleware wraps it in the order of \<open>apiHandler\<close>. The goroutines of \<open>Run\<close> are the program
  counters of \<open>life\<close>, and a step of \<open>life_step\<close> is one atomic action of one of them: the startup, the warmth poll,
  the signal, the drain, or the informers of the manager syncing its cache. A run that is fair to the startup is \<open>fair_run\<close>. \<open>authenticator_seam\<close> is what the middleware relies on of an authenticator; both authenticators of
  the program interpret it.
\<close>

section \<open>Configuration\<close>

text \<open>\<open>net.SplitHostPort\<close>.\<close>

definition SplitHostPort :: "string \<Rightarrow> (string \<times> string) option" where
  "SplitHostPort hp =
    (let colons = filter (\<lambda>i. hp ! i = CHR '':'') [0..<length hp]
     in if colons = [] then None
        else (let i = last colons in
          if hp ! 0 = CHR ''['' then
            (let e = length (takeWhile (\<lambda>c. c \<noteq> CHR '']'') hp) in
             if e = length hp \<or> e + 1 \<noteq> i then None
             else if CHR ''['' \<in> set (drop 1 hp) \<or> CHR '']'' \<in> set (drop (e + 1) hp) then None
             else Some (drop 1 (take e hp), drop (i + 1) hp))
          else if CHR '':'' \<in> set (take i hp) \<or> CHR ''['' \<in> set hp \<or> CHR '']'' \<in> set hp then None
          else Some (take i hp, drop (i + 1) hp)))"

record Config =
  cfg_addr :: string
  cfg_probeAddr :: string
  cfg_readHeaderTimeout :: duration
  cfg_shutdownTimeout :: duration
  cfg_drainDelay :: duration
  cfg_warmupTimeout :: duration
  cfg_logLevel :: string
  cfg_logFormat :: string
  cfg_capacityStaleness :: duration
  cfg_capacityRetention :: duration
  cfg_capacityMaxCells :: int
  cfg_peers :: string
  cfg_tokenTTLCeiling :: duration
  cfg_placementRateLimit :: flt
  cfg_placementBurst :: int
  cfg_stickinessExpireAfter :: duration
  cfg_stickinessMaxPerPolicy :: int
  cfg_namespace :: string

definition DefaultConfig :: Config where
  "DefaultConfig =
    \<lparr>cfg_addr = '':8080'', cfg_probeAddr = '':8081'', cfg_readHeaderTimeout = 10 * Second,
     cfg_shutdownTimeout = 20 * Second, cfg_drainDelay = 5 * Second, cfg_warmupTimeout = DefaultStaleness,
     cfg_logLevel = ''info'', cfg_logFormat = ''json'', cfg_capacityStaleness = DefaultStaleness,
     cfg_capacityRetention = DefaultRetention, cfg_capacityMaxCells = DefaultMaxCells, cfg_peers = '''',
     cfg_tokenTTLCeiling = Hour, cfg_placementRateLimit = Fin 5, cfg_placementBurst = 50,
     cfg_stickinessExpireAfter = DefaultExpireAfter, cfg_stickinessMaxPerPolicy = DefaultMaxPerPolicy,
     cfg_namespace = ''cellcast-system''\<rparr>"

datatype config_error =
    EmptyAddr | EmptyProbeAddr | SameAddr string | BadReadHeaderTimeout duration | BadShutdownTimeout duration
  | NegativeDrainDelay duration | NegativeWarmupTimeout duration | BadLogLevel string | BadLogFormat string
  | BadStaleness duration | RetentionBelowStaleness duration duration | BadMaxCells int | BadPeers string
  | BadCeiling duration | CeilingBelowFloor duration duration | NegativeRateLimit flt | BadBurst int
  | ExpireTooSoon duration | BadMaxPerPolicy int | EmptyNamespace

definition bad_peers :: "string \<Rightarrow> bool" where
  "bad_peers peers =
    (peers \<noteq> '''' \<and> (case SplitHostPort peers of None \<Rightarrow> True | Some (host, port) \<Rightarrow> host = '''' \<or> port = ''''))"

definition Config_Validate :: "Config \<Rightarrow> config_error option" where
  "Config_Validate c =
    (if cfg_addr c = '''' then Some EmptyAddr
     else if cfg_probeAddr c = '''' then Some EmptyProbeAddr
     else if cfg_addr c = cfg_probeAddr c then Some (SameAddr (cfg_addr c))
     else if cfg_readHeaderTimeout c \<le> 0 then Some (BadReadHeaderTimeout (cfg_readHeaderTimeout c))
     else if cfg_shutdownTimeout c \<le> 0 then Some (BadShutdownTimeout (cfg_shutdownTimeout c))
     else if cfg_drainDelay c < 0 then Some (NegativeDrainDelay (cfg_drainDelay c))
     else if cfg_warmupTimeout c < 0 then Some (NegativeWarmupTimeout (cfg_warmupTimeout c))
     else if cfg_logLevel c \<notin> {''debug'', ''info'', ''warn'', ''error''} then Some (BadLogLevel (cfg_logLevel c))
     else if cfg_logFormat c \<notin> {''json'', ''text''} then Some (BadLogFormat (cfg_logFormat c))
     else if cfg_capacityStaleness c \<le> 0 then Some (BadStaleness (cfg_capacityStaleness c))
     else if cfg_capacityRetention c < cfg_capacityStaleness c
     then Some (RetentionBelowStaleness (cfg_capacityRetention c) (cfg_capacityStaleness c))
     else if cfg_capacityMaxCells c \<le> 0 then Some (BadMaxCells (cfg_capacityMaxCells c))
     else if bad_peers (cfg_peers c) then Some (BadPeers (cfg_peers c))
     else if cfg_tokenTTLCeiling c \<le> 0 then Some (BadCeiling (cfg_tokenTTLCeiling c))
     else if cfg_tokenTTLCeiling c < KubernetesMinTTL
     then Some (CeilingBelowFloor (cfg_tokenTTLCeiling c) KubernetesMinTTL)
     else if flt_less (cfg_placementRateLimit c) (Fin 0) then Some (NegativeRateLimit (cfg_placementRateLimit c))
     else if flt_less (Fin 0) (cfg_placementRateLimit c) \<and> cfg_placementBurst c < 1 then Some (BadBurst (cfg_placementBurst c))
     else if cfg_stickinessExpireAfter c < MinExpireAfter then Some (ExpireTooSoon (cfg_stickinessExpireAfter c))
     else if cfg_stickinessMaxPerPolicy c < 1 then Some (BadMaxPerPolicy (cfg_stickinessMaxPerPolicy c))
     else if cfg_namespace c = '''' then Some EmptyNamespace
     else None)"

section \<open>Middleware\<close>

text \<open>The wire answer of a request: what the middleware writes itself, or what the handler wrote.\<close>

datatype 'r answer = Unauthorized | InternalServerError | Wrote int 'r

fun answer_status :: "'r answer \<Rightarrow> int" where
  "answer_status Unauthorized = 401"
| "answer_status InternalServerError = 500"
| "answer_status (Wrote status _) = status"

datatype hub_log =
    RequestLine string string string int
  | RejectionLine string string string
  | PanicLine string string string

record api_request =
  aq_method :: string
  aq_path :: string
  aq_authorization :: string

text \<open>
  \<open>requestID\<close>: the identifier is the hexadecimal form of eight random bytes.
\<close>

definition requestID :: "string \<Rightarrow> string" where
  "requestID rnd = EncodeToString rnd"

definition authenticate ::
  "('a \<Rightarrow> string \<Rightarrow> (auth_error + Identity) \<times> 'a) \<Rightarrow> (Identity \<Rightarrow> 's \<Rightarrow> 'r answer option \<times> 's) \<Rightarrow>
    string \<Rightarrow> api_request \<Rightarrow> 'a \<times> 's \<Rightarrow> 'r answer option \<times> hub_log list \<times> string list \<times> 'a \<times> 's" where
  "authenticate authn handler rid req st =
    (case authn (fst st) (aq_authorization req) of
       (Inl err, a) \<Rightarrow>
         (Some Unauthorized, [RejectionLine rid (aq_path req) (rejectionReason err)], [rejectionReason err], a, snd st)
     | (Inr idn, a) \<Rightarrow>
         (case handler idn (snd st) of (ans, s) \<Rightarrow> (ans, [], [], a, s)))"

text \<open>\<open>logging\<close> around it: a panic passes through before its line is written.\<close>

definition logging ::
  "string \<Rightarrow> api_request \<Rightarrow> 'r answer option \<times> hub_log list \<times> 'x \<Rightarrow> 'r answer option \<times> hub_log list \<times> 'x" where
  "logging rid req out =
    (case out of (ans, lines, x) \<Rightarrow>
      (case ans of
         None \<Rightarrow> (None, lines, x)
       | Some w \<Rightarrow> (ans, lines @ [RequestLine rid (aq_method req) (sanitizeForLog (aq_path req)) (answer_status w)], x)))"

definition recoverPanic ::
  "string \<Rightarrow> api_request \<Rightarrow> 'r answer option \<times> hub_log list \<times> 'x \<Rightarrow> 'r answer \<times> hub_log list \<times> 'x" where
  "recoverPanic rid req out =
    (case out of (ans, lines, x) \<Rightarrow>
      (case ans of
         None \<Rightarrow> (InternalServerError, lines @ [PanicLine rid (aq_method req) (sanitizeForLog (aq_path req))], x)
       | Some w \<Rightarrow> (w, lines, x)))"

text \<open>The chain of \<open>apiHandler\<close>, outermost first: the request id, the panic guard, the log, the authenticator.\<close>

definition apiHandler ::
  "('a \<Rightarrow> string \<Rightarrow> (auth_error + Identity) \<times> 'a) \<Rightarrow> (api_request \<Rightarrow> string \<Rightarrow> Identity \<Rightarrow> 's \<Rightarrow> 'r answer option \<times> 's) \<Rightarrow>
    string \<Rightarrow> api_request \<Rightarrow> 'a \<times> 's \<Rightarrow> 'r answer \<times> hub_log list \<times> string list \<times> 'a \<times> 's" where
  "apiHandler authn mux rnd req st =
    (let rid = requestID rnd
     in recoverPanic rid req (logging rid req (authenticate authn (mux req rid) rid req st)))"

text \<open>A sequence of requests to the API: the answers, and the state after it.\<close>

primrec serve ::
  "('a \<Rightarrow> string \<Rightarrow> (auth_error + Identity) \<times> 'a) \<Rightarrow>
    (api_request \<Rightarrow> string \<Rightarrow> Identity \<Rightarrow> 's \<Rightarrow> 'r answer option \<times> 's) \<Rightarrow> (string \<times> api_request) list \<Rightarrow> 'a \<times> 's \<Rightarrow>
    'r answer list \<times> 'a \<times> 's" where
  "serve authn mux [] st = ([], st)"
| "serve authn mux (q # qs) st =
    (let (ans, _, _, st') = apiHandler authn mux (fst q) (snd q) st; (rest, st'') = serve authn mux qs st'
     in (ans # rest, st''))"

section \<open>The authenticator seam\<close>

text \<open>
  What the middleware relies on: in the states it keeps, an authenticator returns only identities it vouches for.
\<close>

locale authenticator_seam =
  fixes authn :: "'a \<Rightarrow> string \<Rightarrow> (auth_error + Identity) \<times> 'a"
    and ok :: "'a \<Rightarrow> bool"
    and vouches :: "string \<Rightarrow> Identity \<Rightarrow> bool"
  assumes keeps: "ok a \<Longrightarrow> ok (snd (authn a header))"
    and sound: "ok a \<Longrightarrow> authn a header = (Inr idn, a') \<Longrightarrow> vouches header idn"
begin

lemma authenticate_cases:
  assumes "ok a" and "authenticate authn handler rid req (a, s) = (ans, lines, counts, a', s')"
  shows "ok a' \<and> (ans = Some Unauthorized \<and> s' = s \<or>
    (\<exists>idn. vouches (aq_authorization req) idn \<and> handler idn s = (ans, s')))"
proof -
  from keeps [OF assms(1), of "aq_authorization req"] assms(2) have "ok a'"
    by (auto simp: authenticate_def split: prod.splits sum.splits)
  moreover have "ans = Some Unauthorized \<and> s' = s \<or> (\<exists>idn. vouches (aq_authorization req) idn \<and> handler idn s = (ans, s'))"
    using assms(2) sound [OF assms(1), of "aq_authorization req"]
    by (auto simp: authenticate_def split: prod.splits sum.splits)
  ultimately show ?thesis by simp
qed

lemma api_served:
  assumes "ok a" and "apiHandler authn mux rnd req (a, s) = (ans, lines, counts, a', s')"
  shows "ok a' \<and> (ans = Unauthorized \<and> s' = s \<or>
    (\<exists>idn out. vouches (aq_authorization req) idn \<and> mux req (requestID rnd) idn s = (out, s') \<and>
      ans = (case out of None \<Rightarrow> InternalServerError | Some w \<Rightarrow> w)))"
proof -
  let ?rid = "requestID rnd"
  obtain ans0 lines0 counts0 a0 s0 where h: "authenticate authn (mux req ?rid) ?rid req (a, s) = (ans0, lines0, counts0, a0, s0)"
    using prod_cases5 by blast
  with assms(2) have e: "counts0 = counts" "a0 = a'" "s0 = s'"
    "ans = (case ans0 of None \<Rightarrow> InternalServerError | Some w \<Rightarrow> w)"
    by (auto simp: apiHandler_def Let_def logging_def recoverPanic_def split: option.splits)
  from authenticate_cases [OF assms(1) h] show ?thesis unfolding e by auto
qed

lemma served_only_vouched:
  assumes "ok a" and "serve authn mux qs (a, s) = (answers, a', s')"
    and "\<And>q idn. q \<in> set qs \<Longrightarrow> \<not> vouches (aq_authorization (snd q)) idn"
  shows "answers = replicate (length qs) Unauthorized \<and> s' = s \<and> ok a'"
  using assms
proof (induction qs arbitrary: a s answers)
  case Nil
  then show ?case by simp
next
  case (Cons q qs)
  obtain ans lines counts a1 s1 where h: "apiHandler authn mux (fst q) (snd q) (a, s) = (ans, lines, counts, a1, s1)"
    using prod_cases5 by blast
  from api_served [OF Cons.prems(1) h] Cons.prems(3) [of q]
  have o: "ok a1" "ans = Unauthorized" "s1 = s" by auto
  obtain rest where r: "serve authn mux qs (a1, s1) = (rest, a', s')" "answers = ans # rest"
    using Cons.prems(2) h by (auto simp: Let_def split: prod.splits)
  from Cons.IH [OF o(1) r(1)] Cons.prems(3) o r(2) show ?case by simp
qed

end

text \<open>The default, which vouches for nobody.\<close>

definition deny_authn :: "unit \<Rightarrow> string \<Rightarrow> (auth_error + Identity) \<times> unit" where
  "deny_authn a header = (denyAll header, a)"

interpretation deny_all: authenticator_seam deny_authn "\<lambda>_. True" "\<lambda>header idn. False"
  by unfold_locales (auto simp: deny_authn_def denyAll_def)

text \<open>
  The OIDC authenticator: its states are those of histories in given surroundings, and it vouches as \<^const>\<open>oidc_vouches\<close> says.
\<close>

definition history_within :: "'k oidc_env list \<Rightarrow> (string \<Rightarrow> URL option) \<Rightarrow> (string \<Rightarrow> 'k) \<Rightarrow> oidc_Config \<Rightarrow> 'k Authenticator \<Rightarrow> bool" where
  "history_within hist parse keySet cfg a \<longleftrightarrow> (\<exists>envs. set envs \<subseteq> set hist \<and> auth_history parse keySet cfg envs a)"

lemma oidc_vouches_mono: "oidc_vouches envs env cfg header idn \<Longrightarrow> set envs \<subseteq> set hist \<Longrightarrow> oidc_vouches hist env cfg header idn"
  unfolding oidc_vouches_def by (elim exE conjE, intro exI conjI) (assumption | erule subsetD | assumption)+

interpretation oidc_authn: authenticator_seam "Authenticate env"
  "history_within (env # hist) (oe_parseURL env) (oe_newKeySet env) cfg" "oidc_vouches (env # hist) env cfg" for env hist cfg
proof unfold_locales
  fix a header
  assume "history_within (env # hist) (oe_parseURL env) (oe_newKeySet env) cfg a"
  then obtain envs where e: "set envs \<subseteq> set (env # hist)" "auth_history (oe_parseURL env) (oe_newKeySet env) cfg envs a"
    by (auto simp: history_within_def)
  from e(1) have "set (env # envs) \<subseteq> set (env # hist)" by simp
  moreover from e(2) have "auth_history (oe_parseURL env) (oe_newKeySet env) cfg (env # envs) (snd (Authenticate env a header))"
    by (rule auth_history.request) simp_all
  ultimately show "history_within (env # hist) (oe_parseURL env) (oe_newKeySet env) cfg (snd (Authenticate env a header))"
    unfolding history_within_def by blast
  show "oidc_vouches (env # hist) env cfg header idn" if "Authenticate env a header = (Inr idn, a')" for idn a'
    using Authenticate_vouches [OF e(2) that] \<open>set (env # envs) \<subseteq> set (env # hist)\<close> by (rule oidc_vouches_mono)
qed

section \<open>Warmth\<close>

definition warmupPollInterval :: duration where "warmupPollInterval = Second"

definition expectedToReport :: "Cluster \<Rightarrow> bool" where
  "expectedToReport cl =
    (if reporter (cl_spec cl) = None then False else state (cl_spec cl) \<noteq> ClusterStateDraining)"

text \<open>\<open>FleetCoverage\<close>: \<open>listing\<close> is what the reader returned for the namespace.\<close>

definition FleetCoverage :: "(api_error + Cluster list) \<Rightarrow> Registry \<Rightarrow> go_time \<Rightarrow> bool \<times> string list" where
  "FleetCoverage listing index now =
    (case listing of
       Inl _ \<Rightarrow> (False, [])
     | Inr cls \<Rightarrow>
       (let snapshot = Snapshot index now;
            missing = sort (map cl_name (filter (\<lambda>cl. expectedToReport cl \<and>
              (case map_of snapshot (cl_name cl) of None \<Rightarrow> True | Some e \<Rightarrow> entry_health e \<noteq> HealthFresh)) cls))
        in (missing = [], missing)))"

section \<open>The life of a replica\<close>

datatype startup_pc = WaitSync | AwaitWarm | CheckContext | StoreReady | StartupDone
datatype run_pc = Serving | Draining | ShuttingDown | Stopped

record life =
  lf_waitForSync :: bool
  lf_cacheSynced :: bool
  lf_ready :: bool
  lf_warm :: bool
  lf_missing :: "string list option"
  lf_tracking :: bool
  lf_warmClosed :: bool
  lf_deadline :: bool
  lf_cancelled :: bool
  lf_startup :: startup_pc
  lf_run :: run_pc

text \<open>
  \<open>NewServer\<close>: a server with no warmup check is warm from the start. \<open>lf_waitForSync\<close> says whether there is a cache to wait for, and
  \<open>lf_cacheSynced\<close> whether the informers of the manager have synced it, which is not the hub's doing.
\<close>

definition new_life :: "bool \<Rightarrow> bool \<Rightarrow> life" where
  "new_life hasSync hasCheck = \<lparr>lf_waitForSync = hasSync, lf_cacheSynced = False, lf_ready = False, lf_warm = (\<not> hasCheck), lf_missing = None, lf_tracking = False,
    lf_warmClosed = False, lf_deadline = False, lf_cancelled = False, lf_startup = WaitSync, lf_run = Serving\<rparr>"

text \<open>\<open>markWarm\<close> latches; \<open>SetReady\<close> stores.\<close>

definition markWarm :: "life \<Rightarrow> life" where
  "markWarm s = s\<lparr>lf_warm := True\<rparr>"

definition SetReady :: "bool \<Rightarrow> life \<Rightarrow> life" where
  "SetReady ready s = s\<lparr>lf_ready := ready\<rparr>"

text \<open>
  One action of one goroutine. Of \<open>startup\<close>: \<open>waitForSync\<close>, if there is one, returns true once the cache has synced and false when it
  could not, on which the startup ends; \<open>awaitWarmth\<close> starts the poll and its timer, which fires once, and returns on the closed channel, the cancellation or its deadline, the context is checked, and readiness is stored. Of
  \<open>trackWarmth\<close>: a poll finds the fleet covered or not, or sees the cancellation. Of \<open>Run\<close>: a listener fails, or the
  signal starts \<open>drain\<close>, which goes unready, waits and shuts down.
\<close>

inductive startup_step :: "life \<Rightarrow> life \<Rightarrow> bool" where
  synced: "lf_startup s = WaitSync \<Longrightarrow> lf_waitForSync s \<longrightarrow> lf_cacheSynced s \<Longrightarrow>
    startup_step s (s\<lparr>lf_startup := AwaitWarm, lf_tracking := True\<rparr>)"
| not_synced: "lf_startup s = WaitSync \<Longrightarrow> lf_waitForSync s \<Longrightarrow> startup_step s (s\<lparr>lf_startup := StartupDone\<rparr>)"
| check_live: "lf_startup s = CheckContext \<Longrightarrow> \<not> lf_cancelled s \<Longrightarrow> startup_step s (s\<lparr>lf_startup := StoreReady\<rparr>)"
| check_dead: "lf_startup s = CheckContext \<Longrightarrow> lf_cancelled s \<Longrightarrow> startup_step s (s\<lparr>lf_startup := StartupDone\<rparr>)"
| store_ready: "lf_startup s = StoreReady \<Longrightarrow> startup_step s ((SetReady True s)\<lparr>lf_startup := StartupDone\<rparr>)"

inductive await_step :: "life \<Rightarrow> life \<Rightarrow> bool" where
  deadline: "lf_startup s = AwaitWarm \<Longrightarrow> \<not> lf_deadline s \<Longrightarrow> await_step s (s\<lparr>lf_deadline := True\<rparr>)"
| awaited: "lf_startup s = AwaitWarm \<Longrightarrow> lf_warmClosed s \<or> lf_cancelled s \<or> lf_deadline s \<Longrightarrow>
    await_step s (s\<lparr>lf_startup := CheckContext\<rparr>)"

inductive track_step :: "bool \<Rightarrow> life \<Rightarrow> life \<Rightarrow> bool" for hasCheck where
  no_check: "lf_tracking s \<Longrightarrow> \<not> hasCheck \<Longrightarrow> track_step hasCheck s (s\<lparr>lf_tracking := False, lf_warmClosed := True\<rparr>)"
| covered: "lf_tracking s \<Longrightarrow> hasCheck \<Longrightarrow>
    track_step hasCheck s ((markWarm s)\<lparr>lf_tracking := False, lf_warmClosed := True\<rparr>)"
| uncovered: "lf_tracking s \<Longrightarrow> hasCheck \<Longrightarrow> track_step hasCheck s (s\<lparr>lf_missing := Some missing\<rparr>)"
| track_end: "lf_tracking s \<Longrightarrow> hasCheck \<Longrightarrow> lf_cancelled s \<Longrightarrow> track_step hasCheck s (s\<lparr>lf_tracking := False\<rparr>)"

inductive run_step :: "life \<Rightarrow> life \<Rightarrow> bool" where
  drain: "lf_run s = Serving \<Longrightarrow> lf_cancelled s \<Longrightarrow> run_step s ((SetReady False s)\<lparr>lf_run := Draining\<rparr>)"
| listener_failed: "lf_run s = Serving \<Longrightarrow> run_step s ((SetReady False s)\<lparr>lf_run := ShuttingDown\<rparr>)"
| drained: "lf_run s = Draining \<Longrightarrow> run_step s (s\<lparr>lf_run := ShuttingDown\<rparr>)"
| stopped: "lf_run s = ShuttingDown \<Longrightarrow> run_step s (s\<lparr>lf_run := Stopped\<rparr>)"

inductive life_step :: "bool \<Rightarrow> life \<Rightarrow> life \<Rightarrow> bool" for hasCheck where
  starting: "startup_step s t \<Longrightarrow> life_step hasCheck s t"
| awaiting: "await_step s t \<Longrightarrow> life_step hasCheck s t"
| tracking: "track_step hasCheck s t \<Longrightarrow> life_step hasCheck s t"
| running: "run_step s t \<Longrightarrow> life_step hasCheck s t"
| signal: "life_step hasCheck s (s\<lparr>lf_cancelled := True\<rparr>)"
| caches_sync: "life_step hasCheck s (s\<lparr>lf_cacheSynced := True\<rparr>)"

lemmas life_step_elims = startup_step.cases await_step.cases track_step.cases run_step.cases

inductive life_reachable :: "bool \<Rightarrow> life \<Rightarrow> bool" for hasCheck where
  born: "life_reachable hasCheck (new_life hasSync hasCheck)"
| lived: "life_reachable hasCheck s \<Longrightarrow> life_step hasCheck s t \<Longrightarrow> life_reachable hasCheck t"

text \<open>The probe.\<close>

definition readyz :: "life \<Rightarrow> int" where
  "readyz s = (if \<not> lf_ready s then 503 else 200)"

section \<open>Lemmas on the life of a replica\<close>

lemma life_step_warm: "life_step hasCheck s t \<Longrightarrow> lf_warm s \<Longrightarrow> lf_warm t"
  by (induction rule: life_step.induct) (auto elim!: life_step_elims simp: markWarm_def SetReady_def)

text \<open>What readiness is worth: the cache was synced, and the fleet covered or the deadline passed.\<close>

definition warm_ok :: "bool \<Rightarrow> life \<Rightarrow> bool" where
  "warm_ok hasCheck s \<longleftrightarrow> (lf_warmClosed s \<longrightarrow> lf_warm s) \<and> (\<not> hasCheck \<longrightarrow> lf_warm s)"

definition sync_ok :: "life \<Rightarrow> bool" where
  "sync_ok s \<longleftrightarrow> (lf_waitForSync s \<longrightarrow> lf_cacheSynced s)"

definition ready_ok :: "life \<Rightarrow> bool" where
  "ready_ok s \<longleftrightarrow> (lf_ready s \<longrightarrow> lf_startup s = StartupDone \<and> sync_ok s \<and> (lf_warm s \<or> lf_deadline s))"

definition startup_ok :: "life \<Rightarrow> bool" where
  "startup_ok s \<longleftrightarrow> (lf_startup s \<in> {AwaitWarm, CheckContext, StoreReady} \<longrightarrow> sync_ok s) \<and>
    (case lf_startup s of CheckContext \<Rightarrow> lf_warm s \<or> lf_deadline s \<or> lf_cancelled s
     | StoreReady \<Rightarrow> lf_warm s \<or> lf_deadline s | _ \<Rightarrow> True)"

lemma life_step_warm_ok: "life_step hasCheck s t \<Longrightarrow> warm_ok hasCheck s \<Longrightarrow> warm_ok hasCheck t"
  by (induction rule: life_step.induct) (auto elim!: life_step_elims simp: warm_ok_def markWarm_def SetReady_def)

lemma life_step_startup_ok:
  "life_step hasCheck s t \<Longrightarrow> warm_ok hasCheck s \<Longrightarrow> startup_ok s \<Longrightarrow> startup_ok t"
proof (induction rule: life_step.induct)
  case (starting s t)
  then show ?case by (induction rule: startup_step.induct) (auto simp: startup_ok_def sync_ok_def)
next
  case (awaiting s t)
  then show ?case by (induction rule: await_step.induct) (auto simp: startup_ok_def sync_ok_def warm_ok_def)
next
  case (tracking s t)
  then show ?case by (induction rule: track_step.induct) (auto simp: startup_ok_def sync_ok_def markWarm_def split: startup_pc.splits)
next
  case (running s t)
  then show ?case by (induction rule: run_step.induct) (auto simp: startup_ok_def sync_ok_def SetReady_def split: startup_pc.splits)
next
  case (signal s)
  then show ?case by (auto simp: startup_ok_def sync_ok_def split: startup_pc.splits)
next
  case (caches_sync s)
  then show ?case by (auto simp: startup_ok_def sync_ok_def split: startup_pc.splits)
qed

lemma life_step_ready_ok: "life_step hasCheck s t \<Longrightarrow> startup_ok s \<Longrightarrow> ready_ok s \<Longrightarrow> ready_ok t"
proof (induction rule: life_step.induct)
  case (starting s t)
  then show ?case
    by (induction rule: startup_step.induct) (simp_all add: ready_ok_def startup_ok_def sync_ok_def SetReady_def)
next
  case (awaiting s t)
  then show ?case by (induction rule: await_step.induct) (simp_all add: ready_ok_def sync_ok_def)
next
  case (tracking s t)
  then show ?case by (induction rule: track_step.induct) (simp_all add: ready_ok_def sync_ok_def markWarm_def)
next
  case (running s t)
  then show ?case by (induction rule: run_step.induct) (simp_all add: ready_ok_def sync_ok_def SetReady_def)
qed (simp_all add: ready_ok_def sync_ok_def)

lemma life_reachable_ok: "life_reachable hasCheck s \<Longrightarrow> warm_ok hasCheck s \<and> startup_ok s \<and> ready_ok s"
proof (induction rule: life_reachable.induct)
  case born
  show ?case by (simp add: warm_ok_def startup_ok_def ready_ok_def new_life_def)
next
  case (lived s t)
  then show ?case using life_step_warm_ok life_step_startup_ok life_step_ready_ok by metis
qed

text \<open>Once draining with the startup past its store, a replica never reports ready again; beginning to drain makes it so.\<close>

definition retired :: "life \<Rightarrow> bool" where
  "retired s \<longleftrightarrow> lf_run s \<noteq> Serving \<and> lf_cancelled s \<and> lf_startup s \<noteq> StoreReady \<and> \<not> lf_ready s"

lemma life_step_retired: "life_step hasCheck s t \<Longrightarrow> retired s \<Longrightarrow> retired t"
  by (induction rule: life_step.induct) (auto elim!: life_step_elims simp: retired_def markWarm_def SetReady_def)

lemma life_steps_retired: "(life_step hasCheck)\<^sup>*\<^sup>* s t \<Longrightarrow> retired s \<Longrightarrow> retired t"
  by (induction rule: rtranclp_induct) (auto intro: life_step_retired)

lemma drain_retires:
  "life_step hasCheck s t \<Longrightarrow> lf_run s = Serving \<Longrightarrow> lf_run t = Draining \<Longrightarrow> lf_startup s \<noteq> StoreReady \<Longrightarrow> retired t"
  by (induction rule: life_step.induct) (auto elim!: life_step_elims simp: retired_def markWarm_def SetReady_def)

lemma life_steps_warm: "(life_step hasCheck)\<^sup>*\<^sup>* s t \<Longrightarrow> lf_warm s \<Longrightarrow> lf_warm t"
  by (induction rule: rtranclp_induct) (auto intro: life_step_warm)

subsection \<open>Runs\<close>

text \<open>
  A run is an infinite sequence of states, each from the one before by an action or by none. It is fair to the startup goroutine when the
  scheduler does not starve it and the timer it waits on fires: an action of its own that stays possible is taken.
\<close>

definition startup_action :: "life \<Rightarrow> life \<Rightarrow> bool" where
  "startup_action s t \<longleftrightarrow> startup_step s t \<or> await_step s t"

definition fair_run :: "bool \<Rightarrow> (nat \<Rightarrow> life) \<Rightarrow> bool" where
  "fair_run hasCheck r \<longleftrightarrow>
    (\<forall>n. life_step hasCheck (r n) (r (Suc n)) \<or> r (Suc n) = r n) \<and>
    (\<forall>n. (\<forall>m \<ge> n. \<exists>t. startup_action (r m) t) \<longrightarrow> (\<exists>m \<ge> n. startup_action (r m) (r (Suc m))))"

text \<open>What the startup still has to do once it waits for heartbeats.\<close>

definition starting_up :: "life \<Rightarrow> bool" where
  "starting_up s \<longleftrightarrow> lf_startup s \<in> {AwaitWarm, CheckContext, StoreReady}"

definition startup_left :: "life \<Rightarrow> nat" where
  "startup_left s = (case lf_startup s of WaitSync \<Rightarrow> 5 | AwaitWarm \<Rightarrow> if lf_deadline s then 3 else 4
     | CheckContext \<Rightarrow> 2 | StoreReady \<Rightarrow> 1 | StartupDone \<Rightarrow> 0)"

lemma startup_action_possible: "starting_up s \<Longrightarrow> \<exists>t. startup_action s t"
proof -
  assume "starting_up s"
  then consider "lf_startup s = AwaitWarm" "lf_deadline s" | "lf_startup s = AwaitWarm" "\<not> lf_deadline s"
    | "lf_startup s = CheckContext" | "lf_startup s = StoreReady" by (auto simp: starting_up_def)
  then show ?thesis unfolding startup_action_def
    by cases (blast intro: await_step.intros startup_step.intros)+
qed

lemma startup_action_left: "startup_action s t \<Longrightarrow> startup_left t < startup_left s"
  unfolding startup_action_def
  by (auto elim!: startup_step.cases await_step.cases simp: startup_left_def SetReady_def)

lemma life_step_left: "life_step hasCheck s t \<Longrightarrow> startup_left t \<le> startup_left s"
proof (induction rule: life_step.induct)
  case (starting s t)
  then show ?case using startup_action_left [of s t] by (simp add: startup_action_def)
next
  case (awaiting s t)
  then show ?case using startup_action_left [of s t] by (simp add: startup_action_def)
qed (auto elim!: life_step_elims simp: startup_left_def markWarm_def SetReady_def split: startup_pc.split)

lemma startup_ends_ready:
  "life_step hasCheck s t \<Longrightarrow> starting_up s \<Longrightarrow> \<not> lf_cancelled s \<Longrightarrow> starting_up t \<or> readyz t = 200"
  by (induction rule: life_step.induct) (auto elim!: life_step_elims simp: starting_up_def readyz_def markWarm_def SetReady_def)

lemma fair_run_ready:
  assumes "fair_run hasCheck r" and "\<forall>m \<ge> n. \<not> lf_cancelled (r m)" and "starting_up (r n)"
  shows "\<exists>m \<ge> n. readyz (r m) = 200"
  using assms(2,3)
proof (induction "startup_left (r n)" arbitrary: n rule: less_induct)
  case less
  have step: "life_step hasCheck (r m) (r (Suc m)) \<or> r (Suc m) = r m" for m using assms(1) by (simp add: fair_run_def)
  show ?case
  proof (cases "\<forall>m \<ge> n. starting_up (r m)")
    case True
    then have "\<forall>m \<ge> n. \<exists>t. startup_action (r m) t" using startup_action_possible by blast
    with assms(1) obtain m where m: "n \<le> m" "startup_action (r m) (r (Suc m))" unfolding fair_run_def by blast
    have le: "startup_left (r (n + k)) \<le> startup_left (r n)" for k
      using step life_step_left by (induction k) (fastforce intro: order_trans)+
    from le [of "m - n"] m startup_action_left [OF m(2)] have "startup_left (r (Suc m)) < startup_left (r n)" by simp
    from less.hyps [OF this] less.prems(1) True m(1) obtain k where "Suc m \<le> k" "readyz (r k) = 200" by auto
    with m(1) show ?thesis by (intro exI [of _ k]) simp
  next
    case False
    then obtain m where m: "n \<le> m" "\<not> starting_up (r m)" by blast
    define k where "k = (LEAST m. n \<le> m \<and> \<not> starting_up (r m))"
    have k: "n \<le> k" "\<not> starting_up (r k)" using LeastI [of "\<lambda>m. n \<le> m \<and> \<not> starting_up (r m)" m] m by (simp_all add: k_def)
    with less.prems(2) have "k \<noteq> n" by auto
    then obtain j where j: "k = Suc j" "n \<le> j" using k(1) by (cases k) auto
    have "starting_up (r j)" using not_less_Least [of j "\<lambda>m. n \<le> m \<and> \<not> starting_up (r m)"] j by (auto simp: k_def)
    with step [of j] startup_ends_ready [of hasCheck "r j" "r k"] k(2) j less.prems(1) have "readyz (r k) = 200" by auto
    with k(1) show ?thesis by blast
  qed
qed

text \<open>The run in which nothing but the startup happens, from a state that waits for heartbeats.\<close>

fun silent_run :: "life \<Rightarrow> nat \<Rightarrow> life" where
  "silent_run s 0 = s"
| "silent_run s (Suc 0) = s\<lparr>lf_deadline := True\<rparr>"
| "silent_run s (Suc (Suc 0)) = s\<lparr>lf_deadline := True, lf_startup := CheckContext\<rparr>"
| "silent_run s (Suc (Suc (Suc 0))) = s\<lparr>lf_deadline := True, lf_startup := StoreReady\<rparr>"
| "silent_run s (Suc (Suc (Suc (Suc n)))) = s\<lparr>lf_deadline := True, lf_ready := True, lf_startup := StartupDone\<rparr>"

lemma silent_run_fair:
  assumes "lf_startup s = AwaitWarm" and "\<not> lf_deadline s" and "\<not> lf_cancelled s"
  shows "fair_run hasCheck (silent_run s)" and "\<not> lf_cancelled (silent_run s n)" and "lf_warm (silent_run s n) = lf_warm s"
    and "(life_step hasCheck)\<^sup>*\<^sup>* s (silent_run s 4)" and "readyz (silent_run s 4) = 200"
proof -
  have 0: "startup_action (silent_run s 0) (silent_run s 1)"
    using assms by (simp add: startup_action_def await_step.deadline)
  have 1: "startup_action (silent_run s 1) (silent_run s 2)"
    using await_step.awaited [of "silent_run s 1"] assms by (simp add: startup_action_def numeral_2_eq_2)
  have 2: "startup_action (silent_run s 2) (silent_run s 3)"
    using startup_step.check_live [of "silent_run s 2"] assms by (simp add: startup_action_def numeral_2_eq_2 numeral_3_eq_3)
  have 3: "startup_action (silent_run s 3) (silent_run s 4)"
    using startup_step.store_ready [of "silent_run s 3"] assms by (simp add: startup_action_def SetReady_def eval_nat_numeral)
  have act: "startup_action t u \<Longrightarrow> life_step hasCheck t u" for t u
    by (auto simp: startup_action_def intro: life_step.intros)
  have stays: "silent_run s (n + 4) = silent_run s 4" for n by (simp add: eval_nat_numeral)
  have small: "n = 0 \<or> n = 1 \<or> n = 2 \<or> n = 3 \<or> (\<exists>k. n = k + 4)" for n :: nat by presburger
  have "life_step hasCheck (silent_run s n) (silent_run s (Suc n)) \<or> silent_run s (Suc n) = silent_run s n" for n
    using small [of n] act [OF 0] act [OF 1] act [OF 2] act [OF 3] by (auto simp: eval_nat_numeral)
  moreover have "\<not> startup_action (silent_run s 4) t" for t
    by (auto simp: startup_action_def eval_nat_numeral elim!: startup_step.cases await_step.cases)
  then have "\<not> (\<forall>m \<ge> n. \<exists>t. startup_action (silent_run s m) t)" for n
    using stays [of n] by (metis le_add1)
  ultimately show "fair_run hasCheck (silent_run s)" unfolding fair_run_def by blast
  show "\<not> lf_cancelled (silent_run s n)" "lf_warm (silent_run s n) = lf_warm s"
    using small [of n] assms(3) by (auto simp: eval_nat_numeral)
  show "(life_step hasCheck)\<^sup>*\<^sup>* s (silent_run s 4)"
    using act [OF 0] act [OF 1] act [OF 2] act [OF 3]
    by (metis rtranclp.rtrancl_into_rtrancl rtranclp.rtrancl_refl silent_run.simps(1))
  show "readyz (silent_run s 4) = 200" by (simp add: readyz_def eval_nat_numeral)
qed

section \<open>Properties\<close>

text \<open>
  C22. No route of the API is served anonymously. In every history of the authenticator, a request either is answered 401 with
  the state of the hub untouched, or reached its handler with an identity read, issuer, subject and claims, from the payload of the
  request's own token, which the keys that a configured issuer's discovery document named have verified for the hub's
  audience (\<^const>\<open>oidc_vouches\<close>); a handler that panics is answered 500.
\<close>

theorem api_is_never_anonymous:
  assumes "auth_history (oe_parseURL env) (oe_newKeySet env) cfg envs a"
    and "apiHandler (Authenticate env) mux rnd req (a, s) = (ans, lines, counts, a', s')"
  shows "ans = Unauthorized \<and> s' = s \<or>
    (\<exists>idn out. oidc_vouches (env # envs) env cfg (aq_authorization req) idn \<and> mux req (requestID rnd) idn s = (out, s') \<and>
      ans = (case out of None \<Rightarrow> InternalServerError | Some w \<Rightarrow> w))"
proof -
  have "history_within (env # envs) (oe_parseURL env) (oe_newKeySet env) cfg a"
    using assms(1) by (auto simp: history_within_def)
  from oidc_authn.api_served [OF this assms(2)] show ?thesis by simp
qed

text \<open>
  A hub nobody configured an authenticator for refuses everybody: whatever requests arrive, in any order, every one is
  answered 401 and the state of the hub stays as it was.
\<close>

theorem default_hub_denies_everyone:
  "fst (serve deny_authn mux requests ((), s)) = replicate (length requests) Unauthorized \<and>
    snd (snd (serve deny_authn mux requests ((), s))) = s"
proof -
  obtain answers a' s' where h: "serve deny_authn mux requests ((), s) = (answers, a', s')" using prod_cases3 by blast
  from deny_all.served_only_vouched [OF TrueI h] show ?thesis by (simp add: h)
qed

text \<open>
  A configuration that passes validation can mint: for every cell, labelled or not, and every requested lifetime, the hub's
  ceiling leaves room for the floor of the Kubernetes provider, so a lifetime is refused only where a policy's own
  maximum is below that floor.
\<close>

theorem valid_config_can_mint:
  assumes "Config_Validate c = None"
  shows "(snd (ResolveTTL ls policy requested (cfg_tokenTTLCeiling c) KubernetesMinTTL) = None \<longleftrightarrow>
      KubernetesMinTTL \<le> b_max (policy_bounds (BoundsFor ls) policy)) \<and>
    snd (ResolveTTL ls None requested (cfg_tokenTTLCeiling c) KubernetesMinTTL) = None"
proof -
  from assms have "KubernetesMinTTL \<le> cfg_tokenTTLCeiling c"
    by (auto simp: Config_Validate_def split: if_splits)
  moreover have "0 < KubernetesMinTTL" by (simp add: KubernetesMinTTL_def duration_units)
  ultimately have r: "snd (ResolveTTL ls p requested (cfg_tokenTTLCeiling c) KubernetesMinTTL) = None \<longleftrightarrow>
      KubernetesMinTTL \<le> b_max (policy_bounds (BoundsFor ls) p)" for p
    by (auto simp: ResolveTTL_unfold effective_max_def Let_def)
  have "KubernetesMinTTL \<le> b_max strictestBounds"
    by (simp add: strictestBounds_def envBounds_def KubernetesMinTTL_def duration_units)
  also have "\<dots> \<le> b_max (policy_bounds (BoundsFor ls) None)"
    using BoundsFor_range [of ls] by (simp add: policy_bounds_def)
  finally show ?thesis using r by blast
qed

text \<open>
  A replica is warm exactly when the registry could be read and every cell expected to report is fresh, and the cells it names
  as missing are exactly the others, in order. A warm replica excludes no expected cell for its capacity: the
  filter of the engine admits every one of them that the policy permits and the state allows.
\<close>

theorem fleet_coverage_is_exact:
  "(fst (FleetCoverage (Inr cls) index now) \<longleftrightarrow>
      (\<forall>cl \<in> set cls. expectedToReport cl \<longrightarrow> fresh_in (Snapshot index now) (cl_name cl))) \<and>
    set (snd (FleetCoverage (Inr cls) index now)) =
      cl_name ` {cl \<in> set cls. expectedToReport cl \<and> \<not> fresh_in (Snapshot index now) (cl_name cl)} \<and>
    sorted (snd (FleetCoverage (Inr cls) index now)) \<and>
    (\<forall>cl \<in> set cls. fst (FleetCoverage (Inr cls) index now) \<and> expectedToReport cl \<and> sel (cl_labels cl) \<and>
      AcceptsPlacement (state (cl_spec cl)) dark \<longrightarrow> cand_admitted (filter_cell sel dark (Snapshot index now) cl))"
proof -
  have "(case map_of (Snapshot index now) n of None \<Rightarrow> True | Some e \<Rightarrow> entry_health e \<noteq> HealthFresh) \<longleftrightarrow>
      \<not> fresh_in (Snapshot index now) n" for n
    by (simp add: fresh_in_def split: option.split)
  note c = FleetCoverage_def [of "Inr cls" index now, unfolded sum.case Let_def this]
  have m: "set (snd (FleetCoverage (Inr cls) index now)) =
      cl_name ` {cl \<in> set cls. expectedToReport cl \<and> \<not> fresh_in (Snapshot index now) (cl_name cl)}"
    unfolding c by simp
  have "fst (FleetCoverage (Inr cls) index now) \<longleftrightarrow> set (snd (FleetCoverage (Inr cls) index now)) = {}"
    unfolding c by (simp only: fst_conv snd_conv set_empty)
  then have w: "fst (FleetCoverage (Inr cls) index now) \<longleftrightarrow>
      (\<forall>cl \<in> set cls. expectedToReport cl \<longrightarrow> fresh_in (Snapshot index now) (cl_name cl))"
    unfolding m by blast
  moreover have "sorted (snd (FleetCoverage (Inr cls) index now))" unfolding c by simp
  ultimately show ?thesis using m by simp
qed

text \<open>
  C25. Readiness is earned and warmth is kept: in every interleaving of the startup, the poll, the signal and the drain, a replica reports
  ready only after the cache it was given to wait for has synced and its fleet was covered or the warmup deadline passed, and a
  replica that has become warm stays warm.
\<close>

theorem readiness_is_earned:
  assumes "life_reachable hasCheck s"
  shows "(readyz s = 200 \<longrightarrow> lf_startup s = StartupDone \<and> (lf_waitForSync s \<longrightarrow> lf_cacheSynced s) \<and> (lf_warm s \<or> lf_deadline s)) \<and>
    (\<forall>t. (life_step hasCheck)\<^sup>*\<^sup>* s t \<longrightarrow> lf_warm s \<longrightarrow> lf_warm t)"
  using life_reachable_ok [OF assms] life_steps_warm by (auto simp: readyz_def ready_ok_def sync_ok_def)

text \<open>
  C26. A fleet whose replicas all restarted comes back: a replica that waits for heartbeats becomes ready, whether or not they ever arrive. In
  every run in which the startup goroutine is not starved, whatever the other goroutines do, and unless the process is
  told to stop, a replica that has reached the wait reports ready at some later moment; it never gives up.
\<close>

theorem ready_without_heartbeats:
  assumes "fair_run hasCheck r" and "lf_startup (r n) = AwaitWarm" and "\<forall>m \<ge> n. \<not> lf_cancelled (r m)"
  shows "\<exists>m \<ge> n. readyz (r m) = 200"
  by (rule fair_run_ready [OF assms(1,3)]) (simp add: starting_up_def assms(2))

text \<open>
  C27. A draining replica goes unready and stays so, except for one interleaving. From the action with which the drain begins, with the startup
  anywhere but between its check of the context and its store, the probe fails, whatever it said before and whatever the
  goroutines do later. Between the two, the signal and the drain can pass first, and the replica then drains while its
  probe reports ready.
\<close>

theorem drain_stays_unready_unless_startup_races:
  "(\<forall>s t u. life_step hasCheck s t \<and> lf_run s = Serving \<and> lf_run t = Draining \<and> lf_startup s \<noteq> StoreReady \<and>
      (life_step hasCheck)\<^sup>*\<^sup>* t u \<longrightarrow> readyz u = 503) \<and>
    (\<exists>s. life_reachable hasCheck s \<and> lf_run s = Draining \<and> readyz s = 200)"
proof (intro conjI allI impI)
  show "readyz u = 503" if "life_step hasCheck s t \<and> lf_run s = Serving \<and> lf_run t = Draining \<and> lf_startup s \<noteq> StoreReady \<and>
      (life_step hasCheck)\<^sup>*\<^sup>* t u" for s t u
    using life_steps_retired [of hasCheck t u] drain_retires [of hasCheck s t] that by (simp add: retired_def readyz_def)
  let ?s0 = "new_life False hasCheck"
  let ?s1 = "?s0\<lparr>lf_startup := AwaitWarm, lf_tracking := True\<rparr>"
  let ?s2 = "?s1\<lparr>lf_deadline := True\<rparr>" let ?s3 = "?s2\<lparr>lf_startup := CheckContext\<rparr>"
  let ?s4 = "?s3\<lparr>lf_startup := StoreReady\<rparr>" let ?s5 = "?s4\<lparr>lf_cancelled := True\<rparr>"
  let ?s6 = "(SetReady False ?s5)\<lparr>lf_run := Draining\<rparr>" let ?s7 = "(SetReady True ?s6)\<lparr>lf_startup := StartupDone\<rparr>"
  have "life_reachable hasCheck ?s1"
    by (rule life_reachable.lived [OF life_reachable.born life_step.starting [OF startup_step.synced]]) (simp_all add: new_life_def)
  then have "life_reachable hasCheck ?s2"
    by (rule life_reachable.lived [OF _ life_step.awaiting [OF await_step.deadline]]) (simp_all add: new_life_def)
  then have "life_reachable hasCheck ?s3"
    by (rule life_reachable.lived [OF _ life_step.awaiting [OF await_step.awaited]]) (simp_all add: new_life_def)
  then have "life_reachable hasCheck ?s4"
    by (rule life_reachable.lived [OF _ life_step.starting [OF startup_step.check_live]]) (simp_all add: new_life_def)
  then have "life_reachable hasCheck ?s5" by (rule life_reachable.lived [OF _ life_step.signal])
  then have "life_reachable hasCheck ?s6"
    by (rule life_reachable.lived [OF _ life_step.running [OF run_step.drain]]) (simp_all add: new_life_def)
  then have "life_reachable hasCheck ?s7"
    by (rule life_reachable.lived [OF _ life_step.starting [OF startup_step.store_ready]]) (simp_all add: new_life_def SetReady_def)
  then show "\<exists>s. life_reachable hasCheck s \<and> lf_run s = Draining \<and> readyz s = 200"
    by (intro exI [of _ ?s7]) (simp add: readyz_def SetReady_def)
qed

section \<open>Witnesses\<close>

lemma default_config_valid: "Config_Validate DefaultConfig = None"
  by (simp add: Config_Validate_def DefaultConfig_def DefaultStaleness_def DefaultRetention_def DefaultMaxCells_def
      bad_peers_def KubernetesMinTTL_def DefaultExpireAfter_def MinExpireAfter_def DefaultMaxPerPolicy_def duration_units)

text \<open>
  A rate that is not a number passes the checks, which are comparisons, and the burst is then not looked at: the hub starts with a limiter
  of that rate, and of a burst that admits nobody.
\<close>

theorem rate_that_is_no_number_is_accepted:
  "Config_Validate (DefaultConfig\<lparr>cfg_placementRateLimit := NaN, cfg_placementBurst := 0\<rparr>) = None \<and>
    (\<exists>l. newCallerLimiter NaN 0 = Some l \<and> lim_burst l = 0)"
  by (simp add: Config_Validate_def DefaultConfig_def DefaultStaleness_def DefaultRetention_def DefaultMaxCells_def
      bad_peers_def KubernetesMinTTL_def DefaultExpireAfter_def MinExpireAfter_def DefaultMaxPerPolicy_def duration_units
      newCallerLimiter_def flt_le_def)

theorem valid_config_can_mint_witness:
  "Config_Validate DefaultConfig = None \<and>
    snd (ResolveTTL [] None 0 (cfg_tokenTTLCeiling DefaultConfig) KubernetesMinTTL) = None"
  using valid_config_can_mint [OF default_config_valid, of "[]" None 0] default_config_valid by simp

text \<open>A caller whose token verifies reaches its handler, which counts it.\<close>

theorem api_is_never_anonymous_witness:
  "\<exists>idn lines counts a'. apiHandler (Authenticate sample_oidc) (\<lambda>q rid idn s. (Some (Wrote 200 idn), Suc s)) ''''
      \<lparr>aq_method = ''GET'', aq_path = ''/'', aq_authorization = ''Bearer aa.bb.cc''\<rparr> (sample_authenticator, 0) =
      (Wrote 200 idn, lines, counts, a', 1) \<and>
    oidc_vouches [sample_oidc] sample_oidc sample_oidc_config ''Bearer aa.bb.cc'' idn \<and> id_subject idn = ''repo:a''"
proof (rule sample_authenticated)
  fix a'' assume h: "Authenticate sample_oidc sample_authenticator ''Bearer aa.bb.cc'' =
    (Inr \<lparr>id_issuer = ''https://ci'', id_subject = ''repo:a'', id_claims = [(''ref'', ''main'')]\<rparr>, a'')"
  let ?mux = "\<lambda>q rid idn s. (Some (Wrote 200 idn), Suc s)"
  let ?req = "\<lparr>aq_method = ''GET'', aq_path = ''/'', aq_authorization = ''Bearer aa.bb.cc''\<rparr>"
  obtain lines counts where r: "apiHandler (Authenticate sample_oidc) ?mux '''' ?req (sample_authenticator, 0) =
      (Wrote 200 \<lparr>id_issuer = ''https://ci'', id_subject = ''repo:a'', id_claims = [(''ref'', ''main'')]\<rparr>, lines, counts, a'', 1)"
    by (simp add: apiHandler_def authenticate_def logging_def recoverPanic_def h)
  from api_is_never_anonymous [OF sample_auth_history r]
  have "oidc_vouches [sample_oidc] sample_oidc sample_oidc_config ''Bearer aa.bb.cc''
      \<lparr>id_issuer = ''https://ci'', id_subject = ''repo:a'', id_claims = [(''ref'', ''main'')]\<rparr>" by auto
  with r show ?thesis by auto
qed

theorem fleet_coverage_is_exact_witness:
  "\<not> fst (FleetCoverage (Inr [reporting_cell]) (New sample_options) 0) \<and>
    set (snd (FleetCoverage (Inr [reporting_cell]) (New sample_options) 0)) = {''blue''}"
proof -
  have "expectedToReport reporting_cell" "\<not> fresh_in (Snapshot (New sample_options) 0) (cl_name reporting_cell)"
    "cl_name reporting_cell = ''blue''"
    by (simp_all add: expectedToReport_def reporting_cell_def fresh_in_def Snapshot_def sample_eval api_defs)
  then show ?thesis
    using fleet_coverage_is_exact [where cls = "[reporting_cell]" and index = "New sample_options" and now = 0
        and sel = "\<lambda>_. True" and dark = False] by auto
qed

lemma life_reachable_steps: "(life_step hasCheck)\<^sup>*\<^sup>* s t \<Longrightarrow> life_reachable hasCheck s \<Longrightarrow> life_reachable hasCheck t"
  by (induction rule: rtranclp_induct) (auto intro: life_reachable.lived)

text \<open>A replica whose cache synced and that has reached the wait for heartbeats.\<close>

definition waiting_life :: "life" where
  "waiting_life = (new_life True True)\<lparr>lf_cacheSynced := True, lf_startup := AwaitWarm, lf_tracking := True\<rparr>"

lemma waiting_life_reachable: "life_reachable True waiting_life"
  using life_reachable.lived [OF life_reachable.lived [OF life_reachable.born [of True True] life_step.caches_sync]
      life_step.starting [OF startup_step.synced]]
  by (simp add: waiting_life_def new_life_def)

lemma waiting_life_simps:
  "lf_startup waiting_life = AwaitWarm" "\<not> lf_deadline waiting_life" "\<not> lf_cancelled waiting_life" "\<not> lf_warm waiting_life"
  by (simp_all add: waiting_life_def new_life_def)

theorem readiness_is_earned_witness:
  "\<exists>s. life_reachable True s \<and> readyz s = 200 \<and> lf_waitForSync s \<and> lf_cacheSynced s \<and> (lf_warm s \<or> lf_deadline s)"
proof -
  note w = silent_run_fair [OF waiting_life_simps(1-3)]
  have r: "life_reachable True (silent_run waiting_life 4)" by (rule life_reachable_steps [OF w(4) waiting_life_reachable])
  have "lf_waitForSync (silent_run waiting_life 4)" by (simp add: eval_nat_numeral waiting_life_def new_life_def)
  with readiness_is_earned [OF r] w(5) r show ?thesis by blast
qed

text \<open>A replica that is ready and told to stop.\<close>

theorem drain_stays_unready_unless_startup_races_witness:
  "\<exists>s t. readyz s = 200 \<and> life_step True s t \<and> lf_run t = Draining \<and> readyz t = 503"
proof -
  let ?s = "(silent_run waiting_life 4)\<lparr>lf_cancelled := True\<rparr>"
  let ?t = "(SetReady False ?s)\<lparr>lf_run := Draining\<rparr>"
  have s: "lf_run ?s = Serving" "lf_startup ?s \<noteq> StoreReady" "readyz ?s = 200"
    by (simp_all add: eval_nat_numeral waiting_life_def new_life_def readyz_def)
  have "life_step True ?s ?t" by (rule life_step.running [OF run_step.drain]) (use s in simp_all)
  moreover from this s conjunct1 [OF drain_stays_unready_unless_startup_races, THEN spec, THEN spec, THEN spec, of True ?s ?t ?t]
  have "readyz ?t = 503" by simp
  ultimately show ?thesis using s(3) by (intro exI [of _ ?s] exI [of _ ?t]) simp
qed

text \<open>No heartbeat arrives, and the replica becomes ready cold.\<close>

theorem ready_without_heartbeats_witness:
  "\<exists>r m. fair_run True r \<and> r 0 = waiting_life \<and> readyz (r m) = 200 \<and> \<not> lf_warm (r m)"
proof -
  note w = silent_run_fair [OF waiting_life_simps(1-3)]
  from ready_without_heartbeats [OF w(1), of 0] w(2) waiting_life_simps(1)
  obtain m where "readyz (silent_run waiting_life m) = 200" by auto
  with w(1,3) waiting_life_simps(4) show ?thesis by (intro exI [of _ "silent_run waiting_life"] exI [of _ m]) simp
qed

end
