(* ===== verification/ClusterApi.thy ===== *)
theory ClusterApi
  imports Oidc AuditTrail
begin

text \<open>
  The registry of cells: \<open>internal/hub/clusters.go\<close> and \<open>clusterstate.go\<close>.

  A handler is a function of the API server's state and the request to the response and the state after it. Parameters
  (\<open>registry_env\<close>): the Kubernetes client, reading one JSON value off a text, \<open>url.Parse\<close>, \<open>pem.Decode\<close>, the name and
  label checks of \<open>k8s.io/apimachinery\<close> and its selector parser. Of a PEM block \<open>pem.Decode\<close> gives the type and how many bytes it
  leaves behind after the first, since it never returns a block without consuming a byte. An error message is a value of
  \<open>reg_problem\<close>, with the parts of the payload it quotes. Log lines are left out. The order in which Go ranges over a
  map is the order of the association list.
\<close>

section \<open>Registration\<close>

definition maxRegistrationBytes :: nat where "maxRegistrationBytes = 64 * 1024"

definition reservedLabelPrefix :: string where "reservedLabelPrefix = ''cellcast.io''"

definition credentialFields :: "string list" where
  "credentialFields = [''authProvider'', ''bearerToken'', ''clientCertificate'', ''clientCertificateData'', ''clientKey'',
    ''clientKeyData'', ''execProvider'', ''kubeconfig'', ''password'', ''token'', ''username'']"

record reporterPayload =
  rp_issuer :: string
  rp_subject :: string

record clusterRegistration =
  reg_name :: string
  reg_endpoint :: string
  reg_caBundle :: string
  reg_provider :: string
  reg_trustConfigRef :: string
  reg_labels :: labels
  reg_state :: string
  reg_reporter :: "reporterPayload option"

record clusterResponse =
  clr_name :: string
  clr_endpoint :: string
  clr_caBundle :: string
  clr_provider :: string
  clr_trustConfigRef :: string
  clr_labels :: labels
  clr_state :: string
  clr_reporter :: "reporterPayload option"
  clr_observedState :: string
  clr_stateSince :: "go_time option"
  clr_createdAt :: go_time

text \<open>
  What \<open>encoding/json\<close> stores into the fields that are not strings: bytes come as base 64 or as an array of numbers, a map
  keeps the keys it had, a pointer is allocated once.
\<close>

definition into_byte :: "json \<Rightarrow> char option" where
  "into_byte v = (case into_int64 0 v of None \<Rightarrow> None
    | Some n \<Rightarrow> if 0 \<le> n \<and> n \<le> 255 then Some (char_of (nat n)) else None)"

fun into_bytes :: "string \<Rightarrow> json \<Rightarrow> string option" where
  "into_bytes cur JNull = Some ''''"
| "into_bytes cur (JStr s) = Std_DecodeString s"
| "into_bytes cur (JArr vs) = those (map into_byte vs)"
| "into_bytes cur _ = None"

fun into_labels :: "labels \<Rightarrow> json \<Rightarrow> labels option" where
  "into_labels cur JNull = Some []"
| "into_labels cur (JObj kvs) =
    foldl (\<lambda>acc (k, x). case acc of None \<Rightarrow> None
      | Some m \<Rightarrow> map_option (\<lambda>s. AList.update k s m) (into_string '''' x)) (Some cur) kvs"
| "into_labels cur _ = None"

definition into_reporter :: "reporterPayload option \<Rightarrow> json \<Rightarrow> reporterPayload option option" where
  "into_reporter cur v =
    (if v = JNull then Some None
     else (case struct_pairs [''issuer'', ''subject''] v of None \<Rightarrow> None
       | Some ps \<Rightarrow>
         (let r = (case cur of None \<Rightarrow> \<lparr>rp_issuer = '''', rp_subject = ''''\<rparr> | Some r \<Rightarrow> r) in
          case (field_of into_string (rp_issuer r) ps ''issuer'', field_of into_string (rp_subject r) ps ''subject'') of
            (Some i, Some sub) \<Rightarrow> Some (Some \<lparr>rp_issuer = i, rp_subject = sub\<rparr>)
          | _ \<Rightarrow> None)))"

definition registration_fields :: "string list" where
  "registration_fields = [''name'', ''endpoint'', ''caBundle'', ''provider'', ''trustConfigRef'', ''labels'', ''state'', ''reporter'']"

definition into_clusterRegistration :: "json \<Rightarrow> clusterRegistration option" where
  "into_clusterRegistration v =
    (case struct_pairs registration_fields v of None \<Rightarrow> None | Some ps \<Rightarrow>
     (case (those (map (field_of into_string '''' ps) [''name'', ''endpoint'', ''provider'', ''trustConfigRef'', ''state'']),
            field_of into_bytes '''' ps ''caBundle'', field_of into_labels [] ps ''labels'',
            field_of into_reporter None ps ''reporter'') of
        (Some [nm, ep, prov, ref, st], Some ca, Some ls, Some rep) \<Rightarrow>
          Some \<lparr>reg_name = nm, reg_endpoint = ep, reg_caBundle = ca, reg_provider = prov, reg_trustConfigRef = ref,
                reg_labels = ls, reg_state = st, reg_reporter = rep\<rparr>
      | _ \<Rightarrow> None))"

definition findCredentialField :: "(string \<Rightarrow> (json \<times> string) option) \<Rightarrow> string \<Rightarrow> string option" where
  "findCredentialField decode body =
    (case Unmarshal decode body of None \<Rightarrow> None | Some v \<Rightarrow>
     (case into_map v of None \<Rightarrow> None
      | Some kvs \<Rightarrow> find (\<lambda>key. list_ex (\<lambda>banned. EqualFold key banned) credentialFields) (map fst kvs)))"

datatype reg_problem =
    RegBodyTooLarge | CredentialInPayload string | NotRegistration | RegBodyTrailing
  | NameRequired | NameInvalid string
  | EndpointRequired | EndpointInvalid | EndpointNotHttps | EndpointNoHost | EndpointEmbedsCredentials
  | CANotPEM | CANoCertificate | ProviderUnlisted | TrustConfigRequired | StateUnlisted
  | LabelKeyInvalid string string | LabelValueInvalid string string | LabelReserved string
  | ReporterIssuerRequired | ReporterIssuerInvalid | ReporterIssuerNotHttps | ReporterIssuerNoHost
  | ReporterIssuerQuery | ReporterSubjectRequired
  | NotStateChange | StateBodyTrailing | StateRequired | StateGot string

definition decodeRegistration ::
  "(string \<Rightarrow> (json \<times> string) option) \<Rightarrow> string \<Rightarrow> reg_problem + clusterRegistration" where
  "decodeRegistration decode body =
    (if length body > maxRegistrationBytes then Inl RegBodyTooLarge
     else (case findCredentialField decode body of
       Some field \<Rightarrow> Inl (CredentialInPayload field)
     | None \<Rightarrow>
       (case decode body of
          None \<Rightarrow> Inl NotRegistration
        | Some (v, rest) \<Rightarrow>
          (case into_clusterRegistration v of
             None \<Rightarrow> Inl NotRegistration
           | Some reg \<Rightarrow> if dec_More rest then Inl RegBodyTrailing else Inr reg))))"

section \<open>Validation\<close>

definition validateEndpoint :: "(string \<Rightarrow> URL option) \<Rightarrow> string \<Rightarrow> reg_problem list" where
  "validateEndpoint parse ep =
    (if ep = '''' then [EndpointRequired]
     else (case parse ep of
       None \<Rightarrow> [EndpointInvalid]
     | Some u \<Rightarrow>
       (if url_scheme u \<noteq> ''https'' then [EndpointNotHttps] else []) @
       (if url_host u = '''' then [EndpointNoHost] else []) @
       (if url_user u then [EndpointEmbedsCredentials] else [])))"

function pem_certs :: "(string \<Rightarrow> (string \<times> nat) option) \<Rightarrow> string \<Rightarrow> nat option" where
  "pem_certs pem rest =
    (if rest = '''' then Some 0
     else (case pem rest of
       None \<Rightarrow> None
     | Some (ty, n) \<Rightarrow>
       map_option (\<lambda>k. if ty = ''CERTIFICATE'' then Suc k else k) (pem_certs pem (drop (Suc n) rest))))"
  by pat_completeness auto
termination
  by (relation "measure (\<lambda>(pem, rest). length rest)") auto

declare pem_certs.simps [simp del]

definition validateCABundle :: "(string \<Rightarrow> (string \<times> nat) option) \<Rightarrow> string \<Rightarrow> reg_problem list" where
  "validateCABundle pem bundle =
    (if bundle = '''' then []
     else (case pem_certs pem bundle of
       None \<Rightarrow> [CANotPEM]
     | Some n \<Rightarrow> if n = 0 then [CANoCertificate] else []))"

definition isReservedLabel :: "string \<Rightarrow> bool" where
  "isReservedLabel key =
    (case go_cut (CHR ''/'') key of
       (domain, _, ok) \<Rightarrow> ok \<and> (domain = reservedLabelPrefix \<or> has_suffix domain (CHR ''.'' # reservedLabelPrefix)))"

record label_checks =
  isQualifiedName :: "string \<Rightarrow> string list"
  isValidLabelValue :: "string \<Rightarrow> string list"
  isDNS1123Subdomain :: "string \<Rightarrow> string list"

definition validateLabels :: "label_checks \<Rightarrow> labels \<Rightarrow> reg_problem list" where
  "validateLabels k ls =
    concat (map (\<lambda>(key, val). map (LabelKeyInvalid key) (isQualifiedName k key) @
      map (LabelValueInvalid key) (isValidLabelValue k val) @ (if isReservedLabel key then [LabelReserved key] else [])) ls)"

definition validateReporter :: "(string \<Rightarrow> URL option) \<Rightarrow> reporterPayload option \<Rightarrow> reg_problem list" where
  "validateReporter parse rp =
    (case rp of None \<Rightarrow> [] | Some r \<Rightarrow>
      (if rp_issuer r = '''' then [ReporterIssuerRequired]
       else (case parse (rp_issuer r) of
         None \<Rightarrow> [ReporterIssuerInvalid]
       | Some u \<Rightarrow>
         if url_scheme u \<noteq> ''https'' then [ReporterIssuerNotHttps]
         else if url_host u = '''' then [ReporterIssuerNoHost]
         else if url_rawQuery u \<noteq> '''' \<or> url_fragment u \<noteq> '''' then [ReporterIssuerQuery]
         else [])) @
      (if rp_subject r = '''' then [ReporterSubjectRequired] else []))"

definition validate_registration ::
  "(string \<Rightarrow> URL option) \<Rightarrow> (string \<Rightarrow> (string \<times> nat) option) \<Rightarrow> label_checks \<Rightarrow> clusterRegistration \<Rightarrow> reg_problem list" where
  "validate_registration parse pem k reg =
    (if reg_name reg = '''' then [NameRequired] else map NameInvalid (isDNS1123Subdomain k (reg_name reg))) @
    validateEndpoint parse (reg_endpoint reg) @
    validateCABundle pem (reg_caBundle reg) @
    (if reg_provider reg \<in> {ProviderEKS, ProviderGKE, ProviderAKS, ProviderGeneric} then [] else [ProviderUnlisted]) @
    (if reg_trustConfigRef reg = '''' then [TrustConfigRequired] else []) @
    (if reg_state reg \<in> {'''', ClusterStateLive, ClusterStateDark, ClusterStateDraining} then [] else [StateUnlisted]) @
    validateLabels k (reg_labels reg) @
    validateReporter parse (reg_reporter reg)"

section \<open>Conversions\<close>

definition toAPI :: "reporterPayload option \<Rightarrow> ReporterIdentity option" where
  "toAPI = map_option (\<lambda>r. \<lparr>reporter_issuer = rp_issuer r, reporter_subject = rp_subject r\<rparr>)"

definition newReporterPayload :: "ReporterIdentity option \<Rightarrow> reporterPayload option" where
  "newReporterPayload = map_option (\<lambda>r. \<lparr>rp_issuer = reporter_issuer r, rp_subject = reporter_subject r\<rparr>)"

definition toCluster :: "string \<Rightarrow> clusterRegistration \<Rightarrow> Cluster" where
  "toCluster ns reg =
    \<lparr>cl_name = reg_name reg, cl_namespace = ns, cl_labels = reg_labels reg, cl_generation = 0, cl_created = zero_time,
     cl_spec = \<lparr>endpoint = reg_endpoint reg, caBundle = reg_caBundle reg, provider = reg_provider reg,
       trustConfigRef = reg_trustConfigRef reg, reporter = toAPI (reg_reporter reg),
       state = (if reg_state reg = '''' then ClusterStateLive else reg_state reg)\<rparr>,
     cl_status = \<lparr>observedState = '''', cl_observedGeneration = 0, stateSince = None, cl_conditions = []\<rparr>\<rparr>"

definition newClusterResponse :: "Cluster \<Rightarrow> clusterResponse" where
  "newClusterResponse cl =
    \<lparr>clr_name = cl_name cl, clr_endpoint = endpoint (cl_spec cl), clr_caBundle = caBundle (cl_spec cl),
     clr_provider = provider (cl_spec cl), clr_trustConfigRef = trustConfigRef (cl_spec cl), clr_labels = cl_labels cl,
     clr_state = state (cl_spec cl), clr_reporter = newReporterPayload (reporter (cl_spec cl)),
     clr_observedState = observedState (cl_status cl), clr_stateSince = stateSince (cl_status cl),
     clr_createdAt = cl_created cl\<rparr>"

section \<open>The routes\<close>

text \<open>
  The Kubernetes client. A read may be served from a cache. \<open>Create\<close> and \<open>Patch\<close> store the object the server answers with into
  their argument. \<open>ccPatch original modified\<close> is a merge patch of the difference.
\<close>

record 's cluster_client =
  ccGet :: "'s \<Rightarrow> string \<Rightarrow> string \<Rightarrow> api_error + Cluster"
  ccList :: "'s \<Rightarrow> string \<Rightarrow> (labels \<Rightarrow> bool) \<Rightarrow> api_error + Cluster list"
  ccCreate :: "'s \<Rightarrow> Cluster \<Rightarrow> (api_error + Cluster) \<times> 's"
  ccPatch :: "'s \<Rightarrow> Cluster \<Rightarrow> Cluster \<Rightarrow> (api_error + Cluster) \<times> 's"

record 's registry_env =
  re_client :: "'s cluster_client option"
  re_ns :: string
  re_decode :: "string \<Rightarrow> (json \<times> string) option"
  re_parseURL :: "string \<Rightarrow> URL option"
  re_pem :: "string \<Rightarrow> (string \<times> nat) option"
  re_checks :: label_checks
  re_parseSelector :: "string \<Rightarrow> (labels \<Rightarrow> bool) option"

datatype registry_body =
    RegistryError string | RegistryProblems "reg_problem list"
  | OneCluster clusterResponse | ManyClusters "clusterResponse list"

record registry_response =
  rgr_status :: int
  rgr_body :: registry_body

definition registry_error :: "int \<Rightarrow> string \<Rightarrow> registry_response" where
  "registry_error status msg = \<lparr>rgr_status = status, rgr_body = RegistryError msg\<rparr>"

definition read_registration :: "'s registry_env \<Rightarrow> string \<Rightarrow> reg_problem list + clusterRegistration" where
  "read_registration env body =
    (case decodeRegistration (re_decode env) body of
       Inl p \<Rightarrow> Inl [p]
     | Inr reg \<Rightarrow>
       (let problems = validate_registration (re_parseURL env) (re_pem env) (re_checks env) reg
        in if problems = [] then Inr reg else Inl problems))"

definition handleRegisterCluster :: "'s registry_env \<Rightarrow> 's \<Rightarrow> string \<Rightarrow> registry_response \<times> 's" where
  "handleRegisterCluster env s body =
    (case re_client env of
       None \<Rightarrow> (registry_error 503 ''registry unavailable'', s)
     | Some c \<Rightarrow>
       (case read_registration env body of
          Inl problems \<Rightarrow> (\<lparr>rgr_status = 400, rgr_body = RegistryProblems problems\<rparr>, s)
        | Inr reg \<Rightarrow>
          (case ccCreate c s (toCluster (re_ns env) reg) of
             (Inl e, s') \<Rightarrow>
               (if IsAlreadyExists e then registry_error 409 ''a cluster with that name is already registered''
                else registry_error 500 ''internal error'', s')
           | (Inr cl, s') \<Rightarrow> (\<lparr>rgr_status = 201, rgr_body = OneCluster (newClusterResponse cl)\<rparr>, s'))))"

definition handleListClusters :: "'s registry_env \<Rightarrow> 's \<Rightarrow> string \<Rightarrow> registry_response" where
  "handleListClusters env s raw =
    (case re_client env of
       None \<Rightarrow> registry_error 503 ''registry unavailable''
     | Some c \<Rightarrow>
       (case (if raw \<noteq> '''' then re_parseSelector env raw else Some (\<lambda>_. True)) of
          None \<Rightarrow> registry_error 400 ''labelSelector is not a valid Kubernetes label selector''
        | Some sel \<Rightarrow>
          (case ccList c s (re_ns env) sel of
             Inl e \<Rightarrow> registry_error 500 ''internal error''
           | Inr cls \<Rightarrow> \<lparr>rgr_status = 200, rgr_body = ManyClusters (map newClusterResponse cls)\<rparr>)))"

definition get_error :: "api_error \<Rightarrow> registry_response" where
  "get_error e = (if IsNotFound e then registry_error 404 ''no such cluster'' else registry_error 500 ''internal error'')"

definition handleGetCluster :: "'s registry_env \<Rightarrow> 's \<Rightarrow> string \<Rightarrow> registry_response" where
  "handleGetCluster env s nm =
    (case re_client env of
       None \<Rightarrow> registry_error 503 ''registry unavailable''
     | Some c \<Rightarrow>
       (case ccGet c s (re_ns env) nm of
          Inl e \<Rightarrow> get_error e
        | Inr cl \<Rightarrow> \<lparr>rgr_status = 200, rgr_body = OneCluster (newClusterResponse cl)\<rparr>))"

section \<open>State changes\<close>

definition maxStateChangeBytes :: nat where "maxStateChangeBytes = 1024"

record stateChange =
  sc_state :: string

definition validate_state :: "stateChange \<Rightarrow> reg_problem + ClusterState" where
  "validate_state c =
    (if sc_state c \<in> {ClusterStateLive, ClusterStateDark, ClusterStateDraining} then Inr (sc_state c)
     else if sc_state c = '''' then Inl StateRequired
     else Inl (StateGot (sc_state c)))"

definition decodeStateChange :: "(string \<Rightarrow> (json \<times> string) option) \<Rightarrow> string \<Rightarrow> reg_problem + ClusterState" where
  "decodeStateChange decode body =
    (if length body > maxStateChangeBytes then Inl RegBodyTooLarge
     else (case decode body of
       None \<Rightarrow> Inl NotStateChange
     | Some (v, rest) \<Rightarrow>
       (case struct_pairs [''state''] v of
          None \<Rightarrow> Inl NotStateChange
        | Some ps \<Rightarrow>
          (case field_of into_string '''' ps ''state'' of
             None \<Rightarrow> Inl NotStateChange
           | Some st \<Rightarrow> if dec_More rest then Inl StateBodyTrailing else validate_state \<lparr>sc_state = st\<rparr>))))"

definition handleSetClusterState :: "'s registry_env \<Rightarrow> 's \<Rightarrow> string \<Rightarrow> string \<Rightarrow> registry_response \<times> 's" where
  "handleSetClusterState env s nm body =
    (case re_client env of
       None \<Rightarrow> (registry_error 503 ''registry unavailable'', s)
     | Some c \<Rightarrow>
       (case decodeStateChange (re_decode env) body of
          Inl p \<Rightarrow> (\<lparr>rgr_status = 400, rgr_body = RegistryProblems [p]\<rparr>, s)
        | Inr desired \<Rightarrow>
          (case ccGet c s (re_ns env) nm of
             Inl e \<Rightarrow> (get_error e, s)
           | Inr cl \<Rightarrow>
             (case ccPatch c s cl (cl\<lparr>cl_spec := (cl_spec cl)\<lparr>state := desired\<rparr>\<rparr>) of
                (Inl e, s') \<Rightarrow> (registry_error 500 ''internal error'', s')
              | (Inr cl', s') \<Rightarrow> (\<lparr>rgr_status = 200, rgr_body = OneCluster (newClusterResponse cl')\<rparr>, s')))))"

section \<open>Lemmas\<close>

lemma struct_pairs_keys:
  assumes "struct_pairs names v = Some ps" and "into_map v = Some kvs" and "k \<in> set (map fst kvs)"
  shows "\<exists>n \<in> set names. EqualFold k n"
proof -
  from assms(3) obtain x where x: "(k, x) \<in> set kvs" by auto
  from assms(1,2) have "those (map (\<lambda>(k, x). map_option (\<lambda>n. (n, x)) (struct_key names k)) kvs) = Some ps"
    by (simp add: struct_pairs_def)
  with x have "struct_key names k \<noteq> None" by (induction kvs arbitrary: ps) (auto split: option.splits)
  then show ?thesis by (auto simp: struct_key_def EqualFold_def find_Some_iff split: if_splits)
qed

text \<open>No field of a registration has the name of a credential, in any case.\<close>

lemma fold_name_Cons:
  "of_char c < (128 :: nat) \<Longrightarrow> fold_name (c # cs) = lower c # fold_name cs"
  by (subst fold_name.simps) (auto simp: numeral_2_eq_2 numeral_3_eq_3)

lemma registration_carries_no_credential_field:
  "n \<in> set registration_fields \<Longrightarrow> b \<in> set credentialFields \<Longrightarrow> \<not> EqualFold n b"
  by (auto simp: registration_fields_def credentialFields_def EqualFold_def fold_name_Cons lower_def)

lemma no_credential_key:
  assumes "into_clusterRegistration v = Some reg"
  shows "\<exists>kvs. into_map v = Some kvs \<and> (\<forall>k \<in> set (map fst kvs). \<forall>b \<in> set credentialFields. \<not> EqualFold k b)"
proof -
  from assms obtain ps where p: "struct_pairs registration_fields v = Some ps"
    by (auto simp: into_clusterRegistration_def split: option.splits)
  then obtain kvs where k: "into_map v = Some kvs" by (auto simp: struct_pairs_def split: option.splits)
  have "\<not> EqualFold key b" if "key \<in> set (map fst kvs)" and "b \<in> set credentialFields" for key b
    using struct_pairs_keys [OF p k that(1)] registration_carries_no_credential_field [OF _ that(2)]
    by (metis EqualFold_def)
  with k show ?thesis by blast
qed

text \<open>What a registration that passes validation has.\<close>

definition vetted :: "(string \<Rightarrow> URL option) \<Rightarrow> Cluster \<Rightarrow> bool" where
  "vetted parse cl \<longleftrightarrow>
    (\<exists>u. parse (endpoint (cl_spec cl)) = Some u \<and> url_scheme u = ''https'' \<and> url_host u \<noteq> '''' \<and> \<not> url_user u) \<and>
    provider (cl_spec cl) \<in> {ProviderEKS, ProviderGKE, ProviderAKS, ProviderGeneric} \<and>
    trustConfigRef (cl_spec cl) \<noteq> '''' \<and>
    state (cl_spec cl) \<in> {ClusterStateLive, ClusterStateDark, ClusterStateDraining} \<and>
    (\<forall>(key, val) \<in> set (cl_labels cl). \<not> isReservedLabel key) \<and>
    (\<forall>rep. reporter (cl_spec cl) = Some rep \<longrightarrow>
      validateIssuerURL parse (reporter_issuer rep) = None \<and> reporter_subject rep \<noteq> '''')"

lemma validateReporter_nil:
  "validateReporter parse rp = [] \<longleftrightarrow>
    (\<forall>r. rp = Some r \<longrightarrow> validateIssuerURL parse (rp_issuer r) = None \<and> rp_subject r \<noteq> '''')"
  by (auto simp: validateReporter_def validateIssuerURL_def split: option.splits if_splits)

lemma validate_vetted:
  assumes "validate_registration parse pem k reg = []"
  shows "vetted parse (toCluster ns reg)"
proof -
  from assms have "validateEndpoint parse (reg_endpoint reg) = []" "validateReporter parse (reg_reporter reg) = []"
    "validateLabels k (reg_labels reg) = []"
    and r: "reg_provider reg \<in> {ProviderEKS, ProviderGKE, ProviderAKS, ProviderGeneric}" "reg_trustConfigRef reg \<noteq> ''''"
      "reg_state reg \<in> {'''', ClusterStateLive, ClusterStateDark, ClusterStateDraining}"
    by (simp_all add: validate_registration_def split: if_splits)
  then have "\<exists>u. parse (reg_endpoint reg) = Some u \<and> url_scheme u = ''https'' \<and> url_host u \<noteq> '''' \<and> \<not> url_user u"
    and "\<forall>(key, val) \<in> set (reg_labels reg). \<not> isReservedLabel key"
    and "\<forall>r. reg_reporter reg = Some r \<longrightarrow> validateIssuerURL parse (rp_issuer r) = None \<and> rp_subject r \<noteq> ''''"
    by (auto simp: validateEndpoint_def validateLabels_def validateReporter_nil split: if_splits option.splits)
  with r show ?thesis by (auto simp: vetted_def toCluster_def toAPI_def)
qed

lemma read_registration_Inr:
  assumes "read_registration env body = Inr reg"
  shows "\<exists>v rest kvs. re_decode env body = Some (v, rest) \<and> into_clusterRegistration v = Some reg \<and> into_map v = Some kvs \<and>
    (\<forall>k \<in> set (map fst kvs). \<forall>b \<in> set credentialFields. \<not> EqualFold k b) \<and> length body \<le> maxRegistrationBytes \<and>
    vetted (re_parseURL env) (toCluster (re_ns env) reg)"
proof -
  from assms have d: "decodeRegistration (re_decode env) body = Inr reg"
    and v: "validate_registration (re_parseURL env) (re_pem env) (re_checks env) reg = []"
    by (auto simp: read_registration_def Let_def split: sum.splits if_splits)
  from d obtain v rest where j: "re_decode env body = Some (v, rest)" "into_clusterRegistration v = Some reg"
    and "length body \<le> maxRegistrationBytes"
    by (auto simp: decodeRegistration_def split: if_splits option.splits)
  with no_credential_key [OF j(2)] validate_vetted [OF v] show ?thesis by blast
qed

section \<open>The merge patch\<close>

text \<open>
  What a merge patch of one changed state does, as its documentation has it: the fields in which the original and the modified
  object agree are not part of the patch, and the server applies it to the object it holds, \<open>server s\<close>.
\<close>

definition merge_patch_doc :: "('s \<Rightarrow> string \<Rightarrow> string \<Rightarrow> Cluster option) \<Rightarrow> 's cluster_client \<Rightarrow> bool" where
  "merge_patch_doc server c \<longleftrightarrow>
    (\<forall>s orig st cl' s'. ccPatch c s orig (orig\<lparr>cl_spec := (cl_spec orig)\<lparr>state := st\<rparr>\<rparr>) = (Inr cl', s') \<longrightarrow>
      (\<exists>held. server s (cl_namespace orig) (cl_name orig) = Some held \<and> cl_labels cl' = cl_labels held \<and>
        cl_spec cl' = (if state (cl_spec orig) = st then cl_spec held else (cl_spec held)\<lparr>state := st\<rparr>) \<and>
        server s' (cl_namespace orig) (cl_name orig) = Some cl'))"

definition get_by_key :: "'s cluster_client \<Rightarrow> bool" where
  "get_by_key c \<longleftrightarrow> (\<forall>s ns nm cl. ccGet c s ns nm = Inr cl \<longrightarrow> cl_namespace cl = ns \<and> cl_name cl = nm)"

lemma decodeStateChange_Inr:
  "decodeStateChange decode body = Inr desired \<Longrightarrow> desired \<in> {ClusterStateLive, ClusterStateDark, ClusterStateDraining}"
  by (auto simp: decodeStateChange_def validate_state_def split: if_splits option.splits)

lemma handleSetClusterState_200:
  assumes "handleSetClusterState env s nm body = (rsp, s')" and "rgr_status rsp = 200" and "re_client env = Some c"
  shows "\<exists>desired cached cl'. decodeStateChange (re_decode env) body = Inr desired \<and> ccGet c s (re_ns env) nm = Inr cached \<and>
    ccPatch c s cached (cached\<lparr>cl_spec := (cl_spec cached)\<lparr>state := desired\<rparr>\<rparr>) = (Inr cl', s') \<and>
    rgr_body rsp = OneCluster (newClusterResponse cl')"
  using assms
  by (auto simp: handleSetClusterState_def registry_error_def get_error_def split: option.splits sum.splits prod.splits if_splits)

section \<open>Histories of the registry\<close>

datatype registry_op = Register string | SetState string string

definition registry_exec :: "'s registry_env \<Rightarrow> 's \<Rightarrow> registry_op \<Rightarrow> 's" where
  "registry_exec env s oper =
    (case oper of Register body \<Rightarrow> snd (handleRegisterCluster env s body) | SetState nm body \<Rightarrow> snd (handleSetClusterState env s nm body))"

definition registry_run :: "'s registry_env \<Rightarrow> 's \<Rightarrow> registry_op list \<Rightarrow> 's" where
  "registry_run env = foldl (registry_exec env)"

text \<open>
  The rest of what the API server promises: a create stores the labels and the spec it is given under a fresh key, neither call touches
  another key, and a call that fails changes nothing.
\<close>

definition store_documented :: "('s \<Rightarrow> string \<Rightarrow> string \<Rightarrow> Cluster option) \<Rightarrow> 's cluster_client \<Rightarrow> bool" where
  "store_documented server c \<longleftrightarrow> merge_patch_doc server c \<and> get_by_key c \<and>
    (\<forall>s cl e s'. ccCreate c s cl = (Inl e, s') \<longrightarrow> server s' = server s) \<and>
    (\<forall>s cl cl' s'. ccCreate c s cl = (Inr cl', s') \<longrightarrow> cl_labels cl' = cl_labels cl \<and> cl_spec cl' = cl_spec cl \<and>
      (\<forall>ns nm. server s' ns nm = (if ns = cl_namespace cl \<and> nm = cl_name cl then Some cl' else server s ns nm))) \<and>
    (\<forall>s x y e s'. ccPatch c s x y = (Inl e, s') \<longrightarrow> server s' = server s) \<and>
    (\<forall>s x y cl' s' ns nm. ccPatch c s x y = (Inr cl', s') \<and> (ns, nm) \<noteq> (cl_namespace x, cl_name x) \<longrightarrow> server s' ns nm = server s ns nm)"

definition all_vetted :: "(string \<Rightarrow> URL option) \<Rightarrow> ('s \<Rightarrow> string \<Rightarrow> string \<Rightarrow> Cluster option) \<Rightarrow> 's \<Rightarrow> bool" where
  "all_vetted parse server s \<longleftrightarrow> (\<forall>ns nm cl. server s ns nm = Some cl \<longrightarrow> vetted parse cl)"

lemma vetted_cong: "cl_labels cl' = cl_labels cl \<Longrightarrow> cl_spec cl' = cl_spec cl \<Longrightarrow> vetted parse cl' = vetted parse cl"
  by (simp add: vetted_def)

lemma vetted_state:
  "vetted parse cl \<Longrightarrow> cl_labels cl' = cl_labels cl \<Longrightarrow> cl_spec cl' = (cl_spec cl)\<lparr>state := st\<rparr> \<Longrightarrow>
    st \<in> {ClusterStateLive, ClusterStateDark, ClusterStateDraining} \<Longrightarrow> vetted parse cl'"
  by (simp add: vetted_def)

lemma register_keeps_vetted:
  assumes "re_client env = Some c" and "store_documented server c" and "all_vetted (re_parseURL env) server s"
  shows "all_vetted (re_parseURL env) server (snd (handleRegisterCluster env s body))"
proof (cases "read_registration env body")
  case (Inl problems)
  with assms show ?thesis by (simp add: handleRegisterCluster_def)
next
  case (Inr reg)
  let ?cl = "toCluster (re_ns env) reg"
  have v: "vetted (re_parseURL env) ?cl" using read_registration_Inr [OF Inr] by blast
  obtain out s' where o: "ccCreate c s ?cl = (out, s')" by (rule prod.exhaust)
  with assms(1) Inr have s': "snd (handleRegisterCluster env s body) = s'"
    by (cases out) (simp_all add: handleRegisterCluster_def)
  show ?thesis
  proof (cases out)
    case (Inl e)
    with o assms(2) have "server s' = server s" by (auto simp: store_documented_def)
    with assms(3) show ?thesis by (simp add: s' all_vetted_def)
  next
    case (Inr cl')
    with o assms(2) have "cl_labels cl' = cl_labels ?cl" "cl_spec cl' = cl_spec ?cl"
      and k: "server s' ns nm = (if ns = cl_namespace ?cl \<and> nm = cl_name ?cl then Some cl' else server s ns nm)" for ns nm
      unfolding store_documented_def by blast+
    with v vetted_cong have "vetted (re_parseURL env) cl'" by blast
    with assms(3) show ?thesis by (simp add: s' all_vetted_def k)
  qed
qed

lemma set_state_keeps_vetted:
  assumes "re_client env = Some c" and "store_documented server c" and "all_vetted (re_parseURL env) server s"
  shows "all_vetted (re_parseURL env) server (snd (handleSetClusterState env s nm body))"
proof (cases "decodeStateChange (re_decode env) body")
  case (Inl p)
  with assms show ?thesis by (simp add: handleSetClusterState_def)
next
  case (Inr desired)
  note desired = decodeStateChange_Inr [OF Inr]
  show ?thesis
  proof (cases "ccGet c s (re_ns env) nm")
    case (Inl e)
    with Inr assms show ?thesis by (simp add: handleSetClusterState_def)
  next
    case get: (Inr cached)
    let ?m = "cached\<lparr>cl_spec := (cl_spec cached)\<lparr>state := desired\<rparr>\<rparr>"
    obtain out s' where o: "ccPatch c s cached ?m = (out, s')" by (rule prod.exhaust)
    have s': "snd (handleSetClusterState env s nm body) = s'"
      by (cases out) (simp_all add: handleSetClusterState_def assms(1) Inr get o)
    show ?thesis
    proof (cases out)
      case (Inl e)
      with o assms(2) have "server s' = server s" unfolding store_documented_def by blast
      with assms(3) show ?thesis by (simp add: s' all_vetted_def)
    next
      case (Inr cl')
      with o have p: "ccPatch c s cached ?m = (Inr cl', s')" by simp
      have "merge_patch_doc server c" using assms(2) by (simp add: store_documented_def)
      with p obtain held where h: "server s (cl_namespace cached) (cl_name cached) = Some held"
        "cl_labels cl' = cl_labels held" "server s' (cl_namespace cached) (cl_name cached) = Some cl'"
        "cl_spec cl' = (if state (cl_spec cached) = desired then cl_spec held else (cl_spec held)\<lparr>state := desired\<rparr>)"
        unfolding merge_patch_doc_def by blast
      have k: "server s' ns n = server s ns n" if "(ns, n) \<noteq> (cl_namespace cached, cl_name cached)" for ns n
        using that p assms(2) unfolding store_documented_def by blast
      from assms(3) h(1) have "vetted (re_parseURL env) held" by (auto simp: all_vetted_def)
      with h desired have "vetted (re_parseURL env) cl'" by (metis vetted_cong vetted_state)
      with assms(3) h(3) k show ?thesis unfolding s' all_vetted_def by (metis option.inject prod.inject)
    qed
  qed
qed

section \<open>Properties\<close>

text \<open>
  C31. Only a vetted cell is registered. An answer of 201 means that the payload was within its size, had no top-level key that names authentication
  material in any spelling of its case (the keys inside labels are free), and that the object handed to the API server is in the hub's namespace, with an https
  endpoint without user information, a known provider and state, a trust configuration, no label under the reserved prefix,
  and no reporter or a complete one whose issuer the authenticator's own rules accept. Whatever the answer, nothing else is
  ever created, and a refused payload leaves the API server as it was.
\<close>

theorem only_vetted_cells_are_registered:
  assumes "handleRegisterCluster env s body = (rsp, s')"
  shows "(s' = s \<and> rgr_status rsp \<in> {400, 503}) \<or>
    (\<exists>c reg v rest kvs out. re_client env = Some c \<and> ccCreate c s (toCluster (re_ns env) reg) = (out, s') \<and>
      (rgr_status rsp = 201 \<longleftrightarrow> (\<exists>cl. out = Inr cl)) \<and>
      re_decode env body = Some (v, rest) \<and> into_clusterRegistration v = Some reg \<and> into_map v = Some kvs \<and>
      (\<forall>k \<in> set (map fst kvs). \<forall>b \<in> set credentialFields. \<not> EqualFold k b) \<and> length body \<le> maxRegistrationBytes \<and>
      vetted (re_parseURL env) (toCluster (re_ns env) reg))"
proof (cases "re_client env")
  case None
  with assms show ?thesis by (auto simp: handleRegisterCluster_def registry_error_def)
next
  case (Some c)
  show ?thesis
  proof (cases "read_registration env body")
    case (Inl problems)
    with assms Some show ?thesis by (auto simp: handleRegisterCluster_def)
  next
    case (Inr reg)
    obtain out s'' where o: "ccCreate c s (toCluster (re_ns env) reg) = (out, s'')" by force
    with assms Some Inr have "s'' = s'" "rgr_status rsp = 201 \<longleftrightarrow> (\<exists>cl. out = Inr cl)"
      by (auto simp: handleRegisterCluster_def registry_error_def split: sum.splits if_splits)
    with o Some read_registration_Inr [OF Inr] show ?thesis by blast
  qed
qed

text \<open>
  C32. A state change is narrow. When the API server answers a merge patch as documented, a successful change alters no field
  but the state of the object the server holds at that moment, however stale the cache it was computed from, and when the
  cached state is not the one asked for, or is the one the server holds, the cell ends in the state asked for.
\<close>

theorem state_change_is_narrow:
  assumes "re_client env = Some c" and "merge_patch_doc server c" and "get_by_key c"
    and "handleSetClusterState env s nm body = (rsp, s')" and "rgr_status rsp = 200"
  shows "\<exists>desired cached held cl'. decodeStateChange (re_decode env) body = Inr desired \<and>
    desired \<in> {ClusterStateLive, ClusterStateDark, ClusterStateDraining} \<and>
    ccGet c s (re_ns env) nm = Inr cached \<and> server s (re_ns env) nm = Some held \<and> server s' (re_ns env) nm = Some cl' \<and>
    rgr_body rsp = OneCluster (newClusterResponse cl') \<and> cl_labels cl' = cl_labels held \<and>
    cl_spec cl' = (cl_spec held)\<lparr>state := state (cl_spec cl')\<rparr> \<and>
    (state (cl_spec cached) \<noteq> desired \<or> state (cl_spec cached) = state (cl_spec held) \<longrightarrow> state (cl_spec cl') = desired)"
proof -
  from handleSetClusterState_200 [OF assms(4,5,1)] obtain desired cached cl' where
    h: "decodeStateChange (re_decode env) body = Inr desired" "ccGet c s (re_ns env) nm = Inr cached"
      "ccPatch c s cached (cached\<lparr>cl_spec := (cl_spec cached)\<lparr>state := desired\<rparr>\<rparr>) = (Inr cl', s')"
      "rgr_body rsp = OneCluster (newClusterResponse cl')" by blast
  from assms(3) h(2) have k: "cl_namespace cached = re_ns env" "cl_name cached = nm" by (auto simp: get_by_key_def)
  from assms(2) h(3) k obtain held where
    "server s (re_ns env) nm = Some held" "cl_labels cl' = cl_labels held" "server s' (re_ns env) nm = Some cl'"
    and p: "cl_spec cl' = (if state (cl_spec cached) = desired then cl_spec held else (cl_spec held)\<lparr>state := desired\<rparr>)"
    unfolding merge_patch_doc_def by metis
  moreover from p have "cl_spec cl' = (cl_spec held)\<lparr>state := state (cl_spec cl')\<rparr>"
    "state (cl_spec cached) \<noteq> desired \<or> state (cl_spec cached) = state (cl_spec held) \<longrightarrow> state (cl_spec cl') = desired"
    by auto
  ultimately show ?thesis using h decodeStateChange_Inr [OF h(1)] by blast
qed

text \<open>
  The registry is well typed in every history. Over an API server that keeps its documented promises, whatever registrations and state changes
  arrive through the hub, in whatever order and with whatever bodies, every cell held stays one that registration would have let
  through: an https endpoint without user information, a known provider and one of the three states, a trust configuration, no label
  under the reserved prefix, no reporter or a complete one.
\<close>

theorem registry_stays_vetted:
  assumes "re_client env = Some c" and "store_documented server c" and "all_vetted (re_parseURL env) server s"
  shows "all_vetted (re_parseURL env) server (registry_run env s ops)"
  using assms(3)
proof (induction ops arbitrary: s)
  case Nil
  then show ?case by (simp add: registry_run_def)
next
  case (Cons oper ops)
  then have "all_vetted (re_parseURL env) server (registry_exec env s oper)"
    using register_keeps_vetted [OF assms(1,2)] set_state_keeps_vetted [OF assms(1,2)]
    by (simp add: registry_exec_def split: registry_op.split)
  with Cons.IH show ?case by (simp add: registry_run_def)
qed

section \<open>Witnesses\<close>

text \<open>An API server with what it holds and what the hub's cache shows of it.\<close>

type_synonym cluster_store = "(string \<times> string \<Rightarrow> Cluster option) \<times> (string \<times> string \<Rightarrow> Cluster option)"

definition sample_store_client :: "cluster_store cluster_client" where
  "sample_store_client = \<lparr>
    ccGet = (\<lambda>s ns nm. case snd s (ns, nm) of
      Some cl \<Rightarrow> if cl_namespace cl = ns \<and> cl_name cl = nm then Inr cl else Inl (ApiError OtherApiError '''')
    | None \<Rightarrow> Inl (ApiError NotFound '''')),
    ccList = (\<lambda>s ns sel. Inr []),
    ccCreate = (\<lambda>s cl. case fst s (cl_namespace cl, cl_name cl) of
      Some held \<Rightarrow> (Inl (ApiError AlreadyExists ''''), s)
    | None \<Rightarrow> (Inr cl, ((fst s)((cl_namespace cl, cl_name cl) \<mapsto> cl), snd s))),
    ccPatch = (\<lambda>s orig m. case fst s (cl_namespace orig, cl_name orig) of
      None \<Rightarrow> (Inl (ApiError NotFound ''''), s)
    | Some held \<Rightarrow>
      (let cl' = (if state (cl_spec orig) = state (cl_spec m) then held else held\<lparr>cl_spec := (cl_spec held)\<lparr>state := state (cl_spec m)\<rparr>\<rparr>)
       in (Inr cl', ((fst s)((cl_namespace orig, cl_name orig) \<mapsto> cl'), snd s))))\<rparr>"

definition sample_held :: "cluster_store \<Rightarrow> string \<Rightarrow> string \<Rightarrow> Cluster option" where
  "sample_held s ns nm = fst s (ns, nm)"

definition sample_registry :: "json \<Rightarrow> cluster_store registry_env" where
  "sample_registry v = \<lparr>re_client = Some sample_store_client, re_ns = ''cellcast'', re_decode = (\<lambda>_. Some (v, '''')),
    re_parseURL = (\<lambda>_. Some \<lparr>url_scheme = ''https'', url_host = ''blue'', url_user = False, url_rawQuery = '''', url_fragment = ''''\<rparr>),
    re_pem = (\<lambda>_. None), re_checks = \<lparr>isQualifiedName = (\<lambda>_. []), isValidLabelValue = (\<lambda>_. []), isDNS1123Subdomain = (\<lambda>_. [])\<rparr>,
    re_parseSelector = (\<lambda>_. None)\<rparr>"

definition sample_reg :: clusterRegistration where
  "sample_reg = \<lparr>reg_name = ''blue'', reg_endpoint = ''https://blue'', reg_caBundle = '''', reg_provider = ''eks'',
    reg_trustConfigRef = ''t'', reg_labels = [], reg_state = '''', reg_reporter = None\<rparr>"

definition sample_reg_json :: json where
  "sample_reg_json = JObj [(''name'', JStr ''blue''), (''endpoint'', JStr ''https://blue''), (''provider'', JStr ''eks''),
    (''trustConfigRef'', JStr ''t'')]"

definition blue_in :: "ClusterState \<Rightarrow> Cluster" where
  "blue_in st = toCluster ''cellcast'' (sample_reg\<lparr>reg_state := st\<rparr>)"

definition sample_cluster_store :: "ClusterState \<Rightarrow> ClusterState \<Rightarrow> cluster_store" where
  "sample_cluster_store h c = ([(''cellcast'', ''blue'') \<mapsto> blue_in h], [(''cellcast'', ''blue'') \<mapsto> blue_in c])"

lemma sample_store_client_documented: "merge_patch_doc sample_held sample_store_client" "get_by_key sample_store_client"
  by (auto simp: merge_patch_doc_def get_by_key_def sample_store_client_def sample_held_def Let_def split: option.splits if_splits)

lemma sample_reg_read: "into_clusterRegistration sample_reg_json = Some sample_reg"
  by (simp add: into_clusterRegistration_def sample_reg_json_def struct_pairs_def struct_key_def registration_fields_def
      field_of_def sample_reg_def)

lemma sample_registration:
  "fst (handleRegisterCluster (sample_registry sample_reg_json) (\<lambda>_. None, \<lambda>_. None) ''{}'') =
    \<lparr>rgr_status = 201, rgr_body = OneCluster (newClusterResponse (toCluster ''cellcast'' sample_reg))\<rparr>"
proof -
  have "findCredentialField (re_decode (sample_registry sample_reg_json)) ''{}'' = None"
    by (auto simp: findCredentialField_def Unmarshal_def sample_registry_def sample_reg_json_def credentialFields_def EqualFold_def
        fold_name_Cons lower_def)
  then have "read_registration (sample_registry sample_reg_json) ''{}'' = Inr sample_reg"
    by (simp add: read_registration_def decodeRegistration_def maxRegistrationBytes_def)
      (simp add: sample_registry_def sample_reg_read dec_More_def, simp add: sample_reg_def validate_registration_def
        validateEndpoint_def validateCABundle_def validateLabels_def validateReporter_def api_defs)
  then show ?thesis
    by (simp add: handleRegisterCluster_def) (simp add: sample_registry_def sample_store_client_def)
qed

theorem only_vetted_cells_are_registered_witness:
  "\<exists>rsp s' reg. handleRegisterCluster (sample_registry sample_reg_json) (\<lambda>_. None, \<lambda>_. None) ''{}'' = (rsp, s') \<and>
    rgr_status rsp = 201 \<and> vetted (re_parseURL (sample_registry sample_reg_json)) (toCluster ''cellcast'' reg)"
proof -
  obtain rsp s' where h: "handleRegisterCluster (sample_registry sample_reg_json) (\<lambda>_. None, \<lambda>_. None) ''{}'' = (rsp, s')" by (rule prod.exhaust)
  with sample_registration have "rgr_status rsp = 201" by simp
  with only_vetted_cells_are_registered [OF h] h show ?thesis by (auto simp: sample_registry_def)
qed

definition drain_request :: json where "drain_request = JObj [(''state'', JStr ''DRAINING'')]"

lemma drain_decoded: "decodeStateChange (re_decode (sample_registry drain_request)) ''{}'' = Inr ClusterStateDraining"
  by (simp add: decodeStateChange_def sample_registry_def maxStateChangeBytes_def drain_request_def struct_pairs_def
      struct_key_def field_of_def dec_More_def validate_state_def api_defs)

lemma drain_answer:
  "handleSetClusterState (sample_registry drain_request) (sample_cluster_store h c) ''blue'' ''{}'' = 
    (let cl' = (if state (cl_spec (blue_in c)) = ClusterStateDraining then blue_in h
        else (blue_in h)\<lparr>cl_spec := (cl_spec (blue_in h))\<lparr>state := ClusterStateDraining\<rparr>\<rparr>)
     in (\<lparr>rgr_status = 200, rgr_body = OneCluster (newClusterResponse cl')\<rparr>,
         ([(''cellcast'', ''blue'') \<mapsto> cl'], snd (sample_cluster_store h c))))"
proof -
  have n: "cl_namespace (blue_in x) = ''cellcast''" "cl_name (blue_in x) = ''blue''" for x
    by (simp_all add: blue_in_def toCluster_def sample_reg_def)
  show ?thesis unfolding handleSetClusterState_def drain_decoded
    by (simp add: sample_registry_def sample_store_client_def sample_cluster_store_def n Let_def)
qed

theorem state_change_is_narrow_witness:
  "\<exists>rsp s' cl'. handleSetClusterState (sample_registry drain_request) (sample_cluster_store ClusterStateDark ClusterStateLive) ''blue'' ''{}'' =
      (rsp, s') \<and> rgr_status rsp = 200 \<and> sample_held s' ''cellcast'' ''blue'' = Some cl' \<and> state (cl_spec cl') = ClusterStateDraining"
proof -
  obtain rsp s' where h: "handleSetClusterState (sample_registry drain_request) (sample_cluster_store ClusterStateDark ClusterStateLive)
      ''blue'' ''{}'' = (rsp, s')" by (rule prod.exhaust)
  then have r: "rgr_status rsp = 200" by (auto simp: drain_answer Let_def)
  have c: "re_client (sample_registry drain_request) = Some sample_store_client" by (simp add: sample_registry_def)
  from state_change_is_narrow [OF c sample_store_client_documented h r] obtain desired cached cl' where
    d: "decodeStateChange (re_decode (sample_registry drain_request)) ''{}'' = Inr desired"
    and g: "ccGet sample_store_client (sample_cluster_store ClusterStateDark ClusterStateLive) (re_ns (sample_registry drain_request)) ''blue'' = Inr cached"
    and l: "sample_held s' (re_ns (sample_registry drain_request)) ''blue'' = Some cl'"
    and st: "state (cl_spec cached) \<noteq> desired \<longrightarrow> state (cl_spec cl') = desired" by blast
  have "state (cl_spec cached) = ClusterStateLive"
    using g by (auto simp: sample_store_client_def sample_cluster_store_def sample_registry_def blue_in_def toCluster_def sample_reg_def)
  with d st have "state (cl_spec cl') = ClusterStateDraining" by (simp add: drain_decoded)
  with h r l show ?thesis by (auto simp: sample_registry_def)
qed

lemma sample_store_documented: "store_documented sample_held sample_store_client"
  using sample_store_client_documented
  by (auto simp: store_documented_def sample_store_client_def sample_held_def Let_def split: option.splits if_splits)

theorem registry_stays_vetted_witness:
  "all_vetted (re_parseURL (sample_registry sample_reg_json)) sample_held
    (registry_run (sample_registry sample_reg_json) (\<lambda>_. None, \<lambda>_. None) [Register ''{}'', SetState ''blue'' ''{}'', Register ''{}''])"
  by (rule registry_stays_vetted [OF _ sample_store_documented]) (simp_all add: sample_registry_def all_vetted_def sample_held_def)

text \<open>
  When the cache already shows the state asked for and the server no longer holds it, the patch is empty: the request is
  answered with 200 and the cell stays as it was.
\<close>

theorem stale_cache_loses_a_state_change:
  "\<exists>rsp s' cl'. handleSetClusterState (sample_registry drain_request) (sample_cluster_store ClusterStateLive ClusterStateDraining) ''blue'' ''{}'' =
      (rsp, s') \<and> rgr_status rsp = 200 \<and> sample_held s' ''cellcast'' ''blue'' = Some cl' \<and> state (cl_spec cl') = ClusterStateLive"
proof -
  have s: "state (cl_spec (blue_in ClusterStateDraining)) = ClusterStateDraining" "state (cl_spec (blue_in ClusterStateLive)) = ClusterStateLive"
    by (simp_all add: blue_in_def toCluster_def)
  show ?thesis unfolding drain_answer Let_def by (simp add: s sample_held_def)
qed

end
