(* ===== verification/Metrics.thy ===== *)
theory Metrics
  imports PlacementRoute
begin

text \<open>
  What Prometheus sees: \<open>internal/hub/metrics/metrics.go\<close> and \<open>collectors.go\<close>.

  A collector is a value of \<open>collector\<close>, and a call on it is a \<open>sample\<close>: an increment, an observation, a set. What the
  Prometheus client does with them is not modelled; the counters are read back by counting the samples. A nil
  \<open>*Metrics\<close> is \<^const>\<open>None\<close>. The two collectors that are read at scrape time return the constant metrics they send.
\<close>

section \<open>Collectors\<close>

datatype collector =
    CounterVec string "string list"
  | HistogramVec string "rat list" "string list"
  | Histogram string "rat list"
  | Gauge string

record Metrics =
  placementRequests :: collector
  placementDuration :: collector
  tokensMinted :: collector
  mintFailures :: collector
  tokenTTL_hist :: collector
  authRejections :: collector
  warm_gauge :: collector

definition hub_metrics :: Metrics where
  "hub_metrics =
    \<lparr>placementRequests = CounterVec ''cellcast_placement_requests_total'' [''outcome'', ''reason'', ''policy'', ''cell''],
     placementDuration = HistogramVec ''cellcast_placement_duration_seconds''
       [5 / 1000, 1 / 100, 25 / 1000, 5 / 100, 1 / 10, 1 / 4, 1 / 2, 1, 5 / 2, 5, 10] [''outcome''],
     tokensMinted = CounterVec ''cellcast_tokens_minted_total'' [''provider'', ''env''],
     mintFailures = CounterVec ''cellcast_mint_failures_total'' [''provider'', ''reason''],
     tokenTTL_hist = Histogram ''cellcast_token_ttl_seconds'' [600, 900, 1200, 1800, 2700, 3600, 7200, 14400, 28800],
     authRejections = CounterVec ''cellcast_auth_rejections_total'' [''reason''],
     warm_gauge = Gauge ''cellcast_hub_warm''\<rparr>"

text \<open>\<open>register\<close> is the \<open>Registerer\<close> of the client library, over its own state.\<close>

fun register_all ::
  "(collector \<Rightarrow> 'g \<Rightarrow> 'e option \<times> 'g) \<Rightarrow> collector list \<Rightarrow> 'g \<Rightarrow> 'e option \<times> 'g" where
  "register_all register [] g = (None, g)"
| "register_all register (c # cs) g =
    (case register c g of (Some e, g') \<Rightarrow> (Some e, g') | (None, g') \<Rightarrow> register_all register cs g')"

definition metrics_New :: "(collector \<Rightarrow> 'g \<Rightarrow> 'e option \<times> 'g) \<Rightarrow> 'g \<Rightarrow> ('e + Metrics) \<times> 'g" where
  "metrics_New register g =
    (let m = hub_metrics in
     case register_all register [placementRequests m, placementDuration m, tokensMinted m, mintFailures m,
         tokenTTL_hist m, authRejections m, warm_gauge m] g of
       (Some e, g') \<Rightarrow> (Inl e, g')
     | (None, g') \<Rightarrow> (Inr m, g'))"

datatype sample = Inc collector "string list" | Observe collector "string list" rat | SetGauge collector rat

definition Metrics_Notify :: "Metrics option \<Rightarrow> audit_Record \<Rightarrow> sample list" where
  "Metrics_Notify mo rec =
    (case mo of
       None \<Rightarrow> []
     | Some m \<Rightarrow>
       if au_event rec = EventPlacement
       then [Inc (placementRequests m) [au_outcome rec, au_reason rec, au_policy rec, au_cell rec]]
       else if au_event rec = EventMint then
         (if au_outcome rec \<noteq> OutcomeGranted then [Inc (mintFailures m) [au_provider rec, au_reason rec]]
          else [Inc (tokensMinted m) [au_provider rec, au_env rec],
                Observe (tokenTTL_hist m) [] (Seconds (au_grantedTTL rec))])
       else [])"

definition ObservePlacement :: "Metrics option \<Rightarrow> Outcome \<Rightarrow> duration \<Rightarrow> sample list" where
  "ObservePlacement mo outcome d =
    (case mo of None \<Rightarrow> [] | Some m \<Rightarrow> [Observe (placementDuration m) [outcome] (Seconds d)])"

definition SetWarm :: "Metrics option \<Rightarrow> bool \<Rightarrow> sample list" where
  "SetWarm mo warm = (case mo of None \<Rightarrow> [] | Some m \<Rightarrow> [SetGauge (warm_gauge m) (if warm then 1 else 0)])"

definition AuthRejected :: "Metrics option \<Rightarrow> string \<Rightarrow> sample list" where
  "AuthRejected mo reason = (case mo of None \<Rightarrow> [] | Some m \<Rightarrow> [Inc (authRejections m) [reason]])"

section \<open>The measured route\<close>

text \<open>
  A request through \<open>handlePlacement\<close> with its samples: one notification per record it left, and the deferred observation of
  the duration under the outcome the record had at return. Every exit of the handler audits last, so that outcome is the
  one of the last record.
\<close>

definition measuredPlacement ::
  "Metrics option \<Rightarrow> ('p, 'b) hub_env \<Rightarrow> ('p, 'b) Server \<Rightarrow> http_request \<Rightarrow> duration \<Rightarrow>
    http_response \<times> ('p, 'b) Server \<times> sample list" where
  "measuredPlacement mo env srv r took =
    (let (rsp, srv') = handlePlacement env srv r;
         recs = drop (length (srv_trail srv)) (srv_trail srv')
     in (rsp, srv', concat (map (Metrics_Notify mo) recs) @ ObservePlacement mo (au_outcome (last recs)) took))"

text \<open>A history of placement requests, each with the hub as it found it, the time it took, and its samples.\<close>

fun measured_run ::
  "Metrics option \<Rightarrow> (('p, 'b) hub_env \<times> http_request \<times> duration) list \<Rightarrow> ('p, 'b) Server \<Rightarrow>
    http_response list \<times> ('p, 'b) Server \<times> sample list" where
  "measured_run mo [] srv = ([], srv, [])"
| "measured_run mo ((env, r, took) # qs) srv =
    (let (rsp, srv1, out) = measuredPlacement mo env srv r took; (rsps, srv2, outs) = measured_run mo qs srv1
     in (rsp # rsps, srv2, out @ outs))"

section \<open>Scrape-time collectors\<close>

datatype desc = capacityRatioDesc | stalenessDesc | stalenessWindowDesc | clusterStateDesc

datatype const_metric = ConstMetric desc rat "string list"

definition capacity_Describe :: "desc list" where
  "capacity_Describe = [capacityRatioDesc, stalenessDesc, stalenessWindowDesc]"

text \<open>\<open>now\<close> is the collector's clock and \<open>snap\<close> the index's own, read a moment later.\<close>

definition capacity_Collect :: "Registry option \<Rightarrow> go_time \<Rightarrow> go_time \<Rightarrow> const_metric list" where
  "capacity_Collect idx now snap =
    (case idx of
       None \<Rightarrow> []
     | Some index \<Rightarrow>
       ConstMetric stalenessWindowDesc (Seconds (Staleness (opts index))) [] #
       concat (map (\<lambda>(cell, entry).
         ConstMetric stalenessDesc (Seconds (go_sub now (entry_observedAt entry))) [cell] #
         (if entry_health entry = HealthFresh then [ConstMetric capacityRatioDesc (entry_utilisation entry) [cell]] else []))
         (Snapshot index snap)))"

definition clusterState_Describe :: "desc list" where
  "clusterState_Describe = [clusterStateDesc]"

definition reported_states :: "ClusterState list" where
  "reported_states = [ClusterStateLive, ClusterStateDark, ClusterStateDraining]"

text \<open>The reader is what listing the namespace returned, or no reader at all.\<close>

definition clusterState_Collect :: "(api_error + Cluster list) option \<Rightarrow> const_metric list" where
  "clusterState_Collect listing =
    (case listing of
       None \<Rightarrow> []
     | Some (Inl _) \<Rightarrow> []
     | Some (Inr cells) \<Rightarrow>
       concat (map (\<lambda>cell.
         let observed = Normalize (state (cl_spec cell))
         in map (\<lambda>st. ConstMetric clusterStateDesc (if st = observed then 1 else 0) [cl_name cell, st]) reported_states) cells))"

section \<open>Lemmas\<close>

lemma audit_words_distinct [simp]:
  "EventPlacement \<noteq> EventMint" "EventMint \<noteq> EventPlacement"
  "OutcomeGranted \<noteq> OutcomeRefused" "OutcomeRefused \<noteq> OutcomeGranted"
  "OutcomeDryRun \<noteq> OutcomeRefused" "OutcomeRefused \<noteq> OutcomeDryRun"
  "OutcomeGranted \<noteq> OutcomeDryRun" "OutcomeDryRun \<noteq> OutcomeGranted"
  by (simp_all add: api_defs)

definition record_kind :: "Event \<Rightarrow> Outcome \<Rightarrow> audit_Record \<Rightarrow> bool" where
  "record_kind ev outcome x \<longleftrightarrow> au_event x = ev \<and> au_outcome x = outcome"

text \<open>The four shapes of what one request leaves on the trail.\<close>

lemma refuse_record:
  assumes "refuse srv rec status ra reason msg cause = (rsp, srv')" and "au_event rec = ev"
  shows "\<exists>x. srv_trail srv' = srv_trail srv @ [x] \<and> record_kind ev OutcomeRefused x \<and> is_RefusalBody (rsp_body rsp)"
proof -
  from assms(1) have "rsp = fst (refuse srv rec status ra reason msg cause)"
    "srv' = snd (refuse srv rec status ra reason msg cause)" by simp_all
  then show ?thesis using assms(2) by (simp add: refuse_trail record_kind_def)
qed

definition leaves :: "audit_Record list \<Rightarrow> http_response \<Rightarrow> bool" where
  "leaves recs rsp \<longleftrightarrow>
    (\<exists>x. recs = [x] \<and> record_kind EventPlacement OutcomeRefused x \<and> is_RefusalBody (rsp_body rsp)) \<or>
    (\<exists>x b. recs = [x] \<and> record_kind EventPlacement OutcomeDryRun x \<and> rsp_body rsp = PlacementBody b \<and> plr_credential b = None) \<or>
    (\<exists>x y. recs = [x, y] \<and> record_kind EventPlacement OutcomeGranted x \<and> record_kind EventMint OutcomeRefused y \<and>
      is_RefusalBody (rsp_body rsp)) \<or>
    (\<exists>x y b. recs = [x, y] \<and> record_kind EventPlacement OutcomeGranted x \<and> record_kind EventMint OutcomeGranted y \<and>
      rsp_body rsp = PlacementBody b \<and> plr_credential b \<noteq> None)"

lemma mint_stage_leaves:
  assumes "mint_stage env srv p rec d requested resp = (rsp, srv')"
  shows "\<exists>y. srv_trail srv' = srv_trail srv @ [y] \<and>
    (record_kind EventMint OutcomeRefused y \<and> is_RefusalBody (rsp_body rsp) \<or>
     record_kind EventMint OutcomeGranted y \<and> (\<exists>b. rsp_body rsp = PlacementBody b \<and> plr_credential b \<noteq> None))"
proof (cases rule: mint_stage_cases [of env srv p rec d requested resp])
  case (refused rec' status reason msg cause)
  from arg_cong [OF refused(4), of au_event] have "au_event rec' = EventMint" by (simp add: mint_record_def)
  from refuse_record [OF trans [OF refused(1) [symmetric] assms] this] show ?thesis by blast
next
  case (minted mint cluster cred ttl rec')
  from arg_cong [OF minted(4), of au_event] arg_cong [OF minted(4), of au_outcome]
  have "record_kind EventMint OutcomeGranted rec'" by (simp add: record_kind_def mint_record_def)
  with assms minted(5) show ?thesis by (auto simp: audit_trail_def)
qed

lemma handlePlacement_records:
  assumes "handlePlacement env srv r = (rsp, srv')"
  obtains recs where "srv_trail srv' = srv_trail srv @ recs" "leaves recs rsp"
proof (cases rule: handlePlacement_cases [of env srv r])
  case (early rec status ra reason msg lim)
  from early(5) have "au_event rec = EventPlacement" by (simp add: opened_def)
  from refuse_record [OF trans [OF early(1) [symmetric] assms] this] that show thesis by (auto simp: leaves_def)
next
  case (placed idn p req rec requested lim)
  let ?srv = "srv\<lparr>srv_limiter := lim\<rparr>"
  from placed(7) have ev: "au_event rec = EventPlacement" by (simp add: opened_def)
  note a = trans [OF placed(6) [symmetric] assms]
  show thesis
  proof (cases rule: place_stage_cases [of env p idn req ?srv rec requested])
    case (refused err p' rec')
    from arg_cong [OF refused(3), of au_event] ev have "au_event rec' = EventPlacement" by simp
    from refuse_record [OF trans [OF refused(2) [symmetric] a] this] that show thesis by (auto simp: leaves_def)
  next
    case (dry d p')
    have k: "record_kind EventPlacement OutcomeDryRun (decided_record rec d True)"
      by (simp add: record_kind_def decided_record_def ev)
    from trans [OF dry(3) [symmetric] a] have "srv_trail srv' = srv_trail srv @ [decided_record rec d True]"
      "rsp_body rsp = PlacementBody (decided_response idn req d)" by (auto simp: audit_trail_def)
    with k that [of "[decided_record rec d True]"] show thesis by (simp add: leaves_def decided_response_def)
  next
    case (mint d p')
    have k: "record_kind EventPlacement OutcomeGranted (decided_record rec d False)"
      by (simp add: record_kind_def decided_record_def ev)
    from mint_stage_leaves [OF trans [OF mint(3) [symmetric] a]] obtain y where
      "srv_trail srv' = srv_trail srv @ [decided_record rec d False, y]"
      "record_kind EventMint OutcomeRefused y \<and> is_RefusalBody (rsp_body rsp) \<or>
       record_kind EventMint OutcomeGranted y \<and> (\<exists>b. rsp_body rsp = PlacementBody b \<and> plr_credential b \<noteq> None)"
      by (auto simp: audit_trail_def)
    with k that [of "[decided_record rec d False, y]"] show thesis by (auto simp: leaves_def)
  qed
qed

text \<open>
  Reading the collectors back. A series is named by its labels, each with the name the collector was declared with; values that do not
  match the declaration make no series.
\<close>

fun label_names :: "collector \<Rightarrow> string list" where
  "label_names (CounterVec _ names) = names"
| "label_names (HistogramVec _ _ names) = names"
| "label_names _ = []"

definition series :: "collector \<Rightarrow> string list \<Rightarrow> (string \<times> string) list option" where
  "series c vs = (if length vs = length (label_names c) then Some (zip (label_names c) vs) else None)"

fun increments :: "collector \<Rightarrow> sample \<Rightarrow> bool" where
  "increments c (Inc c' _) \<longleftrightarrow> c = c'"
| "increments c _ \<longleftrightarrow> False"

fun counted :: "collector \<Rightarrow> (string \<times> string) list \<Rightarrow> sample \<Rightarrow> bool" where
  "counted c labels (Inc c' vs) \<longleftrightarrow> c = c' \<and> series c vs = Some labels"
| "counted c labels _ \<longleftrightarrow> False"

fun observations :: "collector \<Rightarrow> sample \<Rightarrow> ((string \<times> string) list option \<times> rat) list" where
  "observations c (Observe c' vs v) = (if c = c' then [(series c vs, v)] else [])"
| "observations c _ = []"

definition observed :: "collector \<Rightarrow> sample list \<Rightarrow> ((string \<times> string) list option \<times> rat) list" where
  "observed c out = concat (map (observations c) out)"

lemma observed_simps [simp]:
  "observed c [] = []" "observed c (x # xs) = observations c x @ observed c xs" "observed c (xs @ ys) = observed c xs @ observed c ys"
  by (simp_all add: observed_def)

fun counts_refusal :: "Metrics \<Rightarrow> sample \<Rightarrow> bool" where
  "counts_refusal m (Inc c ls) \<longleftrightarrow> c = placementRequests m \<and> ls \<noteq> [] \<and> hd ls = OutcomeRefused \<or> c = mintFailures m"
| "counts_refusal m _ \<longleftrightarrow> False"

definition carries_credential :: "http_response \<Rightarrow> bool" where
  "carries_credential rsp = (case rsp_body rsp of PlacementBody b \<Rightarrow> plr_credential b \<noteq> None | _ \<Rightarrow> False)"

definition refused_answer :: "http_response \<Rightarrow> bool" where
  "refused_answer rsp = is_RefusalBody (rsp_body rsp)"

definition answer_outcome :: "http_response \<Rightarrow> Outcome" where
  "answer_outcome rsp = (if refused_answer rsp then OutcomeRefused else if carries_credential rsp then OutcomeGranted else OutcomeDryRun)"

text \<open>The series a record belongs to.\<close>

definition placement_series :: "audit_Record \<Rightarrow> (string \<times> string) list" where
  "placement_series x = [(''outcome'', au_outcome x), (''reason'', au_reason x), (''policy'', au_policy x), (''cell'', au_cell x)]"

definition minted_series :: "audit_Record \<Rightarrow> (string \<times> string) list" where
  "minted_series x = [(''provider'', au_provider x), (''env'', au_env x)]"

definition failure_series :: "audit_Record \<Rightarrow> (string \<times> string) list" where
  "failure_series x = [(''provider'', au_provider x), (''reason'', au_reason x)]"

definition tally :: "('a \<Rightarrow> bool) \<Rightarrow> 'a list \<Rightarrow> nat" where
  "tally P xs = length (filter P xs)"

lemma tally_simps [simp]:
  "tally P [] = 0" "tally P (x # xs) = (if P x then Suc (tally P xs) else tally P xs)"
  "tally P (xs @ ys) = tally P xs + tally P ys"
  by (simp_all add: tally_def)

lemma hub_metrics_distinct [simp]:
  "placementRequests hub_metrics \<noteq> tokensMinted hub_metrics" "tokensMinted hub_metrics \<noteq> placementRequests hub_metrics"
  "placementRequests hub_metrics \<noteq> mintFailures hub_metrics" "mintFailures hub_metrics \<noteq> placementRequests hub_metrics"
  "tokensMinted hub_metrics \<noteq> mintFailures hub_metrics" "mintFailures hub_metrics \<noteq> tokensMinted hub_metrics"
  "placementDuration hub_metrics \<noteq> tokenTTL_hist hub_metrics" "tokenTTL_hist hub_metrics \<noteq> placementDuration hub_metrics"
  by (simp_all add: hub_metrics_def)

lemma hub_series [simp]:
  "series (placementRequests hub_metrics) [a, b, c, d] = Some [(''outcome'', a), (''reason'', b), (''policy'', c), (''cell'', d)]"
  "series (tokensMinted hub_metrics) [a, b] = Some [(''provider'', a), (''env'', b)]"
  "series (mintFailures hub_metrics) [a, b] = Some [(''provider'', a), (''reason'', b)]"
  "series (placementDuration hub_metrics) [a] = Some [(''outcome'', a)]"
  "series (tokenTTL_hist hub_metrics) [] = Some []"
  by (simp_all add: hub_metrics_def series_def)

lemma Metrics_Notify_kinds:
  "record_kind EventPlacement outcome x \<Longrightarrow>
    Metrics_Notify (Some m) x = [Inc (placementRequests m) [au_outcome x, au_reason x, au_policy x, au_cell x]]"
  "record_kind EventMint OutcomeRefused x \<Longrightarrow>
    Metrics_Notify (Some m) x = [Inc (mintFailures m) [au_provider x, au_reason x]]"
  "record_kind EventMint OutcomeGranted x \<Longrightarrow>
    Metrics_Notify (Some m) x = [Inc (tokensMinted m) [au_provider x, au_env x],
      Observe (tokenTTL_hist m) [] (Seconds (au_grantedTTL x))]"
  by (simp_all add: record_kind_def Metrics_Notify_def)

text \<open>
  What the samples of some requests must say, given the time each took, what was answered and what was recorded: the counts, and then
  the series of every collector.
\<close>

definition counts_agree :: "http_response list \<Rightarrow> sample list \<Rightarrow> bool" where
  "counts_agree rsps out \<longleftrightarrow>
    tally (increments (placementRequests hub_metrics)) out = length rsps \<and>
    tally (increments (tokensMinted hub_metrics)) out = tally carries_credential rsps \<and>
    tally (counts_refusal hub_metrics) out = tally refused_answer rsps"

definition series_agree :: "audit_Record list \<Rightarrow> sample list \<Rightarrow> bool" where
  "series_agree recs out \<longleftrightarrow>
    (\<forall>labels. tally (counted (placementRequests hub_metrics) labels) out =
        tally (\<lambda>x. au_event x = EventPlacement \<and> placement_series x = labels) recs \<and>
      tally (counted (tokensMinted hub_metrics) labels) out =
        tally (\<lambda>x. au_event x = EventMint \<and> au_outcome x = OutcomeGranted \<and> minted_series x = labels) recs \<and>
      tally (counted (mintFailures hub_metrics) labels) out =
        tally (\<lambda>x. au_event x = EventMint \<and> au_outcome x \<noteq> OutcomeGranted \<and> failure_series x = labels) recs) \<and>
    observed (tokenTTL_hist hub_metrics) out =
      map (\<lambda>x. (Some [], Seconds (au_grantedTTL x))) (filter (\<lambda>x. au_event x = EventMint \<and> au_outcome x = OutcomeGranted) recs)"

definition durations_agree :: "duration list \<Rightarrow> http_response list \<Rightarrow> sample list \<Rightarrow> bool" where
  "durations_agree took rsps out \<longleftrightarrow>
    length took = length rsps \<and>
    observed (placementDuration hub_metrics) out = map2 (\<lambda>d rsp. (Some [(''outcome'', answer_outcome rsp)], Seconds d)) took rsps"

definition agrees_with :: "duration list \<Rightarrow> http_response list \<Rightarrow> audit_Record list \<Rightarrow> sample list \<Rightarrow> bool" where
  "agrees_with took rsps recs out \<longleftrightarrow> counts_agree rsps out \<and> series_agree recs out \<and> durations_agree took rsps out"

lemma agrees_with_Nil: "agrees_with [] [] [] []"
  by (simp add: agrees_with_def counts_agree_def series_agree_def durations_agree_def)

lemma agrees_with_append:
  "agrees_with took rsps recs out \<Longrightarrow> agrees_with took' rsps' recs' out' \<Longrightarrow>
    agrees_with (took @ took') (rsps @ rsps') (recs @ recs') (out @ out')"
  by (simp add: agrees_with_def counts_agree_def series_agree_def durations_agree_def)

lemma measured_agrees:
  assumes "leaves recs rsp"
  shows "agrees_with [took] [rsp] recs
    (concat (map (Metrics_Notify (Some hub_metrics)) recs) @ ObservePlacement (Some hub_metrics) (au_outcome (last recs)) took)"
  using assms unfolding leaves_def agrees_with_def counts_agree_def series_agree_def durations_agree_def
  by (elim disjE exE conjE)
    (auto simp: Metrics_Notify_kinds ObservePlacement_def carries_credential_def refused_answer_def answer_outcome_def
      placement_series_def minted_series_def failure_series_def record_kind_def split: response_body.splits)

lemma measured_run_agrees:
  "measured_run (Some hub_metrics) qs srv = (rsps, srv', out) \<Longrightarrow>
    \<exists>recs. srv_trail srv' = srv_trail srv @ recs \<and> agrees_with (map (\<lambda>(env, r, took). took) qs) rsps recs out"
proof (induction qs arbitrary: srv rsps srv' out)
  case Nil
  then show ?case by (simp add: agrees_with_Nil)
next
  case (Cons q qs)
  obtain env r took where q: "q = (env, r, took)" by (rule prod_cases3)
  obtain rsp srv1 where h: "handlePlacement env srv r = (rsp, srv1)" by (rule prod.exhaust)
  from h obtain recs where t: "srv_trail srv1 = srv_trail srv @ recs" "leaves recs rsp" by (rule handlePlacement_records)
  obtain rsps2 srv2 outs where m: "measured_run (Some hub_metrics) qs srv1 = (rsps2, srv2, outs)" by (rule prod_cases3)
  from Cons.IH [OF m] obtain recs2 where i: "srv_trail srv2 = srv_trail srv1 @ recs2" "agrees_with (map (\<lambda>(env, r, took). took) qs) rsps2 recs2 outs"
    by blast
  let ?out = "concat (map (Metrics_Notify (Some hub_metrics)) recs) @ ObservePlacement (Some hub_metrics) (au_outcome (last recs)) took"
  from Cons.prems have e: "rsps = [rsp] @ rsps2" "srv' = srv2" "out = ?out @ outs"
    by (simp_all add: q measuredPlacement_def h t(1) m)
  from agrees_with_append [OF measured_agrees [OF t(2), of took] i(2)] show ?case
    by (intro exI [of _ "recs @ recs2"]) (simp add: e i(1) t(1) q)
qed

lemma reg_ok_capacity_run: "reg_ok (capacity_run ops0 ops)"
  unfolding capacity_run_def by (rule registry.invar_run) (rule reg_ok_New)

lemma ratio_series_iff:
  assumes "distinct (map fst (entries r))"
  shows "ConstMetric capacityRatioDesc v [cell] \<in> set (capacity_Collect (Some r) now snap) \<longleftrightarrow>
    (\<exists>e. Lookup r snap cell = Some e \<and> entry_health e = HealthFresh \<and> v = entry_utilisation e)"
proof -
  have d: "distinct (map fst (Snapshot r snap))" using assms by (simp add: Snapshot_def comp_def case_prod_beta)
  have "ConstMetric capacityRatioDesc v [cell] \<in> set (capacity_Collect (Some r) now snap) \<longleftrightarrow>
      (\<exists>e. (cell, e) \<in> set (Snapshot r snap) \<and> entry_health e = HealthFresh \<and> v = entry_utilisation e)"
    by (auto simp: capacity_Collect_def split: if_splits)
  then show ?thesis unfolding map_of_Snapshot [symmetric] using map_of_eq_Some_iff [OF d] by simp
qed

lemma staleness_series_iff:
  "(\<exists>v. ConstMetric stalenessDesc v [cell] \<in> set (capacity_Collect (Some r) now snap)) \<longleftrightarrow> Lookup r snap cell \<noteq> None"
proof -
  have "(\<exists>v. ConstMetric stalenessDesc v [cell] \<in> set (capacity_Collect (Some r) now snap)) \<longleftrightarrow>
      cell \<in> fst ` set (Snapshot r snap)"
    by (force simp: capacity_Collect_def split: if_splits)
  then show ?thesis by (simp add: map_of_Snapshot [symmetric] map_of_eq_None_iff)
qed

lemma state_series_iff:
  assumes "distinct (map cl_name cells)" and "cl \<in> set cells"
  shows "ConstMetric clusterStateDesc 1 [cl_name cl, st] \<in> set (clusterState_Collect (Some (Inr cells))) \<longleftrightarrow>
    st \<in> set reported_states \<and> Normalize (state (cl_spec cl)) = st"
proof -
  have u: "cl' = cl" if "cl' \<in> set cells" "cl_name cl' = cl_name cl" for cl'
    using inj_onD [OF conjunct2 [OF assms(1) [unfolded distinct_map]] that(2,1) assms(2)] .
  have "ConstMetric clusterStateDesc 1 [cl_name cl, st] \<in> set (clusterState_Collect (Some (Inr cells))) \<longleftrightarrow>
      (\<exists>cl' \<in> set cells. cl_name cl' = cl_name cl \<and> st \<in> set reported_states \<and> Normalize (state (cl_spec cl')) = st)"
    unfolding clusterState_Collect_def Let_def option.case sum.case set_concat set_map UN_iff bex_simps image_iff
    by (intro bex_cong refl) auto
  also have "\<dots> \<longleftrightarrow> st \<in> set reported_states \<and> Normalize (state (cl_spec cl)) = st"
    using u assms(2) by blast
  finally show ?thesis .
qed

section \<open>Properties\<close>

text \<open>
  C38. The metrics cannot disagree with the answers or the trail. Over every history of placement requests, the placement counter was
  incremented once per request, the minted counter once per answer that carries a credential, and a refusal was
  counted once per refused answer, as a refused placement or as a failed mint. Each series of the three counters, named by its
  labels with the names they were declared with, stands at the number of audit records with exactly those values: outcome, reason, policy
  and cell of a placement, provider and environment of a minted credential, provider and reason of a failed mint. The lifetime
  histogram observed the granted lifetimes of the minted credentials, and the latency histogram the time of each request, under the outcome
  it was answered with.
\<close>

theorem counters_agree_with_answers_and_trail:
  "case measured_run (Some hub_metrics) qs srv of (rsps, srv', out) \<Rightarrow>
    tally (increments (placementRequests hub_metrics)) out = length qs \<and>
    tally (increments (tokensMinted hub_metrics)) out = tally carries_credential rsps \<and>
    tally (counts_refusal hub_metrics) out = tally refused_answer rsps \<and>
    length rsps = length qs \<and>
    observed (placementDuration hub_metrics) out =
      map2 (\<lambda>(env, r, took) rsp. (Some [(''outcome'', answer_outcome rsp)], Seconds took)) qs rsps \<and>
    (\<exists>recs. srv_trail srv' = srv_trail srv @ recs \<and>
      (\<forall>labels. tally (counted (placementRequests hub_metrics) labels) out =
          tally (\<lambda>x. au_event x = EventPlacement \<and>
            [(''outcome'', au_outcome x), (''reason'', au_reason x), (''policy'', au_policy x), (''cell'', au_cell x)] = labels) recs \<and>
        tally (counted (tokensMinted hub_metrics) labels) out =
          tally (\<lambda>x. au_event x = EventMint \<and> au_outcome x = OutcomeGranted \<and>
            [(''provider'', au_provider x), (''env'', au_env x)] = labels) recs \<and>
        tally (counted (mintFailures hub_metrics) labels) out =
          tally (\<lambda>x. au_event x = EventMint \<and> au_outcome x \<noteq> OutcomeGranted \<and>
            [(''provider'', au_provider x), (''reason'', au_reason x)] = labels) recs) \<and>
      observed (tokenTTL_hist hub_metrics) out =
        map (\<lambda>x. (Some [], Seconds (au_grantedTTL x))) (filter (\<lambda>x. au_event x = EventMint \<and> au_outcome x = OutcomeGranted) recs))"
proof -
  obtain rsps srv' out where m: "measured_run (Some hub_metrics) qs srv = (rsps, srv', out)" by (rule prod_cases3)
  from measured_run_agrees [OF m] obtain recs where a: "srv_trail srv' = srv_trail srv @ recs"
    "counts_agree rsps out" "series_agree recs out" "durations_agree (map (\<lambda>(env, r, took). took) qs) rsps out"
    unfolding agrees_with_def by blast
  have "observed (placementDuration hub_metrics) out =
      map2 (\<lambda>(env, r, took) rsp. (Some [(''outcome'', answer_outcome rsp)], Seconds took)) qs rsps" "length rsps = length qs"
    using a(4) by (simp_all add: durations_agree_def zip_map1 comp_def case_prod_beta)
  moreover note a(2) [unfolded counts_agree_def] a(3) [unfolded series_agree_def placement_series_def minted_series_def failure_series_def]
  ultimately show ?thesis using a(1) unfolding m by auto
qed

text \<open>
  C39. A scrape tells what placement will do. The ratio series of a cell exists exactly while the index serves it as
  fresh, and then it is the utilisation the engine scores; a staleness series exists for every cell in the index; and
  a registered cell passes the engine's filter exactly when the caller's policy selects it, the state series of the state
  asked for reads one, and the ratio series is there.
\<close>

theorem scrape_tells_what_placement_admits:
  assumes "distinct (map cl_name cells)" and "cl \<in> set cells"
    and "r = capacity_run ops0 ops"
    and "scrape = set (capacity_Collect (Some r) now snap) \<union> set (clusterState_Collect (Some (Inr cells)))"
  shows "(ConstMetric capacityRatioDesc v [cell] \<in> scrape \<longleftrightarrow>
      (\<exists>e. Lookup r snap cell = Some e \<and> entry_health e = HealthFresh \<and> v = Utilisation (entry_report e))) \<and>
    ((\<exists>v. ConstMetric stalenessDesc v [cell] \<in> scrape) \<longleftrightarrow> Lookup r snap cell \<noteq> None) \<and>
    (cand_admitted (filter_cell sel dark (Snapshot r snap) cl) \<longleftrightarrow>
      sel (cl_labels cl) \<and>
      ConstMetric clusterStateDesc 1 [cl_name cl, if dark then ClusterStateDark else ClusterStateLive] \<in> scrape \<and>
      ConstMetric capacityRatioDesc (cand_utilisation (filter_cell sel dark (Snapshot r snap) cl)) [cl_name cl] \<in> scrape)"
proof -
  have d: "distinct (map fst (entries r))" using reg_ok_capacity_run [of ops0 ops] by (simp add: assms(3) reg_ok_def)
  have other: "ConstMetric capacityRatioDesc v' [c] \<notin> set (clusterState_Collect l)"
    "ConstMetric stalenessDesc v' [c] \<notin> set (clusterState_Collect l)"
    "ConstMetric clusterStateDesc v' [c, st] \<notin> set (capacity_Collect ix now snap)" for v' c st l ix
    by (auto simp: clusterState_Collect_def capacity_Collect_def Let_def split: option.splits sum.splits if_splits)
  have ratio: "ConstMetric capacityRatioDesc v' [c] \<in> scrape \<longleftrightarrow>
      (\<exists>e. Lookup r snap c = Some e \<and> entry_health e = HealthFresh \<and> v' = entry_utilisation e)" for v' c
    unfolding assms(4) using other(1) ratio_series_iff [OF d] by simp
  moreover have "(\<exists>v. ConstMetric stalenessDesc v [cell] \<in> scrape) \<longleftrightarrow> Lookup r snap cell \<noteq> None"
    unfolding assms(4) using other(2) staleness_series_iff by simp
  moreover have st: "ConstMetric clusterStateDesc 1 [cl_name cl, if dark then ClusterStateDark else ClusterStateLive] \<in> scrape \<longleftrightarrow>
      AcceptsPlacement (state (cl_spec cl)) dark"
    unfolding assms(4) using other(3) state_series_iff [OF assms(1,2)] by (auto simp: reported_states_def)
  moreover have "cand_admitted (filter_cell sel dark (Snapshot r snap) cl) \<longleftrightarrow> sel (cl_labels cl) \<and>
      AcceptsPlacement (state (cl_spec cl)) dark \<and> 
      ConstMetric capacityRatioDesc (cand_utilisation (filter_cell sel dark (Snapshot r snap) cl)) [cl_name cl] \<in> scrape"
    unfolding ratio using filter_cell_utilisation [of sel dark "Snapshot r snap" cl]
    by (auto simp: fresh_in_def map_of_Snapshot split: option.splits)
  ultimately show ?thesis using Lookup_utilisation [of r snap cell] by auto
qed

section \<open>Witnesses\<close>

text \<open>One cell, permitted and live, with a heartbeat sixty nanoseconds before the scrape.\<close>

theorem scrape_tells_what_placement_admits_witness:
  "cand_admitted (filter_cell (\<lambda>_. True) False
      (Snapshot (capacity_run sample_options [Heartbeat 10 (sample_report ''blue'' 500)]) 70) sample_cell) \<and>
   ConstMetric clusterStateDesc 1 [''blue'', ClusterStateLive] \<in> set (clusterState_Collect (Some (Inr [sample_cell]))) \<and>
   ConstMetric capacityRatioDesc (Utilisation (sample_report ''blue'' 500)) [''blue''] \<in>
     set (capacity_Collect (Some (capacity_run sample_options [Heartbeat 10 (sample_report ''blue'' 500)])) 70 70)"
proof -
  let ?r = "capacity_run sample_options [Heartbeat 10 (sample_report ''blue'' 500)]"
  have l: "Lookup ?r 70 ''blue'' = Some \<lparr>entry_report = sample_report ''blue'' 500, entry_observedAt = 10,
      entry_health = HealthFresh, entry_utilisation = Utilisation (sample_report ''blue'' 500)\<rparr>"
    by (simp add: sample_eval)
  have st: "ConstMetric clusterStateDesc 1 [''blue'', ClusterStateLive] \<in> set (clusterState_Collect (Some (Inr [sample_cell])))"
    by (simp add: clusterState_Collect_def reported_states_def sample_cell_def Let_def)
  have "distinct (map cl_name [sample_cell])" "sample_cell \<in> set [sample_cell]" by simp_all
  note t = scrape_tells_what_placement_admits [OF this refl refl, where v = "Utilisation (sample_report ''blue'' 500)"
      and cell = "''blue''" and ?ops0.0 = sample_options and ops = "[Heartbeat 10 (sample_report ''blue'' 500)]"
      and sel = "\<lambda>_. True" and dark = False and now = 70 and snap = 70]
  have n: "ConstMetric capacityRatioDesc v [c] \<notin> set (clusterState_Collect (Some (Inr [sample_cell])))" for v c
    by (simp add: clusterState_Collect_def reported_states_def Let_def)
  have u: "cand_utilisation (filter_cell (\<lambda>_. True) False (Snapshot ?r 70) sample_cell) = Utilisation (sample_report ''blue'' 500)"
    by (simp add: filter_cell_def map_of_Snapshot l sample_cell_def Let_def)
  from t l st n u show ?thesis by (simp add: sample_cell_def)
qed

end
