(* ===== verification/HubApi.thy ===== *)
theory HubApi
  imports HubServer ClusterApi Metrics
begin

text \<open>
  The assembled API of the hub: the route table and the probes of \<open>internal/hub/server.go\<close>.

  \<open>http.ServeMux\<close> is modelled for patterns of a method, literal segments and one-segment wildcards, which is what the hub
  registers; the path is the request's escaped path, and the status of a redirect to the cleaned path is left open. \<open>hub_mux\<close> hands a request to the handler its route names, over one
  state that holds what the handlers share: the placement server, the cluster store, the capacity index and the
  reports handed to the relay.
\<close>

section \<open>Routing\<close>

fun join_segs :: "string list \<Rightarrow> string" where
  "join_segs [] = ''''"
| "join_segs [s] = s"
| "join_segs (s # ss) = s @ ''/'' @ join_segs ss"

text \<open>\<open>path.Clean\<close> of a rooted path: \<open>acc\<close> holds the segments kept so far, last first.\<close>

fun clean_segs :: "string list \<Rightarrow> string list \<Rightarrow> string list" where
  "clean_segs acc [] = rev acc"
| "clean_segs acc (s # ss) =
    (if s = '''' \<or> s = ''.'' then clean_segs acc ss
     else if s = ''..'' then clean_segs (drop 1 acc) ss
     else clean_segs (s # acc) ss)"

definition cleanPath :: "string \<Rightarrow> string" where
  "cleanPath p0 =
    (if p0 = '''' then ''/''
     else (let p = (if hd p0 \<noteq> CHR ''/'' then CHR ''/'' # p0 else p0);
               np = CHR ''/'' # join_segs (clean_segs [] (go_split (CHR ''/'') p))
           in if last p = CHR ''/'' \<and> np \<noteq> ''/'' then np @ ''/'' else np))"

definition unhex :: "char \<Rightarrow> nat option" where
  "unhex c =
    (let n = of_char c :: nat in
     if 48 \<le> n \<and> n \<le> 57 then Some (n - 48)
     else if 97 \<le> n \<and> n \<le> 102 then Some (n - 87)
     else if 65 \<le> n \<and> n \<le> 70 then Some (n - 55) else None)"

fun PathUnescape :: "string \<Rightarrow> string option" where
  "PathUnescape [] = Some []"
| "PathUnescape (c # cs) =
    (if c = CHR ''%'' then
       (case cs of
          a # b # rest \<Rightarrow>
            (case (unhex a, unhex b) of
               (Some x, Some y) \<Rightarrow> map_option (\<lambda>t. char_of (16 * x + y) # t) (PathUnescape rest)
             | _ \<Rightarrow> None)
        | _ \<Rightarrow> None)
     else map_option (\<lambda>t. c # t) (PathUnescape cs))"

text \<open>A segment that does not unescape stands for itself; a trailing slash is a segment of its own.\<close>

definition path_segs :: "string \<Rightarrow> string list" where
  "path_segs p =
    map (\<lambda>s. if s = '''' then ''/'' else (case PathUnescape s of Some t \<Rightarrow> t | None \<Rightarrow> s)) (drop 1 (go_split (CHR ''/'') p))"

datatype seg_pat = Lit string | Wild

fun match_segs :: "seg_pat list \<Rightarrow> string list \<Rightarrow> string list option" where
  "match_segs [] [] = Some []"
| "match_segs (Lit l # ps) (s # ss) = (if l = s then match_segs ps ss else None)"
| "match_segs (Wild # ps) (s # ss) = (if s \<noteq> ''/'' then map_option (\<lambda>vs. s # vs) (match_segs ps ss) else None)"
| "match_segs _ _ = None"

text \<open>A pattern string: the method, a blank, and the path with its wildcards in braces.\<close>

definition parse_pattern :: "string \<Rightarrow> string \<times> seg_pat list" where
  "parse_pattern pat =
    (case go_cut (CHR '' '') pat of (method, path, _) \<Rightarrow>
      (method, map (\<lambda>s. if s \<noteq> '''' \<and> hd s = CHR ''{'' then Wild else Lit s) (drop 1 (go_split (CHR ''/'') path))))"

definition method_matches :: "string \<Rightarrow> string \<Rightarrow> bool" where
  "method_matches pat m \<longleftrightarrow> pat = m \<or> pat = ''GET'' \<and> m = ''HEAD''"

datatype 'h dispatch = Serve string 'h "string list" | RedirectTo string | MethodNotAllowed | NotFoundRoute

definition mux_find :: "(string \<times> 'h) list \<Rightarrow> string \<Rightarrow> string \<Rightarrow> 'h dispatch" where
  "mux_find routes method escaped =
    (let path = (if method = ''CONNECT'' then escaped else cleanPath escaped);
         on_path = concat (map (\<lambda>(pat, h). case match_segs (snd (parse_pattern pat)) (path_segs path) of
           None \<Rightarrow> [] | Some vs \<Rightarrow> [(pat, h, vs)]) routes)
     in if method \<noteq> ''CONNECT'' \<and> path \<noteq> escaped then RedirectTo path
        else (case find (\<lambda>(pat, h, vs). method_matches (fst (parse_pattern pat)) method) on_path of
          Some (pat, h, vs) \<Rightarrow> Serve pat h vs
        | None \<Rightarrow> if on_path \<noteq> [] then MethodNotAllowed else NotFoundRoute))"

datatype api_route = GetVersion | PostPlacement | PostCluster | ListClusters | GetCluster | PatchState | PostCapacity | ListCapacity

definition api_routes :: "(string \<times> api_route) list" where
  "api_routes =
    [(''GET /api/v1/version'', GetVersion), (''POST /api/v1/placement'', PostPlacement),
     (''POST /api/v1/clusters'', PostCluster), (''GET /api/v1/clusters'', ListClusters),
     (''GET /api/v1/clusters/{name}'', GetCluster), (''PATCH /api/v1/clusters/{name}/state'', PatchState),
     (''POST /api/v1/clusters/{name}/capacity'', PostCapacity), (''GET /api/v1/capacity'', ListCapacity)]"

section \<open>The probes\<close>

datatype probe_route = Healthz | Readyz

definition probe_routes :: "(string \<times> probe_route) list" where
  "probe_routes = [(''GET /healthz'', Healthz), (''GET /readyz'', Readyz)]"

definition probeHandler :: "int \<Rightarrow> life \<Rightarrow> string \<Rightarrow> string \<Rightarrow> int" where
  "probeHandler redirect s method escaped =
    (case mux_find probe_routes method escaped of
       Serve _ Healthz _ \<Rightarrow> 200
     | Serve _ Readyz _ \<Rightarrow> readyz s
     | RedirectTo _ \<Rightarrow> redirect
     | MethodNotAllowed \<Rightarrow> 405
     | NotFoundRoute \<Rightarrow> 404)"

section \<open>The handlers behind the routes\<close>

record hub_request =
  hq_api :: api_request
  hq_escapedPath :: string
  hq_labelSelector :: string
  hq_relay :: string
  hq_body :: string

record build_Info =
  bi_version :: string
  bi_commit :: string
  bi_date :: string
  bi_goVersion :: string
  bi_platform :: string

record ('p, 'b, 's) hub_parts =
  hp_env :: "('p, 'b) hub_env"
  hp_registry :: "'s registry_env"
  hp_relays :: bool
  hp_now :: go_time
  hp_version :: build_Info
  hp_redirect :: int

record ('p, 'b, 's) hub_state =
  hs_server :: "('p, 'b) Server"
  hs_cells :: 's
  hs_index :: "Registry option"
  hs_relayed :: "relay_message list"

datatype hub_body =
    VersionBody build_Info | PlacementAnswer http_response | RegistryAnswer registry_response | CapacityAnswer capacity_response
  | PlainBody

text \<open>The decoder of the placement body reads at most \<open>maxPlacementBytes\<close> and stops after the first value.\<close>

definition into_placementRequest :: "json \<Rightarrow> placementRequest option" where
  "into_placementRequest v =
    (case struct_pairs [''workload'', ''targetDark'', ''ttl'', ''dryRun'', ''explain''] v of
       None \<Rightarrow> None
     | Some ps \<Rightarrow>
       (case (field_of into_string '''' ps ''workload'', field_of into_bool False ps ''targetDark'', field_of into_string '''' ps ''ttl'',
              field_of into_bool False ps ''dryRun'', field_of into_bool False ps ''explain'') of
          (Some w, Some d, Some t, Some dr, Some ex) \<Rightarrow>
            Some \<lparr>pr_workload = w, pr_targetDark = d, pr_ttl = t, pr_dryRun = dr, pr_explain = ex\<rparr>
        | _ \<Rightarrow> None))"

definition decodePlacement :: "(string \<Rightarrow> (json \<times> string) option) \<Rightarrow> string \<Rightarrow> placementRequest option" where
  "decodePlacement decode body =
    (case decode (take (nat maxPlacementBytes) body) of None \<Rightarrow> None | Some (v, rest) \<Rightarrow> into_placementRequest v)"

definition serve_placement ::
  "('p, 'b, 's) hub_parts \<Rightarrow> hub_request \<Rightarrow> string \<Rightarrow> Identity \<Rightarrow> ('p, 'b, 's) hub_state \<Rightarrow>
    hub_body answer option \<times> ('p, 'b, 's) hub_state" where
  "serve_placement parts q rid idn s =
    (let reg = hp_registry parts;
         env = (hp_env parts)\<lparr>env_getCluster := map_option (\<lambda>c. ccGet c (hs_cells s)) (re_client reg)\<rparr>;
         (rsp, srv) = handlePlacement env (hs_server s)
           \<lparr>rq_identity = Some idn, rq_id = rid, rq_body = decodePlacement (re_decode reg) (hq_body q)\<rparr>
     in (Some (Wrote (rsp_status rsp) (PlacementAnswer rsp)), s\<lparr>hs_server := srv\<rparr>))"

definition serve_capacity ::
  "('p, 'b, 's) hub_parts \<Rightarrow> hub_request \<Rightarrow> string \<Rightarrow> Identity \<Rightarrow> ('p, 'b, 's) hub_state \<Rightarrow>
    hub_body answer option \<times> ('p, 'b, 's) hub_state" where
  "serve_capacity parts q nm idn s =
    (let reg = hp_registry parts;
         (rsp, index, msg) = handleReportCapacity (re_decode reg)
           (map_option (\<lambda>c. ccGet c (hs_cells s) (re_ns reg)) (re_client reg)) (hp_relays parts) (hp_now parts) (hs_index s)
           \<lparr>cq_name = nm, cq_identity = Some idn, cq_authorization = aq_authorization (hq_api q), cq_relayed = hq_relay q, cq_body = hq_body q\<rparr>
     in (Some (Wrote (cap_status rsp) (CapacityAnswer rsp)),
         s\<lparr>hs_index := index, hs_relayed := hs_relayed s @ (case msg of None \<Rightarrow> [] | Some m \<Rightarrow> [m])\<rparr>))"

definition registry_answer :: "registry_response \<Rightarrow> hub_body answer option" where
  "registry_answer rsp = Some (Wrote (rgr_status rsp) (RegistryAnswer rsp))"

definition serve_route ::
  "('p, 'b, 's) hub_parts \<Rightarrow> hub_request \<Rightarrow> string \<Rightarrow> api_route \<Rightarrow> string list \<Rightarrow> Identity \<Rightarrow> ('p, 'b, 's) hub_state \<Rightarrow>
    hub_body answer option \<times> ('p, 'b, 's) hub_state" where
  "serve_route parts q rid route vs idn s =
    (let reg = hp_registry parts; nm = (case vs of [] \<Rightarrow> '''' | v # _ \<Rightarrow> v) in
     case route of
       GetVersion \<Rightarrow> (Some (Wrote 200 (VersionBody (hp_version parts))), s)
     | PostPlacement \<Rightarrow> serve_placement parts q rid idn s
     | PostCluster \<Rightarrow>
         (case handleRegisterCluster reg (hs_cells s) (hq_body q) of (rsp, cells) \<Rightarrow> (registry_answer rsp, s\<lparr>hs_cells := cells\<rparr>))
     | ListClusters \<Rightarrow> (registry_answer (handleListClusters reg (hs_cells s) (hq_labelSelector q)), s)
     | GetCluster \<Rightarrow> (registry_answer (handleGetCluster reg (hs_cells s) nm), s)
     | PatchState \<Rightarrow>
         (case handleSetClusterState reg (hs_cells s) nm (hq_body q) of (rsp, cells) \<Rightarrow> (registry_answer rsp, s\<lparr>hs_cells := cells\<rparr>))
     | PostCapacity \<Rightarrow> serve_capacity parts q nm idn s
     | ListCapacity \<Rightarrow>
         (case handleListCapacity (hp_now parts) (hs_index s) of rsp \<Rightarrow> (Some (Wrote (cap_status rsp) (CapacityAnswer rsp)), s)))"

definition hub_mux ::
  "('p, 'b, 's) hub_parts \<Rightarrow> hub_request \<Rightarrow> string \<Rightarrow> Identity \<Rightarrow> ('p, 'b, 's) hub_state \<Rightarrow>
    hub_body answer option \<times> ('p, 'b, 's) hub_state" where
  "hub_mux parts q rid idn s =
    (case mux_find api_routes (aq_method (hq_api q)) (hq_escapedPath q) of
       Serve _ route vs \<Rightarrow> serve_route parts q rid route vs idn s
     | RedirectTo _ \<Rightarrow> (Some (Wrote (hp_redirect parts) PlainBody), s)
     | MethodNotAllowed \<Rightarrow> (Some (Wrote 405 PlainBody), s)
     | NotFoundRoute \<Rightarrow> (Some (Wrote 404 PlainBody), s))"

text \<open>The whole handler, and a history of requests through it. Each request comes with its random bytes and its moment's surroundings.\<close>

definition hub_handle ::
  "('a \<Rightarrow> string \<Rightarrow> (auth_error + Identity) \<times> 'a) \<Rightarrow> ('p, 'b, 's) hub_parts \<Rightarrow> string \<Rightarrow> hub_request \<Rightarrow>
    'a \<times> ('p, 'b, 's) hub_state \<Rightarrow> hub_body answer \<times> hub_log list \<times> string list \<times> 'a \<times> ('p, 'b, 's) hub_state" where
  "hub_handle authn parts rnd q st = apiHandler authn (\<lambda>_ rid. hub_mux parts q rid) rnd (hq_api q) st"

fun hub_serve ::
  "('a \<Rightarrow> string \<Rightarrow> (auth_error + Identity) \<times> 'a) \<Rightarrow> (('p, 'b, 's) hub_parts \<times> string \<times> hub_request) list \<Rightarrow>
    'a \<times> ('p, 'b, 's) hub_state \<Rightarrow> hub_body answer list \<times> 'a \<times> ('p, 'b, 's) hub_state" where
  "hub_serve authn [] st = ([], st)"
| "hub_serve authn ((parts, rnd, q) # qs) st =
    (let (ans, _, _, st') = hub_handle authn parts rnd q st; (rest, st'') = hub_serve authn qs st' in (ans # rest, st''))"

section \<open>Lemmas on routing\<close>

lemma parse_api_patterns:
  "parse_pattern ''GET /api/v1/version'' = (''GET'', [Lit ''api'', Lit ''v1'', Lit ''version''])"
  "parse_pattern ''POST /api/v1/placement'' = (''POST'', [Lit ''api'', Lit ''v1'', Lit ''placement''])"
  "parse_pattern ''POST /api/v1/clusters'' = (''POST'', [Lit ''api'', Lit ''v1'', Lit ''clusters''])"
  "parse_pattern ''GET /api/v1/clusters'' = (''GET'', [Lit ''api'', Lit ''v1'', Lit ''clusters''])"
  "parse_pattern ''GET /api/v1/clusters/{name}'' = (''GET'', [Lit ''api'', Lit ''v1'', Lit ''clusters'', Wild])"
  "parse_pattern ''PATCH /api/v1/clusters/{name}/state'' = (''PATCH'', [Lit ''api'', Lit ''v1'', Lit ''clusters'', Wild, Lit ''state''])"
  "parse_pattern ''POST /api/v1/clusters/{name}/capacity'' = (''POST'', [Lit ''api'', Lit ''v1'', Lit ''clusters'', Wild, Lit ''capacity''])"
  "parse_pattern ''GET /api/v1/capacity'' = (''GET'', [Lit ''api'', Lit ''v1'', Lit ''capacity''])"
  by code_simp+

lemma match_segs_Some:
  "match_segs [] ss = Some vs \<longleftrightarrow> ss = [] \<and> vs = []"
  "match_segs (Lit l # ps) ss = Some vs \<longleftrightarrow> (\<exists>ss'. ss = l # ss' \<and> match_segs ps ss' = Some vs)"
  "match_segs (Wild # ps) ss = Some vs \<longleftrightarrow>
    (\<exists>v ss' vs'. ss = v # ss' \<and> v \<noteq> ''/'' \<and> vs = v # vs' \<and> match_segs ps ss' = Some vs')"
  by (cases ss; auto)+

definition route_fits :: "string \<Rightarrow> string \<Rightarrow> string \<Rightarrow> string list \<Rightarrow> bool" where
  "route_fits m p pat vs \<longleftrightarrow> method_matches (fst (parse_pattern pat)) m \<and> match_segs (snd (parse_pattern pat)) (path_segs p) = Some vs"

lemma api_routes_disjoint:
  assumes "(pat, h) \<in> set api_routes" and "(pat', h') \<in> set api_routes" and "route_fits m p pat vs" and "route_fits m p pat' vs'"
  shows "(pat, h, vs) = (pat', h', vs')"
  using assms unfolding api_routes_def route_fits_def list.set
  by (elim insertE emptyE) (auto simp: parse_api_patterns match_segs_Some method_matches_def)

lemma refuse_limiter [simp]: "srv_limiter (snd (refuse srv rec st ra reason msg cause)) = srv_limiter srv"
  by simp

lemma mint_stage_limiter: "srv_limiter (snd (mint_stage env srv p rec d requested resp)) = srv_limiter srv"
  by (cases rule: mint_stage_cases [of env srv p rec d requested resp]) (simp_all add: audit_trail_def)

lemma place_stage_limiter: "srv_limiter (snd (place_stage env srv p rec idn req requested)) = srv_limiter srv"
  by (cases rule: place_stage_cases [of env p idn req srv rec requested]) (simp_all add: audit_trail_def mint_stage_limiter)

lemma read_stage_limiter: "srv_limiter (snd (read_stage env srv p rec idn r)) = srv_limiter srv"
  by (simp add: read_stage_def place_stage_limiter Let_def split: option.split)

lemma handlePlacement_limiter_ok:
  assumes "limiter_ok (srv_limiter srv)"
  shows "limiter_ok (srv_limiter (snd (handlePlacement env srv r)))"
  using assms limiter_ok_allow [OF assms]
  by (simp add: handlePlacement_def read_stage_limiter Let_def split: option.split)

section \<open>What the routes keep\<close>

text \<open>
  The state of a hub in order: callers are listed once in the limiter, the capacity index satisfies its invariant and was built
  with the options \<open>ops\<close>, and every cell the API server holds is one registration accepts.
\<close>

definition hub_ok ::
  "Options \<Rightarrow> (string \<Rightarrow> URL option) \<Rightarrow> ('s \<Rightarrow> string \<Rightarrow> string \<Rightarrow> Cluster option) \<Rightarrow> ('p, 'b, 's) hub_state \<Rightarrow> bool" where
  "hub_ok ops parse server s \<longleftrightarrow>
    limiter_ok (srv_limiter (hs_server s)) \<and> (\<forall>r. hs_index s = Some r \<longrightarrow> reg_ok r \<and> opts r = ops) \<and>
    all_vetted parse server (hs_cells s)"

text \<open>The surroundings of a request: one URL parser, and an API server that does what it documents.\<close>

definition parts_ok :: "(string \<Rightarrow> URL option) \<Rightarrow> ('s \<Rightarrow> string \<Rightarrow> string \<Rightarrow> Cluster option) \<Rightarrow> ('p, 'b, 's) hub_parts \<Rightarrow> bool" where
  "parts_ok parse server parts \<longleftrightarrow>
    re_parseURL (hp_registry parts) = parse \<and> (\<forall>c. re_client (hp_registry parts) = Some c \<longrightarrow> store_documented server c)"

text \<open>The trail only grows.\<close>

definition trail_grows :: "('p, 'b, 's) hub_state \<Rightarrow> ('p, 'b, 's) hub_state \<Rightarrow> bool" where
  "trail_grows s s' \<longleftrightarrow> (\<exists>recs. srv_trail (hs_server s') = srv_trail (hs_server s) @ recs)"

lemma trail_grows_refl [simp]: "trail_grows s s"
  by (simp add: trail_grows_def)

lemma trail_grows_trans: "trail_grows s t \<Longrightarrow> trail_grows t u \<Longrightarrow> trail_grows s u"
  by (auto simp: trail_grows_def)

lemma handleReportCapacity_keeps:
  assumes "handleReportCapacity decode k8s rl now (Some r) req = (rsp, index, msg)" and "reg_ok r"
  shows "\<exists>r'. index = Some r' \<and> reg_ok r' \<and> opts r' = opts r"
proof (cases k8s)
  case None
  with assms show ?thesis by (auto simp: handleReportCapacity_def)
next
  case (Some get)
  show ?thesis
  proof (cases rule: handleReportCapacity_cases [of decode get rl now r req])
    case (refused rsp')
    with assms Some show ?thesis by auto
  next
    case (accepted cl idn who rep reg')
    from reg_ok_Report [OF assms(2), of now rep] accepted(7) have "reg_ok reg'" by simp
    moreover from opts_step [of r "Heartbeat now rep"] accepted(7) have "opts reg' = opts r" by simp
    ultimately show ?thesis using assms(1) accepted(8) Some by auto
  qed
qed

lemma serve_placement_ok:
  assumes "serve_placement parts q rid idn s = (ans, s')" and "hub_ok ops parse server s"
  shows "hub_ok ops parse server s' \<and> trail_grows s s'"
proof -
  define env where "env = (hp_env parts)\<lparr>env_getCluster := map_option (\<lambda>c. ccGet c (hs_cells s)) (re_client (hp_registry parts))\<rparr>"
  define r where "r = \<lparr>rq_identity = Some idn, rq_id = rid, rq_body = decodePlacement (re_decode (hp_registry parts)) (hq_body q)\<rparr>"
  obtain rsp srv where h: "handlePlacement env (hs_server s) r = (rsp, srv)" by (rule prod.exhaust)
  with assms(1) have s': "s' = s\<lparr>hs_server := srv\<rparr>"
    by (simp add: serve_placement_def env_def [symmetric] r_def [symmetric] Let_def)
  from h obtain recs where "srv_trail srv = srv_trail (hs_server s) @ recs" by (rule handlePlacement_records)
  moreover from handlePlacement_limiter_ok [of "hs_server s" env r] h assms(2) have "limiter_ok (srv_limiter srv)"
    by (simp add: hub_ok_def)
  ultimately show ?thesis using assms(2) by (simp add: s' hub_ok_def trail_grows_def)
qed

lemma serve_capacity_ok:
  assumes "serve_capacity parts q nm idn s = (ans, s')" and "hub_ok ops parse server s"
  shows "hub_ok ops parse server s' \<and> trail_grows s s'"
proof -
  let ?reg = "hp_registry parts"
  let ?q = "\<lparr>cq_name = nm, cq_identity = Some idn, cq_authorization = aq_authorization (hq_api q), cq_relayed = hq_relay q, cq_body = hq_body q\<rparr>"
  let ?k = "map_option (\<lambda>c. ccGet c (hs_cells s) (re_ns ?reg)) (re_client ?reg)"
  obtain rsp index msg where h: "handleReportCapacity (re_decode ?reg) ?k (hp_relays parts) (hp_now parts) (hs_index s) ?q = (rsp, index, msg)"
    by (rule prod_cases3)
  have i: "reg_ok r \<and> opts r = ops" if "index = Some r" for r
  proof (cases "hs_index s")
    case None
    with h that show ?thesis by (simp add: handleReportCapacity_def split: option.splits)
  next
    case (Some r0)
    with assms(2) have "reg_ok r0" "opts r0 = ops" by (simp_all add: hub_ok_def)
    with handleReportCapacity_keeps [OF h [unfolded Some]] that show ?thesis by simp
  qed
  from assms(1) h have "hs_server s' = hs_server s" "hs_cells s' = hs_cells s" "hs_index s' = index"
    by (auto simp: serve_capacity_def Let_def)
  with assms(2) i show ?thesis by (simp add: hub_ok_def trail_grows_def)
qed

lemma registration_keeps_ok:
  assumes "parts_ok parse server parts" and "hub_ok ops parse server s"
  shows "hub_ok ops parse server (s\<lparr>hs_cells := snd (handleRegisterCluster (hp_registry parts) (hs_cells s) body)\<rparr>) \<and>
    hub_ok ops parse server (s\<lparr>hs_cells := snd (handleSetClusterState (hp_registry parts) (hs_cells s) nm body)\<rparr>)"
proof (cases "re_client (hp_registry parts)")
  case None
  with assms(2) show ?thesis by (simp add: hub_ok_def handleRegisterCluster_def handleSetClusterState_def)
next
  case (Some c)
  with assms have "store_documented server c" "re_parseURL (hp_registry parts) = parse" "all_vetted parse server (hs_cells s)"
    by (simp_all add: parts_ok_def hub_ok_def)
  with register_keeps_vetted [OF Some] set_state_keeps_vetted [OF Some] assms(2) show ?thesis by (simp add: hub_ok_def)
qed

lemma serve_route_ok:
  assumes "parts_ok parse server parts" and "hub_ok ops parse server s" and "serve_route parts q rid route vs idn s = (ans, s')"
  shows "hub_ok ops parse server s' \<and> trail_grows s s'"
proof -
  note r = registration_keeps_ok [OF assms(1,2)]
  show ?thesis
  proof (cases route)
    case PostPlacement
    with assms(3) serve_placement_ok [OF _ assms(2)] show ?thesis by (simp add: serve_route_def Let_def)
  next
    case PostCapacity
    with assms(3) serve_capacity_ok [OF _ assms(2)] show ?thesis by (simp add: serve_route_def Let_def)
  next
    case PostCluster
    with assms(3) have "s' = s\<lparr>hs_cells := snd (handleRegisterCluster (hp_registry parts) (hs_cells s) (hq_body q))\<rparr>"
      by (auto simp: serve_route_def Let_def split: prod.splits)
    with r show ?thesis by (simp add: trail_grows_def)
  next
    case PatchState
    with assms(3) have "s' = s\<lparr>hs_cells := snd (handleSetClusterState (hp_registry parts) (hs_cells s)
        (case vs of [] \<Rightarrow> '''' | v # _ \<Rightarrow> v) (hq_body q))\<rparr>"
      by (auto simp: serve_route_def Let_def split: prod.splits)
    with r show ?thesis by (simp add: trail_grows_def)
  qed (use assms(2,3) in \<open>auto simp: serve_route_def Let_def\<close>)
qed

lemma hub_mux_ok:
  assumes "parts_ok parse server parts" and "hub_ok ops parse server s" and "hub_mux parts q rid idn s = (ans, s')"
  shows "hub_ok ops parse server s' \<and> trail_grows s s'"
  using assms(2,3) serve_route_ok [OF assms(1,2)]
  by (auto simp: hub_mux_def split: dispatch.splits)

text \<open>A name that a path carries as it is: one segment, no escape.\<close>

definition plain_name :: "string \<Rightarrow> bool" where
  "plain_name nm \<longleftrightarrow> nm \<notin> {'''', ''.'', ''..''} \<and> CHR ''/'' \<notin> set nm \<and> CHR ''%'' \<notin> set nm"

lemma PathUnescape_plain: "CHR ''%'' \<notin> set nm \<Longrightarrow> PathUnescape nm = Some nm"
  by (induction nm) auto

lemma go_split_no_sep: "c \<notin> set xs \<Longrightarrow> go_split c xs = [xs]"
  by (induction xs) auto

lemma go_split_append: "c \<notin> set xs \<Longrightarrow> go_split c (xs @ c # ys) = xs # go_split c ys"
  by (induction xs) auto

lemma join_segs_Cons: "ss \<noteq> [] \<Longrightarrow> join_segs (s # ss) = s @ ''/'' @ join_segs ss"
  by (cases ss) simp_all

lemma go_split_join: "ss \<noteq> [] \<Longrightarrow> \<forall>s \<in> set ss. CHR ''/'' \<notin> set s \<Longrightarrow> go_split (CHR ''/'') (join_segs ss) = ss"
  by (induction ss rule: join_segs.induct) (simp_all add: go_split_no_sep go_split_append)

lemma clean_segs_id: "\<forall>s \<in> set ss. s \<notin> {'''', ''.'', ''..''} \<Longrightarrow> clean_segs acc ss = rev acc @ ss"
  by (induction ss arbitrary: acc) simp_all

lemma last_join_segs: "ss \<noteq> [] \<Longrightarrow> \<forall>s \<in> set ss. s \<noteq> '''' \<and> CHR ''/'' \<notin> set s \<Longrightarrow> join_segs ss \<noteq> '''' \<and> last (join_segs ss) \<noteq> CHR ''/''"
  by (induction ss rule: join_segs.induct) (auto dest: last_in_set)

lemma plain_path:
  assumes "ss \<noteq> []" and "\<forall>s \<in> set ss. plain_name s"
  shows "cleanPath (CHR ''/'' # join_segs ss) = CHR ''/'' # join_segs ss \<and> path_segs (CHR ''/'' # join_segs ss) = ss"
proof -
  have n: "\<forall>s \<in> set ss. s \<notin> {'''', ''.'', ''..''}" "\<forall>s \<in> set ss. CHR ''/'' \<notin> set s"
    "\<forall>s \<in> set ss. s \<noteq> '''' \<and> CHR ''/'' \<notin> set s" "\<forall>s \<in> set ss. PathUnescape s = Some s"
    using assms(2) by (auto simp: plain_name_def PathUnescape_plain)
  have g: "go_split (CHR ''/'') (CHR ''/'' # join_segs ss) = '''' # ss" using go_split_join [OF assms(1) n(2)] by simp
  have l: "join_segs ss \<noteq> ''''" "last (join_segs ss) \<noteq> CHR ''/''" using last_join_segs [OF assms(1) n(3)] by simp_all
  have "map (\<lambda>s. if s = '''' then ''/'' else (case PathUnescape s of Some t \<Rightarrow> t | None \<Rightarrow> s)) ss = ss"
    using n(3,4) by (intro map_idI) auto
  then show ?thesis using l clean_segs_id [OF n(1), of "[]"] unfolding cleanPath_def path_segs_def list.sel g by (simp add: go_split_join [OF assms(1) n(2)])
qed

lemma find_unique:
  assumes "x \<in> set xs" and "P x" and "\<And>y. y \<in> set xs \<Longrightarrow> P y \<Longrightarrow> y = x"
  shows "find P xs = Some x"
proof (cases "find P xs")
  case None
  with assms(1,2) show ?thesis by (auto simp: find_None_iff)
next
  case (Some y)
  with assms(3) [of y] show ?thesis by (auto dest: find_SomeD)
qed

lemma mux_find_Serve:
  "mux_find api_routes m p = Serve pat h vs \<longleftrightarrow>
    (m = ''CONNECT'' \<or> cleanPath p = p) \<and> (pat, h) \<in> set api_routes \<and> route_fits m p pat vs"
proof -
  define on_path where "on_path = concat (map (\<lambda>(pat, h). case match_segs (snd (parse_pattern pat)) (path_segs p) of
      None \<Rightarrow> [] | Some vs \<Rightarrow> [(pat, h, vs)]) api_routes)"
  have mem: "(pat, h, vs) \<in> set on_path \<longleftrightarrow> (pat, h) \<in> set api_routes \<and> match_segs (snd (parse_pattern pat)) (path_segs p) = Some vs"
    for pat h vs unfolding on_path_def by (auto split: option.splits)
  let ?P = "\<lambda>(pat, h, vs). method_matches (fst (parse_pattern pat)) m"
  have f: "find ?P on_path = Some (pat, h, vs) \<longleftrightarrow> (pat, h) \<in> set api_routes \<and> route_fits m p pat vs"
  proof
    assume "find ?P on_path = Some (pat, h, vs)"
    from find_SomeD [OF this] have "(pat, h, vs) \<in> set on_path" "?P (pat, h, vs)" by simp_all
    then show "(pat, h) \<in> set api_routes \<and> route_fits m p pat vs" by (simp add: mem route_fits_def)
  next
    assume a: "(pat, h) \<in> set api_routes \<and> route_fits m p pat vs"
    show "find ?P on_path = Some (pat, h, vs)"
    proof (rule find_unique)
      show "(pat, h, vs) \<in> set on_path" "?P (pat, h, vs)" using a by (simp_all add: mem route_fits_def)
    next
      fix y assume y: "y \<in> set on_path" "?P y"
      obtain pat' h' vs' where e: "y = (pat', h', vs')" by (rule prod_cases3)
      from y have "(pat', h') \<in> set api_routes" "route_fits m p pat' vs'" by (simp_all add: e mem route_fits_def)
      from api_routes_disjoint [OF this(1) conjunct1 [OF a] this(2) conjunct2 [OF a]] show "y = (pat, h, vs)" by (simp add: e)
    qed
  qed
  show ?thesis
  proof (cases "m = ''CONNECT'' \<or> cleanPath p = p")
    case True
    then have "(if m = ''CONNECT'' then p else cleanPath p) = p" "\<not> (m \<noteq> ''CONNECT'' \<and> p \<noteq> p)" by auto
    then have "mux_find api_routes m p = (case find ?P on_path of
        Some (pat, h, vs) \<Rightarrow> Serve pat h vs | None \<Rightarrow> if on_path \<noteq> [] then MethodNotAllowed else NotFoundRoute)"
      unfolding mux_find_def Let_def on_path_def by (simp only: if_False)
    then show ?thesis using True
      by (cases "find ?P on_path") (simp_all add: f [symmetric] split: prod.split)
  next
    case False
    then show ?thesis by (simp add: mux_find_def Let_def)
  qed
qed

text \<open>Any authenticator at all, for what holds whoever is let in.\<close>

interpretation any_authn: authenticator_seam authn "\<lambda>_. True" "\<lambda>_ _. True" for authn
  by unfold_locales simp_all

lemma hub_serve_ok:
  assumes "\<forall>(parts, rnd, q) \<in> set qs. parts_ok parse server parts" and "hub_ok ops parse server s"
    and "hub_serve authn qs (a, s) = (answers, a', s')"
  shows "hub_ok ops parse server s' \<and> trail_grows s s'"
  using assms
proof (induction qs arbitrary: a s answers)
  case Nil
  then show ?case by simp
next
  case (Cons q qs)
  obtain parts rnd r where q: "q = (parts, rnd, r)" by (rule prod_cases3)
  obtain ans lines counts a1 s1 where h: "hub_handle authn parts rnd r (a, s) = (ans, lines, counts, a1, s1)" by (rule prod_cases5)
  have "hub_ok ops parse server s1 \<and> trail_grows s s1"
    using any_authn.api_served [OF TrueI h [unfolded hub_handle_def]] hub_mux_ok [of parse server parts ops s r] Cons.prems(1,2)
    by (auto simp: q)
  moreover obtain rest where r: "hub_serve authn qs (a1, s1) = (rest, a', s')"
    using Cons.prems(3) h by (auto simp: q Let_def split: prod.splits)
  ultimately show ?case using Cons.IH [OF _ _ r] Cons.prems(1) trail_grows_trans by auto
qed

section \<open>Properties\<close>

text \<open>
  Requests reach the handler of their route and no other. A request is served by a route exactly when its path is clean, the
  route's method is the request's (a HEAD counts as a GET) and the route's segments match; no two routes overlap, so the
  handler is unique. For a name that needs no escaping, the paths of the cell routes reach their handlers with
  that very name.
\<close>

theorem routing_is_exact:
  assumes "plain_name nm"
  shows "(mux_find api_routes m p = Serve pat h vs \<longleftrightarrow>
      (m = ''CONNECT'' \<or> cleanPath p = p) \<and> (pat, h) \<in> set api_routes \<and> method_matches (fst (parse_pattern pat)) m \<and>
      match_segs (snd (parse_pattern pat)) (path_segs p) = Some vs) \<and>
    mux_find api_routes ''GET'' (''/api/v1/clusters/'' @ nm) = Serve ''GET /api/v1/clusters/{name}'' GetCluster [nm] \<and>
    mux_find api_routes ''PATCH'' (''/api/v1/clusters/'' @ nm @ ''/state'') = Serve ''PATCH /api/v1/clusters/{name}/state'' PatchState [nm] \<and>
    mux_find api_routes ''POST'' (''/api/v1/clusters/'' @ nm @ ''/capacity'') =
      Serve ''POST /api/v1/clusters/{name}/capacity'' PostCapacity [nm]"
proof -
  have p: "plain_name ''api''" "plain_name ''v1''" "plain_name ''clusters''" "plain_name ''state''" "plain_name ''capacity''" "nm \<noteq> ''/''"
    using assms by (auto simp: plain_name_def)
  have c: "cleanPath (''/api/v1/clusters/'' @ nm) = ''/api/v1/clusters/'' @ nm \<and> path_segs (''/api/v1/clusters/'' @ nm) = [''api'', ''v1'', ''clusters'', nm]"
    "cleanPath (''/api/v1/clusters/'' @ nm @ ''/'' @ tail) = ''/api/v1/clusters/'' @ nm @ ''/'' @ tail \<and>
      path_segs (''/api/v1/clusters/'' @ nm @ ''/'' @ tail) = [''api'', ''v1'', ''clusters'', nm, tail]"
    if "plain_name tail" for tail
    using plain_path [of "[''api'', ''v1'', ''clusters'', nm]"] plain_path [of "[''api'', ''v1'', ''clusters'', nm, tail]"] p assms that by simp_all
  note c' = c(1) [OF p(4)] c(2) [OF p(4)] c(2) [OF p(5)]
  have "mux_find api_routes ''GET'' (''/api/v1/clusters/'' @ nm) = Serve ''GET /api/v1/clusters/{name}'' GetCluster [nm]"
    using c'(1) p(6) unfolding mux_find_Serve by (simp add: route_fits_def parse_api_patterns method_matches_def api_routes_def)
  moreover have "mux_find api_routes ''PATCH'' (''/api/v1/clusters/'' @ nm @ ''/state'') = Serve ''PATCH /api/v1/clusters/{name}/state'' PatchState [nm]"
    using c'(2) p(6) unfolding mux_find_Serve by (simp add: route_fits_def parse_api_patterns method_matches_def api_routes_def)
  moreover have "mux_find api_routes ''POST'' (''/api/v1/clusters/'' @ nm @ ''/capacity'') =
      Serve ''POST /api/v1/clusters/{name}/capacity'' PostCapacity [nm]"
    using c'(3) p(6) unfolding mux_find_Serve by (simp add: route_fits_def parse_api_patterns method_matches_def api_routes_def)
  ultimately show ?thesis by (simp only: mux_find_Serve route_fits_def simp_thms)
qed

text \<open>
  C23. The hub as a whole stays in order, whoever calls it. Over an API server that keeps its documented promises and any
  authenticator, every history of requests to the assembled API keeps the limiter's table free of duplicates, the
  capacity index within its invariant and its configured options, every held cell within what registration accepts, and
  the audit trail growing only at its end; and a request the authenticator rejects changes none of it.
\<close>

theorem hub_stays_in_order:
  assumes "\<forall>(parts, rnd, q) \<in> set qs. parts_ok parse server parts" and "hub_ok ops parse server s"
    and "hub_serve authn qs (a, s) = (answers, a', s')"
  shows "hub_ok ops parse server s' \<and> trail_grows s s' \<and>
    (\<forall>parts rnd q a1 lines counts a2 s2. hub_handle authn parts rnd q (a1, s') = (Unauthorized, lines, counts, a2, s2) \<longrightarrow> s2 = s')"
proof -
  have n: "hub_mux parts q rid idn s' \<noteq> (Some Unauthorized, s2)" for parts q rid idn s2
    by (auto simp: hub_mux_def serve_route_def serve_placement_def serve_capacity_def registry_answer_def Let_def
        split: dispatch.splits api_route.splits prod.splits)
  have "s2 = s'" if "hub_handle authn parts rnd q (a1, s') = (Unauthorized, lines, counts, a2, s2)" for parts rnd q a1 lines counts a2 s2
    using any_authn.api_served [OF TrueI that [unfolded hub_handle_def]] n by (auto split: option.splits)
  with hub_serve_ok [OF assms] show ?thesis by blast
qed

section \<open>Witnesses\<close>

theorem routing_is_exact_witness:
  "mux_find api_routes ''PATCH'' ''/api/v1/clusters/prod-euw1/state'' = Serve ''PATCH /api/v1/clusters/{name}/state'' PatchState [''prod-euw1'']"
proof -
  have "plain_name ''prod-euw1''" by (simp add: plain_name_def)
  from routing_is_exact [OF this] show ?thesis by simp
qed

text \<open>A hub with an empty index and an empty registry, and a request that registers a cell.\<close>

definition sample_hub_state :: "(unit, nat, cluster_store) hub_state" where
  "sample_hub_state = \<lparr>hs_server = \<lparr>srv_limiter = None, srv_placer = None, srv_warm = False, srv_trail = []\<rparr>,
    hs_cells = (\<lambda>_. None, \<lambda>_. None), hs_index = Some (New sample_options), hs_relayed = []\<rparr>"

definition sample_hub_request :: hub_request where
  "sample_hub_request = \<lparr>hq_api = \<lparr>aq_method = ''POST'', aq_path = ''/api/v1/clusters'', aq_authorization = ''''\<rparr>,
    hq_escapedPath = ''/api/v1/clusters'', hq_labelSelector = '''', hq_relay = '''', hq_body = ''{}''\<rparr>"

definition sample_hub_parts :: "(unit, nat, cluster_store) hub_parts" where
  "sample_hub_parts = \<lparr>hp_env = \<lparr>env_place = (\<lambda>p _ _. (Inl (ListClustersError (ApiError OtherApiError '''')), p)), env_remember = (\<lambda>p _. (None, p)),
      env_mint = None, env_getCluster = None, env_namespace = ''cellcast'', env_buckets = sample_bucket, env_parseDuration = (\<lambda>_. None),
      env_brokerText = (\<lambda>_. ''''), env_now = 0\<rparr>,
    hp_registry = sample_registry sample_reg_json, hp_relays = False, hp_now = 0,
    hp_version = \<lparr>bi_version = ''dev'', bi_commit = '''', bi_date = '''', bi_goVersion = '''', bi_platform = ''''\<rparr>, hp_redirect = 307\<rparr>"

definition sample_open_authn :: "unit \<Rightarrow> string \<Rightarrow> (auth_error + Identity) \<times> unit" where
  "sample_open_authn a header = (Inr sample_identity, a)"

theorem hub_stays_in_order_witness:
  "\<exists>ans s'. hub_serve sample_open_authn [(sample_hub_parts, ''r'', sample_hub_request)] ((), sample_hub_state) = ([ans], (), s') \<and>
    answer_status ans = 201 \<and> all_vetted (re_parseURL (sample_registry sample_reg_json)) sample_held (hs_cells s')"
proof -
  let ?reg = "sample_registry sample_reg_json"
  let ?parts = sample_hub_parts
  have p: "hp_registry ?parts = ?reg" by (simp add: sample_hub_parts_def)
  obtain rsp cells where g: "handleRegisterCluster ?reg (\<lambda>_. None, \<lambda>_. None) ''{}'' = (rsp, cells)" by (rule prod.exhaust)
  have f: "mux_find api_routes (aq_method (hq_api sample_hub_request)) (hq_escapedPath sample_hub_request) =
      Serve ''POST /api/v1/clusters'' PostCluster []" by code_simp
  have c: "hs_cells sample_hub_state = (\<lambda>_. None, \<lambda>_. None)" "hq_body sample_hub_request = ''{}''"
    by (simp_all add: sample_hub_state_def sample_hub_request_def)
  have m: "hub_mux ?parts sample_hub_request rid idn sample_hub_state =
      (registry_answer rsp, sample_hub_state\<lparr>hs_cells := cells\<rparr>)" for rid idn
    unfolding hub_mux_def f dispatch.case serve_route_def Let_def api_route.case p c g by simp
  let ?ans = "Wrote (rgr_status rsp) (RegistryAnswer rsp)"
  have h: "hub_serve sample_open_authn [(?parts, ''r'', sample_hub_request)] ((), sample_hub_state) =
      ([?ans], (), sample_hub_state\<lparr>hs_cells := cells\<rparr>)"
    by (simp add: hub_handle_def apiHandler_def authenticate_def sample_open_authn_def m registry_answer_def logging_def recoverPanic_def Let_def)
  have "parts_ok (re_parseURL ?reg) sample_held ?parts"
    using sample_store_documented by (simp add: parts_ok_def p) (simp add: sample_registry_def)
  then have q: "\<forall>(parts, rnd, q) \<in> set [(?parts, ''r'', sample_hub_request)]. parts_ok (re_parseURL ?reg) sample_held parts" by simp
  have o: "hub_ok (withDefaults sample_options) (re_parseURL ?reg) sample_held sample_hub_state"
    using reg_ok_New [of sample_options] by (simp add: hub_ok_def sample_hub_state_def limiter_ok_def all_vetted_def sample_held_def New_def)
  from sample_registration g have "answer_status ?ans = 201" by simp
  moreover from hub_stays_in_order [OF q o h] have "all_vetted (re_parseURL ?reg) sample_held (hs_cells (sample_hub_state\<lparr>hs_cells := cells\<rparr>))"
    by (simp add: hub_ok_def)
  ultimately show ?thesis using h by (intro exI [of _ ?ans] exI [of _ "sample_hub_state\<lparr>hs_cells := cells\<rparr>"]) simp
qed

end
