(* ===== verification/Agent.thy ===== *)
theory Agent
  imports Oidc CapacityApi
begin

text \<open>
  The capacity reporter that runs in every cell: \<open>internal/agent\<close>'s \<open>agent.go\<close>, \<open>collect.go\<close>, \<open>hub.go\<close>, \<open>reporter.go\<close>
  and the collector and probes of \<open>run.go\<close>.

  A node and a pod are records of the fields the agent reads, with quantities as the integers \<open>MilliValue\<close> and \<open>Value\<close>
  return; sums are int64 and wrap. A report is a function of the token file and of an exchange over the wire, which may change the
  other side and may lose the request or the response.
  The reporting loop is one function per round of its \<open>for\<close>: the round is given the random number, the measurement and the
  outcome of the attempt. Random numbers and jitter are float64. Parameters: \<open>url.Parse\<close> and \<open>JoinPath\<close>, the
  path the hub's router reads off a URL, reading a file, the
  certificate pool, JSON text. Leader election and the informers are client-go's; trace spans are left out.
\<close>

section \<open>Configuration\<close>

definition DefaultHeartbeatInterval :: duration where "DefaultHeartbeatInterval = 30 * Second"
definition DefaultTokenPath :: string where "DefaultTokenPath = ''/var/run/secrets/cellcast/token''"
definition DefaultRequestTimeout :: duration where "DefaultRequestTimeout = 10 * Second"
definition DefaultMaxBackoff :: duration where "DefaultMaxBackoff = 2 * Minute"
definition DefaultNamespace :: string where "DefaultNamespace = ''cellcast-system''"

lemmas agent_defaults = DefaultHeartbeatInterval_def DefaultTokenPath_def DefaultRequestTimeout_def DefaultMaxBackoff_def
  DefaultNamespace_def

record agent_Config =
  ag_hubEndpoint :: string
  ag_hubCAFile :: string
  ag_cellName :: string
  ag_tokenPath :: string
  ag_interval :: duration
  ag_timeout :: duration
  ag_maxBackoff :: duration
  ag_kubeconfig :: string
  ag_namespace :: string
  ag_leaderElection :: bool
  ag_probeAddr :: string
  ag_logLevel :: string
  ag_logFormat :: string

definition agent_DefaultConfig :: agent_Config where
  "agent_DefaultConfig = \<lparr>ag_hubEndpoint = '''', ag_hubCAFile = '''', ag_cellName = '''', ag_tokenPath = DefaultTokenPath,
    ag_interval = DefaultHeartbeatInterval, ag_timeout = DefaultRequestTimeout, ag_maxBackoff = DefaultMaxBackoff,
    ag_kubeconfig = '''', ag_namespace = DefaultNamespace, ag_leaderElection = True, ag_probeAddr = '':8081'',
    ag_logLevel = ''info'', ag_logFormat = ''json''\<rparr>"

datatype agent_config_error =
    NoHubEndpoint | NoCellName | NoTokenPath | BadInterval duration | BadTimeout duration | TimeoutNotShorter duration duration
  | BackoffTooShort duration duration | NoLeaseNamespace | BadLogLevel string | BadLogFormat string

definition agent_Validate :: "agent_Config \<Rightarrow> agent_config_error option" where
  "agent_Validate c =
    (if ag_hubEndpoint c = '''' then Some NoHubEndpoint
     else if ag_cellName c = '''' then Some NoCellName
     else if ag_tokenPath c = '''' then Some NoTokenPath
     else if ag_interval c \<le> 0 then Some (BadInterval (ag_interval c))
     else if ag_timeout c \<le> 0 then Some (BadTimeout (ag_timeout c))
     else if ag_timeout c \<ge> ag_interval c then Some (TimeoutNotShorter (ag_timeout c) (ag_interval c))
     else if ag_maxBackoff c < ag_interval c then Some (BackoffTooShort (ag_maxBackoff c) (ag_interval c))
     else if ag_leaderElection c \<and> ag_namespace c = '''' then Some NoLeaseNamespace
     else if ag_logLevel c \<notin> {''debug'', ''info'', ''warn'', ''error''} then Some (BadLogLevel (ag_logLevel c))
     else if ag_logFormat c \<notin> {''json'', ''text''} then Some (BadLogFormat (ag_logFormat c))
     else None)"

section \<open>Measuring the cell\<close>

record agent_Snapshot =
  sn_nodes :: int
  sn_cpuMilliAllocatable :: int
  sn_cpuMilliCommitted :: int
  sn_memoryBytesAllocatable :: int
  sn_memoryBytesCommitted :: int
  sn_pods :: int
  sn_podCapacity :: int

definition empty_snapshot :: agent_Snapshot where
  "empty_snapshot = \<lparr>sn_nodes = 0, sn_cpuMilliAllocatable = 0, sn_cpuMilliCommitted = 0, sn_memoryBytesAllocatable = 0,
    sn_memoryBytesCommitted = 0, sn_pods = 0, sn_podCapacity = 0\<rparr>"

record node =
  nd_unschedulable :: bool
  nd_conditions :: "(string \<times> string) list"
  nd_cpuMilli :: int
  nd_memory :: int
  nd_pods :: int

text \<open>A container, init or regular; \<open>RestartPolicy\<close> is a pointer.\<close>

record container =
  ctr_cpuMilli :: int
  ctr_memory :: int
  ctr_restartPolicy :: "string option"

record pod =
  pod_phase :: string
  pod_containers :: "container list"
  pod_initContainers :: "container list"
  pod_overhead :: "(int \<times> int) option"

definition schedulable :: "node \<Rightarrow> bool" where
  "schedulable n =
    (if nd_unschedulable n then False
     else (case List.find (\<lambda>(ty, _). ty = ''Ready'') (nd_conditions n) of
             Some (_, status) \<Rightarrow> status = ''True''
           | None \<Rightarrow> False))"

definition terminal :: "pod \<Rightarrow> bool" where
  "terminal p \<longleftrightarrow> pod_phase p = ''Succeeded'' \<or> pod_phase p = ''Failed''"

definition is_sidecar :: "container \<Rightarrow> bool" where
  "is_sidecar c \<longleftrightarrow> ctr_restartPolicy c = Some ''Always''"

text \<open>
  The loop over the init containers, for one resource (\<open>f\<close> reads it): the sidecars so far and the largest request of an init container
  beside them. \<open>podRequests\<close> runs it for CPU and memory at once.
\<close>

definition init_step :: "(container \<Rightarrow> int) \<Rightarrow> int \<times> int \<Rightarrow> container \<Rightarrow> int \<times> int" where
  "init_step f acc ic =
    (case acc of (sidecar, init) \<Rightarrow>
      (if is_sidecar ic then wrap64 (sidecar + f ic) else sidecar, max init (wrap64 (f ic + sidecar))))"

definition pod_request :: "(container \<Rightarrow> int) \<Rightarrow> (int \<times> int \<Rightarrow> int) \<Rightarrow> pod \<Rightarrow> int" where
  "pod_request f g p =
    (let containers = foldl (\<lambda>a c. wrap64 (a + f c)) 0 (pod_containers p);
         (sidecar, init) = foldl (init_step f) (0, 0) (pod_initContainers p);
         total = max (wrap64 (containers + sidecar)) init
     in case pod_overhead p of None \<Rightarrow> total | Some ov \<Rightarrow> wrap64 (total + g ov))"

definition podRequests :: "pod \<Rightarrow> int \<times> int" where
  "podRequests p = (pod_request ctr_cpuMilli fst p, pod_request ctr_memory snd p)"

definition collect_node :: "agent_Snapshot \<Rightarrow> node \<Rightarrow> agent_Snapshot" where
  "collect_node s n =
    (if \<not> schedulable n then s
     else s\<lparr>sn_nodes := wrap64 (sn_nodes s + 1),
            sn_cpuMilliAllocatable := wrap64 (sn_cpuMilliAllocatable s + nd_cpuMilli n),
            sn_memoryBytesAllocatable := wrap64 (sn_memoryBytesAllocatable s + nd_memory n),
            sn_podCapacity := wrap64 (sn_podCapacity s + nd_pods n)\<rparr>)"

definition collect_pod :: "agent_Snapshot \<Rightarrow> pod \<Rightarrow> agent_Snapshot" where
  "collect_pod s p =
    (if terminal p then s
     else (case podRequests p of (cpu, mem) \<Rightarrow>
       s\<lparr>sn_pods := wrap64 (sn_pods s + 1),
         sn_cpuMilliCommitted := wrap64 (sn_cpuMilliCommitted s + cpu),
         sn_memoryBytesCommitted := wrap64 (sn_memoryBytesCommitted s + mem)\<rparr>))"

definition Collect_cell :: "node list \<Rightarrow> pod list \<Rightarrow> agent_Snapshot" where
  "Collect_cell nodes pods = foldl collect_pod (foldl collect_node empty_snapshot nodes) pods"

text \<open>The collector over the listers of the informer caches: a lister that fails yields the empty measurement.\<close>

definition informer_collect :: "(string + node list) \<Rightarrow> (string + pod list) \<Rightarrow> agent_Snapshot" where
  "informer_collect nodes pods =
    (case nodes of Inl _ \<Rightarrow> empty_snapshot
     | Inr ns \<Rightarrow> (case pods of Inl _ \<Rightarrow> empty_snapshot | Inr ps \<Rightarrow> Collect_cell ns ps))"

section \<open>Publishing\<close>

definition maxErrorBytes :: nat where "maxErrorBytes = 4 * 1024"

datatype publish_error =
    TokenUnreadable | TokenEmpty | RequestNotBuilt string | PostFailed string | HubError (he_status: int) (he_message: string)

definition Misconfigured :: "int \<Rightarrow> bool" where
  "Misconfigured status \<longleftrightarrow> 400 \<le> status \<and> status < 500"

record HubClient =
  hc_url :: string
  hc_tokenPath :: string
  hc_customRoots :: bool

datatype hub_client_error = EndpointUnparsable | EndpointHostless | EndpointCredentials | CAUnreadable string | CAUnusable string

definition hubTransport :: "(string \<Rightarrow> string option) \<Rightarrow> (string \<Rightarrow> bool) \<Rightarrow> string \<Rightarrow> hub_client_error + bool" where
  "hubTransport readFile appendCerts caFile =
    (if caFile = '''' then Inr False
     else (case readFile caFile of
       None \<Rightarrow> Inl (CAUnreadable caFile)
     | Some pem \<Rightarrow> if appendCerts pem then Inr True else Inl (CAUnusable caFile)))"

definition NewHubClient ::
  "(string \<Rightarrow> URL option) \<Rightarrow> (string \<Rightarrow> string list \<Rightarrow> string) \<Rightarrow> (string \<Rightarrow> string option) \<Rightarrow> (string \<Rightarrow> bool) \<Rightarrow>
    agent_Config \<Rightarrow> hub_client_error + HubClient" where
  "NewHubClient parse joinPath readFile appendCerts cfg =
    (case parse (ag_hubEndpoint cfg) of
       None \<Rightarrow> Inl EndpointUnparsable
     | Some base \<Rightarrow>
       if url_host base = '''' then Inl EndpointHostless
       else if url_user base then Inl EndpointCredentials
       else (case hubTransport readFile appendCerts (ag_hubCAFile cfg) of
         Inl e \<Rightarrow> Inl e
       | Inr roots \<Rightarrow>
         Inr \<lparr>hc_url = joinPath (ag_hubEndpoint cfg) [''api'', ''v1'', ''clusters'', ag_cellName cfg, ''capacity''],
              hc_tokenPath = ag_tokenPath cfg, hc_customRoots = roots\<rparr>))"

definition agent_token :: "(string \<Rightarrow> string option) \<Rightarrow> HubClient \<Rightarrow> publish_error + string" where
  "agent_token readFile c =
    (case readFile (hc_tokenPath c) of
       None \<Rightarrow> Inl TokenUnreadable
     | Some raw \<Rightarrow> if TrimSpace raw = '''' then Inl TokenEmpty else Inr (TrimSpace raw))"

text \<open>\<open>json.Marshal\<close> of a map from strings to integers, which sorts the keys.\<close>

definition snapshot_fields :: "agent_Snapshot \<Rightarrow> (string \<times> int) list" where
  "snapshot_fields s =
    [(''cpuMilliAllocatable'', sn_cpuMilliAllocatable s), (''cpuMilliCommitted'', sn_cpuMilliCommitted s),
     (''memoryBytesAllocatable'', sn_memoryBytesAllocatable s), (''memoryBytesCommitted'', sn_memoryBytesCommitted s),
     (''nodes'', sn_nodes s), (''podCapacity'', sn_podCapacity s), (''pods'', sn_pods s)]"

definition marshal_ints :: "(string \<times> int) list \<Rightarrow> string" where
  "marshal_ints fs =
    ''{'' @ concat (map (\<lambda>(i, k, n). (if i = 0 then '''' else '','') @ [CHR 0x22] @ k @ [CHR 0x22] @ '':'' @ int_text n)
      (enumerate 0 fs)) @ ''}''"

record report_request =
  rpt_url :: string
  rpt_authorization :: string
  rpt_body :: string

text \<open>What an exchange gives the client: a request that could not be built, a transport error, or a response.\<close>

datatype hub_wire = NotBuilt string | NotSent string | Answered int "string option"

definition hubErrorMessage :: "(string \<Rightarrow> (json \<times> string) option) \<Rightarrow> string option \<Rightarrow> string" where
  "hubErrorMessage decode body =
    (case map_option (take maxErrorBytes) body of
       None \<Rightarrow> ''no response body''
     | Some raw \<Rightarrow>
       if raw = '''' then ''no response body''
       else (case Unmarshal decode raw of
         None \<Rightarrow> TrimSpace raw
       | Some v \<Rightarrow>
         (case into_field ''error'' v of
            None \<Rightarrow> TrimSpace raw
          | Some msg \<Rightarrow> if msg \<noteq> '''' then msg else TrimSpace raw)))"

text \<open>\<open>w\<close> is the world on the other side of the exchange.\<close>

definition agent_report ::
  "(string \<Rightarrow> (json \<times> string) option) \<Rightarrow> (string \<Rightarrow> string option) \<Rightarrow> (report_request \<Rightarrow> 'w \<Rightarrow> hub_wire \<times> 'w) \<Rightarrow> HubClient \<Rightarrow>
    agent_Snapshot \<Rightarrow> 'w \<Rightarrow> publish_error option \<times> 'w" where
  "agent_report decode readFile exchange c s w =
    (case agent_token readFile c of
       Inl e \<Rightarrow> (Some e, w)
     | Inr token \<Rightarrow>
       (case exchange \<lparr>rpt_url = hc_url c, rpt_authorization = ''Bearer '' @ token, rpt_body = marshal_ints (snapshot_fields s)\<rparr> w of
          (wire, w') \<Rightarrow>
            (case wire of
               NotBuilt e \<Rightarrow> Some (RequestNotBuilt e)
             | NotSent e \<Rightarrow> Some (PostFailed e)
             | Answered status body \<Rightarrow>
               if status < 200 \<or> status \<ge> 300 then Some (HubError status (hubErrorMessage decode body)) else None,
             w')))"

section \<open>The reporting loop\<close>

definition jitterFraction :: rat where "jitterFraction = f64 (1 / 10)"

record Reporter =
  rp_interval :: duration
  rp_timeout :: duration
  rp_maxBackoff :: duration

definition jitter :: "rat \<Rightarrow> duration \<Rightarrow> duration" where
  "jitter rnd d =
    (let offset = f64_mul (f64_mul (f64_sub (f64_mul rnd 2) 1) jitterFraction) (f64_of_int d)
     in wrap64 (d + trunc64 offset))"

definition random :: "rat \<Rightarrow> duration \<Rightarrow> duration" where
  "random rnd d = trunc64 (f64_mul rnd (f64_of_int d))"

fun backoff_loop :: "duration \<Rightarrow> nat \<Rightarrow> duration \<Rightarrow> duration" where
  "backoff_loop cap 0 wait = wait"
| "backoff_loop cap (Suc k) wait = (if wait < cap then backoff_loop cap k (wrap64 (wait * 2)) else wait)"

definition backoff :: "Reporter \<Rightarrow> rat \<Rightarrow> nat \<Rightarrow> duration" where
  "backoff r rnd n = jitter rnd (min (backoff_loop (rp_maxBackoff r) (n - 1) (rp_interval r)) (rp_maxBackoff r))"

datatype reporter_log = RejectedByHub publish_error nat duration | ReportFailed publish_error nat duration | Recovered nat

definition logFailure :: "publish_error \<Rightarrow> nat \<Rightarrow> duration \<Rightarrow> reporter_log" where
  "logFailure err failures wait =
    (case err of
       HubError status _ \<Rightarrow> if Misconfigured status then RejectedByHub err failures wait else ReportFailed err failures wait
     | _ \<Rightarrow> ReportFailed err failures wait)"

text \<open>
  The state between rounds: consecutive failures, what the timer is set to, whether \<open>Run\<close> has returned, the measurements handed
  to \<open>Publish\<close> and the log. A round ends at the context, or measures, publishes and sets the timer.
\<close>

record reporter_state =
  rs_failures :: nat
  rs_timer :: duration
  rs_returned :: bool
  rs_published :: "agent_Snapshot list"
  rs_log :: "reporter_log list"

record round =
  rd_cancelled :: bool
  rd_measured :: agent_Snapshot
  rd_outcome :: "publish_error option"
  rd_cancelledMeanwhile :: bool
  rd_rand :: rat

definition reporter_start :: "Reporter \<Rightarrow> rat \<Rightarrow> reporter_state" where
  "reporter_start r rnd =
    \<lparr>rs_failures = 0, rs_timer = random rnd (rp_interval r), rs_returned = False, rs_published = [], rs_log = []\<rparr>"

definition reporter_round :: "Reporter \<Rightarrow> reporter_state \<Rightarrow> round \<Rightarrow> reporter_state" where
  "reporter_round r s a =
    (if rs_returned s then s
     else if rd_cancelled a then s\<lparr>rs_returned := True\<rparr>
     else (let s1 = s\<lparr>rs_published := rs_published s @ [rd_measured a]\<rparr> in
       case rd_outcome a of
         Some err \<Rightarrow>
           if rd_cancelledMeanwhile a then s1\<lparr>rs_returned := True\<rparr>
           else (let n = Suc (rs_failures s); wait = backoff r (rd_rand a) n
                 in s1\<lparr>rs_failures := n, rs_timer := wait, rs_log := rs_log s @ [logFailure err n wait]\<rparr>)
       | None \<Rightarrow>
           s1\<lparr>rs_failures := 0, rs_timer := jitter (rd_rand a) (rp_interval r),
              rs_log := (if rs_failures s > 0 then rs_log s @ [Recovered (rs_failures s)] else rs_log s)\<rparr>))"

definition reporter_run :: "Reporter \<Rightarrow> rat \<Rightarrow> round list \<Rightarrow> reporter_state" where
  "reporter_run r rnd = foldl (reporter_round r) (reporter_start r rnd)"

text \<open>\<open>Run\<close> up to the loop, and the probes: readiness follows the caches, not the lease.\<close>

definition new_reporter :: "agent_Config \<Rightarrow> Reporter" where
  "new_reporter cfg = \<lparr>rp_interval = ag_interval cfg, rp_timeout = ag_timeout cfg, rp_maxBackoff = ag_maxBackoff cfg\<rparr>"

definition agent_readyz :: "bool \<Rightarrow> int" where
  "agent_readyz cachesSynced = (if cachesSynced then 200 else 503)"

definition agent_identity :: "(string \<Rightarrow> string) \<Rightarrow> string option \<Rightarrow> string" where
  "agent_identity getenv hostname =
    (if getenv ''POD_NAME'' \<noteq> '''' then getenv ''POD_NAME''
     else (case hostname of Some h \<Rightarrow> h | None \<Rightarrow> ''cellcast-agent''))"

section \<open>Lemmas\<close>

subsection \<open>The scheduler's formula\<close>

text \<open>
  What the scheduler reserves, told without a loop: the larger of the steady state (regular containers and all sidecars) and the
  worst moment of the start-up (an init container beside the sidecars declared before it), plus the overhead.
\<close>

definition sidecars :: "(container \<Rightarrow> int) \<Rightarrow> container list \<Rightarrow> int" where
  "sidecars f ics = sum_list (map f (filter is_sidecar ics))"

definition init_moments :: "(container \<Rightarrow> int) \<Rightarrow> container list \<Rightarrow> int set" where
  "init_moments f ics = (\<lambda>i. f (ics ! i) + sidecars f (take i ics)) ` {..<length ics}"

definition scheduler_request :: "(container \<Rightarrow> int) \<Rightarrow> (int \<times> int \<Rightarrow> int) \<Rightarrow> pod \<Rightarrow> int" where
  "scheduler_request f g p =
    max (sum_list (map f (pod_containers p)) + sidecars f (pod_initContainers p))
      (Max (insert 0 (init_moments f (pod_initContainers p)))) +
    (case pod_overhead p of None \<Rightarrow> 0 | Some ov \<Rightarrow> g ov)"

lemma sum_list_filter_le:
  "\<forall>x \<in> set xs. 0 \<le> f x \<Longrightarrow> 0 \<le> sum_list (map f (filter P xs)) \<and> sum_list (map f (filter P xs)) \<le> sum_list (map f xs)"
  for f :: "'a \<Rightarrow> int"
  by (induction xs) auto

lemma init_moments_snoc:
  "init_moments f (ics @ [ic]) = insert (f ic + sidecars f ics) (init_moments f ics)"
proof -
  have "{..<length (ics @ [ic])} = insert (length ics) {..<length ics}" by auto
  then show ?thesis unfolding init_moments_def by (auto simp: nth_append image_iff)
qed

lemma foldl_init_step:
  assumes "\<forall>c \<in> set ics. 0 \<le> f c" and "sum_list (map f ics) \<le> max_int64"
  shows "foldl (init_step f) (0, 0) ics = (sidecars f ics, Max (insert 0 (init_moments f ics)))"
  using assms
proof (induction ics rule: rev_induct)
  case Nil
  show ?case by (simp add: sidecars_def init_moments_def)
next
  case (snoc ic ics)
  then have n: "0 \<le> f ic" "\<forall>c \<in> set ics. 0 \<le> f c" "sum_list (map f ics) + f ic \<le> max_int64" by auto
  with sum_list_filter_le [OF n(2), of is_sidecar] have s: "0 \<le> sidecars f ics" "sidecars f ics + f ic \<le> max_int64"
    by (auto simp: sidecars_def)
  then have w: "wrap64 (f ic + sidecars f ics) = f ic + sidecars f ics"
    using n(1) by (intro wrap64_id) (auto simp: in_int64_def min_int64_def)
  have "Max (insert 0 (insert (f ic + sidecars f ics) (init_moments f ics))) =
      max (f ic + sidecars f ics) (Max (insert 0 (init_moments f ics)))"
    by (subst insert_commute, subst Max_insert) (auto simp: init_moments_def)
  with snoc n w show ?case
    by (simp add: init_step_def init_moments_snoc max.commute add.commute) (simp add: sidecars_def add.commute)
qed

lemma foldl_wrap_sum:
  assumes "\<forall>c \<in> set cs. 0 \<le> f c" and "0 \<le> a" and "a + sum_list (map f cs) \<le> max_int64"
  shows "foldl (\<lambda>a c. wrap64 (a + f c)) a cs = a + sum_list (map f cs)"
  using assms
proof (induction cs arbitrary: a)
  case Nil
  then show ?case by simp
next
  case (Cons c cs)
  have "0 \<le> sum_list (map f cs)" using Cons.prems(1) by (intro sum_list_nonneg) auto
  with Cons.prems have "wrap64 (a + f c) = a + f c" by (intro wrap64_id) (auto simp: in_int64_def min_int64_def)
  with Cons show ?case by (simp add: add.assoc)
qed

lemma pod_request_scheduler:
  assumes "\<forall>c \<in> set (pod_containers p @ pod_initContainers p). 0 \<le> f c" and "\<forall>ov. pod_overhead p = Some ov \<longrightarrow> 0 \<le> g ov"
    and "sum_list (map f (pod_containers p)) + sum_list (map f (pod_initContainers p)) +
      (case pod_overhead p of None \<Rightarrow> 0 | Some ov \<Rightarrow> g ov) \<le> max_int64"
  shows "pod_request f g p = scheduler_request f g p"
proof -
  let ?C = "sum_list (map f (pod_containers p))" and ?I = "sum_list (map f (pod_initContainers p))"
  let ?S = "sidecars f (pod_initContainers p)" and ?M = "Max (insert 0 (init_moments f (pod_initContainers p)))"
  let ?O = "case pod_overhead p of None \<Rightarrow> 0 | Some ov \<Rightarrow> g ov"
  have nn: "0 \<le> ?C" "0 \<le> ?I" using assms(1) by (auto intro!: sum_list_nonneg)
  have o: "0 \<le> ?O" using assms(2) by (auto split: option.splits)
  have s: "0 \<le> ?S" "?S \<le> ?I" using sum_list_filter_le [of "pod_initContainers p" f is_sidecar] assms(1) by (auto simp: sidecars_def)
  have "m \<le> ?I" if "m \<in> init_moments f (pod_initContainers p)" for m
  proof -
    from that obtain i where i: "i < length (pod_initContainers p)"
      "m = f (pod_initContainers p ! i) + sidecars f (take i (pod_initContainers p))" by (auto simp: init_moments_def)
    let ?l = "pod_initContainers p"
    have "sidecars f (take i ?l) \<le> sum_list (map f (take i ?l))"
      using sum_list_filter_le [of "take i ?l" f is_sidecar] assms(1) by (auto simp: sidecars_def dest: in_set_takeD)
    moreover have "0 \<le> sum_list (map f (drop (Suc i) ?l))" using assms(1) by (intro sum_list_nonneg) (fastforce dest: in_set_dropD)
    moreover have "sum_list (map f ?l) = sum_list (map f (take i ?l)) + f (?l ! i) + sum_list (map f (drop (Suc i) ?l))"
      by (subst id_take_nth_drop [OF i(1)]) simp
    ultimately show ?thesis using i(2) by simp
  qed
  then have m: "0 \<le> ?M" "?M \<le> ?I" using nn(2) by (auto simp: init_moments_def)
  have C: "foldl (\<lambda>a c. wrap64 (a + f c)) 0 (pod_containers p) = ?C"
    using assms(1,3) nn o by (subst foldl_wrap_sum) auto
  have I: "foldl (init_step f) (0, 0) (pod_initContainers p) = (?S, ?M)"
    using assms(1,3) nn o by (intro foldl_init_step) auto
  have "wrap64 (?C + ?S) = ?C + ?S" using assms(3) nn o s by (intro wrap64_id) (auto simp: in_int64_def min_int64_def)
  moreover have "wrap64 (max (?C + ?S) ?M + ?O) = max (?C + ?S) ?M + ?O"
    using assms(3) nn o s m by (intro wrap64_id) (auto simp: in_int64_def min_int64_def)
  ultimately show ?thesis by (auto simp: pod_request_def scheduler_request_def C I split: option.splits)
qed

subsection \<open>Jitter and backoff\<close>

lemma unit_scaled:
  assumes "0 \<le> rnd" and "rnd < 1"
  shows "\<bar>f64_sub (f64_mul rnd 2) 1\<bar> \<le> 1"
proof -
  have "0 \<le> f64 (rnd * 2)" "f64 (rnd * 2) \<le> 2"
    using assms f64_mono [of "rnd * 2" 2] by (simp_all add: f64_nonneg)
  then have "f64 (- 1) \<le> f64 (f64 (rnd * 2) - 1)" "f64 (f64 (rnd * 2) - 1) \<le> f64 1" by (intro f64_mono; simp)+
  then show ?thesis using f64_minus [of 1] by (simp add: f64_sub_def f64_mul_def abs_le_iff)
qed

text \<open>Jitter moves a duration by a tenth of it at most, up to the rounding of four float64 operations.\<close>

lemma jitter_offset:
  assumes "0 \<le> rnd" and "rnd < 1" and "0 \<le> d"
  shows "\<bar>of_int (trunc64 (f64_mul (f64_mul (f64_sub (f64_mul rnd 2) 1) jitterFraction) (f64_of_int d)))\<bar> \<le>
    of_int d * (1 / 10 + 1 / 10 ^ 15 :: rat)"
proof -
  let ?e = "1 + 1 / 2 ^ 53 :: rat"
  let ?a = "f64_sub (f64_mul rnd 2) 1"
  have c: "\<bar>jitterFraction\<bar> \<le> 1 / 10 * ?e" unfolding jitterFraction_def by (rule f64_abs_le) simp
  have "\<bar>?a * jitterFraction\<bar> \<le> 1 * (1 / 10 * ?e)"
    unfolding abs_mult by (intro mult_mono unit_scaled assms c) auto
  then have "\<bar>f64_mul ?a jitterFraction\<bar> \<le> (1 * (1 / 10 * ?e)) * ?e" unfolding f64_mul_def by (rule f64_abs_le)
  moreover have "\<bar>f64_of_int d\<bar> \<le> of_int d * ?e" unfolding f64_of_int_def using assms(3) by (intro f64_abs_le) simp
  ultimately have "\<bar>f64_mul ?a jitterFraction * f64_of_int d\<bar> \<le> ((1 * (1 / 10 * ?e)) * ?e) * (of_int d * ?e)"
    unfolding abs_mult by (intro mult_mono) auto
  then have "\<bar>f64_mul (f64_mul ?a jitterFraction) (f64_of_int d)\<bar> \<le> ((1 * (1 / 10 * ?e)) * ?e) * (of_int d * ?e) * ?e"
    by (subst f64_mul_def) (rule f64_abs_le)
  also have "\<dots> = of_int d * (1 / 10 * ?e ^ 4)" by (simp add: power4_eq_xxxx)
  also have "\<dots> \<le> of_int d * (1 / 10 + 1 / 10 ^ 15)"
    using assms(3) by (intro mult_left_mono) (simp_all add: power4_eq_xxxx)
  finally show ?thesis using trunc64_abs_le order_trans by blast
qed

lemma jitter_bounds:
  assumes "0 \<le> rnd" and "rnd < 1" and "0 \<le> d" and "10 * d \<le> 8 * max_int64"
  shows "\<bar>of_int (jitter rnd d) - of_int d\<bar> \<le> of_int d * (1 / 10 + 1 / 10 ^ 15 :: rat)"
proof -
  let ?o = "trunc64 (f64_mul (f64_mul (f64_sub (f64_mul rnd 2) 1) jitterFraction) (f64_of_int d))"
  have o: "\<bar>of_int ?o\<bar> \<le> of_int d * (1 / 10 + 1 / 10 ^ 15 :: rat)" by (rule jitter_offset [OF assms(1-3)])
  also have "\<dots> \<le> of_int d * (1 / 8)" using assms(3) by (intro mult_left_mono) simp_all
  finally have "\<bar>8 * ?o\<bar> \<le> d" by (simp add: abs_le_iff) linarith
  then have "in_int64 (d + ?o)" using assms(3,4) by (auto simp: in_int64_def min_int64_def max_int64_def)
  then have "jitter rnd d = d + ?o" by (simp add: jitter_def Let_def wrap64_id)
  with o show ?thesis by simp
qed

lemma backoff_loop_closed:
  assumes "0 < w" and "2 * cap \<le> max_int64"
  shows "min (backoff_loop cap k w) cap = min (2 ^ k * w) cap"
  using assms(1)
proof (induction k arbitrary: w)
  case 0
  then show ?case by simp
next
  case (Suc k)
  show ?case
  proof (cases "w < cap")
    case True
    with Suc.prems assms(2) have "wrap64 (w * 2) = w * 2" by (intro wrap64_id) (auto simp: in_int64_def min_int64_def)
    with Suc.IH [of "w * 2"] Suc.prems True show ?thesis by (simp add: mult_ac)
  next
    case False
    have "w * 1 \<le> w * 2 ^ Suc k" using Suc.prems one_le_power [of "2 :: int" "Suc k"] by (intro mult_left_mono) auto
    with False have "cap \<le> 2 ^ Suc k * w" by (simp add: mult.commute)
    with False show ?thesis by (simp add: min_absorb2 del: power_Suc)
  qed
qed

subsection \<open>A heartbeat at the hub\<close>

definition snapshot_ok :: "agent_Snapshot \<Rightarrow> bool" where
  "snapshot_ok s \<longleftrightarrow> (\<forall>(k, n) \<in> set (snapshot_fields s). in_int64 n)"

text \<open>What the published text denotes, and the report it stands for.\<close>

definition snapshot_json :: "agent_Snapshot \<Rightarrow> json" where
  "snapshot_json s = JObj (map (\<lambda>(k, n). (k, JNum (int_text n))) (snapshot_fields s))"

definition cell_report :: "string \<Rightarrow> agent_Snapshot \<Rightarrow> Report" where
  "cell_report cell s = \<lparr>Cell = cell, Nodes = sn_nodes s, CPUMilliAllocatable = sn_cpuMilliAllocatable s,
    CPUMilliCommitted = sn_cpuMilliCommitted s, MemoryBytesAllocatable = sn_memoryBytesAllocatable s,
    MemoryBytesCommitted = sn_memoryBytesCommitted s, Pods = sn_pods s, PodCapacity = sn_podCapacity s\<rparr>"

lemma snapshot_body_length: "snapshot_ok s \<Longrightarrow> length (marshal_ints (snapshot_fields s)) \<le> maxCapacityBytes"
proof -
  assume "snapshot_ok s"
  then have "\<forall>(k, n) \<in> set (snapshot_fields s). length (int_text n) \<le> 20" by (auto simp: snapshot_ok_def int_text_length)
  then show ?thesis by (simp add: marshal_ints_def snapshot_fields_def maxCapacityBytes_def)
qed

lemma snapshot_decoded:
  assumes "snapshot_ok s"
  shows "into_capacityReport (snapshot_json s) = Some \<lparr>cr_nodes = sn_nodes s, cr_cpuMilliAllocatable = sn_cpuMilliAllocatable s,
    cr_cpuMilliCommitted = sn_cpuMilliCommitted s, cr_memoryBytesAllocatable = sn_memoryBytesAllocatable s,
    cr_memoryBytesCommitted = sn_memoryBytesCommitted s, cr_pods = sn_pods s, cr_podCapacity = sn_podCapacity s\<rparr>"
proof -
  from assms have "\<forall>(k, n) \<in> set (snapshot_fields s). ParseInt64 (int_text n) = Some n"
    by (auto simp: snapshot_ok_def ParseInt64_int_text)
  then show ?thesis
    by (simp add: into_capacityReport_def snapshot_json_def snapshot_fields_def struct_pairs_def struct_key_def
        capacity_fields_def field_of_def)
qed

lemma decode_heartbeat:
  assumes "snapshot_ok s" and "decode (marshal_ints (snapshot_fields s)) = Some (snapshot_json s, '''')"
  shows "decodeCapacityReport decode (marshal_ints (snapshot_fields s)) cell = Inr (cell_report cell s)"
  using assms snapshot_body_length [OF assms(1)]
  by (simp add: decodeCapacityReport_def snapshot_decoded dec_More_def cell_report_def)

text \<open>
  A hub with an index at the other end of the wire. It answers 401 to a bearer token it takes for nobody's (\<open>authn\<close>), 404 to a path its
  router does not know, and otherwise hands the report to the capacity route, for the cell the router read off the URL
  (\<open>route\<close>). The texts of the answers are parameters.
\<close>

record hub_end =
  hx_decode :: "string \<Rightarrow> (json \<times> string) option"
  hx_get :: "string \<Rightarrow> api_error + Cluster"
  hx_authn :: "string \<Rightarrow> Identity option"
  hx_route :: "string \<Rightarrow> string option"
  hx_problemText :: "capacity_problem \<Rightarrow> string"
  hx_plainText :: "int \<Rightarrow> string"
  hx_relaying :: bool
  hx_now :: go_time

definition hub_answers :: "hub_end \<Rightarrow> report_request \<Rightarrow> Registry option \<Rightarrow> hub_wire \<times> Registry option" where
  "hub_answers hx req reg =
    (case hx_authn hx (rpt_authorization req) of
       None \<Rightarrow> (Answered 401 (Some (hx_plainText hx 401)), reg)
     | Some idn \<Rightarrow>
       (case hx_route hx (rpt_url req) of
          None \<Rightarrow> (Answered 404 (Some (hx_plainText hx 404)), reg)
        | Some cell \<Rightarrow>
          (case handleReportCapacity (hx_decode hx) (Some (hx_get hx)) (hx_relaying hx) (hx_now hx) reg
             \<lparr>cq_name = cell, cq_identity = Some idn, cq_authorization = rpt_authorization req, cq_relayed = '''', cq_body = rpt_body req\<rparr> of
             (rsp, reg', _) \<Rightarrow>
               (Answered (cap_status rsp) (Some (case cap_body rsp of CapacityError p \<Rightarrow> hx_problemText hx p | _ \<Rightarrow> '''')), reg'))))"

text \<open>
  The network between the two: it delivers the request and the response, or loses the request, or loses the response to a request
  the hub has acted on. The client cannot tell the last two apart.
\<close>

datatype delivery = Delivered | Unbuilt string | RequestLost string | ResponseLost string

definition over_network :: "delivery \<Rightarrow> (report_request \<Rightarrow> 'w \<Rightarrow> hub_wire \<times> 'w) \<Rightarrow> report_request \<Rightarrow> 'w \<Rightarrow> hub_wire \<times> 'w" where
  "over_network dl answer req w =
    (case dl of
       Delivered \<Rightarrow> answer req w
     | Unbuilt e \<Rightarrow> (NotBuilt e, w)
     | RequestLost e \<Rightarrow> (NotSent e, w)
     | ResponseLost e \<Rightarrow> (NotSent e, snd (answer req w)))"

text \<open>One heartbeat of an agent at a hub, over that network.\<close>

definition heartbeat ::
  "hub_end \<Rightarrow> delivery \<Rightarrow> (string \<Rightarrow> string option) \<Rightarrow> HubClient \<Rightarrow> agent_Snapshot \<Rightarrow> Registry \<Rightarrow> publish_error option \<times> Registry option" where
  "heartbeat hx dl readFile c s reg = agent_report (hx_decode hx) readFile (over_network dl (hub_answers hx)) c s (Some reg)"

text \<open>The hub takes the report: the caller is known and is the cell's reporter, and the index accepts the numbers.\<close>

definition accepted :: "hub_end \<Rightarrow> string \<Rightarrow> string \<Rightarrow> Registry \<Rightarrow> agent_Snapshot \<Rightarrow> bool" where
  "accepted hx token cell reg s \<longleftrightarrow>
    (\<exists>idn cl. hx_authn hx (''Bearer '' @ token) = Some idn \<and> hx_get hx cell = Inr cl \<and> authorizeReporter cl (Some idn) = None \<and>
      fst (RegistryReport reg (hx_now hx) (cell_report cell s)) = None)"

lemma handleReportCapacity_decoded:
  assumes "decodeCapacityReport decode (cq_body req) (cq_name req) = Inr rep"
    and "handleReportCapacity decode (Some get) relaying now (Some reg) req = (rsp, idx, out)"
  shows "200 \<le> cap_status rsp \<and> cap_status rsp < 300 \<longleftrightarrow>
      (\<exists>cl. get (cq_name req) = Inr cl \<and> authorizeReporter cl (cq_identity req) = None \<and> fst (RegistryReport reg now rep) = None)"
    and "\<not> (200 \<le> cap_status rsp \<and> cap_status rsp < 300) \<Longrightarrow> idx = Some reg"
    and "200 \<le> cap_status rsp \<and> cap_status rsp < 300 \<Longrightarrow> idx = Some (snd (RegistryReport reg now rep))"
  using assms
  by (auto simp: handleReportCapacity_def capacity_error_def RegistryReport_def
      split: sum.splits option.splits prod.splits if_splits report_error.splits)

lemma hub_answers_snapshot:
  assumes "snapshot_ok s" and "hx_decode hx (marshal_ints (snapshot_fields s)) = Some (snapshot_json s, '''')"
    and "hx_route hx url = Some cell"
    and "hub_answers hx \<lparr>rpt_url = url, rpt_authorization = ''Bearer '' @ token, rpt_body = marshal_ints (snapshot_fields s)\<rparr> (Some reg) = (wire, idx)"
  shows "(\<exists>status body. wire = Answered status body \<and> (200 \<le> status \<and> status < 300 \<longleftrightarrow> accepted hx token cell reg s)) \<and>
    idx = Some (if accepted hx token cell reg s then snd (RegistryReport reg (hx_now hx) (cell_report cell s)) else reg)"
proof (cases "hx_authn hx (''Bearer '' @ token)")
  case None
  with assms(4) show ?thesis by (auto simp: hub_answers_def accepted_def)
next
  case (Some idn)
  let ?req = "\<lparr>cq_name = cell, cq_identity = Some idn, cq_authorization = ''Bearer '' @ token,
    cq_relayed = '''', cq_body = marshal_ints (snapshot_fields s)\<rparr>"
  obtain rsp idx' out where
    h: "handleReportCapacity (hx_decode hx) (Some (hx_get hx)) (hx_relaying hx) (hx_now hx) (Some reg) ?req = (rsp, idx', out)"
    by (rule prod_cases3)
  have "decodeCapacityReport (hx_decode hx) (cq_body ?req) (cq_name ?req) = Inr (cell_report cell s)"
    using decode_heartbeat [of s "hx_decode hx", OF assms(1,2)] by simp
  note hub = handleReportCapacity_decoded [OF this h]
  from assms(3,4) Some h obtain body where w: "wire = Answered (cap_status rsp) body" "idx = idx'" by (auto simp: hub_answers_def)
  from hub(1) Some have "200 \<le> cap_status rsp \<and> cap_status rsp < 300 \<longleftrightarrow> accepted hx token cell reg s"
    by (simp add: accepted_def)
  with w hub(2,3) show ?thesis by auto
qed

subsection \<open>The loop\<close>

text \<open>The wait the loop aims at: the interval after a success, doubled from it on each failure in a row up to the cap.\<close>

definition target_wait :: "agent_Config \<Rightarrow> nat \<Rightarrow> duration" where
  "target_wait cfg n = (if n = 0 then ag_interval cfg else min (2 ^ (n - 1) * ag_interval cfg) (ag_maxBackoff cfg))"

definition near :: "duration \<Rightarrow> duration \<Rightarrow> bool" where
  "near w d \<longleftrightarrow> \<bar>of_int w - of_int d\<bar> \<le> of_int d * (1 / 10 + 1 / 10 ^ 15 :: rat)"

lemma near_default: "near w DefaultHeartbeatInterval \<Longrightarrow> w \<le> 33 * Second + Second div 10"
proof -
  assume "near w DefaultHeartbeatInterval"
  then have "\<bar>rat_of_int w - 30000000000\<bar> * 100000 \<le> 300000000000003" by (simp add: near_def agent_defaults duration_units)
  moreover have "x \<le> 33000000001" if "\<bar>x - 30000000000\<bar> * 100000 \<le> 300000000000003" for x :: rat
    using that by (simp add: abs_if split: if_splits)
  ultimately have "rat_of_int w \<le> rat_of_int 33000000001" by fastforce
  then have "w \<le> 33000000001" by (simp only: of_int_le_iff)
  then show ?thesis by (simp add: duration_units)
qed

lemma agent_Validate_None:
  "agent_Validate c = None \<Longrightarrow> 0 < ag_timeout c \<and> ag_timeout c < ag_interval c \<and> ag_interval c \<le> ag_maxBackoff c"
  by (auto simp: agent_Validate_def split: if_splits)

lemma waits_near:
  assumes "0 < ag_interval cfg" "ag_interval cfg \<le> ag_maxBackoff cfg" "2 * ag_maxBackoff cfg \<le> max_int64" "0 \<le> rnd" "rnd < 1"
  shows "near (jitter rnd (ag_interval cfg)) (target_wait cfg 0)"
    and "near (backoff (new_reporter cfg) rnd (Suc n)) (target_wait cfg (Suc n))"
proof -
  have "10 * ag_interval cfg \<le> 8 * max_int64" using assms(1-3) by linarith
  then show "near (jitter rnd (ag_interval cfg)) (target_wait cfg 0)"
    using jitter_bounds [OF assms(4,5)] assms(1) by (simp add: near_def target_wait_def)
  let ?w = "min (2 ^ n * ag_interval cfg) (ag_maxBackoff cfg)"
  have "min (backoff_loop (ag_maxBackoff cfg) n (ag_interval cfg)) (ag_maxBackoff cfg) = ?w"
    using backoff_loop_closed assms(1,3) by blast
  moreover have "0 \<le> ?w" "10 * ?w \<le> 8 * max_int64" using assms(1-3) by auto
  ultimately show "near (backoff (new_reporter cfg) rnd (Suc n)) (target_wait cfg (Suc n))"
    using jitter_bounds [OF assms(4,5)] by (simp add: near_def target_wait_def backoff_def new_reporter_def)
qed

lemma reporter_run_snoc [simp]:
  "reporter_run r rnd (xs @ [a]) = reporter_round r (reporter_run r rnd xs) a" "reporter_run r rnd [] = reporter_start r rnd"
  by (simp_all add: reporter_run_def)

lemma reporter_round_cases:
  assumes "\<not> rs_returned (reporter_round r s a)"
  obtains (failed) err where "rd_outcome a = Some err" "rs_failures (reporter_round r s a) = Suc (rs_failures s)"
      "rs_timer (reporter_round r s a) = backoff r (rd_rand a) (Suc (rs_failures s))"
      "rs_published (reporter_round r s a) = rs_published s @ [rd_measured a]" "\<not> rs_returned s"
  | (sent) "rd_outcome a = None" "rs_failures (reporter_round r s a) = 0"
      "rs_timer (reporter_round r s a) = jitter (rd_rand a) (rp_interval r)"
      "rs_published (reporter_round r s a) = rs_published s @ [rd_measured a]" "\<not> rs_returned s"
  using assms by (cases "rd_outcome a") (auto simp: reporter_round_def Let_def split: if_splits)

lemma reporter_run_invariant:
  assumes "0 < ag_interval cfg" "ag_interval cfg \<le> ag_maxBackoff cfg" "2 * ag_maxBackoff cfg \<le> max_int64"
    and "\<forall>a \<in> set rounds. 0 \<le> rd_rand a \<and> rd_rand a < 1" and "\<not> rs_returned (reporter_run (new_reporter cfg) rnd rounds)"
  shows "rs_published (reporter_run (new_reporter cfg) rnd rounds) = map rd_measured rounds \<and>
    rs_failures (reporter_run (new_reporter cfg) rnd rounds) = length (takeWhile (\<lambda>a. rd_outcome a \<noteq> None) (rev rounds)) \<and>
    (rounds \<noteq> [] \<longrightarrow> near (rs_timer (reporter_run (new_reporter cfg) rnd rounds))
      (target_wait cfg (rs_failures (reporter_run (new_reporter cfg) rnd rounds))))"
  using assms(4,5)
proof (induction rounds rule: rev_induct)
  case Nil
  show ?case by (simp add: reporter_start_def)
next
  case (snoc a rounds)
  then have rnd: "0 \<le> rd_rand a" "rd_rand a < 1" by simp_all
  note near = waits_near [OF assms(1-3) rnd]
  from snoc.prems(2) have "\<not> rs_returned (reporter_round (new_reporter cfg) (reporter_run (new_reporter cfg) rnd rounds) a)" by simp
  then show ?case
  proof (cases rule: reporter_round_cases)
    case (failed err)
    with snoc near(2) show ?thesis by simp
  next
    case sent
    with snoc near(1) show ?thesis by (simp add: new_reporter_def)
  qed
qed

section \<open>Properties\<close>

text \<open>
  C34. The agent charges a pod what the scheduler reserves for it. While the quantities of a pod are non-negative and their sum fits an int64, the
  single pass of \<open>podRequests\<close> computes, for CPU and for memory, the larger of the steady state and the worst moment of the
  start-up, plus the overhead.
\<close>

theorem pod_requests_are_the_schedulers:
  assumes "\<forall>c \<in> set (pod_containers p @ pod_initContainers p). 0 \<le> ctr_cpuMilli c \<and> 0 \<le> ctr_memory c"
    and "\<forall>ov. pod_overhead p = Some ov \<longrightarrow> 0 \<le> fst ov \<and> 0 \<le> snd ov"
    and "\<forall>(f, g) \<in> {(ctr_cpuMilli, fst), (ctr_memory, snd)}. sum_list (map f (pod_containers p)) +
      sum_list (map f (pod_initContainers p)) + (case pod_overhead p of None \<Rightarrow> 0 | Some ov \<Rightarrow> g ov) \<le> max_int64"
  shows "podRequests p = (scheduler_request ctr_cpuMilli fst p, scheduler_request ctr_memory snd p)"
  using assms by (simp add: podRequests_def pod_request_scheduler)

text \<open>
  C33. A heartbeat is heard as it was measured. For a client built from the agent's configuration, with a codec that reads back what
  the agent wrote and a router that reads the cell's name off the URL the client built: the agent takes an attempt for a success exactly when its
  exchange was delivered and the hub knows the caller, finds the cell registered with that caller as its reporter, and its index took the
  very numbers of the measurement under the cell's name. The index is then what those numbers make it, also when only the
  response was lost, which the agent sees as a failure and which is the only failure that leaves the index changed; after any other
  attempt it is what it was.
\<close>

theorem heartbeat_is_heard_unchanged:
  assumes "snapshot_ok s" and "hx_decode hx (marshal_ints (snapshot_fields s)) = Some (snapshot_json s, '''')"
    and "NewHubClient parse joinPath readFile appendCerts cfg = Inr c"
    and "hx_route hx (joinPath (ag_hubEndpoint cfg) [''api'', ''v1'', ''clusters'', ag_cellName cfg, ''capacity'']) = Some (ag_cellName cfg)"
    and "agent_token readFile c = Inr token"
    and "heartbeat hx dl readFile c s reg = (err, idx)"
  shows "(err = None \<longleftrightarrow> dl = Delivered \<and> accepted hx token (ag_cellName cfg) reg s) \<and>
    idx = Some (if accepted hx token (ag_cellName cfg) reg s \<and> (dl = Delivered \<or> (\<exists>e. dl = ResponseLost e))
      then snd (RegistryReport reg (hx_now hx) (cell_report (ag_cellName cfg) s)) else reg) \<and>
    (err \<noteq> None \<and> idx \<noteq> Some reg \<longrightarrow> (\<exists>e. dl = ResponseLost e \<and> err = Some (PostFailed e)))"
proof -
  let ?req = "\<lparr>rpt_url = hc_url c, rpt_authorization = ''Bearer '' @ token, rpt_body = marshal_ints (snapshot_fields s)\<rparr>"
  obtain wire idx' where h: "hub_answers hx ?req (Some reg) = (wire, idx')" by (rule prod.exhaust)
  from assms(3) have "hc_url c = joinPath (ag_hubEndpoint cfg) [''api'', ''v1'', ''clusters'', ag_cellName cfg, ''capacity'']"
    by (auto simp: NewHubClient_def split: option.splits if_splits sum.splits)
  with assms(4) have r: "hx_route hx (hc_url c) = Some (ag_cellName cfg)" by simp
  from hub_answers_snapshot [OF assms(1,2) r h] obtain status body where
    hub: "wire = Answered status body" "200 \<le> status \<and> status < 300 \<longleftrightarrow> accepted hx token (ag_cellName cfg) reg s"
      "idx' = Some (if accepted hx token (ag_cellName cfg) reg s then snd (RegistryReport reg (hx_now hx) (cell_report (ag_cellName cfg) s)) else reg)"
    by blast
  from assms(5,6) h hub show ?thesis
    by (cases dl) (auto simp: heartbeat_def agent_report_def over_network_def split: if_splits)
qed

text \<open>
  The cadence of the heartbeat is bounded and nothing is buffered. For a valid configuration whose cap is at most half the range of a duration, after any
  rounds the loop has handed to the hub exactly the measurement of each round, once and in order; it counts the failures in a row, and waits, within a
  tenth either side, the interval after a success and the interval doubled for each further failure, up to the cap.
\<close>

theorem heartbeat_cadence:
  assumes "agent_Validate cfg = None" and "2 * ag_maxBackoff cfg \<le> max_int64"
    and "\<forall>a \<in> set rounds. 0 \<le> rd_rand a \<and> rd_rand a < 1" and "rounds \<noteq> []"
    and "\<not> rs_returned (reporter_run (new_reporter cfg) rnd rounds)"
  shows "rs_published (reporter_run (new_reporter cfg) rnd rounds) = map rd_measured rounds \<and>
    (let n = length (takeWhile (\<lambda>a. rd_outcome a \<noteq> None) (rev rounds)) in
     rs_failures (reporter_run (new_reporter cfg) rnd rounds) = n \<and>
     near (rs_timer (reporter_run (new_reporter cfg) rnd rounds)) (target_wait cfg n))"
  using reporter_run_invariant [OF _ _ assms(2,3,5)] agent_Validate_None [OF assms(1)] assms(4)
  by (auto simp: Let_def)

text \<open>
  One lost heartbeat does not take a cell out of scoring. With the default intervals of the agent and the default staleness of the hub, a cell
  whose report arrived at \<open>t0\<close> and whose next attempt fails by its timeout still reads as fresh when the attempt after that
  arrives, as long as the two attempts that succeed spend at most thirteen seconds between the hub's clock and the loop.
\<close>

theorem one_lost_heartbeat_keeps_the_cell_fresh:
  assumes "ag_interval cfg = DefaultHeartbeatInterval" "ag_timeout cfg = DefaultRequestTimeout" "ag_maxBackoff cfg = DefaultMaxBackoff"
    and "rd_outcome sent = None" "rd_outcome lost \<noteq> None" "0 \<le> rd_rand sent" "rd_rand sent < 1" "0 \<le> rd_rand lost" "rd_rand lost < 1"
    and "s1 = reporter_round (new_reporter cfg) s0 sent" "s2 = reporter_round (new_reporter cfg) s1 lost" "\<not> rs_returned s2"
    and "spent \<le> 13 * Second" "failing \<le> ag_timeout cfg" "t0 \<le> now" "now \<le> t0 + spent + rs_timer s1 + failing + rs_timer s2"
    and "Staleness (opts reg) = DefaultStaleness" "map_of (entries reg) cell = Some \<lparr>st_report = rep, st_observedAt = t0\<rparr>"
  shows "\<exists>e. Lookup reg now cell = Some e \<and> entry_health e = HealthFresh \<and> entry_report e = rep"
proof -
  have p: "0 < ag_interval cfg" "ag_interval cfg \<le> ag_maxBackoff cfg" "2 * ag_maxBackoff cfg \<le> max_int64"
    using assms(1,3) by (simp_all add: agent_defaults duration_units max_int64_def)
  from assms(12) have "\<not> rs_returned s1" unfolding assms(11) by (cases rule: reporter_round_cases) simp_all
  then have s1: "rs_timer s1 = jitter (rd_rand sent) (ag_interval cfg)" "rs_failures s1 = 0"
    unfolding assms(10) using assms(4) by (cases rule: reporter_round_cases; simp add: new_reporter_def)+
  from assms(12) have s2: "rs_timer s2 = backoff (new_reporter cfg) (rd_rand lost) (Suc 0)"
    unfolding assms(11) using assms(5) s1(2) by (cases rule: reporter_round_cases) simp_all
  have "near (rs_timer s1) DefaultHeartbeatInterval" "near (rs_timer s2) DefaultHeartbeatInterval"
    using waits_near(1) [OF p assms(6,7)] waits_near(2) [OF p assms(8,9), of 0] p(2) assms(1)
    by (simp_all add: s1 s2 target_wait_def min_def)
  then have "rs_timer s1 \<le> 33 * Second + Second div 10" "rs_timer s2 \<le> 33 * Second + Second div 10"
    by (simp_all add: near_default)
  with assms(13-16) have "0 \<le> now - t0" "now - t0 \<le> DefaultStaleness" unfolding assms(2)
    by (simp_all add: agent_defaults capacity_defaults)
  then have "\<not> DefaultStaleness < go_sub now t0" by (simp add: go_sub_def capacity_defaults min_int64_def max_int64_def)
  then show ?thesis using assms(17,18) by (simp add: Lookup_def entryLocked_def)
qed

section \<open>Witnesses\<close>

definition meshed_pod :: pod where
  "meshed_pod = \<lparr>pod_phase = ''Running'', pod_containers = [\<lparr>ctr_cpuMilli = 100, ctr_memory = 64, ctr_restartPolicy = None\<rparr>],
    pod_initContainers = [\<lparr>ctr_cpuMilli = 50, ctr_memory = 8, ctr_restartPolicy = Some ''Always''\<rparr>,
      \<lparr>ctr_cpuMilli = 300, ctr_memory = 16, ctr_restartPolicy = None\<rparr>], pod_overhead = Some (10, 5)\<rparr>"

theorem pod_requests_are_the_schedulers_witness: "podRequests meshed_pod = (360, 77)"
proof -
  have m: "{..<Suc (Suc 0)} = {0, Suc 0}" by auto
  have "podRequests meshed_pod = (scheduler_request ctr_cpuMilli fst meshed_pod, scheduler_request ctr_memory snd meshed_pod)"
    by (rule pod_requests_are_the_schedulers) (auto simp: meshed_pod_def max_int64_def)
  then show ?thesis
    by (simp add: scheduler_request_def meshed_pod_def init_moments_def sidecars_def is_sidecar_def m)
qed

definition sample_snapshot :: agent_Snapshot where
  "sample_snapshot = Collect_cell
    [\<lparr>nd_unschedulable = False, nd_conditions = [(''Ready'', ''True'')], nd_cpuMilli = 4000, nd_memory = 8192, nd_pods = 110\<rparr>,
     \<lparr>nd_unschedulable = True, nd_conditions = [(''Ready'', ''True'')], nd_cpuMilli = 4000, nd_memory = 8192, nd_pods = 110\<rparr>]
    [meshed_pod]"

lemma sample_snapshot_eq:
  "sample_snapshot = \<lparr>sn_nodes = 1, sn_cpuMilliAllocatable = 4000, sn_cpuMilliCommitted = 360, sn_memoryBytesAllocatable = 8192,
    sn_memoryBytesCommitted = 77, sn_pods = 1, sn_podCapacity = 110\<rparr>"
  by (simp add: sample_snapshot_def Collect_cell_def collect_node_def collect_pod_def empty_snapshot_def schedulable_def terminal_def
      podRequests_def pod_request_def init_step_def is_sidecar_def meshed_pod_def wrap64_def)

lemma sample_token: "agent_token (\<lambda>_. Some ''t'') c = Inr ''t''"
proof -
  have "strip_one space_runes ''t'' = None" "strip_one (map rev space_runes) ''t'' = None"
    by (simp_all add: strip_one_def space_runes_def)
  then have "TrimSpace ''t'' = ''t''" by (simp add: TrimSpace_def trim_left.simps)
  then show ?thesis by (simp add: agent_token_def)
qed

definition sample_agent :: agent_Config where
  "sample_agent = agent_DefaultConfig\<lparr>ag_hubEndpoint := ''https://hub'', ag_cellName := ''blue''\<rparr>"

text \<open>A hub whose router reads the cell off the URL, which here is the path joined with slashes.\<close>

definition sample_join :: "string \<Rightarrow> string list \<Rightarrow> string" where
  "sample_join ep segs = ep @ concat (map (\<lambda>x. ''/'' @ x) segs)"

definition sample_hub_end :: hub_end where
  "sample_hub_end = \<lparr>hx_decode = (\<lambda>_. Some (snapshot_json sample_snapshot, '''')), hx_get = (\<lambda>_. Inr reporting_cell),
    hx_authn = (\<lambda>_. Some \<lparr>id_issuer = ''https://blue-oidc'', id_subject = ''agent'', id_claims = []\<rparr>),
    hx_route = (\<lambda>u. if u = ''https://hub/api/v1/clusters/blue/capacity'' then Some ''blue'' else None),
    hx_problemText = (\<lambda>_. ''''), hx_plainText = (\<lambda>_. ''''), hx_relaying = False, hx_now = 10\<rparr>"

definition sample_hub_client :: HubClient where
  "sample_hub_client = \<lparr>hc_url = ''https://hub/api/v1/clusters/blue/capacity'', hc_tokenPath = DefaultTokenPath, hc_customRoots = False\<rparr>"

definition sample_beat :: "delivery \<Rightarrow> publish_error option \<times> Registry option" where
  "sample_beat dl = heartbeat sample_hub_end dl (\<lambda>_. Some ''t'') sample_hub_client sample_snapshot (New sample_options)"

lemma sample_hub_client_built:
  "NewHubClient (\<lambda>_. Some \<lparr>url_scheme = ''https'', url_host = ''hub'', url_user = False, url_rawQuery = '''', url_fragment = ''''\<rparr>)
    sample_join (\<lambda>_. Some ''t'') (\<lambda>_. True) sample_agent = Inr sample_hub_client"
  by (simp add: NewHubClient_def hubTransport_def sample_agent_def agent_DefaultConfig_def sample_join_def sample_hub_client_def)

text \<open>One heartbeat that arrives, and one whose response is lost on the way back.\<close>

theorem heartbeat_is_heard_unchanged_witness:
  "sample_beat Delivered = (None, Some (snd (RegistryReport (New sample_options) 10 (cell_report ''blue'' sample_snapshot)))) \<and>
    snd (sample_beat (ResponseLost ''reset'')) = snd (sample_beat Delivered) \<and> fst (sample_beat (ResponseLost ''reset'')) \<noteq> None"
proof -
  have ok: "snapshot_ok sample_snapshot"
    by (simp add: snapshot_ok_def snapshot_fields_def sample_snapshot_eq in_int64_def min_int64_def max_int64_def)
  have "Validate (cell_report ''blue'' sample_snapshot) = None"
    by (simp add: Validate_None_iff negatives_def cell_report_def sample_snapshot_eq)
  then have "fst (RegistryReport (New sample_options) 10 (cell_report ''blue'' sample_snapshot)) = None"
    by (simp add: RegistryReport_def sample_eval)
  then have a: "accepted sample_hub_end ''t'' ''blue'' (New sample_options) sample_snapshot"
    by (simp add: accepted_def sample_hub_end_def authorizeReporter_def reporting_cell_def)
  have n: "ag_cellName sample_agent = ''blue''" "hx_now sample_hub_end = 10" by (simp_all add: sample_agent_def sample_hub_end_def)
  have d: "hx_decode sample_hub_end (marshal_ints (snapshot_fields sample_snapshot)) = Some (snapshot_json sample_snapshot, '''')"
    "hx_route sample_hub_end (sample_join (ag_hubEndpoint sample_agent) [''api'', ''v1'', ''clusters'', ag_cellName sample_agent, ''capacity'']) =
      Some (ag_cellName sample_agent)"
    by (simp_all add: sample_hub_end_def sample_join_def sample_agent_def)
  have "heartbeat sample_hub_end dl (\<lambda>_. Some ''t'') sample_hub_client sample_snapshot (New sample_options) =
      (fst (sample_beat dl), snd (sample_beat dl))" for dl by (simp add: sample_beat_def)
  note beat = heartbeat_is_heard_unchanged [OF ok d(1) sample_hub_client_built d(2) sample_token this, unfolded n]
  from beat [of Delivered] beat [of "ResponseLost ''reset''"] a show ?thesis by (simp add: prod_eq_iff)
qed

definition sample_round :: "publish_error option \<Rightarrow> round" where
  "sample_round out = \<lparr>rd_cancelled = False, rd_measured = sample_snapshot, rd_outcome = out, rd_cancelledMeanwhile = False,
    rd_rand = 1 / 2\<rparr>"

theorem heartbeat_cadence_witness:
  "rs_failures (reporter_run (new_reporter sample_agent) 0 [sample_round None, sample_round (Some TokenEmpty), sample_round (Some TokenEmpty)]) = 2 \<and>
    near (rs_timer (reporter_run (new_reporter sample_agent) 0 [sample_round None, sample_round (Some TokenEmpty), sample_round (Some TokenEmpty)]))
      (60 * Second)"
proof -
  let ?rs = "[sample_round None, sample_round (Some TokenEmpty), sample_round (Some TokenEmpty)]"
  have v: "agent_Validate sample_agent = None" "2 * ag_maxBackoff sample_agent \<le> max_int64"
    by (simp_all add: agent_Validate_def sample_agent_def agent_DefaultConfig_def agent_defaults duration_units max_int64_def)
  have r: "\<forall>a \<in> set ?rs. 0 \<le> rd_rand a \<and> rd_rand a < 1" "?rs \<noteq> []" by (simp_all add: sample_round_def)
  have "\<not> rs_returned (reporter_run (new_reporter sample_agent) 0 ?rs)"
    by (simp add: reporter_run_def reporter_round_def reporter_start_def sample_round_def Let_def)
  from heartbeat_cadence [OF v r this] show ?thesis
    by (simp add: Let_def sample_round_def target_wait_def sample_agent_def agent_DefaultConfig_def agent_defaults duration_units)
qed

theorem one_lost_heartbeat_keeps_the_cell_fresh_witness:
  "\<exists>e. Lookup \<lparr>opts = \<lparr>Staleness = DefaultStaleness, Retention = Hour, MaxCells = 2, PruneInterval = 0\<rparr>,
      entries = [(''blue'', \<lparr>st_report = cell_report ''blue'' sample_snapshot, st_observedAt = 0\<rparr>)], unknown = []\<rparr> (5 * Second) ''blue'' = Some e \<and>
    entry_health e = HealthFresh \<and> entry_report e = cell_report ''blue'' sample_snapshot"
proof -
  let ?r = "new_reporter sample_agent"
  let ?s1 = "reporter_round ?r (reporter_start ?r 0) (sample_round None)"
  let ?s2 = "reporter_round ?r ?s1 (sample_round (Some TokenEmpty))"
  have c: "ag_interval sample_agent = DefaultHeartbeatInterval" "ag_timeout sample_agent = DefaultRequestTimeout"
    "ag_maxBackoff sample_agent = DefaultMaxBackoff" by (simp_all add: sample_agent_def agent_DefaultConfig_def)
  have o: "rd_outcome (sample_round None) = None" "rd_outcome (sample_round (Some TokenEmpty)) \<noteq> None"
    "0 \<le> rd_rand (sample_round out)" "rd_rand (sample_round out) < 1" for out by (simp_all add: sample_round_def)
  have n: "\<not> rs_returned ?s2" by (simp add: reporter_round_def reporter_start_def sample_round_def Let_def)
  have p: "0 < ag_interval sample_agent" "ag_interval sample_agent \<le> ag_maxBackoff sample_agent"
    "2 * ag_maxBackoff sample_agent \<le> max_int64" by (simp_all add: c agent_defaults duration_units max_int64_def)
  have j: "jitter (1 / 2) d = wrap64 d" for d by (simp add: jitter_def f64_sub_def f64_mul_def trunc64_def)
  have t: "rs_timer ?s1 = 30 * Second" "rs_timer ?s2 = 30 * Second"
    by (simp_all add: reporter_round_def reporter_start_def sample_round_def new_reporter_def c Let_def j backoff_def agent_defaults
        duration_units wrap64_def)
  show ?thesis
    by (rule one_lost_heartbeat_keeps_the_cell_fresh [OF c o(1,2) o(3,4) o(3,4) refl refl n, of "13 * Second" 0 0 "5 * Second"])
      (simp_all add: t c agent_defaults duration_units)
qed

end
