(* ===== verification/Telemetry.thy ===== *)
theory Telemetry
  imports HubApi Agent
begin

text \<open>
  Traces and their export: \<open>internal/hub/tracing.go\<close>, \<open>internal/agent/tracing.go\<close> and \<open>internal/telemetry/telemetry.go\<close>.

  A span is a record of how it was started and of the calls made on it, in order; what the OpenTelemetry SDK does with
  them is not modelled. Environment variables are a function, and URL parsing and joining, the building of a resource and the
  building of an exporter are parameters. A float64 from a flag may be infinite or not a number.
\<close>

section \<open>Spans of the hub\<close>

datatype attr_value = AString string | ABool bool | AInt int

type_synonym span_attrs = "(string \<times> attr_value) list"

datatype span_kind = SpanServer | SpanClient | SpanInternal

datatype span_call = SetName string | SetAttributes span_attrs | SetStatusError string

record span =
  sp_name :: string
  sp_kind :: span_kind
  sp_attrs :: span_attrs
  sp_calls :: "span_call list"

definition span_methods :: "string list" where
  "span_methods = [''GET'', ''HEAD'', ''POST'', ''PUT'', ''PATCH'', ''DELETE'', ''OPTIONS'']"

definition spanMethod :: "string \<Rightarrow> string" where
  "spanMethod m = (if m \<in> set span_methods then m else ''_OTHER'')"

text \<open>\<open>traceRequests\<close> around a request that was answered with \<open>status\<close>; \<open>inner\<close> are the calls made on the span below it.\<close>

definition traceRequests :: "(int \<Rightarrow> string) \<Rightarrow> string \<Rightarrow> string \<Rightarrow> span_call list \<Rightarrow> int \<Rightarrow> span" where
  "traceRequests statusText method rid inner status =
    \<lparr>sp_name = spanMethod method, sp_kind = SpanServer,
     sp_attrs = [(''http.request.method'', AString (spanMethod method)), (''cellcast.request_id'', AString rid)],
     sp_calls = inner @ [SetAttributes [(''http.response.status_code'', AInt status)]] @
       (if status \<ge> 500 then [SetStatusError (statusText status)] else [])\<rparr>"

text \<open>\<open>nameSpanByRoute\<close>, after the mux: \<open>pattern\<close> is the one it matched, or empty.\<close>

definition nameSpanByRoute :: "string \<Rightarrow> span_call list" where
  "nameSpanByRoute pattern =
    (if pattern = '''' then []
     else SetName pattern #
       (case go_cut (CHR '' '') pattern of (_, route, ok) \<Rightarrow>
         if ok then [SetAttributes [(''http.route'', AString route)]] else []))"

definition tracedAuthenticator :: "auth_error + Identity \<Rightarrow> span" where
  "tracedAuthenticator out =
    \<lparr>sp_name = ''authenticate'', sp_kind = SpanInternal, sp_attrs = [],
     sp_calls = (case out of Inl err \<Rightarrow> [SetStatusError (rejectionReason err)] | Inr _ \<Rightarrow> [])\<rparr>"

text \<open>\<open>spanAttributes\<close>: \<open>fmtTime\<close> is the RFC 3339 text of a time in UTC, \<open>text\<close> is \<open>Value.String\<close> of the other kinds.\<close>

definition spanAttributes :: "(go_time \<Rightarrow> string) \<Rightarrow> (slog_value \<Rightarrow> string) \<Rightarrow> audit_Record \<Rightarrow> span_attrs" where
  "spanAttributes fmtTime text rec =
    map (\<lambda>(k, v). (''cellcast.'' @ k,
      (case v of SlogBool b \<Rightarrow> ABool b | SlogTime t \<Rightarrow> AString (fmtTime t) | SlogString s \<Rightarrow> AString s | _ \<Rightarrow> AString (text v))))
      (TraceAttrs rec)"

definition spanNotifier :: "(go_time \<Rightarrow> string) \<Rightarrow> (slog_value \<Rightarrow> string) \<Rightarrow> bool \<Rightarrow> audit_Record \<Rightarrow> span_call list" where
  "spanNotifier fmtTime text recording rec =
    (if \<not> recording then []
     else SetAttributes (spanAttributes fmtTime text rec) #
       (if au_event rec = EventMint \<and> au_outcome rec = OutcomeRefused then [SetStatusError (au_reason rec)] else []))"

text \<open>
  The spans of one placement request, from the records it left: the placement record goes on the server span, the mint
  record on the mint span, which every request that gets past its placement record has unless it is a dry run. A request refused
  before the engine was asked has no \<open>place\<close> span.
\<close>

definition placement_spans ::
  "(int \<Rightarrow> string) \<Rightarrow> (go_time \<Rightarrow> string) \<Rightarrow> (slog_value \<Rightarrow> string) \<Rightarrow> string \<Rightarrow> string \<Rightarrow> Identity \<Rightarrow> bool \<Rightarrow> audit_Record list \<Rightarrow> int \<Rightarrow>
    span list" where
  "placement_spans statusText fmtTime text method rid idn placed recs status =
    [traceRequests statusText method rid
      (concat (map (spanNotifier fmtTime text True) (filter (\<lambda>r. au_event r = EventPlacement) recs)) @
       nameSpanByRoute ''POST /api/v1/placement'') status,
     tracedAuthenticator (Inr idn)] @
    (if placed then [\<lparr>sp_name = ''place'', sp_kind = SpanInternal, sp_attrs = [], sp_calls = []\<rparr>] else []) @
    map (\<lambda>r. \<lparr>sp_name = ''mint'', sp_kind = SpanInternal, sp_attrs = [], sp_calls = spanNotifier fmtTime text True r\<rparr>)
      (filter (\<lambda>r. au_event r = EventMint) recs)"

section \<open>Spans of the agent\<close>

definition reportSpanName :: string where "reportSpanName = ''POST /api/v1/clusters/{name}/capacity''"

definition startReport :: span where
  "startReport = \<lparr>sp_name = reportSpanName, sp_kind = SpanClient, sp_attrs = [], sp_calls = []\<rparr>"

definition endReport :: "span \<Rightarrow> publish_error option \<Rightarrow> span" where
  "endReport sp err =
    (let refused = (case err of Some (HubError status _) \<Rightarrow> [SetAttributes [(''http.response.status_code'', AInt status)]] | _ \<Rightarrow> []);
         failed = (if err \<noteq> None then [SetStatusError ''report failed''] else [])
     in sp\<lparr>sp_calls := sp_calls sp @ refused @ failed\<rparr>)"

section \<open>Where telemetry goes\<close>

definition ProtocolGRPC :: string where [api_defs]: "ProtocolGRPC = ''grpc''"
definition ProtocolHTTP :: string where [api_defs]: "ProtocolHTTP = ''http/protobuf''"
definition flushTimeout :: duration where "flushTimeout = 5 * Second"
definition errorLogEvery :: duration where "errorLogEvery = Minute"

record tel_Config =
  tc_endpoint :: string
  tc_protocol :: string
  tc_sampleRatio :: flt

definition tel_DefaultConfig :: tel_Config where
  "tel_DefaultConfig = \<lparr>tc_endpoint = '''', tc_protocol = '''', tc_sampleRatio = Fin 1\<rparr>"

definition tel_protocol :: "(string \<Rightarrow> string) \<Rightarrow> tel_Config \<Rightarrow> string" where
  "tel_protocol getenv c =
    (if tc_protocol c \<noteq> '''' then tc_protocol c
     else if getenv ''OTEL_EXPORTER_OTLP_PROTOCOL'' \<noteq> '''' then getenv ''OTEL_EXPORTER_OTLP_PROTOCOL''
     else ProtocolHTTP)"

definition ratio_ok :: "flt \<Rightarrow> bool" where
  "ratio_ok r = (case r of Fin q \<Rightarrow> 0 \<le> q \<and> q \<le> 1 | _ \<Rightarrow> False)"

datatype tel_error = OtlpUnparsable | OtlpScheme string | OtlpHostless string | OtlpCredentials | OtlpProtocol string | OtlpRatio flt

definition endpoint_problem :: "(string \<Rightarrow> URL option) \<Rightarrow> string \<Rightarrow> tel_error option" where
  "endpoint_problem parse ep =
    (if ep = '''' then None
     else (case parse ep of
       None \<Rightarrow> Some OtlpUnparsable
     | Some u \<Rightarrow>
       if url_scheme u \<noteq> ''http'' \<and> url_scheme u \<noteq> ''https'' then Some (OtlpScheme ep)
       else if url_host u = '''' then Some (OtlpHostless ep)
       else if url_user u then Some OtlpCredentials else None))"

definition tel_Validate :: "(string \<Rightarrow> URL option) \<Rightarrow> (string \<Rightarrow> string) \<Rightarrow> tel_Config \<Rightarrow> tel_error option" where
  "tel_Validate parse getenv c =
    (case endpoint_problem parse (tc_endpoint c) of
       Some e \<Rightarrow> Some e
     | None \<Rightarrow>
       (let p = tel_protocol getenv c in
        if p \<noteq> ProtocolGRPC \<and> p \<noteq> ProtocolHTTP then Some (OtlpProtocol p)
        else if \<not> ratio_ok (tc_sampleRatio c) then Some (OtlpRatio (tc_sampleRatio c)) else None))"

definition exports :: "(string \<Rightarrow> string) \<Rightarrow> tel_Config \<Rightarrow> string \<Rightarrow> bool" where
  "exports getenv c signal =
    (if EqualFold (getenv ''OTEL_SDK_DISABLED'') ''true'' then False
     else if getenv (''OTEL_'' @ signal @ ''_EXPORTER'') = ''none'' then False
     else tc_endpoint c \<noteq> '''' \<or> getenv ''OTEL_EXPORTER_OTLP_ENDPOINT'' \<noteq> '''' \<or>
       getenv (''OTEL_EXPORTER_OTLP_'' @ signal @ ''_ENDPOINT'') \<noteq> '''')"

text \<open>\<open>signalURL\<close>: \<open>join\<close> parses a URL and joins path elements to it.\<close>

definition signalURL :: "(string \<Rightarrow> string list \<Rightarrow> string option) \<Rightarrow> string \<Rightarrow> string \<Rightarrow> string" where
  "signalURL join base signal = (case join base [''v1'', signal] of None \<Rightarrow> base | Some u \<Rightarrow> u)"

text \<open>What an exporter is built with: an endpoint of its own, or the environment's.\<close>

datatype exporter = GrpcExporter "string option" | HttpExporter "string option"

definition signal_exporter :: "(string \<Rightarrow> string list \<Rightarrow> string option) \<Rightarrow> (string \<Rightarrow> string) \<Rightarrow> tel_Config \<Rightarrow> string \<Rightarrow> exporter" where
  "signal_exporter join getenv c signal =
    (if tel_protocol getenv c = ProtocolGRPC
     then GrpcExporter (if tc_endpoint c \<noteq> '''' then Some (tc_endpoint c) else None)
     else HttpExporter (if tc_endpoint c \<noteq> '''' then Some (signalURL join (tc_endpoint c) signal) else None))"

definition traceExporter :: "(string \<Rightarrow> string list \<Rightarrow> string option) \<Rightarrow> (string \<Rightarrow> string) \<Rightarrow> tel_Config \<Rightarrow> exporter" where
  "traceExporter join getenv c = signal_exporter join getenv c ''traces''"

definition metricExporter :: "(string \<Rightarrow> string list \<Rightarrow> string option) \<Rightarrow> (string \<Rightarrow> string) \<Rightarrow> tel_Config \<Rightarrow> exporter" where
  "metricExporter join getenv c = signal_exporter join getenv c ''metrics''"

datatype tel_signal = Traces | Metrics_signal

record Telemetry =
  tel_tracer :: "(exporter \<times> flt) option"
  tel_shutdown :: "tel_signal list"

datatype resource_outcome = ResourceBuilt | ResourcePartial | ResourceFailed

datatype start_error = NoResource | NoTraceExporter | NoMetricExporter

text \<open>
  \<open>Start\<close>: \<open>build\<close> says whether the exporter could be built. The result comes with the exporters it built and the
  providers it shut down again.
\<close>

definition tel_Start ::
  "(string \<Rightarrow> string list \<Rightarrow> string option) \<Rightarrow> (string \<Rightarrow> string) \<Rightarrow> resource_outcome \<Rightarrow> (exporter \<Rightarrow> bool) \<Rightarrow> tel_Config \<Rightarrow> bool \<Rightarrow>
    (start_error + Telemetry) \<times> exporter list \<times> tel_signal list" where
  "tel_Start join getenv res build c producer =
    (let off = \<lparr>tel_tracer = None, tel_shutdown = []\<rparr>;
         traces = exports getenv c ''TRACES''; metrics = producer \<and> exports getenv c ''METRICS'';
         te = traceExporter join getenv c; me = metricExporter join getenv c
     in if \<not> traces \<and> \<not> metrics then (Inr off, [], [])
        else if res = ResourceFailed then (Inl NoResource, [], [])
        else if traces \<and> \<not> build te then (Inl NoTraceExporter, [], [])
        else (let t1 = (if traces then \<lparr>tel_tracer = Some (te, tc_sampleRatio c), tel_shutdown = [Traces]\<rparr> else off);
                  built = (if traces then [te] else [])
              in if metrics then
                   (if \<not> build me then (Inl NoMetricExporter, built, tel_shutdown t1)
                    else (Inr (t1\<lparr>tel_shutdown := tel_shutdown t1 @ [Metrics_signal]\<rparr>), built @ [me], []))
                 else (Inr t1, built, [])))"

text \<open>\<open>Telemetry.Shutdown\<close> stops every provider, whatever the others return, and joins the errors.\<close>

definition tel_Shutdown :: "(tel_signal \<Rightarrow> 'e option) \<Rightarrow> Telemetry \<Rightarrow> tel_signal list \<times> 'e list" where
  "tel_Shutdown stop t = (tel_shutdown t, List.map_filter stop (tel_shutdown t))"

section \<open>Export failures\<close>

record errorLog =
  el_last :: go_time
  el_held :: nat

definition new_errorLog :: errorLog where
  "new_errorLog = \<lparr>el_last = zero_time, el_held = 0\<rparr>"

text \<open>A line is the time it was written and the failures it says were suppressed.\<close>

definition errorLog_Handle :: "errorLog \<Rightarrow> go_time \<Rightarrow> (go_time \<times> nat) option \<times> errorLog" where
  "errorLog_Handle e now =
    (if el_last e \<noteq> zero_time \<and> go_sub now (el_last e) < errorLogEvery then (None, e\<lparr>el_held := Suc (el_held e)\<rparr>)
     else (Some (now, el_held e), \<lparr>el_last = now, el_held = 0\<rparr>))"

fun errorLog_run :: "errorLog \<Rightarrow> go_time list \<Rightarrow> (go_time \<times> nat) list \<times> errorLog" where
  "errorLog_run e [] = ([], e)"
| "errorLog_run e (t # ts) =
    (let (line, e1) = errorLog_Handle e t; (lines, e2) = errorLog_run e1 ts
     in ((case line of None \<Rightarrow> lines | Some l \<Rightarrow> l # lines), e2))"

section \<open>Lemmas\<close>

text \<open>A record with other claims, candidates, token digest and error text.\<close>

definition reworded :: "labels \<Rightarrow> audit_Candidate list \<Rightarrow> string \<Rightarrow> string \<Rightarrow> audit_Record \<Rightarrow> audit_Record" where
  "reworded cs cands digest err r =
    r\<lparr>au_claims := cs, au_candidates := cands, au_tokenSHA256 := digest, au_error := err\<rparr>"

lemma traced_present: "map_of untraced k \<noteq> Some True \<Longrightarrow> filter (\<lambda>a. map_of untraced (fst a) \<noteq> Some True) (present (k, v)) = present (k, v)"
  and untraced_present: "map_of untraced k = Some True \<Longrightarrow> filter (\<lambda>a. map_of untraced (fst a) \<noteq> Some True) (present (k, v)) = []"
  by (auto simp: present_def split: option.splits)

lemma TraceAttrs_table:
  "TraceAttrs r = concat (map present (filter (\<lambda>kv. map_of untraced (fst kv) \<noteq> Some True) (attr_table r)))"
proof -
  have "filter (\<lambda>a. map_of untraced (fst a) \<noteq> Some True) (concat (map present kvs)) =
      concat (map present (filter (\<lambda>kv. map_of untraced (fst kv) \<noteq> Some True) kvs))" for kvs
    by (induction kvs) (auto simp: present_def split: option.split)
  then show ?thesis by (simp add: TraceAttrs_def attrs_table)
qed

lemma TraceAttrs_reworded: "TraceAttrs (reworded cs cands digest err r) = TraceAttrs r"
  unfolding TraceAttrs_table by (simp add: reworded_def attr_table_def untraced_def Let_def)

lemma spanNotifier_reworded: "spanNotifier fmtTime text b (reworded cs cands digest err r) = spanNotifier fmtTime text b r"
  unfolding spanNotifier_def spanAttributes_def TraceAttrs_reworded by (simp add: reworded_def)

lemma reworded_event: "au_event (reworded cs cands digest err r) = au_event r"
  by (simp add: reworded_def)

lemma errorLog_run_counts:
  "errorLog_run e ts = (lines, e') \<Longrightarrow> length ts + el_held e = length lines + sum_list (map snd lines) + el_held e'"
proof (induction ts arbitrary: e lines e')
  case Nil
  then show ?case by simp
next
  case (Cons t ts)
  obtain line e1 where h: "errorLog_Handle e t = (line, e1)" by (rule prod.exhaust)
  obtain lines1 e2 where r: "errorLog_run e1 ts = (lines1, e2)" by (rule prod.exhaust)
  from Cons.prems h r have "e2 = e'" and l: "lines = (case line of None \<Rightarrow> lines1 | Some l \<Rightarrow> l # lines1)" by auto
  with Cons.IH [OF r] h show ?case by (auto simp: errorLog_Handle_def split: if_splits)
qed

lemma TraceAttrs_iff:
  "(k, v) \<in> set (TraceAttrs r) \<longleftrightarrow> (k, v) \<in> set (attrs r) \<and> k \<notin> {''claims'', ''candidates'', ''token_sha256'', ''error''}"
proof -
  have "map_of untraced k \<noteq> Some True \<longleftrightarrow> k \<notin> {''claims'', ''candidates'', ''token_sha256'', ''error''}" by (simp add: untraced_def)
  then show ?thesis unfolding TraceAttrs_def by simp
qed

lemma spanNotifier_attrs:
  assumes "SetAttributes as \<in> set (spanNotifier fmtTime text b r)" and "(k, v) \<in> set as"
  shows "\<exists>k' v'. k = ''cellcast.'' @ k' \<and> (k', v') \<in> set (attrs r) \<and> k' \<notin> {''claims'', ''candidates'', ''token_sha256'', ''error''}"
proof -
  from assms(1) have "as = spanAttributes fmtTime text r" unfolding spanNotifier_def by (auto split: if_splits)
  with assms(2) obtain k' v' where "k = ''cellcast.'' @ k'" "(k', v') \<in> set (TraceAttrs r)"
    unfolding spanAttributes_def by (auto simp only: set_map image_iff split_beta prod.sel Pair_inject surjective_pairing)
  then show ?thesis unfolding TraceAttrs_iff by blast
qed

lemma nameSpanByRoute_attrs: "SetAttributes as \<in> set (nameSpanByRoute pat) \<Longrightarrow> (k, v) \<in> set as \<Longrightarrow> k = ''http.route''"
  by (auto simp: nameSpanByRoute_def split: if_splits prod.splits)

definition span_sources :: "audit_Record list \<Rightarrow> (audit_Record \<Rightarrow> span_call list) \<Rightarrow> span \<Rightarrow> bool" where
  "span_sources recs note sp \<longleftrightarrow>
    sp_name sp \<in> set span_methods \<union> {''_OTHER'', ''authenticate'', ''place'', ''mint''} \<and>
    (\<forall>as. SetAttributes as \<in> set (sp_calls sp) \<longrightarrow>
      (\<exists>n. as = [(''http.response.status_code'', AInt n)]) \<or> (\<exists>r \<in> set recs. SetAttributes as \<in> set (note r)) \<or>
      (\<exists>pat. SetAttributes as \<in> set (nameSpanByRoute pat)))"

lemma placement_span_sources:
  assumes "sp \<in> set (placement_spans statusText fmtTime text method rid idn placed recs status)"
  shows "span_sources recs (spanNotifier fmtTime text True) sp"
proof -
  let ?note = "spanNotifier fmtTime text True"
  define inner where "inner = concat (map ?note (filter (\<lambda>r. au_event r = EventPlacement) recs)) @ nameSpanByRoute ''POST /api/v1/placement''"
  have i: "(\<exists>r \<in> set recs. c \<in> set (?note r)) \<or> (\<exists>pat. c \<in> set (nameSpanByRoute pat))" if "c \<in> set inner" for c
    using that unfolding inner_def by auto
  have "span_sources recs ?note (traceRequests statusText method rid inner status)"
    unfolding span_sources_def traceRequests_def using i by (auto simp: spanMethod_def split: if_splits)
  moreover have "span_sources recs ?note (tracedAuthenticator out)" for out
    by (simp add: span_sources_def tracedAuthenticator_def split: sum.split)
  moreover have "span_sources recs ?note \<lparr>sp_name = ''place'', sp_kind = SpanInternal, sp_attrs = [], sp_calls = []\<rparr>"
    by (simp add: span_sources_def)
  moreover have "span_sources recs ?note \<lparr>sp_name = ''mint'', sp_kind = SpanInternal, sp_attrs = [], sp_calls = ?note r\<rparr>" if "r \<in> set recs" for r
    using that by (auto simp: span_sources_def)
  ultimately show ?thesis using assms unfolding placement_spans_def inner_def [symmetric] by (auto split: if_splits)
qed

text \<open>No line follows another within the window: \<open>spaced\<close> from the last line on.\<close>

fun spaced :: "go_time \<Rightarrow> go_time list \<Rightarrow> bool" where
  "spaced t0 [] = True"
| "spaced t0 (t # ts) = ((t0 = zero_time \<or> errorLogEvery \<le> t - t0) \<and> spaced t ts)"

lemma errorLog_run_spaced:
  "errorLog_run e ts = (lines, e') \<Longrightarrow> spaced (el_last e) (map fst lines)"
proof (induction ts arbitrary: e lines e')
  case Nil
  then show ?case by simp
next
  case (Cons t ts)
  obtain line e1 where h: "errorLog_Handle e t = (line, e1)" by (rule prod.exhaust)
  obtain lines1 e2 where r: "errorLog_run e1 ts = (lines1, e2)" by (rule prod.exhaust)
  from Cons.prems h r have l: "lines = (case line of None \<Rightarrow> lines1 | Some l \<Rightarrow> l # lines1)" by auto
  have m: "\<not> go_sub t (el_last e) < errorLogEvery \<Longrightarrow> errorLogEvery \<le> t - el_last e"
    by (auto simp: go_sub_def errorLogEvery_def duration_units min_int64_def max_int64_def split: if_splits)
  from Cons.IH [OF r] h l m show ?case by (auto simp: errorLog_Handle_def split: if_splits)
qed

section \<open>Properties\<close>

text \<open>
  A trace tells less than the trail. The spans of a placement request are named from a fixed set; every attribute on them is
  the method, the request id, the status, the route, or an attribute of the audit record that is none of the claims, the candidate
  table, the token digest and the error text. So the spans stay the same when those four are anything else.
\<close>

theorem spans_tell_less_than_the_trail:
  "(\<forall>sp \<in> set (placement_spans statusText fmtTime text method rid idn placed recs status).
      sp_name sp \<in> set span_methods \<union> {''_OTHER'', ''authenticate'', ''place'', ''mint''} \<and>
      (\<forall>as k v. SetAttributes as \<in> set (sp_calls sp) \<and> (k, v) \<in> set as \<longrightarrow>
        k \<in> {''http.response.status_code'', ''http.route''} \<or>
        (\<exists>r \<in> set recs. \<exists>k' v'. k = ''cellcast.'' @ k' \<and> (k', v') \<in> set (attrs r) \<and>
          k' \<notin> {''claims'', ''candidates'', ''token_sha256'', ''error''}))) \<and>
    placement_spans statusText fmtTime text method rid idn placed
      (map (\<lambda>r. reworded (cs r) (cands r) (digest r) (err r) r) recs) status =
    placement_spans statusText fmtTime text method rid idn placed recs status"
proof
  show "\<forall>sp \<in> set (placement_spans statusText fmtTime text method rid idn placed recs status).
      sp_name sp \<in> set span_methods \<union> {''_OTHER'', ''authenticate'', ''place'', ''mint''} \<and>
      (\<forall>as k v. SetAttributes as \<in> set (sp_calls sp) \<and> (k, v) \<in> set as \<longrightarrow>
        k \<in> {''http.response.status_code'', ''http.route''} \<or>
        (\<exists>r \<in> set recs. \<exists>k' v'. k = ''cellcast.'' @ k' \<and> (k', v') \<in> set (attrs r) \<and>
          k' \<notin> {''claims'', ''candidates'', ''token_sha256'', ''error''}))"
  proof (rule ballI)
    fix sp assume "sp \<in> set (placement_spans statusText fmtTime text method rid idn placed recs status)"
    note src = placement_span_sources [OF this, unfolded span_sources_def]
    show "sp_name sp \<in> set span_methods \<union> {''_OTHER'', ''authenticate'', ''place'', ''mint''} \<and>
      (\<forall>as k v. SetAttributes as \<in> set (sp_calls sp) \<and> (k, v) \<in> set as \<longrightarrow>
        k \<in> {''http.response.status_code'', ''http.route''} \<or>
        (\<exists>r \<in> set recs. \<exists>k' v'. k = ''cellcast.'' @ k' \<and> (k', v') \<in> set (attrs r) \<and>
          k' \<notin> {''claims'', ''candidates'', ''token_sha256'', ''error''}))"
    proof (intro conjI allI impI, rule conjunct1 [OF src])
      fix as k v assume a: "SetAttributes as \<in> set (sp_calls sp) \<and> (k, v) \<in> set as"
      from src a consider (status) "\<exists>n. as = [(''http.response.status_code'', AInt n)]"
        | (noted) r where "r \<in> set recs" "SetAttributes as \<in> set (spanNotifier fmtTime text True r)"
        | (route) pat where "SetAttributes as \<in> set (nameSpanByRoute pat)" by blast
      then show "k \<in> {''http.response.status_code'', ''http.route''} \<or>
        (\<exists>r \<in> set recs. \<exists>k' v'. k = ''cellcast.'' @ k' \<and> (k', v') \<in> set (attrs r) \<and>
          k' \<notin> {''claims'', ''candidates'', ''token_sha256'', ''error''})"
      proof cases
        case status
        with a show ?thesis by auto
      next
        case (noted r)
        from spanNotifier_attrs [OF noted(2) conjunct2 [OF a]] noted(1) show ?thesis by blast
      next
        case (route pat)
        from nameSpanByRoute_attrs [OF route conjunct2 [OF a]] show ?thesis by blast
      qed
    qed
  qed
  show "placement_spans statusText fmtTime text method rid idn placed
      (map (\<lambda>r. reworded (cs r) (cands r) (digest r) (err r) r) recs) status =
    placement_spans statusText fmtTime text method rid idn placed recs status"
    by (simp add: placement_spans_def filter_map comp_def reworded_event spanNotifier_reworded)
qed

text \<open>
  A dead collector does not fill the log, and no failure goes uncounted. Over every sequence of export failures, the lines
  are at least a minute apart, and the lines, the failures they report as suppressed and the ones still held back add up
  to the failures.
\<close>

theorem export_failures_are_rationed:
  assumes "errorLog_run new_errorLog ts = (lines, e)" and "zero_time \<notin> set ts"
  shows "length ts = length lines + sum_list (map snd lines) + el_held e \<and>
    (\<forall>i. Suc i < length lines \<longrightarrow> fst (lines ! i) + Minute \<le> fst (lines ! Suc i))"
proof -
  have far: "\<forall>i. Suc i < length us \<longrightarrow> us ! i + Minute \<le> us ! Suc i" if "spaced t0 us" "zero_time \<notin> set us" for t0 us
    using that
  proof (induction us arbitrary: t0)
    case Nil
    then show ?case by simp
  next
    case (Cons u us)
    then have s: "spaced u us" "zero_time \<notin> set us" "u \<noteq> zero_time" by auto
    from Cons.IH [OF s(1,2)] have i: "\<forall>i. Suc i < length us \<longrightarrow> us ! i + Minute \<le> us ! Suc i" .
    from s(1,3) have "us \<noteq> [] \<Longrightarrow> u + Minute \<le> us ! 0" by (cases us) (auto simp: errorLogEvery_def)
    with i show ?case by (auto simp: nth_Cons split: nat.split)
  qed
  have sub: "errorLog_run e0 ts0 = (ls, e') \<Longrightarrow> fst ` set ls \<subseteq> set ts0" for e0 e' ts0 ls
    by (induction ts0 arbitrary: e0 ls) (fastforce simp: errorLog_Handle_def Let_def split: if_splits prod.splits)+
  from errorLog_run_counts [OF assms(1)] have "length ts = length lines + sum_list (map snd lines) + el_held e"
    by (simp add: new_errorLog_def)
  moreover have "zero_time \<notin> set (map fst lines)" using sub [OF assms(1)] assms(2) by auto
  with far [OF errorLog_run_spaced [OF assms(1)]] have "\<forall>i. Suc i < length lines \<longrightarrow> fst (lines ! i) + Minute \<le> fst (lines ! Suc i)"
    by (auto simp: nth_map)
  ultimately show ?thesis by blast
qed

text \<open>
  Nothing is exported until something configures it, and a valid endpoint carries no credentials: a process with no endpoint on
  the command line and none in the environment, or with the SDK disabled, starts no exporter and traces to nowhere; and a process
  whose metric exporter cannot be built shuts down the trace provider it had started.
\<close>

theorem telemetry_is_off_until_configured:
  "((tc_endpoint c = '''' \<and> (\<forall>v. getenv v = '''')) \<or> EqualFold (getenv ''OTEL_SDK_DISABLED'') ''true'' \<longrightarrow>
      tel_Start join getenv res build c producer = (Inr \<lparr>tel_tracer = None, tel_shutdown = []\<rparr>, [], [])) \<and>
    (tel_Validate parse getenv c = None \<and> tc_endpoint c \<noteq> '''' \<longrightarrow>
      (\<exists>u. parse (tc_endpoint c) = Some u \<and> url_scheme u \<in> {''http'', ''https''} \<and> url_host u \<noteq> '''' \<and> \<not> url_user u)) \<and>
    (\<forall>e built down. tel_Start join getenv res build c producer = (Inl e, built, down) \<longrightarrow>
      length down = length built)"
proof (intro conjI allI impI)
  assume "(tc_endpoint c = '''' \<and> (\<forall>v. getenv v = '''')) \<or> EqualFold (getenv ''OTEL_SDK_DISABLED'') ''true''"
  then have "\<not> exports getenv c signal" for signal by (auto simp: exports_def)
  then show "tel_Start join getenv res build c producer = (Inr \<lparr>tel_tracer = None, tel_shutdown = []\<rparr>, [], [])"
    by (simp add: tel_Start_def)
next
  assume "tel_Validate parse getenv c = None \<and> tc_endpoint c \<noteq> ''''"
  then show "\<exists>u. parse (tc_endpoint c) = Some u \<and> url_scheme u \<in> {''http'', ''https''} \<and> url_host u \<noteq> '''' \<and> \<not> url_user u"
    by (auto simp: tel_Validate_def endpoint_problem_def split: option.splits if_splits)
next
  fix e built down assume "tel_Start join getenv res build c producer = (Inl e, built, down)"
  then show "length down = length built"
    by (auto simp: tel_Start_def Let_def split: if_splits)
qed

section \<open>Witnesses\<close>

text \<open>A failed mint: its span has the same content whatever digest and error text the record carries.\<close>

theorem spans_tell_less_than_the_trail_witness:
  "placement_spans (\<lambda>_. ''Service Unavailable'') (\<lambda>_. '''') (\<lambda>_. '''') ''POST'' ''r1'' sample_identity True
      [reworded [] [] ''sha256:00'' ''boom'' (new_record EventMint ''r1'')] 503 =
    placement_spans (\<lambda>_. ''Service Unavailable'') (\<lambda>_. '''') (\<lambda>_. '''') ''POST'' ''r1'' sample_identity True [new_record EventMint ''r1''] 503 \<and>
   length (placement_spans (\<lambda>_. ''Service Unavailable'') (\<lambda>_. '''') (\<lambda>_. '''') ''POST'' ''r1'' sample_identity True [new_record EventMint ''r1''] 503) = 4"
  using spans_tell_less_than_the_trail [of "\<lambda>_. ''Service Unavailable''" "\<lambda>_. ''''" "\<lambda>_. ''''" "''POST''" "''r1''" sample_identity True
      "[new_record EventMint ''r1'']" 503 "\<lambda>_. []" "\<lambda>_. []" "\<lambda>_. ''sha256:00''" "\<lambda>_. ''boom''"]
  by (simp add: placement_spans_def new_record_def)

theorem export_failures_are_rationed_witness:
  "errorLog_run new_errorLog [1, 2, Minute + 1] = ([(1, 0), (Minute + 1, 1)], \<lparr>el_last = Minute + 1, el_held = 0\<rparr>) \<and>
   (1 :: int) + Minute \<le> Minute + 1"
proof -
  have r: "errorLog_run new_errorLog [1, 2, Minute + 1] = ([(1, 0), (Minute + 1, 1)], \<lparr>el_last = Minute + 1, el_held = 0\<rparr>)"
    by (simp add: new_errorLog_def errorLog_Handle_def errorLogEvery_def zero_time_def go_sub_def duration_units min_int64_def max_int64_def)
  have "zero_time \<notin> set [1, 2, Minute + 1]" by (simp add: zero_time_def duration_units)
  from export_failures_are_rationed [OF r this] r show ?thesis by auto
qed

end
