(* ===== verification/Controllers.thy ===== *)
theory Controllers
  imports Engine ClusterApi
begin

text \<open>
  What the hub publishes about itself: the reconcilers of \<open>internal/hub/cluster_controller.go\<close>, \<open>policy_controller.go\<close> and
  \<open>trustconfig_controller.go\<close>, and the cell events of \<open>events.go\<close>.

  A reconciliation is a function of the API server's state to its result and the state after it. Parameters: the client, the
  clock, \<open>meta.SetStatusCondition\<close> (with its own clock), label selectors and their text, and \<open>strconv.Quote\<close>. The condition
  helper is taken by what its documentation promises (\<open>conditions_documented\<close>), and the client by what a cached one does
  (\<open>status_server\<close>): it reads from a cache that may lag, and writes to the server. Registration with the manager is
  wiring and is left out.
\<close>

section \<open>Conditions\<close>

type_synonym set_condition = "condition list \<Rightarrow> condition \<Rightarrow> condition list"

definition ConditionTrue :: string where [api_defs]: "ConditionTrue = ''True''"
definition ConditionFalse :: string where [api_defs]: "ConditionFalse = ''False''"
definition ConditionUnknown :: string where [api_defs]: "ConditionUnknown = ''Unknown''"

definition new_condition :: "string \<Rightarrow> string \<Rightarrow> string \<Rightarrow> string \<Rightarrow> int \<Rightarrow> condition" where
  "new_condition ty status reason msg generation =
    \<lparr>cond_type = ty, cond_status = status, cond_reason = reason, cond_message = msg, cond_generation = generation,
     cond_transition = zero_time\<rparr>"

text \<open>The comparison all three reconcilers make before they write: everything but the transition times.\<close>

definition same_condition :: "condition \<Rightarrow> condition \<Rightarrow> bool" where
  "same_condition x y \<longleftrightarrow> cond_type x = cond_type y \<and> cond_status x = cond_status y \<and> cond_reason x = cond_reason y \<and>
    cond_message x = cond_message y \<and> cond_generation x = cond_generation y"

section \<open>Clusters\<close>






record k8s_event =
  kev_object :: string
  kev_type :: string
  kev_reason :: string
  kev_action :: string
  kev_note :: string

datatype reconcile_error = GetFailed api_error | ListFailed string api_error | UpdateFailed api_error



section \<open>Policies\<close>

definition PolicyConditionReady :: string where [api_defs]: "PolicyConditionReady = ''Ready''"
definition PolicyReasonCellsMatched :: string where [api_defs]: "PolicyReasonCellsMatched = ''CellsMatched''"
definition PolicyReasonNoCellsMatched :: string where [api_defs]: "PolicyReasonNoCellsMatched = ''NoCellsMatched''"
definition PolicyReasonInvalid :: string where [api_defs]: "PolicyReasonInvalid = ''InvalidSelector''"
definition PolicyConditionIssuerTrusted :: string where [api_defs]: "PolicyConditionIssuerTrusted = ''IssuerTrusted''"
definition PolicyReasonIssuersTrusted :: string where [api_defs]: "PolicyReasonIssuersTrusted = ''IssuersTrusted''"
definition PolicyReasonIssuerNotTrusted :: string where [api_defs]: "PolicyReasonIssuerNotTrusted = ''IssuerNotTrusted''"
definition PolicyReasonNoIssuersConfigured :: string where [api_defs]: "PolicyReasonNoIssuersConfigured = ''NoIssuersConfigured''"

definition quoteAll :: "(string \<Rightarrow> string) \<Rightarrow> string list \<Rightarrow> string list" where
  "quoteAll quote = map quote"

definition join_comma :: "string list \<Rightarrow> string" where
  "join_comma xs = (case xs of [] \<Rightarrow> '''' | x # rest \<Rightarrow> x @ concat (map (\<lambda>y. '', '' @ y) rest))"

definition untrusted_issuers :: "string list \<Rightarrow> SubjectSelector list \<Rightarrow> string list" where
  "untrusted_issuers trusted sels =
    foldl (\<lambda>acc sel. if sel_issuer sel \<notin> set trusted \<and> sel_issuer sel \<notin> set acc then acc @ [sel_issuer sel] else acc) [] sels"

definition issuerCondition :: "(string \<Rightarrow> string) \<Rightarrow> string list \<Rightarrow> SubjectSelector list \<Rightarrow> string \<times> string \<times> string" where
  "issuerCondition quote trusted sels =
    (if trusted = [] then
       (ConditionFalse, PolicyReasonNoIssuersConfigured,
        ''the hub was started with no --oidc-issuer, so it authenticates no caller and no policy can match'')
     else if untrusted_issuers trusted sels = [] then
       (ConditionTrue, PolicyReasonIssuersTrusted,
        ''every issuer named is one the hub verifies: '' @ join_comma (quoteAll quote trusted))
     else
       (ConditionFalse, PolicyReasonIssuerNotTrusted,
        ''this hub does not verify '' @ join_comma (quoteAll quote (untrusted_issuers trusted sels)) @ ''; it was started with '' @
        join_comma (quoteAll quote trusted) @ '', and a policy does not add an issuer''))"

definition policyStatusEqual :: "PlacementPolicyStatus \<Rightarrow> PlacementPolicyStatus \<Rightarrow> bool" where
  "policyStatusEqual a b \<longleftrightarrow> pol_observedGeneration a = pol_observedGeneration b \<and>
    list_all2 same_condition (pol_conditions a) (pol_conditions b)"

record ('s, 'sel) policy_reconciler =
  prGet :: "'s \<Rightarrow> string \<Rightarrow> string \<Rightarrow> api_error + 'sel PlacementPolicy"
  prListPolicies :: "'s \<Rightarrow> string \<Rightarrow> api_error + 'sel PlacementPolicy list"
  prListClusters :: "'s \<Rightarrow> string \<Rightarrow> (labels \<Rightarrow> bool) \<Rightarrow> api_error + Cluster list"
  prUpdateStatus :: "'s \<Rightarrow> 'sel PlacementPolicy \<Rightarrow> api_error option \<times> 's"
  prAsSelector :: "'sel as_selector"
  prSelectorText :: "'sel \<Rightarrow> string"
  prQuote :: "string \<Rightarrow> string"
  prSetCondition :: set_condition
  prTrustedIssuers :: "string list"

definition readyCondition ::
  "('s, 'sel) policy_reconciler \<Rightarrow> 's \<Rightarrow> string \<Rightarrow> 'sel PlacementPolicy \<Rightarrow> reconcile_error + string \<times> string \<times> string" where
  "readyCondition r s ns pol =
    (case prAsSelector r (permittedCells (pol_spec pol)) of
       Inl e \<Rightarrow> Inr (ConditionFalse, PolicyReasonInvalid, ''permittedCells is not a valid selector: '' @ e)
     | Inr sel \<Rightarrow>
       (let text = prQuote r (prSelectorText r (permittedCells (pol_spec pol))) in
        case prListClusters r s ns sel of
          Inl e \<Rightarrow> Inl (ListFailed (pol_name pol) e)
        | Inr cls \<Rightarrow>
          if length cls = 0 then Inr (ConditionFalse, PolicyReasonNoCellsMatched, ''selector '' @ text @ '' matches no registered cell'')
          else Inr (ConditionTrue, PolicyReasonCellsMatched,
            ''selector '' @ text @ '' matches '' @ int_text (int (length cls)) @ '' registered cell(s)'')))"

definition PolicyReconcile ::
  "('s, 'sel) policy_reconciler \<Rightarrow> string \<Rightarrow> string \<Rightarrow> 's \<Rightarrow> reconcile_error option \<times> 's" where
  "PolicyReconcile r ns nm s =
    (case prGet r s ns nm of
       Inl e \<Rightarrow> (if IsNotFound e then None else Some (GetFailed e), s)
     | Inr pol \<Rightarrow>
       (case readyCondition r s ns pol of
          Inl e \<Rightarrow> (Some e, s)
        | Inr (status, reason, msg) \<Rightarrow>
          (case issuerCondition (prQuote r) (prTrustedIssuers r) (subjects (pol_spec pol)) of (istatus, ireason, imsg) \<Rightarrow>
             let before = pol_status pol; gen = pol_generation pol;
                 conds = prSetCondition r (prSetCondition r (pol_conditions before)
                   (new_condition PolicyConditionReady status reason msg gen))
                   (new_condition PolicyConditionIssuerTrusted istatus ireason imsg gen);
                 pol' = pol\<lparr>pol_status := \<lparr>pol_observedGeneration = gen, pol_conditions = conds\<rparr>\<rparr>
             in if policyStatusEqual before (pol_status pol') then (None, s)
                else (case prUpdateStatus r s pol' of
                  (Some e, s') \<Rightarrow> (Some (UpdateFailed e), s')
                | (None, s') \<Rightarrow> (None, s')))))"

definition policiesInNamespace :: "('s, 'sel) policy_reconciler \<Rightarrow> 's \<Rightarrow> string \<Rightarrow> (string \<times> string) list" where
  "policiesInNamespace r s ns =
    (case prListPolicies r s ns of Inl e \<Rightarrow> [] | Inr pols \<Rightarrow> map (\<lambda>p. (pol_namespace p, pol_name p)) pols)"

section \<open>Trust configurations\<close>

definition recheckInterval :: duration where "recheckInterval = 2 * Minute"

definition TrustConfigConditionReady :: string where [api_defs]: "TrustConfigConditionReady = ''Ready''"
definition TrustReasonValid :: string where [api_defs]: "TrustReasonValid = ''Valid''"
definition TrustReasonProviderNotImplemented :: string where [api_defs]: "TrustReasonProviderNotImplemented = ''ProviderNotImplemented''"
definition TrustReasonCredentialMissing :: string where [api_defs]: "TrustReasonCredentialMissing = ''CredentialMissing''"
definition TrustReasonInvalidConfiguration :: string where [api_defs]: "TrustReasonInvalidConfiguration = ''InvalidConfiguration''"

text \<open>\<open>trSecret\<close> reads the data of a secret, uncached; \<open>trErrText\<close> and \<open>trApiText\<close> are the texts of errors.\<close>

record 's trust_reconciler =
  trGet :: "'s \<Rightarrow> string \<Rightarrow> string \<Rightarrow> api_error + TrustConfig"
  trUpdateStatus :: "'s \<Rightarrow> TrustConfig \<Rightarrow> api_error option \<times> 's"
  trSecret :: "string \<Rightarrow> string \<Rightarrow> api_error + (string \<times> string) list"
  trNamespace :: string
  trSetCondition :: set_condition
  trQuote :: "string \<Rightarrow> string"
  trErrText :: "broker_error \<Rightarrow> string"
  trApiText :: "api_error \<Rightarrow> string"

definition checkSecret :: "'s trust_reconciler \<Rightarrow> SecretKeyReference \<Rightarrow> string \<times> string" where
  "checkSecret r ref =
    (let key = (if secret_key ref = '''' then ''kubeconfig'' else secret_key ref); q = trQuote r in
     case trSecret r (trNamespace r) (secret_name ref) of
       Inl e \<Rightarrow>
         if IsNotFound e then (TrustReasonCredentialMissing, ''secret '' @ q (secret_name ref) @ '' does not exist'')
         else (TrustReasonCredentialMissing, ''secret '' @ q (secret_name ref) @ '' could not be read: '' @ trApiText r e)
     | Inr data \<Rightarrow>
       (case map_of data key of
          Some raw \<Rightarrow> if raw = '''' then (TrustReasonCredentialMissing, ''secret '' @ q (secret_name ref) @ '' has no key '' @ q key) else ('''', '''')
        | None \<Rightarrow> (TrustReasonCredentialMissing, ''secret '' @ q (secret_name ref) @ '' has no key '' @ q key)))"

definition evaluate_trust :: "'s trust_reconciler \<Rightarrow> TrustConfig \<Rightarrow> string \<times> string" where
  "evaluate_trust r trust =
    (case ValidateTrust trust of
       Some e \<Rightarrow>
         if broker_is e ErrProviderNotImplemented
         then (TrustReasonProviderNotImplemented, ''provider '' @ trQuote r (trust_provider (trust_spec trust)) @ '' is not implemented in this build'')
         else (TrustReasonInvalidConfiguration, trErrText r e)
     | None \<Rightarrow>
       (case (case secretRef (credentialSource (trust_spec trust)) of None \<Rightarrow> ('''', '''') | Some ref \<Rightarrow> checkSecret r ref) of
          (reason, msg) \<Rightarrow>
            if reason \<noteq> '''' then (reason, msg)
            else (TrustReasonValid,
              (case kubernetes (trust_spec trust) of
                 Some k \<Rightarrow> ''mints for '' @ sa_namespace k @ ''/'' @ serviceAccountName k @ '' via '' @ trust_provider (trust_spec trust)
               | None \<Rightarrow> ''''))))"

definition trustStatusEqual :: "TrustConfigStatus \<Rightarrow> TrustConfigStatus \<Rightarrow> bool" where
  "trustStatusEqual a b \<longleftrightarrow> trust_observedGeneration a = trust_observedGeneration b \<and>
    list_all2 same_condition (trust_conditions a) (trust_conditions b)"

definition TrustReconcile ::
  "'s trust_reconciler \<Rightarrow> string \<Rightarrow> string \<Rightarrow> 's \<Rightarrow> (reconcile_error + duration) \<times> 's" where
  "TrustReconcile r ns nm s =
    (case trGet r s ns nm of
       Inl e \<Rightarrow> (if IsNotFound e then Inr 0 else Inl (GetFailed e), s)
     | Inr trust \<Rightarrow>
       (case evaluate_trust r trust of (reason, msg) \<Rightarrow>
         let status = (if reason = TrustReasonValid then ConditionTrue else ConditionFalse);
             trust' = trust\<lparr>trust_status := \<lparr>trust_observedGeneration = trust_generation trust,
               trust_conditions = trSetCondition r (trust_conditions (trust_status trust))
                 (new_condition TrustConfigConditionReady status reason msg (trust_generation trust))\<rparr>\<rparr>;
             written = (if trustStatusEqual (trust_status trust) (trust_status trust') then (None, s) else trUpdateStatus r s trust')
         in case written of
              (Some e, s') \<Rightarrow> (Inl (UpdateFailed e), s')
            | (None, s') \<Rightarrow> (Inr (if status = ConditionTrue then 0 else recheckInterval), s')))"

section \<open>Cell events\<close>

definition clusterEvent :: "(duration \<Rightarrow> string) \<Rightarrow> audit_Record \<Rightarrow> (string \<times> string \<times> string \<times> string) option" where
  "clusterEvent durText rec =
    (if au_event rec = EventPlacement \<and> au_outcome rec = OutcomeGranted then
       Some (''Normal'', ''Placed'', ''Placement'', ''placed '' @ au_workload rec @ '' for '' @ au_subject rec @ '' under policy '' @ au_policy rec)
     else if au_event rec = EventMint \<and> au_outcome rec = OutcomeGranted then
       Some (''Normal'', ''CredentialIssued'', ''Mint'', ''issued a '' @ durText (au_grantedTTL rec) @ '' credential to '' @ au_subject rec @
         '', scoped to '' @ au_namespace rec @ ''/'' @ au_serviceAccount rec)
     else if au_event rec = EventMint \<and> au_outcome rec = OutcomeRefused then
       Some (''Warning'', ''MintFailed'', ''Mint'', ''could not mint a credential for '' @ au_subject rec @ '': '' @ au_reason rec)
     else None)"

definition Notify ::
  "(duration \<Rightarrow> string) \<Rightarrow> (string \<Rightarrow> string \<Rightarrow> api_error + Cluster) \<Rightarrow> string \<Rightarrow> audit_Record \<Rightarrow> k8s_event list" where
  "Notify durText get ns rec =
    (if au_cell rec = '''' then []
     else (case clusterEvent durText rec of
       None \<Rightarrow> []
     | Some (ty, reason, action, note) \<Rightarrow>
       (case get ns (au_cell rec) of
          Inl e \<Rightarrow> []
        | Inr cell \<Rightarrow> [\<lparr>kev_object = cl_name cell, kev_type = ty, kev_reason = reason, kev_action = action, kev_note = note\<rparr>])))"

section \<open>Lemmas\<close>

subsection \<open>The documented condition helper\<close>

type_synonym core = "string \<times> string \<times> string \<times> string \<times> int"

definition core_of :: "condition \<Rightarrow> core" where
  "core_of c = (cond_type c, cond_status c, cond_reason c, cond_message c, cond_generation c)"

fun set_core :: "core list \<Rightarrow> core \<Rightarrow> core list" where
  "set_core [] c = [c]"
| "set_core (x # xs) c = (if fst x = fst c then c # xs else x # set_core xs c)"

text \<open>
  \<open>SetStatusCondition\<close> as documented: the first condition of the new one's type is replaced where it is, otherwise the new one
  is appended. What it does with transition times is left open.
\<close>

definition conditions_documented :: "set_condition \<Rightarrow> bool" where
  "conditions_documented setCond \<longleftrightarrow> (\<forall>cs c. map core_of (setCond cs c) = set_core (map core_of cs) (core_of c))"

definition condition_status :: "string \<Rightarrow> condition list \<Rightarrow> string option" where
  "condition_status ty cs = map_option (\<lambda>x. fst (snd x)) (find (\<lambda>x. fst x = ty) (map core_of cs))"

lemma same_condition_core: "same_condition x y \<longleftrightarrow> core_of x = core_of y"
  by (auto simp: same_condition_def core_of_def)

lemma same_conditions_core: "list_all2 same_condition xs ys \<longleftrightarrow> map core_of xs = map core_of ys"
proof -
  have "same_condition = (\<lambda>x y. core_of x = core_of y)" by (intro ext) (rule same_condition_core)
  then show ?thesis unfolding list.rel_eq [symmetric] list_all2_map1 list_all2_map2 by simp
qed

lemma find_set_core: "find (\<lambda>x. fst x = ty) (set_core xs c) = (if ty = fst c then Some c else find (\<lambda>x. fst x = ty) xs)"
  by (induction xs) auto


lemma core_of_new [simp]: "core_of (new_condition ty status reason msg generation) = (ty, status, reason, msg, generation)"
  by (simp add: core_of_def new_condition_def)

text \<open>
  The client of a manager and the server behind it. \<open>held\<close> is what the server holds under a namespace and a name; \<open>get\<close> answers from the
  cache, so from some earlier moment, with the object of that key. A status update names the version it is based on and fails
  when the server holds another, so one that succeeds leaves the object as it was sent, under its own key, and touches no other
  key. Nothing is said of what a later \<open>get\<close> returns.
\<close>

definition status_server ::
  "('o \<Rightarrow> string \<times> string) \<Rightarrow> ('s \<Rightarrow> string \<Rightarrow> string \<Rightarrow> api_error + 'o) \<Rightarrow> ('s \<Rightarrow> 'o \<Rightarrow> api_error option \<times> 's) \<Rightarrow>
    ('s \<Rightarrow> string \<times> string \<Rightarrow> 'o option) \<Rightarrow> bool" where
  "status_server key get update held \<longleftrightarrow>
    (\<forall>s ns nm x. get s ns nm = Inr x \<longrightarrow> key x = (ns, nm)) \<and>
    (\<forall>s x s'. update s x = (None, s') \<longrightarrow> held s' = (held s)(key x \<mapsto> x))"

abbreviation cl_key :: "Cluster \<Rightarrow> string \<times> string" where "cl_key cl \<equiv> (cl_namespace cl, cl_name cl)"
abbreviation pol_key :: "'sel PlacementPolicy \<Rightarrow> string \<times> string" where "pol_key pol \<equiv> (pol_namespace pol, pol_name pol)"
abbreviation trust_key :: "TrustConfig \<Rightarrow> string \<times> string" where "trust_key trust \<equiv> (trust_namespace trust, trust_name trust)"

lemma status_server_update:
  assumes "status_server key get update held" and "get s ns nm = Inr x" and "update s y = (None, s')" and "key y = key x"
  shows "held s' = (held s)((ns, nm) \<mapsto> y)"
proof -
  from assms(1,2,4) have "key y = (ns, nm)" unfolding status_server_def by metis
  with assms(1,3) show ?thesis unfolding status_server_def by metis
qed






subsection \<open>Policies and trust configurations\<close>

lemma untrusted_issuers_set: "set (untrusted_issuers trusted sels) = sel_issuer ` set sels - set trusted"
proof -
  have "set (foldl (\<lambda>acc sel. if sel_issuer sel \<notin> set trusted \<and> sel_issuer sel \<notin> set acc then acc @ [sel_issuer sel] else acc) acc sels) =
      set acc \<union> (sel_issuer ` set sels - set trusted)" for acc
    by (induction sels arbitrary: acc) auto
  then show ?thesis by (simp add: untrusted_issuers_def)
qed

lemma condition_statuses_distinct [simp]: "ConditionTrue \<noteq> ConditionFalse" "ConditionFalse \<noteq> ConditionTrue"
  "ConditionTrue \<noteq> ConditionUnknown" "ConditionUnknown \<noteq> ConditionTrue" "PolicyConditionReady \<noteq> PolicyConditionIssuerTrusted"
  "PolicyConditionIssuerTrusted \<noteq> PolicyConditionReady"
  by (simp_all add: api_defs)

lemma issuerCondition_True:
  "fst (issuerCondition quote trusted sels) = ConditionTrue \<longleftrightarrow> trusted \<noteq> [] \<and> (\<forall>sel \<in> set sels. sel_issuer sel \<in> set trusted)"
proof -
  have "untrusted_issuers trusted sels = [] \<longleftrightarrow> (\<forall>sel \<in> set sels. sel_issuer sel \<in> set trusted)"
    using untrusted_issuers_set [of trusted sels] by (metis (no_types, lifting) Diff_eq_empty_iff image_subset_iff set_empty2 empty_set)
  then show ?thesis by (simp add: issuerCondition_def)
qed

text \<open>What a policy's status says after a reconciliation: a pair of conditions, each found under its type.\<close>

lemma two_conditions:
  assumes "conditions_documented setCond" and "ty \<noteq> ty'"
  shows "find (\<lambda>x. fst x = ty) (map core_of (setCond (setCond cs (new_condition ty a b c g)) (new_condition ty' a' b' c' g))) =
      Some (ty, a, b, c, g)"
    and "find (\<lambda>x. fst x = ty') (map core_of (setCond (setCond cs (new_condition ty a b c g)) (new_condition ty' a' b' c' g))) =
      Some (ty', a', b', c', g)"
  using assms unfolding conditions_documented_def by (simp_all add: find_set_core)

lemma one_condition:
  assumes "conditions_documented setCond"
  shows "find (\<lambda>x. fst x = ty) (map core_of (setCond cs (new_condition ty a b c g))) = Some (ty, a, b, c, g)"
  using assms unfolding conditions_documented_def by (simp add: find_set_core)

lemma PolicyReconcile_ok:
  assumes "conditions_documented (prSetCondition r)" and "status_server pol_key (prGet r) (prUpdateStatus r) held"
    and "prGet r s ns nm = Inr pol" and "PolicyReconcile r ns nm s = (None, s')"
  shows "\<exists>pol' ready. (pol' = pol \<and> s' = s \<or> held s' = (held s)((ns, nm) \<mapsto> pol')) \<and> readyCondition r s ns pol = Inr ready \<and> pol' = pol\<lparr>pol_status := pol_status pol'\<rparr> \<and>
    pol_observedGeneration (pol_status pol') = pol_generation pol \<and>
    condition_status PolicyConditionReady (pol_conditions (pol_status pol')) = Some (fst ready) \<and>
    condition_status PolicyConditionIssuerTrusted (pol_conditions (pol_status pol')) =
      Some (fst (issuerCondition (prQuote r) (prTrustedIssuers r) (subjects (pol_spec pol))))"
proof -
  from assms(3,4) obtain status reason msg where ready: "readyCondition r s ns pol = Inr (status, reason, msg)"
    unfolding PolicyReconcile_def by (cases "readyCondition r s ns pol") auto
  obtain istatus ireason imsg where i: "issuerCondition (prQuote r) (prTrustedIssuers r) (subjects (pol_spec pol)) = (istatus, ireason, imsg)"
    by (rule prod_cases3)
  let ?conds = "prSetCondition r (prSetCondition r (pol_conditions (pol_status pol))
     (new_condition PolicyConditionReady status reason msg (pol_generation pol)))
     (new_condition PolicyConditionIssuerTrusted istatus ireason imsg (pol_generation pol))"
  let ?pol = "pol\<lparr>pol_status := \<lparr>pol_observedGeneration = pol_generation pol, pol_conditions = ?conds\<rparr>\<rparr>"
  note two = two_conditions [OF assms(1) condition_statuses_distinct(5), of "pol_conditions (pol_status pol)"]
  show ?thesis
  proof (cases "policyStatusEqual (pol_status pol) (pol_status ?pol)")
    case True
    then have "map core_of (pol_conditions (pol_status pol)) = map core_of ?conds"
      "pol_observedGeneration (pol_status pol) = pol_generation pol"
      by (simp_all add: policyStatusEqual_def same_conditions_core)
    moreover from True assms(3,4) have "s' = s" by (simp add: PolicyReconcile_def ready i Let_def)
    ultimately show ?thesis using assms(3) two by (intro exI [of _ pol] exI [of _ "(status, reason, msg)"]) (simp add: ready i condition_status_def)
  next
    case False
    with assms(3,4) have u: "prUpdateStatus r s ?pol = (None, s')"
      unfolding PolicyReconcile_def
      by (cases "prUpdateStatus r s ?pol"; cases "fst (prUpdateStatus r s ?pol)") (simp_all add: ready i Let_def)
    have "held s' = (held s)((ns, nm) \<mapsto> ?pol)" by (rule status_server_update [OF assms(2,3) u]) simp
    with two show ?thesis by (intro exI [of _ ?pol] exI [of _ "(status, reason, msg)"]) (simp add: ready i condition_status_def)
  qed
qed

lemma refusalFor_permitted:
  "refusalFor (filter_cells cls sel dark snap) = ErrNoPermittedCells \<longleftrightarrow> \<not> (\<exists>cl \<in> set cls. sel (cl_labels cl))"
proof -
  have set: "set (filter_cells cls sel dark snap) = filter_cell sel dark snap ` set cls" by (simp add: filter_cells_def)
  show ?thesis by (auto simp: refusalFor_def Let_def list_ex_iff set filter_cell_stage split: if_splits)
qed

lemma evaluate_trust_Valid:
  assumes "sc_getSecret c = trSecret r" and "sc_ns c = trNamespace r"
  shows "fst (evaluate_trust r trust) = TrustReasonValid \<longleftrightarrow> ValidateTrust trust = None \<and>
    (\<forall>e. restConfigFor c trust = Inl e \<longrightarrow> (\<exists>n. e = NoLocalConfig n) \<or> (\<exists>n sec t. e = ParseKubeconfig n sec t))"
proof (cases "ValidateTrust trust")
  case (Some e)
  then show ?thesis by (simp add: evaluate_trust_def api_defs)
next
  case None
  then have src: "inCluster (credentialSource (trust_spec trust)) \<longleftrightarrow> secretRef (credentialSource (trust_spec trust)) = None"
    by (simp add: ValidateTrust_None_iff)
  show ?thesis
  proof (cases "secretRef (credentialSource (trust_spec trust))")
    case no: None
    with src None show ?thesis by (auto simp: evaluate_trust_def restConfigFor_def Let_def split: option.splits)
  next
    case (Some ref)
    have "TrustReasonCredentialMissing \<noteq> ''''" "TrustReasonCredentialMissing \<noteq> TrustReasonValid" by (simp_all add: api_defs)
    with Some src None assms show ?thesis
      by (auto simp: evaluate_trust_def restConfigFor_def checkSecret_def Let_def split: option.splits sum.splits if_splits)
  qed
qed

lemma TrustReconcile_ok:
  assumes "conditions_documented (trSetCondition r)" and "status_server trust_key (trGet r) (trUpdateStatus r) held"
    and "trGet r s ns nm = Inr trust" and "TrustReconcile r ns nm s = (Inr after, s')"
  shows "\<exists>trust'. (trust' = trust \<and> s' = s \<or> held s' = (held s)((ns, nm) \<mapsto> trust')) \<and> trust_spec trust' = trust_spec trust \<and>
    condition_status TrustConfigConditionReady (trust_conditions (trust_status trust')) =
      Some (if fst (evaluate_trust r trust) = TrustReasonValid then ConditionTrue else ConditionFalse) \<and>
    after = (if fst (evaluate_trust r trust) = TrustReasonValid then 0 else recheckInterval)"
proof -
  obtain reason msg where e: "evaluate_trust r trust = (reason, msg)" by (rule prod.exhaust)
  let ?st = "if reason = TrustReasonValid then ConditionTrue else ConditionFalse"
  let ?conds = "trSetCondition r (trust_conditions (trust_status trust))
    (new_condition TrustConfigConditionReady ?st reason msg (trust_generation trust))"
  let ?trust = "trust\<lparr>trust_status := \<lparr>trust_observedGeneration = trust_generation trust, trust_conditions = ?conds\<rparr>\<rparr>"
  note one = one_condition [OF assms(1), of TrustConfigConditionReady "trust_conditions (trust_status trust)"]
  show ?thesis
  proof (cases "trustStatusEqual (trust_status trust) (trust_status ?trust)")
    case True
    then have c: "map core_of (trust_conditions (trust_status trust)) = map core_of ?conds"
      by (simp add: trustStatusEqual_def same_conditions_core)
    from True assms(3,4) have "s' = s" "after = (if reason = TrustReasonValid then 0 else recheckInterval)"
      unfolding TrustReconcile_def by (auto simp: e Let_def)
    with assms(3) one c show ?thesis by (intro exI [of _ trust]) (simp add: e condition_status_def)
  next
    case False
    with assms(3,4) have u: "trUpdateStatus r s ?trust = (None, s')" "after = (if reason = TrustReasonValid then 0 else recheckInterval)"
      unfolding TrustReconcile_def
      by (cases "trUpdateStatus r s ?trust"; cases "fst (trUpdateStatus r s ?trust)"; auto simp: e Let_def)+
    have "held s' = (held s)((ns, nm) \<mapsto> ?trust)" by (rule status_server_update [OF assms(2,3) u(1)]) simp
    with one u(2) show ?thesis by (intro exI [of _ ?trust]) (simp add: e condition_status_def)
  qed
qed

section \<open>Properties\<close>


text \<open>
  C37. A policy's status predicts placement. A reconciliation without error over the fleet the engine reads leaves on the server, under the
  policy's key and no other, or has found in its cache, a policy that reads as ready exactly when the engine, for any caller this policy governs, gets past the permission stage, and its issuers read as
  trusted exactly when the hub has issuers and every selector names one of them.
\<close>

theorem policy_status_predicts_placement:
  assumes "conditions_documented (prSetCondition r)" and "status_server pol_key (prGet r) (prUpdateStatus r) held"
    and "prGet r s ns nm = Inr pol" and "PolicyReconcile r ns nm s = (None, s')"
    and "eng_ns e = ns" and "readClusters rd ns = Inr cls"
    and "\<And>sel. prListClusters r s ns sel = Inr (filter (\<lambda>cl. sel (cl_labels cl)) cls)"
  shows "\<exists>pol'. (pol' = pol \<and> s' = s \<or> held s' = (held s)((ns, nm) \<mapsto> pol')) \<and> pol' = pol\<lparr>pol_status := pol_status pol'\<rparr> \<and>
    (condition_status PolicyConditionReady (pol_conditions (pol_status pol')) = Some ConditionTrue \<longleftrightarrow>
      (\<exists>cands. candidates e rd (prAsSelector r) now pol dark = Inr cands \<and> refusalFor cands \<noteq> ErrNoPermittedCells)) \<and>
    (condition_status PolicyConditionIssuerTrusted (pol_conditions (pol_status pol')) = Some ConditionTrue \<longleftrightarrow>
      prTrustedIssuers r \<noteq> [] \<and> (\<forall>sel \<in> set (subjects (pol_spec pol)). sel_issuer sel \<in> set (prTrustedIssuers r)))"
proof -
  from PolicyReconcile_ok [OF assms(1-4)] obtain pol' ready where
    p: "pol' = pol \<and> s' = s \<or> held s' = (held s)((ns, nm) \<mapsto> pol')" "readyCondition r s ns pol = Inr ready" "pol' = pol\<lparr>pol_status := pol_status pol'\<rparr>"
      "condition_status PolicyConditionReady (pol_conditions (pol_status pol')) = Some (fst ready)"
      "condition_status PolicyConditionIssuerTrusted (pol_conditions (pol_status pol')) =
        Some (fst (issuerCondition (prQuote r) (prTrustedIssuers r) (subjects (pol_spec pol))))" by blast
  have "fst ready = ConditionTrue \<longleftrightarrow>
      (\<exists>cands. candidates e rd (prAsSelector r) now pol dark = Inr cands \<and> refusalFor cands \<noteq> ErrNoPermittedCells)"
  proof (cases "prAsSelector r (permittedCells (pol_spec pol))")
    case (Inl err)
    with p(2) show ?thesis by (auto simp: readyCondition_def candidates_def)
  next
    case (Inr sel)
    with p(2) assms(7) have "fst ready = ConditionTrue \<longleftrightarrow> (\<exists>cl \<in> set cls. sel (cl_labels cl))"
      by (auto simp: readyCondition_def Let_def filter_empty_conv split: if_splits)
    with Inr assms(5,6) show ?thesis by (simp add: candidates_def Let_def refusalFor_permitted)
  qed
  with p show ?thesis by (intro exI [of _ pol']) (simp add: issuerCondition_True)
qed

text \<open>
  A trust configuration that reads as ready is one the broker gets through. After a reconciliation without error the condition, as the server holds it or the cache showed it, is true
  exactly when the broker would accept the configuration and its connector, reading the same secrets, fails at most on a
  kubeconfig that does not parse or for want of a local configuration; and only an unready one is looked at again, after the recheck interval.
\<close>

theorem trust_status_predicts_the_broker:
  assumes "conditions_documented (trSetCondition r)" and "status_server trust_key (trGet r) (trUpdateStatus r) held"
    and "trGet r s ns nm = Inr trust" and "TrustReconcile r ns nm s = (Inr after, s')"
    and "sc_getSecret c = trSecret r" and "sc_ns c = trNamespace r"
  shows "\<exists>trust'. (trust' = trust \<and> s' = s \<or> held s' = (held s)((ns, nm) \<mapsto> trust')) \<and>
    (condition_status TrustConfigConditionReady (trust_conditions (trust_status trust')) = Some ConditionTrue \<longleftrightarrow>
      ValidateTrust trust = None \<and>
      (\<forall>e. restConfigFor c trust = Inl e \<longrightarrow> (\<exists>n. e = NoLocalConfig n) \<or> (\<exists>n sec t. e = ParseKubeconfig n sec t))) \<and>
    (condition_status TrustConfigConditionReady (trust_conditions (trust_status trust')) = Some ConditionTrue \<longleftrightarrow> after = 0) \<and>
    (after = 0 \<or> after = recheckInterval)"
proof -
  have "recheckInterval \<noteq> 0" by (simp add: recheckInterval_def duration_units)
  moreover from TrustReconcile_ok [OF assms(1-4)] obtain trust' where "trust' = trust \<and> s' = s \<or> held s' = (held s)((ns, nm) \<mapsto> trust')"
    "condition_status TrustConfigConditionReady (trust_conditions (trust_status trust')) =
      Some (if fst (evaluate_trust r trust) = TrustReasonValid then ConditionTrue else ConditionFalse)"
    "after = (if fst (evaluate_trust r trust) = TrustReasonValid then 0 else recheckInterval)" by blast
  ultimately show ?thesis
    unfolding evaluate_trust_Valid [OF assms(5,6), symmetric] by (intro exI [of _ trust']) simp
qed

section \<open>Witnesses\<close>

fun sample_set_condition :: set_condition where
  "sample_set_condition [] c = [c]"
| "sample_set_condition (x # xs) c = (if cond_type x = cond_type c then c # xs else x # sample_set_condition xs c)"

lemma sample_set_condition_documented: "conditions_documented sample_set_condition"
proof -
  have "map core_of (sample_set_condition cs c) = set_core (map core_of cs) (core_of c)" for cs c
    by (induction cs) (auto simp: core_of_def)
  then show ?thesis by (simp add: conditions_documented_def)
qed

text \<open>A server and the cache a manager keeps of it, which a write does not reach.\<close>

type_synonym 'o lagging_store = "(string \<times> string \<Rightarrow> 'o option) \<times> (string \<times> string \<Rightarrow> 'o option)"

definition lag_get :: "('o \<Rightarrow> string \<times> string) \<Rightarrow> 'o lagging_store \<Rightarrow> string \<Rightarrow> string \<Rightarrow> api_error + 'o" where
  "lag_get key s ns nm =
    (case snd s (ns, nm) of
       None \<Rightarrow> Inl (ApiError NotFound '''')
     | Some x \<Rightarrow> if key x = (ns, nm) then Inr x else Inl (ApiError OtherApiError ''''))"

definition lag_update :: "('o \<Rightarrow> string \<times> string) \<Rightarrow> 'o lagging_store \<Rightarrow> 'o \<Rightarrow> api_error option \<times> 'o lagging_store" where
  "lag_update key s x =
    (case fst s (key x) of
       None \<Rightarrow> (Some (ApiError NotFound ''''), s)
     | Some _ \<Rightarrow> (None, ((fst s)(key x \<mapsto> x), snd s)))"

definition lag_store :: "('o \<Rightarrow> string \<times> string) \<Rightarrow> 'o list \<Rightarrow> 'o lagging_store" where
  "lag_store key xs = (let m = map_of (map (\<lambda>x. (key x, x)) xs) in (m, m))"

lemma lagging_store_documented: "status_server key (lag_get key) (lag_update key) fst"
  by (auto simp: status_server_def lag_get_def lag_update_def split: option.splits if_splits)



lemma blue_in_simps [simp]: "cl_key (blue_in st) = (''cellcast'', ''blue'')" "observedState (cl_status (blue_in st)) = ''''"
  "Normalize (state (cl_spec (blue_in ClusterStateDraining))) = ClusterStateDraining"
  by (simp_all add: blue_in_def toCluster_def sample_reg_def)


definition sample_pr :: "(string PlacementPolicy lagging_store, string) policy_reconciler" where
  "sample_pr = \<lparr>prGet = lag_get pol_key, prListPolicies = (\<lambda>s ns. Inr []),
    prListClusters = (\<lambda>s ns sel. Inr (filter (\<lambda>cl. sel (cl_labels cl)) (sample_fleet ClusterStateLive))),
    prUpdateStatus = lag_update pol_key, prAsSelector = sample_as_selector, prSelectorText = (\<lambda>x. x), prQuote = (\<lambda>x. x),
    prSetCondition = sample_set_condition, prTrustedIssuers = [''https://ci'']\<rparr>"

definition two_policies :: "string PlacementPolicy lagging_store" where
  "two_policies = lag_store pol_key [sample_pol, sample_policy ''test'' [] ''test'']"

theorem policy_status_predicts_placement_witness:
  "\<exists>s' cands pol'. PolicyReconcile sample_pr ''cellcast'' ''prod'' two_policies = (None, s') \<and>
    fst s' = (fst two_policies)((''cellcast'', ''prod'') \<mapsto> pol') \<and>
    candidates (sample_engine 1) (sample_reader (sample_fleet ClusterStateLive)) sample_as_selector 70 sample_pol False = Inr cands \<and>
    condition_status PolicyConditionReady (pol_conditions (pol_status pol')) = Some ConditionTrue \<and> refusalFor cands \<noteq> ErrNoPermittedCells"
proof -
  let ?rd = "sample_reader (sample_fleet ClusterStateLive)"
  obtain err s' where h: "PolicyReconcile sample_pr ''cellcast'' ''prod'' two_policies = (err, s')" by (rule prod.exhaust)
  have d: "conditions_documented (prSetCondition sample_pr)" "status_server pol_key (prGet sample_pr) (prUpdateStatus sample_pr) fst"
    and g: "prGet sample_pr two_policies ''cellcast'' ''prod'' = Inr sample_pol"
    and e: "eng_ns (sample_engine 1) = ''cellcast''" "readClusters ?rd ''cellcast'' = Inr (sample_fleet ClusterStateLive)"
    and l: "\<And>sel. prListClusters sample_pr two_policies ''cellcast'' sel = Inr (filter (\<lambda>cl. sel (cl_labels cl)) (sample_fleet ClusterStateLive))"
    using lagging_store_documented [of pol_key]
    by (simp_all add: sample_pr_def sample_set_condition_documented lag_get_def two_policies_def lag_store_def Let_def
        sample_policy_def sample_engine_def NewEngine_def sample_reader_def)
  have ok: "err = None"
    using h unfolding PolicyReconcile_def g
    by (auto simp: sample_pr_def readyCondition_def sample_as_selector_def Let_def lag_update_def two_policies_def lag_store_def
        sample_policy_def split: if_splits prod.splits option.splits)
  obtain cands where c: "candidates (sample_engine 1) ?rd sample_as_selector 70 sample_pol False = Inr cands" "refusalFor cands \<noteq> ErrNoPermittedCells"
    by (simp add: candidates_def e Let_def refusalFor_permitted sample_fleet_def)
  have "prAsSelector sample_pr = sample_as_selector" by (simp add: sample_pr_def)
  with policy_status_predicts_placement [OF d g h [unfolded ok] e l, of 70 False] c obtain pol' where
    p: "pol' = sample_pol \<and> s' = two_policies \<or> fst s' = (fst two_policies)((''cellcast'', ''prod'') \<mapsto> pol')"
      "condition_status PolicyConditionReady (pol_conditions (pol_status pol')) = Some ConditionTrue" by auto
  from p(2) have "pol' \<noteq> sample_pol" by (auto simp: condition_status_def sample_policy_def)
  with p c h ok show ?thesis by (intro exI [of _ s'] exI [of _ cands] exI [of _ pol']) simp
qed

definition sample_tr :: "TrustConfig lagging_store trust_reconciler" where
  "sample_tr = \<lparr>trGet = lag_get trust_key, trUpdateStatus = lag_update trust_key, trSecret = (\<lambda>ns nm. Inl (ApiError NotFound '''')),
    trNamespace = ''cellcast'', trSetCondition = sample_set_condition, trQuote = (\<lambda>x. x), trErrText = (\<lambda>_. ''''), trApiText = (\<lambda>_. '''')\<rparr>"

definition secret_trust :: TrustConfig where
  "secret_trust = \<lparr>trust_name = ''t'', trust_namespace = ''cellcast'', trust_generation = 1,
    trust_spec = \<lparr>trust_provider = TrustProviderKubernetes,
      credentialSource = \<lparr>inCluster = False, secretRef = Some \<lparr>secret_name = ''creds'', secret_key = ''''\<rparr>\<rparr>,
      kubernetes = Some \<lparr>serviceAccountName = ''deployer'', sa_namespace = ''apps'', audiences = []\<rparr>\<rparr>,
    trust_status = \<lparr>trust_observedGeneration = 0, trust_conditions = []\<rparr>\<rparr>"

definition sample_connector :: "(unit, unit) SecretConnector" where
  "sample_connector = \<lparr>sc_getSecret = trSecret sample_tr, sc_ns = trNamespace sample_tr, sc_local = None,
    sc_parse = (\<lambda>_. Inl ''''), sc_build = (\<lambda>_. Inr ())\<rparr>"

theorem trust_status_predicts_the_broker_witness:
  "\<exists>s'. TrustReconcile sample_tr ''cellcast'' ''t'' (lag_store trust_key [secret_trust]) = (Inr recheckInterval, s') \<and>
    (\<forall>trust'. fst s' (''cellcast'', ''t'') = Some trust' \<longrightarrow>
      condition_status TrustConfigConditionReady (trust_conditions (trust_status trust')) \<noteq> Some ConditionTrue)"
proof -
  let ?s = "lag_store trust_key [secret_trust]"
  obtain out s' where h: "TrustReconcile sample_tr ''cellcast'' ''t'' ?s = (out, s')" by (rule prod.exhaust)
  have d: "conditions_documented (trSetCondition sample_tr)" "status_server trust_key (trGet sample_tr) (trUpdateStatus sample_tr) fst"
    and g: "trGet sample_tr ?s ''cellcast'' ''t'' = Inr secret_trust"
    and c: "sc_getSecret sample_connector = trSecret sample_tr" "sc_ns sample_connector = trNamespace sample_tr"
    and f: "fst ?s (''cellcast'', ''t'') = Some secret_trust"
    using lagging_store_documented [of trust_key]
    by (simp_all add: sample_tr_def sample_set_condition_documented lag_get_def lag_store_def Let_def secret_trust_def sample_connector_def)
  obtain t where t: "out = Inr t"
    using h unfolding TrustReconcile_def g
    by (auto simp: sample_tr_def Let_def lag_update_def lag_store_def secret_trust_def split: if_splits prod.splits option.splits)
  have "restConfigFor sample_connector secret_trust = Inl (SecretMissing ''t'' ''creds'')"
    by (simp add: restConfigFor_def secret_trust_def c Let_def) (simp add: sample_tr_def api_error_preds)
  with trust_status_predicts_the_broker [OF d g h [unfolded t] c] h t f show ?thesis by auto
qed

end
