(* ===== verification/HubMain.thy ===== *)
theory HubMain
  imports Telemetry Controllers
begin

text \<open>
  How the hub process is put together: \<open>NewServer\<close> and its options in \<open>internal/hub/server.go\<close>, \<open>internal/hub/manager.go\<close>, and
  \<open>cmd/cellcast-hub/main.go\<close>.

  An option is a constructor of \<open>server_option\<close>; what the handlers do with the parts it brings is modelled in the theories of
  those parts, so a part that is only present or absent is a truth value here. The capacity index is passed around as a pointer:
  the registries live in a heap and everything that was given one holds its address, so that one index shared by all and two
  equal ones are different programs. The views of the audit trail act on one
  record of what each has published. Steps of \<open>run\<close> that only call the controller-runtime library are parameters that say
  whether they failed. The two long-running halves of \<open>run\<close> and its last lines are a step relation.
\<close>

section \<open>The manager\<close>

definition leaderElectionID :: string where "leaderElectionID = ''cellcast-hub.cellcast.io''"

record ManagerOptions =
  mo_namespace :: string
  mo_metricsAddr :: string
  mo_leaderElection :: bool
  mo_leaderElectionNamespace :: string

text \<open>\<open>ValidateAgainst\<close> walks a map, so of several conflicts any may be the one it reports; it accepts when there is none.\<close>

definition ValidateAgainst :: "ManagerOptions \<Rightarrow> Config \<Rightarrow> (string \<times> string) list" where
  "ValidateAgainst mo cfg =
    (if mo_metricsAddr mo = '''' \<or> mo_metricsAddr mo = ''0'' then []
     else map (\<lambda>(flag, addr). (flag, mo_metricsAddr mo))
       (filter (\<lambda>(flag, addr). mo_metricsAddr mo = addr) [(''--addr'', cfg_addr cfg), (''--probe-addr'', cfg_probeAddr cfg)]))"

record ctrl_Options =
  ct_metricsBind :: string
  ct_namespaces :: "string list"
  ct_leaderElection :: bool
  ct_leaderElectionID :: string
  ct_leaderElectionNamespace :: string
  ct_releaseOnCancel :: bool

definition controllerOptions :: "ManagerOptions \<Rightarrow> ctrl_Options" where
  "controllerOptions mo =
    \<lparr>ct_metricsBind = mo_metricsAddr mo, ct_namespaces = [mo_namespace mo], ct_leaderElection = mo_leaderElection mo,
     ct_leaderElectionID = leaderElectionID, ct_leaderElectionNamespace = mo_leaderElectionNamespace mo, ct_releaseOnCancel = True\<rparr>"

section \<open>The server and its options\<close>

text \<open>What the views of the audit trail have published.\<close>

record views =
  vw_events :: "k8s_event list"
  vw_samples :: "sample list"
  vw_calls :: "span_call list"

record view_env =
  ve_durText :: "duration \<Rightarrow> string"
  ve_get :: "string \<Rightarrow> string \<Rightarrow> api_error + Cluster"
  ve_fmtTime :: "go_time \<Rightarrow> string"
  ve_text :: "slog_value \<Rightarrow> string"
  ve_recording :: bool

text \<open>
  The registries in memory, and a pointer to one. An engine keeps its pointer to the index beside its other fields, and reads what
  the heap holds there at the moment of a decision.
\<close>

type_synonym registries = "Registry list"
type_synonym registry_ref = nat

definition new_registry :: "Options \<Rightarrow> registries \<Rightarrow> registry_ref \<times> registries" where
  "new_registry opt h = (length h, h @ [New opt])"

record 's engine_object =
  eo_capacity :: "registry_ref option"
  eo_fields :: "'s Engine"

definition new_engine :: "registry_ref \<Rightarrow> string \<Rightarrow> 's Memory option \<Rightarrow> 's engine_object" where
  "new_engine r ns mem = \<lparr>eo_capacity = Some r, eo_fields = NewEngine None ns mem\<rparr>"

definition engine_in :: "registries \<Rightarrow> 's engine_object \<Rightarrow> 's Engine" where
  "engine_in h e = (eo_fields e)\<lparr>eng_capacity := map_option (\<lambda>r. h ! r) (eo_capacity e)\<rparr>"

text \<open>The authenticator field of a server: the default that rejects every caller, or the one an option replaced it with.\<close>

datatype 'a server_authn = DenyAll | Given 'a

fun authn_Authenticate ::
  "('a \<Rightarrow> string \<Rightarrow> (auth_error + Identity) \<times> 'a) \<Rightarrow> 'a server_authn \<Rightarrow> string \<Rightarrow> (auth_error + Identity) \<times> 'a server_authn" where
  "authn_Authenticate authn DenyAll header = (denyAll header, DenyAll)"
| "authn_Authenticate authn (Given a) header = (case authn a header of (r, a') \<Rightarrow> (r, Given a'))"

datatype ('a, 'p, 'm) server_option =
    WithAuthenticator 'a | WithClusterClient | WithCapacityRegistry registry_ref | WithRelay | WithCacheSync | WithEventRecorder
  | WithMetrics Metrics | WithTracerProvider "(exporter \<times> flt) option" | WithWarmupCheck registry_ref | WithAuditor "views Auditor"
  | WithPlacer 'p | WithMinter 'm

record ('a, 'p, 'm, 'b) server_parts =
  np_cfg :: Config
  np_authn :: "'a server_authn"
  np_limiter :: "'b callerLimiter option"
  np_k8s :: bool
  np_waitForSync :: bool
  np_capacity :: "registry_ref option"
  np_relay :: bool
  np_minter :: "'m option"
  np_placer :: "'p option"
  np_audit :: "views Auditor option"
  np_events :: bool
  np_metrics :: "Metrics option"
  np_tracer :: "(exporter \<times> flt) option"
  np_warmupCheck :: "registry_ref option"
  np_warm :: bool

fun apply_option :: "('a, 'p, 'm, 'b) server_parts \<Rightarrow> ('a, 'p, 'm) server_option \<Rightarrow> ('a, 'p, 'm, 'b) server_parts" where
  "apply_option s (WithAuthenticator a) = s\<lparr>np_authn := Given a\<rparr>"
| "apply_option s WithClusterClient = s\<lparr>np_k8s := True\<rparr>"
| "apply_option s (WithCapacityRegistry r) = s\<lparr>np_capacity := Some r\<rparr>"
| "apply_option s WithRelay = s\<lparr>np_relay := True\<rparr>"
| "apply_option s WithCacheSync = s\<lparr>np_waitForSync := True\<rparr>"
| "apply_option s WithEventRecorder = s\<lparr>np_events := True\<rparr>"
| "apply_option s (WithMetrics m) = s\<lparr>np_metrics := Some m\<rparr>"
| "apply_option s (WithTracerProvider tp) = s\<lparr>np_tracer := tp\<rparr>"
| "apply_option s (WithWarmupCheck r) = s\<lparr>np_warmupCheck := Some r\<rparr>"
| "apply_option s (WithAuditor a) = s\<lparr>np_audit := Some a\<rparr>"
| "apply_option s (WithPlacer p) = s\<lparr>np_placer := Some p\<rparr>"
| "apply_option s (WithMinter m) = s\<lparr>np_minter := Some m\<rparr>"

definition clusterNotifier :: "view_env \<Rightarrow> ('a, 'p, 'm, 'b) server_parts \<Rightarrow> (audit_Record \<Rightarrow> views \<Rightarrow> views) option" where
  "clusterNotifier ve s =
    (if \<not> np_events s \<or> \<not> np_k8s s then None
     else Some (\<lambda>rec w. w\<lparr>vw_events := vw_events w @ Notify (ve_durText ve) (ve_get ve) (cfg_namespace (np_cfg s)) rec\<rparr>))"

text \<open>A server's \<open>*Metrics\<close> is a notifier even when it is nil; its methods tolerate that.\<close>

definition metricsNotifier :: "Metrics option \<Rightarrow> audit_Record \<Rightarrow> views \<Rightarrow> views" where
  "metricsNotifier mo rec w = w\<lparr>vw_samples := vw_samples w @ Metrics_Notify mo rec\<rparr>"

definition traceNotifier :: "view_env \<Rightarrow> audit_Record \<Rightarrow> views \<Rightarrow> views" where
  "traceNotifier ve rec w = w\<lparr>vw_calls := vw_calls w @ spanNotifier (ve_fmtTime ve) (ve_text ve) (ve_recording ve) rec\<rparr>"

text \<open>The result comes with the sample the warmth gauge is set to.\<close>

definition NewServer ::
  "view_env \<Rightarrow> Config \<Rightarrow> ('a, 'p, 'm) server_option list \<Rightarrow> config_error + ('a, 'p, 'm, 'b) server_parts \<times> sample list" where
  "NewServer ve cfg options =
    (case Config_Validate cfg of
       Some e \<Rightarrow> Inl e
     | None \<Rightarrow>
       (let s0 = \<lparr>np_cfg = cfg, np_authn = DenyAll,
              np_limiter = newCallerLimiter (cfg_placementRateLimit cfg) (cfg_placementBurst cfg), np_k8s = False,
              np_waitForSync = False, np_capacity = None, np_relay = False, np_minter = None, np_placer = None, np_audit = None,
              np_events = False, np_metrics = None, np_tracer = None, np_warmupCheck = None, np_warm = False\<rparr>;
            s1 = foldl apply_option s0 options;
            s2 = s1\<lparr>np_warm := (np_warmupCheck s1 = None)\<rparr>;
            base = (case np_audit s2 of
                      Some a \<Rightarrow> a
                    | None \<Rightarrow> NewAuditor [clusterNotifier ve s2, Some (metricsNotifier (np_metrics s2))])
        in Inr (s2\<lparr>np_audit := Some (Auditor_With base [Some (traceNotifier ve)])\<rparr>, SetWarm (np_metrics s2) (np_warm s2))))"

section \<open>The binary\<close>

definition issuerURLs :: "oidc_Config \<Rightarrow> string list" where
  "issuerURLs cfg = map ic_issuer (oc_issuers cfg)"

definition buildAuthenticator ::
  "(string \<Rightarrow> URL option) \<Rightarrow> (string \<Rightarrow> transport_error + transport) \<Rightarrow> oidc_Config \<Rightarrow> oidc_new_error + 'k Authenticator option" where
  "buildAuthenticator parse transport_of cfg =
    (if oc_issuers cfg = [] then Inr None
     else (case NewAuthenticator parse transport_of cfg of Inl e \<Rightarrow> Inl e | Inr a \<Rightarrow> Inr (Some a)))"

datatype main_error =
    BadIssuerFlag string | AddressConflict string string | BadTelemetry tel_error | TelemetryStart start_error | NoManager string
  | NoControllers string | NoMemoryIndex string | NoMetrics string | NoPeers | NoAuthn oidc_new_error | InvalidHubConfig config_error

fun parse_issuer_flags :: "string list \<Rightarrow> IssuerConfig list \<Rightarrow> string + IssuerConfig list" where
  "parse_issuer_flags [] acc = Inr acc"
| "parse_issuer_flags (raw # raws) acc =
    (case ParseIssuerFlag raw of Inl e \<Rightarrow> Inl e | Inr i \<Rightarrow> parse_issuer_flags raws (acc @ [i]))"

record hub_flags =
  hf_cfg :: Config
  hf_mgr :: ManagerOptions
  hf_auth :: oidc_Config
  hf_tel :: tel_Config
  hf_issuers :: "string list"

definition default_manager :: ManagerOptions where
  "default_manager = \<lparr>mo_namespace = '''', mo_metricsAddr = '':8082'', mo_leaderElection = True, mo_leaderElectionNamespace = ''''\<rparr>"

text \<open>The body of \<open>RunE\<close>: what reaches \<open>run\<close>.\<close>

definition hub_RunE ::
  "(string \<Rightarrow> URL option) \<Rightarrow> (string \<Rightarrow> string) \<Rightarrow> hub_flags \<Rightarrow> main_error + Config \<times> ManagerOptions \<times> oidc_Config \<times> tel_Config" where
  "hub_RunE parse getenv f =
    (let cfg = hf_cfg f;
         mgr1 = (hf_mgr f)\<lparr>mo_namespace := cfg_namespace cfg\<rparr>;
         mgr = (if mo_leaderElectionNamespace mgr1 = '''' then mgr1\<lparr>mo_leaderElectionNamespace := cfg_namespace cfg\<rparr> else mgr1)
     in case parse_issuer_flags (hf_issuers f) (oc_issuers (hf_auth f)) of
          Inl e \<Rightarrow> Inl (BadIssuerFlag e)
        | Inr issuers \<Rightarrow>
          (case ValidateAgainst mgr cfg of
             (flag, addr) # _ \<Rightarrow> Inl (AddressConflict flag addr)
           | [] \<Rightarrow>
             (case tel_Validate parse getenv (hf_tel f) of
                Some e \<Rightarrow> Inl (BadTelemetry e)
              | None \<Rightarrow> Inr (cfg, mgr, (hf_auth f)\<lparr>oc_issuers := issuers\<rparr>, hf_tel f))))"

text \<open>
  What the process is made of once \<open>run\<close> reaches its goroutines: the heap, and what was built over it. \<open>dp_controllers\<close>, \<open>dp_collector\<close>
  and \<open>dp_index\<close> are the pointers that the controllers, the collector of the capacity metrics and the goroutine that prunes the
  index were given.
\<close>

record ('k, 's, 'b) deployed =
  dp_heap :: registries
  dp_index :: registry_ref
  dp_controllers :: registry_ref
  dp_collector :: registry_ref
  dp_broker :: Broker
  dp_memory :: "'s Memory"
  dp_engine :: "'s engine_object"
  dp_trustedIssuers :: "string list"
  dp_server :: "('k Authenticator, 's engine_object, Broker, 'b) server_parts"
  dp_samples :: "sample list"

text \<open>The surroundings of \<open>run\<close>: the outcomes of the library calls, and the clients the manager hands out.\<close>

record 's run_env =
  rn_telemetry :: "start_error + Telemetry"
  rn_manager :: "string option"
  rn_controllers :: "string option"
  rn_memorySetup :: "string option"
  rn_register :: "string option"
  rn_localAddresses :: bool
  rn_getTrust :: "string \<Rightarrow> string \<Rightarrow> api_error + TrustConfig"
  rn_kubernetes :: Provider_impl
  rn_wpClient :: "'s wp_client"
  rn_parseURL :: "string \<Rightarrow> URL option"
  rn_transport :: "string \<Rightarrow> transport_error + transport"
  rn_views :: view_env

definition capacity_options :: "Config \<Rightarrow> Options" where
  "capacity_options cfg = \<lparr>Staleness = cfg_capacityStaleness cfg, Retention = cfg_capacityRetention cfg,
    MaxCells = cfg_capacityMaxCells cfg, PruneInterval = 0\<rparr>"

definition hub_run ::
  "'s run_env \<Rightarrow> Config \<Rightarrow> oidc_Config \<Rightarrow> main_error + ('k, 's, 'b) deployed" where
  "hub_run rn cfg auth =
    (case rn_telemetry rn of Inl e \<Rightarrow> Inl (TelemetryStart e) | Inr tel \<Rightarrow>
    (case rn_manager rn of Some e \<Rightarrow> Inl (NoManager e) | None \<Rightarrow>
     (let (index, heap) = new_registry (capacity_options cfg) [];
          controllers = index in
     (case rn_controllers rn of Some e \<Rightarrow> Inl (NoControllers e) | None \<Rightarrow>
      (let minter = NewBroker (rn_getTrust rn) (cfg_namespace cfg) (cfg_tokenTTLCeiling cfg) [rn_kubernetes rn];
           memory = NewMemory (rn_wpClient rn) (cfg_namespace cfg)
             \<lparr>ExpireAfter = cfg_stickinessExpireAfter cfg, MaxPerPolicy = cfg_stickinessMaxPerPolicy cfg\<rparr>
       in case rn_memorySetup rn of Some e \<Rightarrow> Inl (NoMemoryIndex e) | None \<Rightarrow>
       (let engine = new_engine index (cfg_namespace cfg) (Some memory);
            collector = index
        in case rn_register rn of Some e \<Rightarrow> Inl (NoMetrics e) | None \<Rightarrow>
        (let options = [WithClusterClient, WithCapacityRegistry index, WithPlacer engine, WithMinter minter, WithCacheSync,
               WithWarmupCheck index, WithEventRecorder, WithMetrics hub_metrics, WithTracerProvider (tel_tracer tel)]
         in if cfg_peers cfg \<noteq> '''' \<and> (SplitHostPort (cfg_peers cfg) = None \<or> \<not> rn_localAddresses rn) then Inl NoPeers
            else (let options1 = (if cfg_peers cfg \<noteq> '''' then options @ [WithRelay] else options)
                  in case buildAuthenticator (rn_parseURL rn) (rn_transport rn) auth of
                       Inl e \<Rightarrow> Inl (NoAuthn e)
                     | Inr authn \<Rightarrow>
                       (let options2 = (case authn of None \<Rightarrow> options1 | Some a \<Rightarrow> options1 @ [WithAuthenticator a])
                        in case NewServer (rn_views rn) cfg options2 of
                             Inl e \<Rightarrow> Inl (InvalidHubConfig e)
                           | Inr (srv, samples) \<Rightarrow>
                             Inr \<lparr>dp_heap = heap, dp_index = index, dp_controllers = controllers, dp_collector = collector, dp_broker = minter, dp_memory = memory, dp_engine = engine,
                                  dp_trustedIssuers = issuerURLs auth, dp_server = srv, dp_samples = samples\<rparr>)))))))))"

section \<open>Fate sharing\<close>

text \<open>
  The manager and the server run as goroutines under one context; either may stop, of itself or because the context is
  cancelled, and \<open>run\<close> takes their results from a channel: the first cancels the context, the second ends \<open>run\<close>.
\<close>

datatype half = Manager_half | Server_half

record 'e fate =
  ft_running :: "half \<Rightarrow> bool"
  ft_cancelled :: bool
  ft_channel :: "'e option list"
  ft_first :: "'e option option"
  ft_result :: "'e option option"

definition fate_start :: "'e fate" where
  "fate_start = \<lparr>ft_running = (\<lambda>_. True), ft_cancelled = False, ft_channel = [], ft_first = None, ft_result = None\<rparr>"

inductive fate_step :: "'e fate \<Rightarrow> 'e fate \<Rightarrow> bool" where
  stops: "ft_running s h \<Longrightarrow> fate_step s (s\<lparr>ft_running := (ft_running s)(h := False), ft_channel := ft_channel s @ [err]\<rparr>)"
| signalled: "fate_step s (s\<lparr>ft_cancelled := True\<rparr>)"
| first: "ft_first s = None \<Longrightarrow> ft_channel s = err # rest \<Longrightarrow>
    fate_step s (s\<lparr>ft_first := Some err, ft_channel := rest, ft_cancelled := True\<rparr>)"
| second: "ft_first s = Some err \<Longrightarrow> ft_result s = None \<Longrightarrow> ft_channel s = err' # rest \<Longrightarrow>
    fate_step s (s\<lparr>ft_channel := rest, ft_result := Some (if err = None then err' else err)\<rparr>)"

inductive fate_reachable :: "'e fate \<Rightarrow> bool" where
  started: "fate_reachable fate_start"
| stepped: "fate_reachable s \<Longrightarrow> fate_step s t \<Longrightarrow> fate_reachable t"

section \<open>Lemmas\<close>

lemma hub_run_Inr:
  assumes "hub_run rn cfg auth = Inr d"
  obtains tel authn options where
    "rn_telemetry rn = Inr tel" "buildAuthenticator (rn_parseURL rn) (rn_transport rn) auth = Inr authn"
    "options = [WithClusterClient, WithCapacityRegistry (dp_index d), WithPlacer (dp_engine d), WithMinter (dp_broker d), WithCacheSync,
       WithWarmupCheck (dp_index d), WithEventRecorder, WithMetrics hub_metrics, WithTracerProvider (tel_tracer tel)] @
       (if cfg_peers cfg \<noteq> '''' then [WithRelay] else []) @ (case authn of None \<Rightarrow> [] | Some a \<Rightarrow> [WithAuthenticator a])"
    "NewServer (rn_views rn) cfg options = Inr (dp_server d, dp_samples d)"
    "(dp_index d, dp_heap d) = new_registry (capacity_options cfg) []" "dp_controllers d = dp_index d" "dp_collector d = dp_index d"
    "dp_broker d = NewBroker (rn_getTrust rn) (cfg_namespace cfg) (cfg_tokenTTLCeiling cfg) [rn_kubernetes rn]"
    "dp_engine d = new_engine (dp_index d) (cfg_namespace cfg) (Some (dp_memory d))"
    "dp_memory d = NewMemory (rn_wpClient rn) (cfg_namespace cfg)
       \<lparr>ExpireAfter = cfg_stickinessExpireAfter cfg, MaxPerPolicy = cfg_stickinessMaxPerPolicy cfg\<rparr>"
    "dp_trustedIssuers d = issuerURLs auth"
  using assms unfolding hub_run_def Let_def
  by (auto split: sum.splits option.splits if_splits prod.splits intro!: that)

lemma NewServer_deployed:
  assumes "NewServer ve cfg ([WithClusterClient, WithCapacityRegistry index, WithPlacer engine, WithMinter minter, WithCacheSync,
       WithWarmupCheck w, WithEventRecorder, WithMetrics m, WithTracerProvider tp] @
       (if cfg_peers cfg \<noteq> '''' then [WithRelay] else []) @ (case authn of None \<Rightarrow> [] | Some a \<Rightarrow> [WithAuthenticator a])) = Inr (srv, samples)"
  shows "Config_Validate cfg = None \<and> np_authn srv = (case authn of None \<Rightarrow> DenyAll | Some a \<Rightarrow> Given a) \<and> np_placer srv = Some engine \<and> np_minter srv = Some minter \<and>
    np_capacity srv = Some index \<and> np_warmupCheck srv = Some w \<and> \<not> np_warm srv \<and> np_relay srv = (cfg_peers cfg \<noteq> '''') \<and>
    np_limiter srv = newCallerLimiter (cfg_placementRateLimit cfg) (cfg_placementBurst cfg) \<and>
    samples = [SetGauge (warm_gauge m) 0] \<and>
    np_audit srv = Some \<lparr>notifiers = [Some (\<lambda>rec w. w\<lparr>vw_events := vw_events w @ Notify (ve_durText ve) (ve_get ve) (cfg_namespace cfg) rec\<rparr>),
      Some (metricsNotifier (Some m)), Some (traceNotifier ve)]\<rparr>"
  using assms
  by (cases "Config_Validate cfg"; cases authn; cases "cfg_peers cfg = ''''")
    (auto simp: NewServer_def Let_def clusterNotifier_def NewAuditor_def Auditor_With_def SetWarm_def)

text \<open>
  What a route of the server that changes the index leaves in the heap: \<open>f\<close> is what it does to the registry at the server's
  pointer.
\<close>

definition through_routes :: "('a, 'p, 'm, 'b) server_parts \<Rightarrow> (Registry \<Rightarrow> Registry) \<Rightarrow> registries \<Rightarrow> registries" where
  "through_routes srv f h = (case np_capacity srv of None \<Rightarrow> h | Some r \<Rightarrow> h[r := f (h ! r)])"

text \<open>The default of the authenticator field keeps the contract of authenticators, and vouches for nobody.\<close>

interpretation unconfigured: authenticator_seam "authn_Authenticate authn" "\<lambda>a. a = DenyAll" "\<lambda>header idn. False" for authn
  by unfold_locales (auto simp: denyAll_def)

lemma serve_DenyAll:
  "serve (authn_Authenticate authn) mux requests (DenyAll, s) = (replicate (length requests) Unauthorized, DenyAll, s)"
proof -
  obtain answers a' s' where h: "serve (authn_Authenticate authn) mux requests (DenyAll, s) = (answers, a', s')" using prod_cases3 by blast
  from unconfigured.served_only_vouched [OF refl h] show ?thesis by (simp add: h)
qed

lemma buildAuthenticator_cases:
  assumes "buildAuthenticator parse transport_of cfg = Inr authn"
  shows "(authn = None \<longleftrightarrow> oc_issuers cfg = []) \<and> (\<forall>a. authn = Some a \<longrightarrow> auth_history parse keySet cfg [] a)"
  using assms by (auto simp: buildAuthenticator_def split: if_splits sum.splits intro: auth_history.start)

text \<open>A record through the auditor of a deployed server.\<close>

definition view_record :: "view_env \<Rightarrow> string \<Rightarrow> audit_Record \<Rightarrow> views \<Rightarrow> views" where
  "view_record ve ns rec w =
    w\<lparr>vw_events := vw_events w @ Notify (ve_durText ve) (ve_get ve) ns rec, vw_samples := vw_samples w @ Metrics_Notify (Some hub_metrics) rec,
      vw_calls := vw_calls w @ spanNotifier (ve_fmtTime ve) (ve_text ve) (ve_recording ve) rec\<rparr>"

lemma view_records:
  "foldl (\<lambda>w rec. view_record ve ns rec w) w recs =
    w\<lparr>vw_events := vw_events w @ concat (map (Notify (ve_durText ve) (ve_get ve) ns) recs),
      vw_samples := vw_samples w @ concat (map (Metrics_Notify (Some hub_metrics)) recs),
      vw_calls := vw_calls w @ concat (map (spanNotifier (ve_fmtTime ve) (ve_text ve) (ve_recording ve)) recs)\<rparr>"
  by (induction recs arbitrary: w) (simp_all add: view_record_def)

definition audit_all :: "views Auditor \<Rightarrow> audit_Record list \<Rightarrow> (string \<times> slog_attrs) list \<times> views \<Rightarrow> (string \<times> slog_attrs) list \<times> views" where
  "audit_all a recs st = foldl (\<lambda>st rec. Auditor_Record a rec st) st recs"

lemma audit_all_split:
  assumes "\<And>rec lines w. Auditor_Record a rec (lines, w) = (lines @ [(Msg, attrs rec)], f rec w)"
  shows "audit_all a recs (lines, w) = (lines @ map (\<lambda>r. (Msg, attrs r)) recs, foldl (\<lambda>w rec. f rec w) w recs)"
  unfolding audit_all_def by (induction recs arbitrary: lines w) (simp_all add: assms)

section \<open>Lemmas on fate sharing\<close>

text \<open>Each half that stopped left one result, in the channel or taken from it.\<close>

definition fate_ok :: "'e fate \<Rightarrow> bool" where
  "fate_ok s \<longleftrightarrow>
    length (ft_channel s) + (if ft_first s = None then 0 else 1) + (if ft_result s = None then 0 else 1) = card {h. \<not> ft_running s h} \<and>
    (ft_result s \<noteq> None \<longrightarrow> ft_first s \<noteq> None) \<and> (ft_first s \<noteq> None \<longrightarrow> ft_cancelled s) \<and>
    (\<forall>e r. ft_first s = Some (Some e) \<and> ft_result s = Some r \<longrightarrow> r = Some e)"

lemma half_UNIV: "UNIV = {Manager_half, Server_half}"
  using half.exhaust by auto

lemma finite_halves [simp]: "finite {h :: half. P h}"
proof (rule finite_subset)
  show "{h. P h} \<subseteq> {Manager_half, Server_half}" using half.exhaust by auto
qed simp

lemma card_stopped: "ft_running s h \<Longrightarrow> card {k. k \<noteq> h \<longrightarrow> \<not> ft_running s k} = Suc (card {k. \<not> ft_running s k})"
proof -
  assume h: "ft_running s h"
  have "{k. k \<noteq> h \<longrightarrow> \<not> ft_running s k} = insert h {k. \<not> ft_running s k}" by auto
  with h show ?thesis by simp
qed

lemma fate_step_ok: "fate_step s t \<Longrightarrow> fate_ok s \<Longrightarrow> fate_ok t"
proof (induction rule: fate_step.induct)
  case (stops s h err)
  have "{k. \<not> ((ft_running s)(h := False)) k} = {k. k \<noteq> h \<longrightarrow> \<not> ft_running s k}" by auto
  with stops card_stopped [OF stops(1)] show ?case by (simp add: fate_ok_def)
qed (auto simp: fate_ok_def)

lemma fate_reachable_ok: "fate_reachable s \<Longrightarrow> fate_ok s"
proof (induction rule: fate_reachable.induct)
  case started
  then show ?case by (simp add: fate_ok_def fate_start_def)
next
  case (stepped s t)
  then show ?case by (blast intro: fate_step_ok)
qed

lemma card_halves_le: "card {h. \<not> ft_running s h} \<le> 2 \<and> (card {h. \<not> ft_running s h} = 2 \<longrightarrow> (\<forall>h. \<not> ft_running s h))"
proof -
  have u: "card (UNIV :: half set) = 2" "finite (UNIV :: half set)" by (simp_all add: half_UNIV)
  from card_mono [OF u(2) subset_UNIV, of "{h. \<not> ft_running s h}"] u(1) have "card {h. \<not> ft_running s h} \<le> 2" by simp
  moreover have "{h. \<not> ft_running s h} = UNIV" if "card {h. \<not> ft_running s h} = 2"
    using card_subset_eq [OF u(2) subset_UNIV] that u(1) by metis
  ultimately show ?thesis by blast
qed

section \<open>Properties\<close>

text \<open>
  C24. The hub that \<open>run\<close> puts together starts closed and keeps the operator's bounds. Its configuration passed validation; it is cold
  until the fleet has reported, and says so on its gauge. With no issuer configured every request of every sequence is
  answered 401 and changes nothing; with issuers its authenticator is one in its initial state for those very issuers, which are also the
  ones the policy controller reports against. There is one index, which is empty, in order and as large as configured: whatever a route does to
  it is what the engine decides on, and what the warmup check, the controllers, the metrics and the pruning see. No credential its
  broker mints outlives the configured ceiling by more than a minute.
\<close>

theorem deployed_hub_starts_closed:
  fixes d :: "('k, 's, 'b) deployed"
  assumes "hub_run rn cfg auth = Inr d" and "rn_kubernetes rn = KubernetesProvider connect createToken"
    and "cfg_tokenTTLCeiling cfg + Minute < max_int64"
  shows "Config_Validate cfg = None \<and> \<not> np_warm (dp_server d) \<and> dp_samples d = [SetGauge (warm_gauge hub_metrics) 0] \<and>
    (oc_issuers auth = [] \<longrightarrow> (\<forall>env (mux :: api_request \<Rightarrow> string \<Rightarrow> Identity \<Rightarrow> 'h \<Rightarrow> 'r answer option \<times> 'h) requests s.
      serve (authn_Authenticate (Authenticate env)) mux requests (np_authn (dp_server d), s) =
      (replicate (length requests) Unauthorized, np_authn (dp_server d), s))) \<and>
    (oc_issuers auth \<noteq> [] \<longrightarrow> (\<exists>a. np_authn (dp_server d) = Given a \<and> auth_history (rn_parseURL rn) keySet auth [] a)) \<and>
    dp_trustedIssuers d = map ic_issuer (oc_issuers auth) \<and>
    np_placer (dp_server d) = Some (dp_engine d) \<and>
    (\<forall>f. let h = through_routes (dp_server d) f (dp_heap d); filled = f (New (capacity_options cfg)) in
      eng_capacity (engine_in h (dp_engine d)) = Some filled \<and> map_option ((!) h) (np_warmupCheck (dp_server d)) = Some filled \<and>
      h ! dp_controllers d = filled \<and> h ! dp_collector d = filled \<and> h ! dp_index d = filled) \<and>
    reg_ok (New (capacity_options cfg)) \<and> MaxCells (opts (New (capacity_options cfg))) = cfg_capacityMaxCells cfg \<and>
    np_minter (dp_server d) = Some (dp_broker d) \<and>
    (\<forall>now cl pol t cred res. Mint (dp_broker d) now cl pol t = (Inr cred, res) \<longrightarrow>
      cred_expiresAt cred \<le> now + cfg_tokenTTLCeiling cfg + Minute)"
proof (rule hub_run_Inr [OF assms(1)])
  fix tel authn options
  assume a: "buildAuthenticator (rn_parseURL rn) (rn_transport rn) auth = Inr authn"
    and o: "options = [WithClusterClient, WithCapacityRegistry (dp_index d), WithPlacer (dp_engine d), WithMinter (dp_broker d), WithCacheSync,
       WithWarmupCheck (dp_index d), WithEventRecorder, WithMetrics hub_metrics, WithTracerProvider (tel_tracer tel)] @
       (if cfg_peers cfg \<noteq> '''' then [WithRelay] else []) @ (case authn of None \<Rightarrow> [] | Some a \<Rightarrow> [WithAuthenticator a])"
    and n: "NewServer (rn_views rn) cfg options = Inr (dp_server d, dp_samples d)"
    and i: "(dp_index d, dp_heap d) = new_registry (capacity_options cfg) []" "dp_controllers d = dp_index d" "dp_collector d = dp_index d"
    and b: "dp_broker d = NewBroker (rn_getTrust rn) (cfg_namespace cfg) (cfg_tokenTTLCeiling cfg) [rn_kubernetes rn]"
    and e: "dp_engine d = new_engine (dp_index d) (cfg_namespace cfg) (Some (dp_memory d))"
    and t: "dp_trustedIssuers d = issuerURLs auth"
  note srv = NewServer_deployed [OF n [unfolded o]]
  from srv have v: "0 < cfg_tokenTTLCeiling cfg" "0 < cfg_capacityMaxCells cfg" by (auto simp: Config_Validate_def split: if_splits)
  have "cred_expiresAt cred \<le> now + cfg_tokenTTLCeiling cfg + Minute" if "Mint (dp_broker d) now cl pol ttl = (Inr cred, res)" for now cl pol ttl cred res
    using Mint_within_ceiling [OF that [unfolded b assms(2)] v(1) assms(3)] by simp
  moreover have "oc_issuers auth = [] \<Longrightarrow> np_authn (dp_server d) = DenyAll"
    using buildAuthenticator_cases [OF a] srv by simp
  moreover have "\<exists>a. np_authn (dp_server d) = Given a \<and> auth_history (rn_parseURL rn) keySet auth [] a" if "oc_issuers auth \<noteq> []"
    using buildAuthenticator_cases [OF a, of keySet] srv that by auto
  moreover have "let h = through_routes (dp_server d) f (dp_heap d); filled = f (New (capacity_options cfg)) in
      eng_capacity (engine_in h (dp_engine d)) = Some filled \<and> map_option ((!) h) (np_warmupCheck (dp_server d)) = Some filled \<and>
      h ! dp_controllers d = filled \<and> h ! dp_collector d = filled \<and> h ! dp_index d = filled" for f
    using srv i e by (simp add: through_routes_def new_registry_def engine_in_def new_engine_def)
  moreover have "MaxCells (opts (New (capacity_options cfg))) = cfg_capacityMaxCells cfg"
    using v(2) by (simp add: New_def withDefaults_def capacity_options_def Let_def)
  ultimately show ?thesis using srv t reg_ok_New by (simp add: issuerURLs_def serve_DenyAll)
qed

text \<open>
  Every view of the trail is a function of the same records. Whatever is audited by a deployed hub, the log holds each record in
  order, and the Kubernetes events, the Prometheus samples and the span calls are those of the records one after the other; no
  view drops, adds or reorders anything for another.
\<close>

theorem views_are_functions_of_the_trail:
  assumes "hub_run rn cfg auth = Inr d" and "np_audit (dp_server d) = Some a"
  shows "audit_all a recs ([], \<lparr>vw_events = [], vw_samples = [], vw_calls = []\<rparr>) =
    (map (\<lambda>r. (Msg, attrs r)) recs,
     \<lparr>vw_events = concat (map (Notify (ve_durText (rn_views rn)) (ve_get (rn_views rn)) (cfg_namespace cfg)) recs),
      vw_samples = concat (map (Metrics_Notify (Some hub_metrics)) recs),
      vw_calls = concat (map (spanNotifier (ve_fmtTime (rn_views rn)) (ve_text (rn_views rn)) (ve_recording (rn_views rn))) recs)\<rparr>)"
proof (rule hub_run_Inr [OF assms(1)])
  fix tel authn options
  assume o: "options = [WithClusterClient, WithCapacityRegistry (dp_index d), WithPlacer (dp_engine d), WithMinter (dp_broker d), WithCacheSync,
       WithWarmupCheck (dp_index d), WithEventRecorder, WithMetrics hub_metrics, WithTracerProvider (tel_tracer tel)] @
       (if cfg_peers cfg \<noteq> '''' then [WithRelay] else []) @ (case authn of None \<Rightarrow> [] | Some a \<Rightarrow> [WithAuthenticator a])"
    and n: "NewServer (rn_views rn) cfg options = Inr (dp_server d, dp_samples d)"
  from NewServer_deployed [OF n [unfolded o]] assms(2)
  have "Auditor_Record a rec (lines, w) = (lines @ [(Msg, attrs rec)], view_record (rn_views rn) (cfg_namespace cfg) rec w)" for rec lines w
    by (auto simp: Auditor_Record_def metricsNotifier_def traceNotifier_def view_record_def)
  from audit_all_split [OF this] show ?thesis by (simp add: view_records)
qed

text \<open>
  The API and the controllers share a fate: once either has stopped and was heard, the context of both is cancelled; \<open>run\<close> returns only
  after both have stopped, with the first error if there was one; and until it returns it is never stuck.
\<close>

theorem fate_is_shared:
  assumes "fate_reachable s"
  shows "(ft_first s \<noteq> None \<longrightarrow> ft_cancelled s) \<and>
    (\<forall>r. ft_result s = Some r \<longrightarrow> (\<forall>h. \<not> ft_running s h) \<and> ft_channel s = [] \<and> (\<forall>e. ft_first s = Some (Some e) \<longrightarrow> r = Some e)) \<and>
    (ft_result s = None \<longrightarrow> (\<exists>h. ft_running s h) \<or> (\<exists>t. fate_step s t \<and> (ft_first t \<noteq> ft_first s \<or> ft_result t \<noteq> None)))"
proof -
  define n where "n = card {h. \<not> ft_running s h}"
  have len: "length (ft_channel s) + (if ft_first s = None then 0 else 1) + (if ft_result s = None then 0 else 1) = n"
    and res: "ft_result s \<noteq> None \<Longrightarrow> ft_first s \<noteq> None" and can: "ft_first s \<noteq> None \<Longrightarrow> ft_cancelled s"
    and err: "ft_first s = Some (Some e) \<Longrightarrow> ft_result s = Some r \<Longrightarrow> r = Some e" for e r
    using fate_reachable_ok [OF assms] unfolding fate_ok_def n_def by blast+
  have two: "n \<le> 2" "n = 2 \<Longrightarrow> \<not> ft_running s h" for h using card_halves_le [of s] unfolding n_def by blast+
  have fin: "(\<forall>h. \<not> ft_running s h) \<and> ft_channel s = []" if "ft_result s \<noteq> None"
  proof -
    from len that res have "length (ft_channel s) + 2 = n" by simp
    with two have "n = 2" "length (ft_channel s) = 0" by linarith+
    with two(2) show ?thesis by simp
  qed
  have go: "\<exists>t. fate_step s t \<and> (ft_first t \<noteq> ft_first s \<or> ft_result t \<noteq> None)" if "ft_result s = None" "\<forall>h. \<not> ft_running s h"
  proof -
    from that(2) have "n = card (UNIV :: half set)" unfolding n_def by simp
    then have "n = 2" by (simp add: half_UNIV)
    with len that(1) have "length (ft_channel s) \<noteq> 0" by (cases "ft_first s") simp_all
  then obtain err rest where ch: "ft_channel s = err # rest" by (cases "ft_channel s") auto
    show ?thesis
    proof (cases "ft_first s")
      case None
      from fate_step.first [OF this ch] show ?thesis
        by (intro exI [of _ "s\<lparr>ft_first := Some err, ft_channel := rest, ft_cancelled := True\<rparr>"]) (simp add: None)
    next
      case (Some e)
      from fate_step.second [OF this that(1) ch] show ?thesis
        by (intro exI [of _ "s\<lparr>ft_channel := rest, ft_result := Some (if e = None then err else e)\<rparr>"]) simp
    qed
  qed
  show ?thesis using can fin err go by blast
qed

section \<open>Witnesses\<close>

definition sample_views :: view_env where
  "sample_views = \<lparr>ve_durText = (\<lambda>_. ''''), ve_get = (\<lambda>_ _. Inl (ApiError NotFound '''')), ve_fmtTime = (\<lambda>_. ''''), ve_text = (\<lambda>_. ''''), ve_recording = True\<rparr>"

definition sample_run_env :: "wp_store run_env" where
  "sample_run_env = \<lparr>rn_telemetry = Inr \<lparr>tel_tracer = None, tel_shutdown = []\<rparr>, rn_manager = None, rn_controllers = None, rn_memorySetup = None,
    rn_register = None, rn_localAddresses = True, rn_getTrust = (\<lambda>_ _. Inr sample_trust),
    rn_kubernetes = KubernetesProvider (\<lambda>_ _. Inr ()) (\<lambda>_ _ _ _. Inr (''secret'', 10 * Minute)), rn_wpClient = mem_client sample_memory,
    rn_parseURL = (\<lambda>_. None), rn_transport = (\<lambda>_. Inr DefaultTransport), rn_views = sample_views\<rparr>"

text \<open>The default configuration with no issuer: a caller is refused, and the engine reads what a route filled in.\<close>

theorem deployed_hub_starts_closed_witness:
  "\<exists>d :: (string, wp_store, nat) deployed. hub_run sample_run_env DefaultConfig oidc_DefaultConfig = Inr d \<and>
    fst (serve (authn_Authenticate (Authenticate sample_oidc)) (\<lambda>_ _ _ s. (Some (Wrote 200 ()), Suc s))
      [('''', \<lparr>aq_method = ''GET'', aq_path = ''/'', aq_authorization = ''Bearer aa.bb.cc''\<rparr>)] (np_authn (dp_server d), 0)) = [Unauthorized] \<and>
    eng_capacity (engine_in (through_routes (dp_server d) (\<lambda>_. New sample_options) (dp_heap d)) (dp_engine d)) = Some (New sample_options)"
proof -
  obtain d :: "(string, wp_store, nat) deployed" where r: "hub_run sample_run_env DefaultConfig oidc_DefaultConfig = Inr d"
    using default_config_valid
    by (auto simp: hub_run_def sample_run_env_def buildAuthenticator_def oidc_DefaultConfig_def NewServer_def Let_def DefaultConfig_def
        new_registry_def split: option.splits prod.splits)
  have k: "rn_kubernetes sample_run_env = KubernetesProvider (\<lambda>_ _. Inr ()) (\<lambda>_ _ _ _. Inr (''secret'', 10 * Minute))"
    by (simp add: sample_run_env_def)
  have c: "cfg_tokenTTLCeiling DefaultConfig + Minute < max_int64"
    by (simp add: DefaultConfig_def duration_units max_int64_def)
  have "oc_issuers oidc_DefaultConfig = []" by (simp add: oidc_DefaultConfig_def)
  with deployed_hub_starts_closed [where 'h = nat and 'r = unit, OF r k c] r show ?thesis
    by (intro exI [of _ d]) (simp add: Let_def del: serve.simps)
qed

end
