(* ===== verification/AgentRun.thy ===== *)
theory AgentRun
  imports Telemetry
begin

text \<open>
  The agent process: \<open>internal/agent/run.go\<close> and \<open>cmd/cellcast-agent/main.go\<close>.

  Loading a client configuration, building a clientset and syncing the informer caches are parameters. The elector of client-go is data:
  a \<open>tenure\<close> is one call of \<open>elector.Run\<close>, in which this replica acquired the lease and reported, or did not, until the
  lease was lost or the context cancelled.
\<close>

section \<open>Reaching the cell\<close>

definition leaseDuration :: duration where "leaseDuration = 15 * Second"
definition renewDeadline :: duration where "renewDeadline = 10 * Second"
definition retryPeriod :: duration where "retryPeriod = 2 * Second"
definition leaseName :: string where "leaseName = ''cellcast-agent''"

datatype 'c in_cluster = InCluster 'c | NotInCluster | InClusterError string

definition kubeConfig :: "'c in_cluster \<Rightarrow> (string option \<Rightarrow> string + 'c) \<Rightarrow> string \<Rightarrow> string + 'c" where
  "kubeConfig ic load path =
    (let ambient = load (if path \<noteq> '''' then Some path else None) in
     if path = '''' then
       (case ic of InCluster cfg \<Rightarrow> Inr cfg | InClusterError e \<Rightarrow> Inl e | NotInCluster \<Rightarrow> ambient)
     else ambient)"

section \<open>The caches\<close>

text \<open>A cached object with the parts \<open>trim\<close> drops, beside what the measurement reads.\<close>

record k8s_pod = pod +
  kp_managedFields :: "string list"
  kp_annotations :: labels
  kp_containerStatuses :: "string list"
  kp_initContainerStatuses :: "string list"

record k8s_node = node +
  kn_managedFields :: "string list"
  kn_annotations :: labels
  kn_images :: "string list"

datatype cached = CachedPod k8s_pod | CachedNode k8s_node | CachedOther

fun trim :: "cached \<Rightarrow> cached" where
  "trim (CachedPod p) =
    CachedPod (p\<lparr>kp_managedFields := [], kp_annotations := [], kp_containerStatuses := [], kp_initContainerStatuses := []\<rparr>)"
| "trim (CachedNode n) = CachedNode (n\<lparr>kn_managedFields := [], kn_annotations := [], kn_images := []\<rparr>)"
| "trim CachedOther = CachedOther"

definition cached_nodes :: "cached list \<Rightarrow> node list" where
  "cached_nodes objs = concat (map (\<lambda>x. case x of CachedNode n \<Rightarrow> [node.truncate n] | _ \<Rightarrow> []) objs)"

definition cached_pods :: "cached list \<Rightarrow> pod list" where
  "cached_pods objs = concat (map (\<lambda>x. case x of CachedPod p \<Rightarrow> [pod.truncate p] | _ \<Rightarrow> []) objs)"

text \<open>\<open>startInformers\<close>: the informers and whether each synced, in the order they are asked.\<close>

definition startInformers :: "(string \<times> bool) list \<Rightarrow> cached list \<Rightarrow> string + agent_Snapshot" where
  "startInformers synced objs =
    (case find (\<lambda>(informer, ok). \<not> ok) synced of
       Some (informer, _) \<Rightarrow> Inl (''cache for '' @ informer @ '' did not sync'')
     | None \<Rightarrow> Inr (informer_collect (Inr (cached_nodes (map trim objs))) (Inr (cached_pods (map trim objs)))))"

section \<open>Running\<close>

datatype agent_error =
    AgentConfig agent_config_error | AgentHub hub_client_error | AgentKube string | AgentClientset string | AgentCaches string
  | AgentElector string | AgentTelemetry tel_error | AgentTelemetryStart start_error

datatype tenure = ElectorUnbuilt string | Tenure "(rat \<times> round list) option" bool

text \<open>
  The loop of \<open>runElected\<close> over the tenures so far: \<^const>\<open>None\<close> while it has not returned, otherwise what it returned, and the reporting loop
  of each tenure that acquired the lease.
\<close>

fun runElected :: "Reporter \<Rightarrow> bool \<Rightarrow> tenure list \<Rightarrow> string option option \<times> reporter_state list" where
  "runElected r True ts = (Some None, [])"
| "runElected r False [] = (None, [])"
| "runElected r False (ElectorUnbuilt e # ts) = (Some (Some e), [])"
| "runElected r False (Tenure act cancelled # ts) =
    (case runElected r cancelled ts of (out, runs) \<Rightarrow>
      (out, (case act of None \<Rightarrow> runs | Some (rnd, rounds) \<Rightarrow> reporter_run r rnd rounds # runs)))"

record 'c agent_env =
  ae_parseURL :: "string \<Rightarrow> URL option"
  ae_joinPath :: "string \<Rightarrow> string list \<Rightarrow> string"
  ae_readFile :: "string \<Rightarrow> string option"
  ae_appendCerts :: "string \<Rightarrow> bool"
  ae_inCluster :: "'c in_cluster"
  ae_load :: "string option \<Rightarrow> string + 'c"
  ae_clientset :: "'c \<Rightarrow> string option"
  ae_synced :: "(string \<times> bool) list"
  ae_objects :: "cached list"

text \<open>\<open>Run\<close> up to its loop: what it reports with and whether it is ready, or the error it returns with the probes unready.\<close>

definition agent_Run :: "'c agent_env \<Rightarrow> agent_Config \<Rightarrow> (agent_error + HubClient \<times> Reporter) \<times> bool" where
  "agent_Run env cfg =
    (case agent_Validate cfg of
       Some e \<Rightarrow> (Inl (AgentConfig e), False)
     | None \<Rightarrow>
       (case NewHubClient (ae_parseURL env) (ae_joinPath env) (ae_readFile env) (ae_appendCerts env) cfg of
          Inl e \<Rightarrow> (Inl (AgentHub e), False)
        | Inr hub \<Rightarrow>
          (case kubeConfig (ae_inCluster env) (ae_load env) (ag_kubeconfig cfg) of
             Inl e \<Rightarrow> (Inl (AgentKube e), False)
           | Inr rest \<Rightarrow>
             (case ae_clientset env rest of
                Some e \<Rightarrow> (Inl (AgentClientset e), False)
              | None \<Rightarrow>
                (case startInformers (ae_synced env) (ae_objects env) of
                   Inl e \<Rightarrow> (Inl (AgentCaches e), False)
                 | Inr _ \<Rightarrow> (Inr (hub, new_reporter cfg), True))))))"

text \<open>The rest of \<open>Run\<close>: the loop itself, or behind the lease.\<close>

definition agent_loop :: "agent_Config \<Rightarrow> Reporter \<Rightarrow> rat \<Rightarrow> round list \<Rightarrow> tenure list \<Rightarrow> reporter_state list" where
  "agent_loop cfg r rnd rounds tenures =
    (if \<not> ag_leaderElection cfg then [reporter_run r rnd rounds] else snd (runElected r False tenures))"

text \<open>\<open>main\<close>: the telemetry configuration is checked first and exported traces name the cell on everything.\<close>

definition agent_main ::
  "(string \<Rightarrow> string) \<Rightarrow> (start_error + Telemetry) \<Rightarrow> 'c agent_env \<Rightarrow> agent_Config \<Rightarrow> tel_Config \<Rightarrow>
    (agent_error + HubClient \<times> Reporter) \<times> bool" where
  "agent_main getenv started env cfg tel =
    (case tel_Validate (ae_parseURL env) getenv tel of
       Some e \<Rightarrow> (Inl (AgentTelemetry e), False)
     | None \<Rightarrow> (case started of Inl e \<Rightarrow> (Inl (AgentTelemetryStart e), False) | Inr t \<Rightarrow> agent_Run env cfg))"

section \<open>Lemmas\<close>

lemma trim_keeps_measurement:
  "cached_nodes (map trim objs) = cached_nodes objs \<and> cached_pods (map trim objs) = cached_pods objs"
proof -
  have "(case trim x of CachedNode n \<Rightarrow> [node.truncate n] | _ \<Rightarrow> []) = (case x of CachedNode n \<Rightarrow> [node.truncate n] | _ \<Rightarrow> [])"
    "(case trim x of CachedPod p \<Rightarrow> [pod.truncate p] | _ \<Rightarrow> []) = (case x of CachedPod p \<Rightarrow> [pod.truncate p] | _ \<Rightarrow> [])" for x
    by (cases x; simp add: node.defs pod.defs)+
  then show ?thesis by (simp add: cached_nodes_def cached_pods_def comp_def)
qed

lemma runElected_runs:
  "\<forall>s \<in> set (snd (runElected r cancelled ts)). \<exists>rnd rounds. s = reporter_run r rnd rounds \<and> (\<exists>c. Tenure (Some (rnd, rounds)) c \<in> set ts)"
  by (induction r cancelled ts rule: runElected.induct) (fastforce split: prod.splits option.splits)+

lemma random_bound:
  assumes "0 \<le> rnd" and "rnd < 1" and "0 \<le> d" and "d \<le> 2 ^ 50"
  shows "0 \<le> random rnd d \<and> random rnd d \<le> d + 1"
proof -
  let ?e = "1 + 1 / 2 ^ 53 :: rat"
  have d: "\<bar>f64_of_int d\<bar> \<le> of_int d * ?e" unfolding f64_of_int_def using assms(3) by (intro f64_abs_le) simp
  have "\<bar>rnd * f64_of_int d\<bar> \<le> 1 * (of_int d * ?e)" unfolding abs_mult using assms(1,2) d by (intro mult_mono) simp_all
  then have "\<bar>f64_mul rnd (f64_of_int d)\<bar> \<le> of_int d * ?e * ?e" unfolding f64_mul_def by (intro f64_abs_le) simp
  moreover have "of_int d * ?e * ?e \<le> of_int d + 1"
  proof -
    have "(of_int d :: rat) \<le> 2 ^ 50" using assms(4) by (metis of_int_le_iff of_int_numeral of_int_power)
    then show ?thesis by (simp add: field_simps)
  qed
  ultimately have "\<bar>of_int (random rnd d)\<bar> \<le> (of_int (d + 1) :: rat)"
    using trunc64_abs_le [of "f64_mul rnd (f64_of_int d)"] unfolding random_def by simp
  then have "random rnd d \<le> d + 1" by (metis abs_le_iff of_int_abs of_int_le_iff)
  moreover have "0 \<le> f64_mul rnd (f64_of_int d)" unfolding f64_mul_def using assms(1,3) by (intro f64_nonneg mult_nonneg_nonneg f64_of_int_nonneg)
  then have "0 \<le> random rnd d" by (simp add: random_def trunc64_def)
  ultimately show ?thesis by simp
qed

section \<open>Properties\<close>

text \<open>
  Trimming the cache loses nothing the hub is told: once the caches have synced, the measurement from the trimmed objects is the one
  from the objects as they came, and the agent reports ready exactly when it has one.
\<close>

theorem trimmed_measurement_is_exact:
  "startInformers synced objs = Inr m \<longleftrightarrow> (\<forall>(informer, ok) \<in> set synced. ok) \<and> m = Collect_cell (cached_nodes objs) (cached_pods objs)"
proof -
  have "find (\<lambda>(informer, ok). \<not> ok) synced = None \<longleftrightarrow> (\<forall>(informer, ok) \<in> set synced. ok)"
    by (auto simp: find_None_iff)
  then show ?thesis using trim_keeps_measurement [of objs]
    by (cases "find (\<lambda>(informer, ok). \<not> ok) synced") (auto simp: startInformers_def informer_collect_def)
qed

text \<open>
  A replica reports only while it holds the lease, and starts afresh each time: every reporting loop belongs to a tenure that acquired the
  lease and counts no failures of an earlier one; \<open>runElected\<close> ends without an error only when the context is cancelled.
\<close>

theorem reports_only_with_the_lease:
  "(\<forall>s \<in> set (snd (runElected r False ts)). \<exists>rnd rounds c. Tenure (Some (rnd, rounds)) c \<in> set ts \<and> s = reporter_run r rnd rounds) \<and>
    (fst (runElected r False ts) = Some None \<longrightarrow> (\<exists>act. Tenure act True \<in> set ts))"
proof -
  have "fst (runElected r c ts) = Some None \<Longrightarrow> \<not> c \<Longrightarrow> \<exists>act. Tenure act True \<in> set ts" for c
    by (induction r c ts rule: runElected.induct) (fastforce split: prod.splits)+
  with runElected_runs [of r False ts] show ?thesis by blast
qed

text \<open>
  A handover keeps the cell in scoring. With the default intervals, when the replica that reported at \<open>t0\<close> dies before its next
  heartbeat, the lease runs out and another replica acquires it within five seconds of that, the first report of the new
  leader still finds the cell fresh, as long as the reports themselves take at most six seconds.
\<close>

theorem handover_keeps_the_cell_fresh:
  assumes "ag_interval cfg = DefaultHeartbeatInterval" and "near wait DefaultHeartbeatInterval" and "0 \<le> rnd" and "rnd < 1"
    and "died \<le> t0 + wait" and "acquired \<le> died + leaseDuration + 5 * Second"
    and "t0 \<le> now" and "now \<le> acquired + rs_timer (reporter_start (new_reporter cfg) rnd) + 6 * Second"
    and "Staleness (opts reg) = DefaultStaleness" and "map_of (entries reg) cell = Some \<lparr>st_report = rep, st_observedAt = t0\<rparr>"
  shows "\<exists>e. Lookup reg now cell = Some e \<and> entry_health e = HealthFresh"
proof -
  have "rs_timer (reporter_start (new_reporter cfg) rnd) \<le> DefaultHeartbeatInterval + 1"
    using random_bound [OF assms(3,4), of DefaultHeartbeatInterval]
    by (simp add: reporter_start_def new_reporter_def assms(1) DefaultHeartbeatInterval_def duration_units)
  moreover have "wait \<le> 33 * Second + Second div 10" using assms(2) by (simp add: near_default)
  ultimately have "now - t0 \<le> DefaultStaleness"
    using assms(5,6,8) by (simp add: leaseDuration_def DefaultHeartbeatInterval_def capacity_defaults)
  then have "\<not> DefaultStaleness < go_sub now t0" using assms(7) by (simp add: go_sub_def capacity_defaults min_int64_def max_int64_def)
  with assms(9,10) show ?thesis by (simp add: Lookup_def entryLocked_def)
qed

end
