(* ===== verification/Cli.thy ===== *)
theory Cli
  imports PlacementApi
begin

text \<open>
  The pipeline's side of a placement: \<open>internal/cli\<close>'s \<open>client.go\<close>, \<open>fallback.go\<close>, \<open>cache.go\<close>, \<open>place.go\<close>
  and \<open>kubeconfig.go\<close>.

  A command is a function of the file system, the environment and what came back over the wire, to an error or an
  output and the file system after it. Files are an association list from paths to contents. Parameters (\<open>cli_env\<close>): the
  clock, the environment variables, the JSON codec of a cached decision, \<open>validation.IsDNS1123Subdomain\<close>, and whether each
  system call of a cache write succeeds. An error of the client is a value of \<open>client_error\<close>.
\<close>

section \<open>Values on the wire\<close>

record cli_Candidate =
  cc_cell :: string
  cc_admitted :: bool
  cc_stage :: string
  cc_reason :: string
  cc_utilisation :: rat
  cc_chosen :: bool

record cli_Credential =
  cl_server :: string
  cl_caData :: string
  cl_ns :: string
  cl_serviceAccount :: string
  cl_token :: string
  cl_expiresAt :: go_time

record cli_TTL =
  ct_granted :: string
  ct_default :: string
  ct_max :: string
  ct_requested :: string
  ct_clamped :: bool

record cli_Identity =
  ci_issuer :: string
  ci_subject :: string
  ci_claims :: labels

record Placement =
  p_cell :: string
  p_policy :: string
  p_strategy :: string
  p_confidence :: string
  p_previousCell :: string
  p_decidedFor :: string
  p_targetedDark :: bool
  p_dryRun :: bool
  p_credential :: "cli_Credential option"
  p_ttl :: "cli_TTL option"
  p_candidates :: "cli_Candidate list"
  p_identity :: "cli_Identity option"

record Refusal =
  rf_status :: int
  rf_reason :: Reason
  rf_message :: string
  rf_identity :: "cli_Identity option"

text \<open>
  What \<open>http.Client.Do\<close> returned: no response, or a status with the body as the JSON decoder reads it, as a refusal
  (whether it reports an error, and the reason and the caller it stored; it may store both and still report one) and
  as a placement. \<open>Refusal.Status\<close> is exported and has no JSON tag, so a key \<open>status\<close> of
  the body, in any case, is stored into it over the status of the response: \<open>wire_bodyStatus\<close>.
\<close>

datatype wire =
    NoResponse (wire_error: string)
  | Response (wire_status: int) (wire_statusText: string) (wire_bodyStatus: "int option")
      (wire_decodeFails: bool) (wire_refusal: "string \<times> string \<times> cli_Identity option") (wire_placement: "Placement option")

datatype client_error = CallFailed string | Declined Refusal | UndecodableResponse

text \<open>\<open>quote\<close> is \<open>strconv.Quote\<close>, the verb \<open>%q\<close>.\<close>

definition Refusal_Error :: "(string \<Rightarrow> string) \<Rightarrow> Refusal \<Rightarrow> string" where
  "Refusal_Error quote r =
    (case rf_identity r of
       Some idn \<Rightarrow>
         if rf_reason r = NoPolicy \<and> ci_subject idn \<noteq> ''''
         then rf_reason r @ '': '' @ rf_message r @ '' (the hub read this caller as '' @ quote (ci_subject idn) @
           ''; run `cellcast policy test` to see every claim)''
         else rf_reason r @ '': '' @ rf_message r
     | None \<Rightarrow> rf_reason r @ '': '' @ rf_message r)"

record placeRequest =
  plq_workload :: string
  plq_targetDark :: bool
  plq_ttl :: string
  plq_dryRun :: bool
  plq_explain :: bool

section \<open>The client\<close>

definition tokenEnv :: string where "tokenEnv = ''CELLCAST_TOKEN''"

datatype new_client_error = HubNotSet | TokenFileUnreadable string | NoCallerToken

record cli_Client =
  clt_hub :: string
  clt_token :: string
  clt_timeout :: duration

definition trim_right :: "char \<Rightarrow> string \<Rightarrow> string" where
  "trim_right c s = rev (dropWhile (\<lambda>x. x = c) (rev s))"

definition NewClient ::
  "(string \<Rightarrow> string) \<Rightarrow> (string \<Rightarrow> string option) \<Rightarrow> string \<Rightarrow> string \<Rightarrow> duration \<Rightarrow> new_client_error + cli_Client" where
  "NewClient getenv readFile hub tokenFile timeout =
    (if hub = '''' then Inl HubNotSet
     else (case (if tokenFile \<noteq> '''' then map_option TrimSpace (readFile tokenFile) else Some (getenv tokenEnv)) of
             None \<Rightarrow> Inl (TokenFileUnreadable tokenFile)
           | Some token \<Rightarrow>
             if token = '''' then Inl NoCallerToken
             else Inr \<lparr>clt_hub = trim_right (CHR ''/'') hub, clt_token = token, clt_timeout = timeout\<rparr>))"

definition Client_Place :: "wire \<Rightarrow> client_error + Placement" where
  "Client_Place w =
    (case w of
       NoResponse e \<Rightarrow> Inl (CallFailed e)
     | Response status text bodyStatus fails (reason, msg, idn) placed \<Rightarrow>
       if status \<noteq> 200
       then Inl (Declined \<lparr>rf_status = (case bodyStatus of None \<Rightarrow> status | Some st \<Rightarrow> st),
              rf_reason = (if fails \<or> reason = '''' then Unknown else reason),
              rf_message = (if fails \<or> reason = '''' then ''hub returned '' @ text else msg), rf_identity = idn\<rparr>)
       else (case placed of None \<Rightarrow> Inl UndecodableResponse | Some p \<Rightarrow> Inr p))"

section \<open>The declared stance\<close>

definition SourceHub :: string where "SourceHub = ''hub''"
definition SourceCache :: string where "SourceCache = ''cache''"
definition SourcePinned :: string where "SourcePinned = ''pinned''"
definition ConfidenceStale :: string where "ConfidenceStale = ''stale''"
definition ConfidenceNone :: string where "ConfidenceNone = ''none''"
definition stanceFail :: string where "stanceFail = ''fail''"
definition stanceLastKnown :: string where "stanceLastKnown = ''last-known''"

record stance =
  sn_cell :: string
  sn_lastKnown :: bool

definition parseStance :: "(string \<Rightarrow> string list) \<Rightarrow> string \<Rightarrow> string list + stance" where
  "parseStance dnsErrors v =
    (if v = '''' \<or> v = stanceFail then Inr \<lparr>sn_cell = '''', sn_lastKnown = False\<rparr>
     else if v = stanceLastKnown then Inr \<lparr>sn_cell = '''', sn_lastKnown = True\<rparr>
     else if dnsErrors v \<noteq> [] then Inl (dnsErrors v)
     else Inr \<lparr>sn_cell = v, sn_lastKnown = False\<rparr>)"

definition fallsBack :: "stance \<Rightarrow> bool" where
  "fallsBack s \<longleftrightarrow> sn_lastKnown s \<or> sn_cell s \<noteq> ''''"

definition fallbackAllowed :: "client_error \<Rightarrow> bool" where
  "fallbackAllowed err =
    (case err of
       Declined ref \<Rightarrow>
         if rf_reason ref = Unknown then rf_status ref \<in> {502, 503, 504, 429}
         else Optimisation (rf_reason ref)
     | _ \<Rightarrow> True)"

datatype refused_fallback = AnsweredNotChoosing Reason | Unclassifiable

definition refusedFallback :: "client_error \<Rightarrow> refused_fallback" where
  "refusedFallback err =
    (case err of
       Declined ref \<Rightarrow>
         if \<not> Optimisation (rf_reason ref) \<and> rf_reason ref \<noteq> Unknown
         then AnsweredNotChoosing (rf_reason ref) else Unclassifiable
     | _ \<Rightarrow> Unclassifiable)"

section \<open>The decision cache\<close>

definition DefaultCacheTTL :: duration where "DefaultCacheTTL = Hour"
definition cacheDirEnv :: string where "cacheDirEnv = ''CELLCAST_CACHE_DIR''"

record cachedDecision =
  cd_hub :: string
  cd_workload :: string
  cd_targetedDark :: bool
  cd_cell :: string
  cd_policy :: string
  cd_strategy :: string
  cd_decidedFor :: string
  cd_cachedAt :: go_time

text \<open>\<open>Duration.Round(time.Second)\<close>: to the nearest second, halves away from zero.\<close>

definition round_second :: "duration \<Rightarrow> duration" where
  "round_second d =
    (let r = \<bar>d\<bar> mod Second; a = \<bar>d\<bar> - r + (if 2 * r < Second then 0 else Second)
     in if d < 0 then max min_int64 (- a) else min max_int64 a)"

definition cached_age :: "cachedDecision \<Rightarrow> go_time \<Rightarrow> duration" where
  "cached_age d now = round_second (go_sub now (cd_cachedAt d))"

record decisionCache =
  dc_hub :: string
  dc_dir :: string
  dc_ttl :: duration

definition newDecisionCache :: "string \<Rightarrow> string option \<Rightarrow> string \<Rightarrow> string \<Rightarrow> duration \<Rightarrow> decisionCache" where
  "newDecisionCache envDir userCacheDir hub dir ttl =
    (if ttl \<le> 0 then \<lparr>dc_hub = hub, dc_dir = '''', dc_ttl = ttl\<rparr>
     else \<lparr>dc_hub = hub,
           dc_dir = (if dir \<noteq> '''' then dir else if envDir \<noteq> '''' then envDir
             else (case userCacheDir of None \<Rightarrow> '''' | Some base \<Rightarrow> base @ ''/cellcast/decisions'')),
           dc_ttl = ttl\<rparr>)"

definition newDecisionCache_env :: "(string \<Rightarrow> string) \<Rightarrow> string option \<Rightarrow> string \<Rightarrow> string \<Rightarrow> duration \<Rightarrow> decisionCache" where
  "newDecisionCache_env getenv = newDecisionCache (getenv cacheDirEnv)"

definition cache_enabled :: "decisionCache \<Rightarrow> bool" where
  "cache_enabled c \<longleftrightarrow> dc_dir c \<noteq> '''' \<and> dc_ttl c > 0"

definition cache_path :: "decisionCache \<Rightarrow> string \<Rightarrow> bool \<Rightarrow> string" where
  "cache_path c workload dark =
    dc_dir c @ ''/'' @ EncodeToString (Sum256 (dc_hub c @ [CHR 0x00] @ workload @ [CHR 0x00] @
      (if dark then ''true'' else ''false''))) @ ''.json''"

datatype cache_miss = CacheDisabled | NothingCached | UnreadableEntry | MismatchedEntry | ExpiredEntry duration

type_synonym files = "(string \<times> string) list"

definition cache_load ::
  "(string \<Rightarrow> cachedDecision option) \<Rightarrow> go_time \<Rightarrow> files \<Rightarrow> decisionCache \<Rightarrow> string \<Rightarrow> bool \<Rightarrow> cache_miss + cachedDecision" where
  "cache_load unmarshal now fs c workload dark =
    (if \<not> cache_enabled c then Inl CacheDisabled
     else (case map_of fs (cache_path c workload dark) of
       None \<Rightarrow> Inl NothingCached
     | Some raw \<Rightarrow>
       (case unmarshal raw of
          None \<Rightarrow> Inl UnreadableEntry
        | Some d \<Rightarrow>
          if cd_hub d \<noteq> dc_hub c \<or> cd_workload d \<noteq> workload \<or> cd_targetedDark d \<noteq> dark \<or> cd_cell d = ''''
          then Inl MismatchedEntry
          else if cached_age d now > dc_ttl c then Inl (ExpiredEntry (cached_age d now))
          else Inr d)))"

text \<open>The system calls of a write, in order; the rename alone is visible at the entry's path.\<close>

record write_calls =
  wc_mkdir :: bool
  wc_create :: bool
  wc_write :: bool
  wc_close :: bool
  wc_chmod :: bool
  wc_rename :: bool

datatype save_error = MkdirFailed | CreateFailed | WriteFailed | CloseFailed | ChmodFailed | RenameFailed

definition cache_save ::
  "(cachedDecision \<Rightarrow> string) \<Rightarrow> write_calls \<Rightarrow> go_time \<Rightarrow> files \<Rightarrow> decisionCache \<Rightarrow> cachedDecision \<Rightarrow>
    save_error option \<times> files" where
  "cache_save marshal w now fs c d0 =
    (if \<not> cache_enabled c then (None, fs)
     else if \<not> wc_mkdir w then (Some MkdirFailed, fs)
     else (let d = d0\<lparr>cd_hub := dc_hub c, cd_cachedAt := now\<rparr> in
       if \<not> wc_create w then (Some CreateFailed, fs)
       else if \<not> wc_write w then (Some WriteFailed, fs)
       else if \<not> wc_close w then (Some CloseFailed, fs)
       else if \<not> wc_chmod w then (Some ChmodFailed, fs)
       else if \<not> wc_rename w then (Some RenameFailed, fs)
       else (None, AList.update (cache_path c (cd_workload d) (cd_targetedDark d)) (marshal d) fs)))"

section \<open>The kubeconfig\<close>

definition kubeconfigMode :: int where "kubeconfigMode = 384"
definition contextName :: string where "contextName = ''cellcast''"

record kubeconfig =
  kc_cluster :: string
  kc_server :: string
  kc_caData :: string
  kc_user :: string
  kc_token :: string
  kc_context :: string
  kc_namespace :: string

text \<open>
  The calls of \<open>writeKubeconfig\<close> on the path: the previous file is removed, then the new one created and
  written. \<open>render\<close> is \<open>clientcmd.Write\<close>. A write that fails leaves the created file with what was written of it.
\<close>

record kube_calls =
  kw_mkdir :: bool
  kw_remove :: bool
  kw_create :: bool
  kw_write :: bool
  kw_close :: bool
  kw_partial :: string

datatype kube_error = BadCertificateAuthority | RenderFailed | KubeMkdirFailed | KubeRemoveFailed | KubeCreateFailed | KubeWriteFailed

definition kubeconfig_of :: "string \<Rightarrow> cli_Credential \<Rightarrow> kubeconfig option" where
  "kubeconfig_of cell cred =
    map_option (\<lambda>ca. \<lparr>kc_cluster = cell, kc_server = cl_server cred, kc_caData = ca, kc_user = cl_serviceAccount cred,
      kc_token = cl_token cred, kc_context = contextName, kc_namespace = cl_ns cred\<rparr>) (Std_DecodeString (cl_caData cred))"

definition writeKubeconfig ::
  "(kubeconfig \<Rightarrow> string option) \<Rightarrow> kube_calls \<Rightarrow> files \<Rightarrow> string \<Rightarrow> string \<Rightarrow> cli_Credential \<Rightarrow> kube_error option \<times> files" where
  "writeKubeconfig render k fs path cell cred =
    (case kubeconfig_of cell cred of
       None \<Rightarrow> (Some BadCertificateAuthority, fs)
     | Some cfg \<Rightarrow>
       (case render cfg of
          None \<Rightarrow> (Some RenderFailed, fs)
        | Some raw \<Rightarrow>
          if \<not> kw_mkdir k then (Some KubeMkdirFailed, fs)
          else if \<not> kw_remove k then (Some KubeRemoveFailed, fs)
          else if \<not> kw_create k then (Some KubeCreateFailed, AList.delete path fs)
          else if \<not> kw_write k then (Some KubeWriteFailed, AList.update path (kw_partial k) (AList.delete path fs))
          else if \<not> kw_close k then (Some KubeWriteFailed, AList.update path raw (AList.delete path fs))
          else (None, AList.update path raw (AList.delete path fs))))"

section \<open>\<open>cellcast place\<close>\<close>

record placeOptions =
  po_hub :: string
  po_tokenFile :: string
  po_workload :: string
  po_ttl :: string
  po_kubeconfig :: string
  po_onUnavailable :: string
  po_cacheDir :: string
  po_cacheTTL :: duration
  po_dark :: bool
  po_dryRun :: bool
  po_explain :: bool
  po_json :: bool
  po_timeout :: duration

record cli_env =
  ev_now :: go_time
  ev_getenv :: "string \<Rightarrow> string"
  ev_readFile :: "string \<Rightarrow> string option"
  ev_userCacheDir :: "string option"
  ev_dnsErrors :: "string \<Rightarrow> string list"
  ev_marshal :: "cachedDecision \<Rightarrow> string"
  ev_unmarshal :: "string \<Rightarrow> cachedDecision option"
  ev_render :: "kubeconfig \<Rightarrow> string option"
  ev_cacheCalls :: write_calls
  ev_kubeCalls :: kube_calls
  ev_wire :: "placeRequest \<Rightarrow> wire"

record result =
  res_placement :: Placement
  res_source :: string
  res_unavailable :: "client_error option"
  res_age :: duration

datatype place_failure =
    BadStance "string list" | NoClient new_client_error | HubFailed client_error
  | FallbackRefused client_error refused_fallback | FallbackMissed client_error cache_miss
  | NoCredentialReturned string | KubeconfigFailed kube_error | StaleKubeconfig

definition blank_placement :: Placement where
  "blank_placement = \<lparr>p_cell = '''', p_policy = '''', p_strategy = '''', p_confidence = '''', p_previousCell = '''',
    p_decidedFor = '''', p_targetedDark = False, p_dryRun = False, p_credential = None, p_ttl = None, p_candidates = [],
    p_identity = None\<rparr>"

definition cli_remember :: "cli_env \<Rightarrow> files \<Rightarrow> decisionCache \<Rightarrow> placeOptions \<Rightarrow> Placement \<Rightarrow> save_error option \<times> files" where
  "cli_remember ev fs c o' p =
    cache_save (ev_marshal ev) (ev_cacheCalls ev) (ev_now ev) fs c
      \<lparr>cd_hub = '''', cd_workload = po_workload o', cd_targetedDark = p_targetedDark p, cd_cell = p_cell p,
       cd_policy = p_policy p, cd_strategy = p_strategy p, cd_decidedFor = p_decidedFor p, cd_cachedAt = 0\<rparr>"

definition fallback ::
  "cli_env \<Rightarrow> files \<Rightarrow> placeOptions \<Rightarrow> decisionCache \<Rightarrow> stance \<Rightarrow> client_error \<Rightarrow> (place_failure + result) \<times> files" where
  "fallback ev fs o' c st cause =
    (if \<not> fallsBack st then (Inl (HubFailed cause), fs)
     else if \<not> fallbackAllowed cause then (Inl (FallbackRefused cause (refusedFallback cause)), fs)
     else (let answer =
         (if sn_cell st \<noteq> ''''
          then Inr \<lparr>res_placement = blank_placement\<lparr>p_cell := sn_cell st, p_confidence := ConfidenceNone,
                      p_targetedDark := po_dark o', p_dryRun := po_dryRun o'\<rparr>,
                    res_source = SourcePinned, res_unavailable = Some cause, res_age = 0\<rparr>
          else (case cache_load (ev_unmarshal ev) (ev_now ev) fs c (po_workload o') (po_dark o') of
                  Inl miss \<Rightarrow> Inl (FallbackMissed cause miss)
                | Inr entry \<Rightarrow>
                  Inr \<lparr>res_placement = blank_placement\<lparr>p_cell := cd_cell entry, p_policy := cd_policy entry,
                         p_strategy := cd_strategy entry, p_confidence := ConfidenceStale,
                         p_decidedFor := cd_decidedFor entry, p_targetedDark := cd_targetedDark entry,
                         p_dryRun := po_dryRun o'\<rparr>,
                       res_source = SourceCache, res_unavailable = Some cause,
                       res_age = cached_age entry (ev_now ev)\<rparr>))
       in case answer of
            Inl e \<Rightarrow> (Inl e, fs)
          | Inr res \<Rightarrow>
            if po_dryRun o' then (Inr res, fs)
            else if \<not> kw_remove (ev_kubeCalls ev) then (Inl StaleKubeconfig, fs)
            else (Inr res, AList.delete (po_kubeconfig o') fs)))"

definition cli_place ::
  "cli_env \<Rightarrow> files \<Rightarrow> placeOptions \<Rightarrow> decisionCache \<Rightarrow> stance \<Rightarrow> (place_failure + result) \<times> files" where
  "cli_place ev fs o' c st =
    (case Client_Place (ev_wire ev \<lparr>plq_workload = po_workload o', plq_targetDark = po_dark o', plq_ttl = po_ttl o',
            plq_dryRun = po_dryRun o', plq_explain = po_explain o'\<rparr>) of
       Inl err \<Rightarrow> fallback ev fs o' c st err
     | Inr p \<Rightarrow>
       (let fs1 = snd (cli_remember ev fs c o' p); res = \<lparr>res_placement = p, res_source = SourceHub, res_unavailable = None, res_age = 0\<rparr>
        in if po_dryRun o' then (Inr res, fs1)
           else (case p_credential p of
             None \<Rightarrow> (Inl (NoCredentialReturned (p_cell p)), fs1)
           | Some cred \<Rightarrow>
             (case writeKubeconfig (ev_render ev) (ev_kubeCalls ev) fs1 (po_kubeconfig o') (p_cell p) cred of
                (Some e, fs2) \<Rightarrow> (Inl (KubeconfigFailed e), fs2)
              | (None, fs2) \<Rightarrow> (Inr res, fs2)))))"

text \<open>What is printed: the JSON result, or the lines of the text result, with the fields each shows.\<close>

definition kubeconfigPath :: "result \<Rightarrow> placeOptions \<Rightarrow> string" where
  "kubeconfigPath res o' =
    (if p_dryRun (res_placement res) \<or> p_credential (res_placement res) = None then '''' else po_kubeconfig o')"

datatype cli_output =
    JsonResult (jr_placement: Placement) (jr_source: string) (jr_unavailable: "client_error option") (jr_kubeconfig: string)
  | TextLines "text_line list"
and text_line =
    PlacedLine string string string string string string
  | StaysLine string string
  | MovesLine string string
  | HubSilentLine client_error
  | LastKnownLine string string string string duration string
  | PinnedLine string string
  | NoCredentialLine
  | ClampedLine string string string
  | ValidForLine string
  | KubeconfigLine string string string
  | CandidateLine string string string "rat option" string

definition writeJSONResult :: "result \<Rightarrow> placeOptions \<Rightarrow> cli_output" where
  "writeJSONResult res o' =
    JsonResult ((res_placement res)\<lparr>p_credential := map_option (\<lambda>c. c\<lparr>cl_token := ''''\<rparr>) (p_credential (res_placement res))\<rparr>)
      (res_source res) (res_unavailable res) (kubeconfigPath res o')"

definition candidate_line :: "cli_Candidate \<Rightarrow> text_line" where
  "candidate_line c =
    CandidateLine (cc_cell c) (if cc_chosen c then ''chosen'' else if cc_admitted c then ''eligible'' else ''refused'')
      (cc_stage c) (if cc_admitted c then Some (cc_utilisation c) else None) (cc_reason c)"

definition writeFallbackNotice :: "result \<Rightarrow> placeOptions \<Rightarrow> text_line list" where
  "writeFallbackNotice res o' =
    (let p = res_placement res in
     (case res_unavailable res of None \<Rightarrow> [] | Some e \<Rightarrow> [HubSilentLine e]) @
     [if res_source res = SourceCache
      then LastKnownLine (po_workload o') (p_cell p) (p_policy p) (p_strategy p) (res_age res) (p_decidedFor p)
      else PinnedLine (po_workload o') (p_cell p), NoCredentialLine])"

definition writeTextResult :: "result \<Rightarrow> placeOptions \<Rightarrow> cli_output" where
  "writeTextResult res o' =
    (let p = res_placement res in TextLines (
      (if res_source res \<noteq> SourceHub then writeFallbackNotice res o'
       else PlacedLine (if p_dryRun p then ''would place'' else ''placed'') (po_workload o') (p_cell p) (p_policy p)
              (p_strategy p) (p_confidence p) #
            (if p_previousCell p = '''' then []
             else if p_previousCell p = p_cell p then [StaysLine (po_workload o') (p_cell p)]
             else [MovesLine (po_workload o') (p_previousCell p)])) @
      (case p_ttl p of None \<Rightarrow> []
       | Some t \<Rightarrow> [if ct_clamped t then ClampedLine (ct_granted t) (ct_requested t) (ct_max t) else ValidForLine (ct_granted t)]) @
      (case p_credential p of
         Some c \<Rightarrow> if p_dryRun p then [] else [KubeconfigLine (po_kubeconfig o') (cl_ns c) (cl_serviceAccount c)]
       | None \<Rightarrow> []) @
      map candidate_line (p_candidates p)))"

definition runPlace :: "cli_env \<Rightarrow> files \<Rightarrow> placeOptions \<Rightarrow> (place_failure + cli_output) \<times> files" where
  "runPlace ev fs o' =
    (case parseStance (ev_dnsErrors ev) (po_onUnavailable o') of
       Inl errs \<Rightarrow> (Inl (BadStance errs), fs)
     | Inr st \<Rightarrow>
       (case NewClient (ev_getenv ev) (ev_readFile ev) (po_hub o') (po_tokenFile o') (po_timeout o') of
          Inl e \<Rightarrow> (Inl (NoClient e), fs)
        | Inr client \<Rightarrow>
          (let c = newDecisionCache_env (ev_getenv ev) (ev_userCacheDir ev) (clt_hub client) (po_cacheDir o') (po_cacheTTL o')
           in case cli_place ev fs o' c st of
                (Inl e, fs') \<Rightarrow> (Inl e, fs')
              | (Inr res, fs') \<Rightarrow> (Inr (if po_json o' then writeJSONResult res o' else writeTextResult res o'), fs'))))"

section \<open>The hub on the wire\<close>

text \<open>
  The hub's response as the client decodes it: the two ends name the JSON fields alike. \<open>durText\<close> is
  \<open>Duration.String\<close>. The hub writes no \<open>status\<close> key.
\<close>

definition cli_identity :: "identityResponse \<Rightarrow> cli_Identity" where
  "cli_identity i = \<lparr>ci_issuer = ir_issuer i, ci_subject = ir_subject i, ci_claims = ir_claims i\<rparr>"

definition cli_credential :: "credentialResponse \<Rightarrow> cli_Credential" where
  "cli_credential c = \<lparr>cl_server = crd_server c, cl_caData = crd_caData c, cl_ns = crd_namespace c,
    cl_serviceAccount = crd_serviceAccount c, cl_token = crd_token c, cl_expiresAt = crd_expiresAt c\<rparr>"

definition cli_ttl :: "(duration \<Rightarrow> string) \<Rightarrow> ttlResponse \<Rightarrow> cli_TTL" where
  "cli_ttl durText t = \<lparr>ct_granted = durText (tr_granted t), ct_default = durText (tr_default t), ct_max = durText (tr_max t),
    ct_requested = (case tr_requested t of None \<Rightarrow> '''' | Some d \<Rightarrow> durText d), ct_clamped = tr_clamped t\<rparr>"

definition cli_candidate :: "candidateResponse \<Rightarrow> cli_Candidate" where
  "cli_candidate c = \<lparr>cc_cell = cr_cell c, cc_admitted = cr_admitted c, cc_stage = cr_stage c, cc_reason = cr_reason c,
    cc_utilisation = cr_utilisation c, cc_chosen = cr_chosen c\<rparr>"

definition cli_placement :: "(duration \<Rightarrow> string) \<Rightarrow> placementResponse \<Rightarrow> Placement" where
  "cli_placement durText b = \<lparr>p_cell = plr_cell b, p_policy = plr_policy b, p_strategy = plr_strategy b,
    p_confidence = plr_confidence b, p_previousCell = plr_previousCell b, p_decidedFor = plr_decidedFor b,
    p_targetedDark = plr_targetedDark b, p_dryRun = plr_dryRun b, p_credential = map_option cli_credential (plr_credential b),
    p_ttl = map_option (cli_ttl durText) (plr_ttl b), p_candidates = map cli_candidate (plr_candidates b),
    p_identity = map_option cli_identity (plr_identity b)\<rparr>"

definition wire_of :: "(duration \<Rightarrow> string) \<Rightarrow> string \<Rightarrow> http_response \<Rightarrow> wire" where
  "wire_of durText text rsp =
    (case rsp_body rsp of
       RefusalBody reason msg echo \<Rightarrow>
         Response (rsp_status rsp) text None False (reason, msg, map_option cli_identity echo) (Some blank_placement)
     | PlacementBody b \<Rightarrow> Response (rsp_status rsp) text None False ('''', '''', map_option cli_identity (plr_identity b)) (Some (cli_placement durText b)))"

section \<open>Lemmas\<close>

text \<open>The cache entry a decision of the hub becomes.\<close>

definition hub_decision :: "cli_env \<Rightarrow> decisionCache \<Rightarrow> placeOptions \<Rightarrow> Placement \<Rightarrow> cachedDecision" where
  "hub_decision ev c o' p = \<lparr>cd_hub = dc_hub c, cd_workload = po_workload o', cd_targetedDark = p_targetedDark p, cd_cell = p_cell p,
    cd_policy = p_policy p, cd_strategy = p_strategy p, cd_decidedFor = p_decidedFor p, cd_cachedAt = ev_now ev\<rparr>"

lemma sources_distinct [simp]: "SourceHub \<noteq> SourceCache" "SourceHub \<noteq> SourcePinned" "SourceCache \<noteq> SourceHub"
  "SourcePinned \<noteq> SourceHub" "SourcePinned \<noteq> SourceCache" "SourceCache \<noteq> SourcePinned"
  by (simp_all add: SourceHub_def SourceCache_def SourcePinned_def)

lemma fallback_Inr:
  assumes "fallback ev fs o' c st cause = (Inr res, fs')"
  shows "fallbackAllowed cause \<and> p_credential (res_placement res) = None \<and> p_ttl (res_placement res) = None \<and>
    res_source res \<in> {SourceCache, SourcePinned} \<and> res_unavailable res = Some cause \<and>
    fs' = (if po_dryRun o' then fs else AList.delete (po_kubeconfig o') fs) \<and>
    (res_source res = SourceCache \<longrightarrow> (\<exists>entry. cache_load (ev_unmarshal ev) (ev_now ev) fs c (po_workload o') (po_dark o') = Inr entry \<and>
      p_cell (res_placement res) = cd_cell entry)) \<and>
    (res_source res = SourcePinned \<longrightarrow> p_cell (res_placement res) = sn_cell st)"
  using assms
  by (auto simp: fallback_def Let_def blank_placement_def split: if_splits sum.splits)

lemma fallback_files:
  assumes "fallback ev fs o' c st cause = (out, fs')" and "path \<noteq> po_kubeconfig o'"
  shows "map_of fs' path = map_of fs path"
  using assms by (auto simp: fallback_def Let_def delete_conv' split: if_splits sum.splits)

lemma fallback_refused:
  "\<not> fallbackAllowed cause \<Longrightarrow> \<exists>e. fallback ev fs o' c st cause = (Inl e, fs)"
  by (simp add: fallback_def)

text \<open>The answers of the hub's placement route, as the client classifies them.\<close>

lemma handlePlacement_reason:
  assumes "handlePlacement env srv r = (rsp, srv')" and "rsp_body rsp = RefusalBody reason msg echo"
  shows "rsp_status rsp \<noteq> 200 \<and> reason \<noteq> '''' \<and> reason \<noteq> Unknown"
proof -
  have ne: "x \<noteq> '''' \<and> x \<noteq> Unknown" if "x \<in> {NoPolicy, DarkNotPermitted, NoPermittedCells, InvalidRequest, NoEligibleCells,
      CapacityUnknown, PlacementUnavailable, RateLimited, MintUnavailable, MintFailed}" for x
    using that by (auto simp: api_defs)
  from handlePlacement_refused [OF assms] have "rsp_status rsp \<noteq> 200" by simp
  moreover have "reason \<in> {NoPolicy, DarkNotPermitted, NoPermittedCells, InvalidRequest, NoEligibleCells,
      CapacityUnknown, PlacementUnavailable, RateLimited, MintUnavailable, MintFailed}"
  proof (cases rule: handlePlacement_cases [of env srv r])
    case (early rec status ra reason' m lim)
    from assms early(1) have "reason = reason'" by (metis fst_conv refuse_simps(1) response_body.sel(1))
    with early(2) show ?thesis by (auto simp: early_reasons_def)
  next
    case (placed idn p req rec requested lim)
    show ?thesis
    proof (cases rule: place_stage_cases [of env p idn req "srv\<lparr>srv_limiter := lim\<rparr>" rec requested])
      case (refused err p' rec')
      from assms placed(6) refused(2) have "reason = snd (placementRefusal err)"
        by (metis fst_conv refuse_simps(1) response_body.sel(1))
      then show ?thesis by (simp add: placementRefusal_def)
    next
      case dry
      with assms placed(6) show ?thesis by auto
    next
      case (mint d p')
      let ?s = "audit_trail (srv\<lparr>srv_limiter := lim, srv_placer := Some p'\<rparr>) (decided_record rec d False)"
      show ?thesis
      proof (cases rule: mint_stage_cases [of env ?s p' "decided_record rec d False" d requested "decided_response idn req d"])
        case (refused rec' status reason' m cause)
        with assms placed(6) mint(3) have "reason = reason'"
          by (metis fst_conv refuse_simps(1) response_body.sel(1) Server.update_convs(2))
        with refused(3) show ?thesis by auto
      next
        case minted
        with assms placed(6) mint(3) show ?thesis by auto
      qed
    qed
  qed
  ultimately show ?thesis using ne by blast
qed

lemma round_second_close:
  assumes "in_int64 d" and "round_second d \<le> t" and "t + Second < max_int64"
  shows "2 * d \<le> 2 * t + Second"
proof -
  define m where "m = \<bar>d\<bar> mod Second"
  have "0 \<le> m" "m < Second" by (simp_all add: m_def duration_units)
  with assms show ?thesis
    unfolding round_second_def Let_def m_def [symmetric] in_int64_def
    by (auto simp: max_def min_def split: if_splits)
qed

lemma cache_load_Inr:
  assumes "cache_load unmarshal now fs c workload dark = Inr d"
  shows "cache_enabled c \<and> cd_hub d = dc_hub c \<and> cd_workload d = workload \<and> cd_targetedDark d = dark \<and> cd_cell d \<noteq> '''' \<and>
    cached_age d now \<le> dc_ttl c \<and> (\<exists>raw. map_of fs (cache_path c workload dark) = Some raw \<and> unmarshal raw = Some d)"
  using assms by (auto simp: cache_load_def split: if_splits option.splits)

section \<open>Properties\<close>

text \<open>
  C28. No fallback gets past a decision. Against this hub, whatever stance the caller declared, an answer from the cache or a pin
  is produced only when the hub refused for a reason that is a failure to choose a cell. It carries no credential, it
  is marked as what it is, and it leaves no kubeconfig of an earlier run behind.
\<close>

theorem no_fallback_past_a_decision:
  assumes "handlePlacement env srv r = (rsp, srv')"
    and "\<And>q. ev_wire ev q = wire_of durText text rsp"
    and "cli_place ev fs o' c st = (Inr res, fs')" and "res_source res \<noteq> SourceHub"
  shows "\<exists>reason msg echo. rsp_body rsp = RefusalBody reason msg echo \<and> Optimisation reason \<and>
    p_credential (res_placement res) = None \<and> kubeconfigPath res o' = '''' \<and>
    (\<not> po_dryRun o' \<longrightarrow> map_of fs' (po_kubeconfig o') = None)"
proof (cases "rsp_body rsp")
  case (PlacementBody b)
  have "rsp_status rsp = 200" by (rule handlePlacement_ok [OF assms(1) PlacementBody])
  with assms(2-4) PlacementBody show ?thesis
    by (auto simp: cli_place_def wire_of_def Client_Place_def Let_def split: if_splits option.splits prod.splits)
next
  case (RefusalBody reason msg echo)
  from handlePlacement_reason [OF assms(1) RefusalBody] have n: "rsp_status rsp \<noteq> 200" "reason \<noteq> ''''" "reason \<noteq> Unknown" by simp_all
  let ?e = "Declined \<lparr>rf_status = rsp_status rsp, rf_reason = reason, rf_message = msg, rf_identity = map_option cli_identity echo\<rparr>"
  have "Client_Place (wire_of durText text rsp) = Inl ?e"
    using n by (simp add: wire_of_def RefusalBody Client_Place_def Let_def)
  with assms(2,3) have f: "fallback ev fs o' c st ?e = (Inr res, fs')" by (simp add: cli_place_def)
  from fallback_Inr [OF f] n show ?thesis
    by (auto simp: RefusalBody fallbackAllowed_def kubeconfigPath_def delete_conv')
qed

text \<open>
  C29. A credential survives the way from the hub to the disk: the kubeconfig \<open>cellcast place\<close> leaves names the cell, the
  registered endpoint and the very bytes of the registered CA bundle, and acts with the token, the namespace and the
  service account the hub issued.
\<close>

theorem kubeconfig_is_the_minted_credential:
  assumes "Client_Place (ev_wire ev \<lparr>plq_workload = po_workload o', plq_targetDark = po_dark o', plq_ttl = po_ttl o',
      plq_dryRun = po_dryRun o', plq_explain = po_explain o'\<rparr>) = Inr p"
    and "p_credential p = Some (cli_credential (credential_response cred))" and "\<not> po_dryRun o'"
    and "cli_place ev fs o' c st = (Inr res, fs')"
  shows "\<exists>cfg raw. map_of fs' (po_kubeconfig o') = Some raw \<and> ev_render ev cfg = Some raw \<and> kc_cluster cfg = p_cell p \<and>
    kc_server cfg = cred_server cred \<and> kc_caData cfg = cred_caBundle cred \<and> kc_token cfg = cred_token cred \<and>
    kc_namespace cfg = cred_namespace cred \<and> kc_user cfg = cred_serviceAccount cred"
proof -
  have "Std_DecodeString (crd_caData (credential_response cred)) = Some (cred_caBundle cred)"
    using Std_Decode_encode [of "[]"] by (simp add: credential_response_def Std_Decode_encode)
  then have k: "kubeconfig_of (p_cell p) (cli_credential (credential_response cred)) =
      Some \<lparr>kc_cluster = p_cell p, kc_server = cred_server cred, kc_caData = cred_caBundle cred,
        kc_user = cred_serviceAccount cred, kc_token = cred_token cred, kc_context = contextName,
        kc_namespace = cred_namespace cred\<rparr>" (is "_ = Some ?cfg")
    by (simp add: kubeconfig_of_def cli_credential_def) (simp add: credential_response_def)
  from assms obtain fs1 where
    w: "writeKubeconfig (ev_render ev) (ev_kubeCalls ev) fs1 (po_kubeconfig o') (p_cell p) (cli_credential (credential_response cred)) = (None, fs')"
    by (auto simp: cli_place_def Let_def split: prod.splits option.splits)
  then obtain raw where "ev_render ev ?cfg = Some raw" "map_of fs' (po_kubeconfig o') = Some raw"
    by (auto simp: writeKubeconfig_def k update_conv' split: option.splits if_splits)
  then show ?thesis by (intro exI [of _ ?cfg] exI [of _ raw]) simp
qed

text \<open>
  A cached decision is only as old as the hub's word. What a fallback replays was stored for this hub, workload and target,
  and is used at most half a second past its lifetime; a command the hub does not answer changes no entry of the
  cache, so no run of fallbacks extends a decision, and a decision the hub makes is what the next load returns, when
  the codec reads back what it wrote.
\<close>

theorem cached_decision_never_renews_itself:
  assumes "dc_ttl c + Second < max_int64"
  shows "(\<forall>d. cache_load (ev_unmarshal ev) (ev_now ev) fs c workload dark = Inr d \<and> in_int64 (ev_now ev - cd_cachedAt d) \<longrightarrow>
      cd_hub d = dc_hub c \<and> cd_workload d = workload \<and> cd_targetedDark d = dark \<and>
      2 * (ev_now ev - cd_cachedAt d) \<le> 2 * dc_ttl c + Second) \<and>
    (\<forall>cause out fs' path. fallback ev fs o' c st cause = (out, fs') \<and> path \<noteq> po_kubeconfig o' \<longrightarrow>
      map_of fs' path = map_of fs path) \<and>
    (\<forall>p fs'. cli_remember ev fs c o' p = (None, fs') \<and> cache_enabled c \<and> p_cell p \<noteq> '''' \<and>
      ev_unmarshal ev (ev_marshal ev (hub_decision ev c o' p)) = Some (hub_decision ev c o' p) \<longrightarrow>
      cache_load (ev_unmarshal ev) (ev_now ev) fs' c (po_workload o') (p_targetedDark p) = Inr (hub_decision ev c o' p))"
proof (intro conjI allI impI)
  fix d assume "cache_load (ev_unmarshal ev) (ev_now ev) fs c workload dark = Inr d \<and> in_int64 (ev_now ev - cd_cachedAt d)"
  then have l: "cd_hub d = dc_hub c \<and> cd_workload d = workload \<and> cd_targetedDark d = dark" "cached_age d (ev_now ev) \<le> dc_ttl c"
    and i: "in_int64 (ev_now ev - cd_cachedAt d)" by (auto dest: cache_load_Inr)
  from l(1) show "cd_hub d = dc_hub c" "cd_workload d = workload" "cd_targetedDark d = dark" by simp_all
  from i l(2) assms show "2 * (ev_now ev - cd_cachedAt d) \<le> 2 * dc_ttl c + Second"
    by (intro round_second_close) (simp_all add: cached_age_def go_sub_exact)
next
  show "map_of fs' path = map_of fs path" if "fallback ev fs o' c st cause = (out, fs') \<and> path \<noteq> po_kubeconfig o'"
    for cause out fs' path using that fallback_files by blast
next
  fix p fs' assume h: "cli_remember ev fs c o' p = (None, fs') \<and> cache_enabled c \<and> p_cell p \<noteq> '''' \<and>
      ev_unmarshal ev (ev_marshal ev (hub_decision ev c o' p)) = Some (hub_decision ev c o' p)"
  let ?d = "hub_decision ev c o' p"
  from h have "fs' = AList.update (cache_path c (po_workload o') (p_targetedDark p)) (ev_marshal ev ?d) fs"
    by (auto simp: cli_remember_def cache_save_def hub_decision_def Let_def split: if_splits)
  moreover from h have "0 < dc_ttl c" by (simp add: cache_enabled_def)
  moreover have "cached_age ?d (ev_now ev) = 0"
    by (simp add: cached_age_def hub_decision_def round_second_def max_int64_def duration_units)
  ultimately show "cache_load (ev_unmarshal ev) (ev_now ev) fs' c (po_workload o') (p_targetedDark p) = Inr ?d"
    using h by (simp add: cache_load_def update_conv') (simp add: hub_decision_def)
qed

section \<open>Witnesses\<close>

text \<open>
  A pipeline whose last kubeconfig is still on disk, with a pinned cell, at a hub that has nothing to place with.
\<close>

definition sample_ev :: "wire \<Rightarrow> cli_env" where
  "sample_ev w = \<lparr>ev_now = 70, ev_getenv = (\<lambda>_. ''t''), ev_readFile = (\<lambda>_. None), ev_userCacheDir = None,
    ev_dnsErrors = (\<lambda>_. []), ev_marshal = cd_cell,
    ev_unmarshal = (\<lambda>s. Some \<lparr>cd_hub = ''h'', cd_workload = ''web'', cd_targetedDark = False, cd_cell = s, cd_policy = ''p'',
      cd_strategy = ''s'', cd_decidedFor = ''ci'', cd_cachedAt = 70\<rparr>),
    ev_render = (\<lambda>k. Some (kc_token k)),
    ev_cacheCalls = \<lparr>wc_mkdir = True, wc_create = True, wc_write = True, wc_close = True, wc_chmod = True, wc_rename = True\<rparr>,
    ev_kubeCalls = \<lparr>kw_mkdir = True, kw_remove = True, kw_create = True, kw_write = True, kw_close = True, kw_partial = ''''\<rparr>,
    ev_wire = (\<lambda>_. w)\<rparr>"

definition sample_po :: placeOptions where
  "sample_po = \<lparr>po_hub = ''h'', po_tokenFile = '''', po_workload = ''web'', po_ttl = '''', po_kubeconfig = ''k'',
    po_onUnavailable = ''green'', po_cacheDir = ''d'', po_cacheTTL = Hour, po_dark = False, po_dryRun = False,
    po_explain = False, po_json = False, po_timeout = Minute\<rparr>"

definition no_cache :: decisionCache where
  "no_cache = \<lparr>dc_hub = ''h'', dc_dir = '''', dc_ttl = 0\<rparr>"

definition sample_caller :: Identity where
  "sample_caller = \<lparr>id_issuer = ''i'', id_subject = ''ci'', id_claims = []\<rparr>"

definition idle_env :: "(unit, nat) hub_env" where
  "idle_env = \<lparr>env_place = (\<lambda>p _ _. (undefined, p)), env_remember = (\<lambda>p _. (None, p)), env_mint = None, env_getCluster = None,
    env_namespace = '''', env_buckets = sample_bucket, env_parseDuration = (\<lambda>_. None), env_brokerText = (\<lambda>_. ''''), env_now = 70\<rparr>"

definition idle_server :: "(unit, nat) Server" where
  "idle_server = \<lparr>srv_limiter = None, srv_placer = None, srv_warm = True, srv_trail = []\<rparr>"

definition idle_post :: http_request where
  "idle_post = \<lparr>rq_identity = Some sample_caller, rq_id = ''r1'', rq_body = None\<rparr>"

theorem no_fallback_past_a_decision_witness:
  "\<exists>res fs'. cli_place (sample_ev (wire_of (\<lambda>_. '''') ''503'' (fst (handlePlacement idle_env idle_server idle_post))))
      [(''k'', ''old'')] sample_po no_cache \<lparr>sn_cell = ''green'', sn_lastKnown = False\<rparr> = (Inr res, fs') \<and>
    p_cell (res_placement res) = ''green'' \<and> p_credential (res_placement res) = None \<and> map_of fs' ''k'' = None"
proof -
  let ?w = "wire_of (\<lambda>_. '''') ''503'' (fst (handlePlacement idle_env idle_server idle_post))"
  have u: "PlacementUnavailable \<noteq> ''''" "PlacementUnavailable \<noteq> Unknown" by (simp_all add: api_defs)
  have "Client_Place ?w = Inl (Declined \<lparr>rf_status = 503, rf_reason = PlacementUnavailable, rf_message = ''placement unavailable'',
      rf_identity = map_option cli_identity (identityOf (Some sample_caller))\<rparr>)"
    using u by (simp add: handlePlacement_def idle_server_def idle_post_def allow_def refuse_def Let_def wire_of_def
        Client_Place_def new_record_def writeRefusal_def identityOf_def sample_caller_def)
  then obtain res fs' where r: "cli_place (sample_ev ?w) [(''k'', ''old'')] sample_po no_cache
      \<lparr>sn_cell = ''green'', sn_lastKnown = False\<rparr> = (Inr res, fs')" "res_source res \<noteq> SourceHub"
      "p_cell (res_placement res) = ''green''"
    using u by (simp add: cli_place_def sample_ev_def sample_po_def fallback_def fallsBack_def fallbackAllowed_def Let_def)
  have w: "ev_wire (sample_ev ?w) q = wire_of (\<lambda>_. '''') ''503'' (fst (handlePlacement idle_env idle_server idle_post))" for q
    by (simp add: sample_ev_def)
  from no_fallback_past_a_decision [OF prod.collapse [symmetric] w r(1,2)]
  have "p_credential (res_placement res) = None" "\<not> po_dryRun sample_po \<longrightarrow> map_of fs' (po_kubeconfig sample_po) = None" by auto
  with r show ?thesis by (auto simp: sample_po_def)
qed

definition sample_cred :: Credential where
  "sample_cred = \<lparr>cred_token = ''secret'', cred_expiresAt = Hour, cred_server = ''https://blue'', cred_caBundle = ''ca'',
    cred_namespace = ''apps'', cred_serviceAccount = ''deployer''\<rparr>"

theorem kubeconfig_is_the_minted_credential_witness:
  "\<exists>res fs'. cli_place (sample_ev (Response 200 ''200 OK'' None False ('''', '''', None) (Some (blank_placement\<lparr>p_cell := ''blue'',
        p_credential := Some (cli_credential (credential_response sample_cred))\<rparr>)))) [] sample_po no_cache
      \<lparr>sn_cell = '''', sn_lastKnown = False\<rparr> = (Inr res, fs') \<and> map_of fs' ''k'' = Some ''secret''"
proof -
  let ?p = "blank_placement\<lparr>p_cell := ''blue'', p_credential := Some (cli_credential (credential_response sample_cred))\<rparr>"
  let ?ev = "sample_ev (Response 200 ''200 OK'' None False ('''', '''', None) (Some ?p))"
  have p: "Client_Place (ev_wire ?ev q) = Inr ?p" for q by (simp add: sample_ev_def Client_Place_def)
  have "Std_DecodeString (cl_caData (cli_credential (credential_response sample_cred))) = Some ''ca''"
    using Std_Decode_encode [of "cred_caBundle sample_cred"]
    by (simp add: cli_credential_def credential_response_def) (simp add: sample_cred_def)
  then obtain kfs where "writeKubeconfig (ev_render ?ev) (ev_kubeCalls ?ev) [] (po_kubeconfig sample_po) ''blue''
      (cli_credential (credential_response sample_cred)) = (None, kfs)"
    by (simp add: writeKubeconfig_def kubeconfig_of_def sample_ev_def)
  then obtain res fs' where r: "cli_place ?ev [] sample_po no_cache \<lparr>sn_cell = '''', sn_lastKnown = False\<rparr> = (Inr res, fs')"
    by (simp add: cli_place_def p cli_remember_def cache_save_def cache_enabled_def no_cache_def Let_def)
      (simp add: sample_po_def)
  have "\<not> po_dryRun sample_po" by (simp add: sample_po_def)
  from kubeconfig_is_the_minted_credential [OF p _ this r, of sample_cred]
  obtain cfg raw where "map_of fs' (po_kubeconfig sample_po) = Some raw" "ev_render ?ev cfg = Some raw"
    "kc_token cfg = cred_token sample_cred" by auto
  then have "map_of fs' ''k'' = Some ''secret''" by (simp add: sample_po_def sample_ev_def sample_cred_def)
  with r show ?thesis by blast
qed

theorem cached_decision_never_renews_itself_witness:
  "fst (fallback (sample_ev (NoResponse '''')) [] sample_po no_cache \<lparr>sn_cell = ''green'', sn_lastKnown = False\<rparr> (CallFailed '''')) \<noteq>
      Inl StaleKubeconfig \<and>
    map_of (snd (fallback (sample_ev (NoResponse '''')) [(''d/x'', ''blue'')] sample_po no_cache
      \<lparr>sn_cell = ''green'', sn_lastKnown = False\<rparr> (CallFailed ''''))) ''d/x'' = Some ''blue''"
proof -
  have t: "dc_ttl no_cache + Second < max_int64" by (simp add: no_cache_def duration_units max_int64_def)
  have "''d/x'' \<noteq> po_kubeconfig sample_po" by (simp add: sample_po_def)
  then have "map_of (snd (fallback (sample_ev (NoResponse '''')) [(''d/x'', ''blue'')] sample_po no_cache
      \<lparr>sn_cell = ''green'', sn_lastKnown = False\<rparr> (CallFailed ''''))) ''d/x'' = map_of [(''d/x'', ''blue'')] ''d/x''"
    using cached_decision_never_renews_itself [OF t, of "sample_ev (NoResponse '''')" "[(''d/x'', ''blue'')]" "''web''" False sample_po
      "\<lparr>sn_cell = ''green'', sn_lastKnown = False\<rparr>"] prod.collapse by metis
  then show ?thesis by (simp add: fallback_def fallsBack_def fallbackAllowed_def Let_def sample_ev_def)
qed

end
