(* ===== verification/CliAdmin.thy ===== *)
theory CliAdmin
  imports Cli Controllers CapacityApi
begin

text \<open>
  The operator's commands: \<open>cellcast cell add\<close> (\<open>internal/cli/cell.go\<close>) and \<open>cellcast policy test\<close> (\<open>policy.go\<close>).

  Both only read and print. What is printed is a value: the objects of a manifest, or lines with the fields they show. Parameters
  (\<open>cell_env\<close>): loading the kubeconfig, reading a file, the DNS name check, \<open>url.Parse\<close> with \<open>Hostname\<close>, JSON text and the
  exchange with the cell's API server. Flag declarations are cobra's.
\<close>

section \<open>\<open>cell add\<close>\<close>

definition stockIssuer :: string where "stockIssuer = ''https://kubernetes.default.svc.cluster.local''"
definition maxDiscoveryBytes :: nat where "maxDiscoveryBytes = 64 * 1024"
definition credentialKey :: string where "credentialKey = ''kubeconfig''"

definition knownProviders :: "Provider list" where
  "knownProviders = [ProviderEKS, ProviderGKE, ProviderAKS, ProviderGeneric]"

record cellAddOptions =
  ca_kubeconfig :: string
  ca_context :: string
  ca_name :: string
  ca_hubNamespace :: string
  ca_labels :: labels
  ca_provider :: string
  ca_state :: string
  ca_issuer :: string
  ca_mintServiceAccount :: string
  ca_mintNamespace :: string
  ca_agentNamespace :: string
  ca_agentServiceAccount :: string
  ca_timeout :: duration

record resolvedCell =
  rc_endpoint :: string
  rc_ca :: string
  rc_provider :: Provider
  rc_issuer :: string

text \<open>The fields \<open>cell add\<close> reads of a \<open>rest.Config\<close>.\<close>

record cell_rest =
  rest_host :: string
  rest_caData :: string
  rest_caFile :: string

datatype cell_error =
    NameNotDNS string "string list" | StateNotListed string | ProviderNotListed string | KubeconfigNotLoaded string
  | ServerNotHttps string | CANotRead | TransportNotBuilt string | RequestNotBuiltFor string | DiscoveryNotRead string
  | DiscoveryRefused string | DiscoveryStatus string | DiscoveryNotJSON | DiscoveryNoIssuer | IssuerNotHttps string | NotPrinted string

datatype discovery = NoTransport string | NoRequest string | NoAnswer string | Answer int string string

record cell_env =
  ce_load :: "string \<Rightarrow> string \<Rightarrow> string + cell_rest"
  ce_readFile :: "string \<Rightarrow> string option"
  ce_dnsErrors :: "string \<Rightarrow> string list"
  ce_hostname :: "string \<Rightarrow> string option"
  ce_decode :: "string \<Rightarrow> (json \<times> string) option"
  ce_discover :: "string \<Rightarrow> discovery"

definition validate_cell :: "(string \<Rightarrow> string list) \<Rightarrow> cellAddOptions \<Rightarrow> cell_error option" where
  "validate_cell dns o' =
    (if dns (ca_name o') \<noteq> [] then Some (NameNotDNS (ca_name o') (dns (ca_name o')))
     else if ca_state o' \<notin> set [ClusterStateLive, ClusterStateDark, ClusterStateDraining] then Some (StateNotListed (ca_state o'))
     else if ca_provider o' \<noteq> '''' \<and> ca_provider o' \<notin> set knownProviders then Some (ProviderNotListed (ca_provider o'))
     else None)"

definition cell_caBundle :: "(string \<Rightarrow> string option) \<Rightarrow> cell_rest \<Rightarrow> cell_error + string" where
  "cell_caBundle readFile cfg =
    (if rest_caData cfg \<noteq> '''' \<or> rest_caFile cfg = '''' then Inr (rest_caData cfg)
     else (case readFile (rest_caFile cfg) of None \<Rightarrow> Inl CANotRead | Some ca \<Rightarrow> Inr ca))"

definition inferProvider :: "(string \<Rightarrow> string option) \<Rightarrow> string \<Rightarrow> Provider" where
  "inferProvider hostname ep =
    (case hostname ep of
       None \<Rightarrow> ProviderGeneric
     | Some host \<Rightarrow>
       if has_suffix host ''.eks.amazonaws.com'' then ProviderEKS
       else if has_suffix host ''.azmk8s.io'' then ProviderAKS
       else ProviderGeneric)"

definition discoverIssuer :: "(string \<Rightarrow> (json \<times> string) option) \<Rightarrow> (string \<Rightarrow> discovery) \<Rightarrow> cell_rest \<Rightarrow> cell_error + string" where
  "discoverIssuer decode fetch cfg =
    (case fetch (trim_right (CHR ''/'') (rest_host cfg) @ ''/.well-known/openid-configuration'') of
       NoTransport e \<Rightarrow> Inl (TransportNotBuilt e)
     | NoRequest e \<Rightarrow> Inl (RequestNotBuiltFor e)
     | NoAnswer e \<Rightarrow> Inl (DiscoveryNotRead e)
     | Answer status text body \<Rightarrow>
       if status = 401 \<or> status = 403 then Inl (DiscoveryRefused text)
       else if status \<noteq> 200 then Inl (DiscoveryStatus text)
       else (case decode (take maxDiscoveryBytes body) of
         None \<Rightarrow> Inl DiscoveryNotJSON
       | Some (v, rest) \<Rightarrow>
         (case into_field ''issuer'' v of
            None \<Rightarrow> Inl DiscoveryNotJSON
          | Some iss \<Rightarrow> if iss = '''' then Inl DiscoveryNoIssuer else Inr iss)))"

definition resolve_cell :: "cell_env \<Rightarrow> cellAddOptions \<Rightarrow> cell_rest \<Rightarrow> cell_error + resolvedCell" where
  "resolve_cell env o' cfg =
    (let ep = trim_right (CHR ''/'') (rest_host cfg) in
     if \<not> has_prefix ep ''https://'' then Inl (ServerNotHttps (rest_host cfg))
     else (case cell_caBundle (ce_readFile env) cfg of
       Inl e \<Rightarrow> Inl e
     | Inr ca \<Rightarrow>
       (let prov = (if ca_provider o' = '''' then inferProvider (ce_hostname env) ep else ca_provider o') in
        case (if ca_issuer o' = '''' then discoverIssuer (ce_decode env) (ce_discover env) cfg else Inr (ca_issuer o')) of
          Inl e \<Rightarrow> Inl e
        | Inr iss \<Rightarrow>
          if \<not> has_prefix iss ''https://'' then Inl (IssuerNotHttps iss)
          else Inr \<lparr>rc_endpoint = ep, rc_ca = ca, rc_provider = prov, rc_issuer = iss\<rparr>)))"

definition secretName :: "cellAddOptions \<Rightarrow> string" where
  "secretName o' = ca_name o' @ ''-kubeconfig''"

definition cell_trust :: "cellAddOptions \<Rightarrow> TrustConfig" where
  "cell_trust o' =
    \<lparr>trust_name = ca_name o', trust_namespace = ca_hubNamespace o', trust_generation = 0,
     trust_spec = \<lparr>trust_provider = TrustProviderKubernetes,
       credentialSource = \<lparr>inCluster = False, secretRef = Some \<lparr>secret_name = secretName o', secret_key = credentialKey\<rparr>\<rparr>,
       kubernetes = Some \<lparr>serviceAccountName = ca_mintServiceAccount o', sa_namespace = ca_mintNamespace o', audiences = []\<rparr>\<rparr>,
     trust_status = \<lparr>trust_observedGeneration = 0, trust_conditions = []\<rparr>\<rparr>"

definition cell_cluster :: "cellAddOptions \<Rightarrow> resolvedCell \<Rightarrow> Cluster" where
  "cell_cluster o' cell =
    \<lparr>cl_name = ca_name o', cl_namespace = ca_hubNamespace o', cl_labels = ca_labels o', cl_generation = 0, cl_created = zero_time,
     cl_spec = \<lparr>endpoint = rc_endpoint cell, caBundle = rc_ca cell, provider = rc_provider cell, trustConfigRef = ca_name o',
       reporter = Some \<lparr>reporter_issuer = rc_issuer cell,
         reporter_subject = ''system:serviceaccount:'' @ ca_agentNamespace o' @ '':'' @ ca_agentServiceAccount o'\<rparr>,
       state = ca_state o'\<rparr>,
     cl_status = \<lparr>observedState = '''', cl_observedGeneration = 0, stateSince = None, cl_conditions = []\<rparr>\<rparr>"

definition cell_objects :: "cellAddOptions \<Rightarrow> resolvedCell \<Rightarrow> TrustConfig \<times> Cluster" where
  "cell_objects o' cell = (cell_trust o', cell_cluster o' cell)"

text \<open>The fields of a manifest: those of the marshalled object but for its status and creation time.\<close>

definition manifest_fields :: "json \<Rightarrow> json" where
  "manifest_fields v =
    (case v of
       JObj kvs \<Rightarrow> JObj (map (\<lambda>(k, x). (k, if k = ''metadata'' then
           (case x of JObj ms \<Rightarrow> JObj (filter (\<lambda>(mk, _). mk \<noteq> ''creationTimestamp'') ms) | _ \<Rightarrow> x) else x))
         (filter (\<lambda>(k, _). k \<noteq> ''status'') kvs))
     | _ \<Rightarrow> v)"

datatype next_step =
    StockIssuerWarning string
  | CreateSecretStep string string string string string string
  | TrustIssuerStep string
  | InstallAgentStep string

definition writeNextSteps :: "cellAddOptions \<Rightarrow> string \<Rightarrow> next_step list" where
  "writeNextSteps o' iss =
    (if iss = stockIssuer then [StockIssuerWarning iss] else []) @
    [CreateSecretStep (ca_mintServiceAccount o') (ca_mintNamespace o') (ca_hubNamespace o') (secretName o') credentialKey (ca_kubeconfig o'),
     TrustIssuerStep iss, InstallAgentStep (ca_name o')]"

definition runCellAdd :: "cell_env \<Rightarrow> cellAddOptions \<Rightarrow> cell_error + (TrustConfig \<times> Cluster \<times> next_step list)" where
  "runCellAdd env o' =
    (case validate_cell (ce_dnsErrors env) o' of
       Some e \<Rightarrow> Inl e
     | None \<Rightarrow>
       (case ce_load env (ca_kubeconfig o') (ca_context o') of
          Inl e \<Rightarrow> Inl (KubeconfigNotLoaded e)
        | Inr cfg \<Rightarrow>
          (case resolve_cell env o' cfg of
             Inl e \<Rightarrow> Inl e
           | Inr cell \<Rightarrow>
             (case cell_objects o' cell of (trust, cl) \<Rightarrow> Inr (trust, cl, writeNextSteps o' (rc_issuer cell))))))"

section \<open>\<open>policy test\<close>\<close>

record policyOptions =
  pt_hub :: string
  pt_tokenFile :: string
  pt_workload :: string
  pt_timeout :: duration
  pt_json :: bool

datatype policy_line =
    RefusedLine Reason | MessageLine string | NoPolicyLine | AdmittedLine string | WouldPlaceLine string string
  | NotReadLine | IssuerLine string | SubjectLine string | ClaimLine bool string string
  | JsonRefusal Refusal | JsonPlacement Placement

definition writeIdentity :: "cli_Identity option \<Rightarrow> policy_line list" where
  "writeIdentity ido =
    (case ido of
       None \<Rightarrow> [NotReadLine]
     | Some i \<Rightarrow>
       IssuerLine (ci_issuer i) # SubjectLine (ci_subject i) #
       map (\<lambda>(n, k). ClaimLine (n = 0) k (case map_of (ci_claims i) k of Some v \<Rightarrow> v | None \<Rightarrow> ''''))
         (enumerate 0 (sort (map fst (ci_claims i)))))"

definition reportRefusal :: "Refusal \<Rightarrow> bool \<Rightarrow> policy_line list" where
  "reportRefusal ref json =
    (if json then [JsonRefusal ref]
     else RefusedLine (rf_reason ref) # (if rf_message ref \<noteq> '''' then [MessageLine (rf_message ref)] else []) @
       writeIdentity (rf_identity ref) @ (if rf_reason ref = NoPolicy then [NoPolicyLine] else []))"

definition reportAdmitted :: "Placement \<Rightarrow> bool \<Rightarrow> policy_line list" where
  "reportAdmitted p json =
    (if json then [JsonPlacement p]
     else AdmittedLine (p_policy p) # writeIdentity (p_identity p) @ [WouldPlaceLine (p_cell p) (p_strategy p)])"

datatype policy_exit = PolicyNoClient new_client_error | PolicyRefused Refusal | PolicyFailed client_error | OutputFailed string

text \<open>\<open>writeErr\<close> is the first error of writing the output, which wins over the refusal.\<close>

definition runPolicyTest ::
  "(string \<Rightarrow> string) \<Rightarrow> (string \<Rightarrow> string option) \<Rightarrow> (placeRequest \<Rightarrow> wire) \<Rightarrow> string option \<Rightarrow> policyOptions \<Rightarrow>
    policy_exit option \<times> policy_line list" where
  "runPolicyTest getenv readFile wire writeErr o' =
    (case NewClient getenv readFile (pt_hub o') (pt_tokenFile o') (pt_timeout o') of
       Inl e \<Rightarrow> (Some (PolicyNoClient e), [])
     | Inr client \<Rightarrow>
       (case Client_Place (wire \<lparr>plq_workload = pt_workload o', plq_targetDark = False, plq_ttl = '''', plq_dryRun = True,
               plq_explain = False\<rparr>) of
          Inl (Declined ref) \<Rightarrow>
            (Some (case writeErr of Some e \<Rightarrow> OutputFailed e | None \<Rightarrow> PolicyRefused ref), reportRefusal ref (pt_json o'))
        | Inl e \<Rightarrow> (Some (PolicyFailed e), [])
        | Inr p \<Rightarrow> (map_option OutputFailed writeErr, reportAdmitted p (pt_json o'))))"

section \<open>Lemmas\<close>

lemma resolve_cell_Inr:
  assumes "resolve_cell env o' cfg = Inr cell"
  shows "has_prefix (rc_endpoint cell) ''https://'' \<and> has_prefix (rc_issuer cell) ''https://'' \<and>
    (ca_issuer o' \<noteq> '''' \<longrightarrow> rc_issuer cell = ca_issuer o') \<and>
    (ca_provider o' = '''' \<or> ca_provider o' \<in> set knownProviders \<longrightarrow> rc_provider cell \<in> set knownProviders)"
  using assms
  by (auto simp: resolve_cell_def Let_def inferProvider_def knownProviders_def split: if_splits sum.splits option.splits)

lemma cell_trust_valid: "ca_mintServiceAccount o' \<noteq> '''' \<Longrightarrow> ca_mintNamespace o' \<noteq> '''' \<Longrightarrow> ValidateTrust (cell_trust o') = None"
  by (simp add: ValidateTrust_None_iff cell_trust_def secretName_def)

lemma cell_secret_found:
  assumes "ca_mintServiceAccount o' \<noteq> ''''" "ca_mintNamespace o' \<noteq> ''''"
    and "trSecret r (trNamespace r) (secretName o') = Inr data" "map_of data credentialKey = Some raw" "raw \<noteq> ''''"
  shows "fst (evaluate_trust r (cell_trust o')) = TrustReasonValid"
proof -
  have "credentialKey \<noteq> ''''" by (simp add: credentialKey_def)
  then have "checkSecret r \<lparr>secret_name = secretName o', secret_key = credentialKey\<rparr> = ('''', '''')"
    using assms(3-5) by (simp add: checkSecret_def)
  then show ?thesis by (simp add: evaluate_trust_def cell_trust_valid [OF assms(1,2)]) (simp add: cell_trust_def)
qed

section \<open>Properties\<close>

text \<open>
  C40. What \<open>cell add\<close> prints fits together and fits the hub. When the command succeeds for a named service account, the printed trust
  configuration is one the broker accepts, the printed cluster refers to it in the same namespace, with a provider and a state the
  hub knows; once the secret of the printed step exists, under the key it names, the trust configuration reads as valid; and
  the agent's own service account, with a token of the issuer the operator is told to trust, is the one reporter the hub hears.
\<close>

theorem enrolment_is_consistent:
  assumes "runCellAdd env o' = Inr (trust, cl, steps)" and "ca_mintServiceAccount o' \<noteq> ''''" and "ca_mintNamespace o' \<noteq> ''''"
  shows "ValidateTrust trust = None \<and> trustConfigRef (cl_spec cl) = trust_name trust \<and> cl_namespace cl = trust_namespace trust \<and>
    provider (cl_spec cl) \<in> {ProviderEKS, ProviderGKE, ProviderAKS, ProviderGeneric} \<and>
    state (cl_spec cl) \<in> {ClusterStateLive, ClusterStateDark, ClusterStateDraining} \<and> has_prefix (endpoint (cl_spec cl)) ''https://'' \<and>
    (\<exists>sa saNs hubNs secret key kubeconf. CreateSecretStep sa saNs hubNs secret key kubeconf \<in> set steps \<and>
      (\<forall>r data raw. trNamespace r = hubNs \<and> trSecret r hubNs secret = Inr data \<and> map_of data key = Some raw \<and> raw \<noteq> '''' \<longrightarrow>
        fst (evaluate_trust r trust) = TrustReasonValid)) \<and>
    (\<exists>iss. TrustIssuerStep iss \<in> set steps \<and> (\<forall>idn. authorizeReporter cl (Some idn) = None \<longleftrightarrow>
      id_issuer idn = iss \<and> id_subject idn = ''system:serviceaccount:'' @ ca_agentNamespace o' @ '':'' @ ca_agentServiceAccount o'))"
proof -
  from assms(1) obtain cfg cell where v: "validate_cell (ce_dnsErrors env) o' = None" and r: "resolve_cell env o' cfg = Inr cell"
    and t: "trust = cell_trust o'" and c: "cl = cell_cluster o' cell" and s: "steps = writeNextSteps o' (rc_issuer cell)"
    by (auto simp: runCellAdd_def cell_objects_def split: option.splits sum.splits)
  from v have p: "ca_provider o' = '''' \<or> ca_provider o' \<in> set knownProviders"
    and st: "ca_state o' \<in> {ClusterStateLive, ClusterStateDark, ClusterStateDraining}"
    by (auto simp: validate_cell_def split: if_splits)
  note cell = resolve_cell_Inr [OF r]
  have secret: "CreateSecretStep (ca_mintServiceAccount o') (ca_mintNamespace o') (ca_hubNamespace o') (secretName o') credentialKey
      (ca_kubeconfig o') \<in> set steps" and trusted: "TrustIssuerStep (rc_issuer cell) \<in> set steps"
    by (simp_all add: s writeNextSteps_def)
  have valid: "fst (evaluate_trust r trust) = TrustReasonValid"
    if "trNamespace r = ca_hubNamespace o' \<and> trSecret r (ca_hubNamespace o') (secretName o') = Inr data \<and>
      map_of data credentialKey = Some raw \<and> raw \<noteq> ''''" for r :: "'a trust_reconciler" and data raw
    unfolding t using cell_secret_found [OF assms(2,3), of r data raw] that by simp
  have reporter: "authorizeReporter cl (Some idn) = None \<longleftrightarrow> id_issuer idn = rc_issuer cell \<and>
      id_subject idn = ''system:serviceaccount:'' @ ca_agentNamespace o' @ '':'' @ ca_agentServiceAccount o'" for idn
    by (simp add: c cell_cluster_def authorizeReporter_def)
  have "provider (cl_spec cl) \<in> {ProviderEKS, ProviderGKE, ProviderAKS, ProviderGeneric}"
    using cell p by (auto simp: c cell_cluster_def knownProviders_def)
  moreover have "state (cl_spec cl) \<in> {ClusterStateLive, ClusterStateDark, ClusterStateDraining}" using st by (simp add: c cell_cluster_def)
  moreover have "has_prefix (endpoint (cl_spec cl)) ''https://''" using cell by (simp add: c cell_cluster_def)
  moreover have "ValidateTrust trust = None" "trustConfigRef (cl_spec cl) = trust_name trust" "cl_namespace cl = trust_namespace trust"
    by (simp_all add: c t cell_trust_valid [OF assms(2,3)]) (simp_all add: cell_cluster_def cell_trust_def)
  ultimately show ?thesis using secret valid trusted reporter by blast
qed

section \<open>Witnesses\<close>

definition sample_cell_env :: cell_env where
  "sample_cell_env = \<lparr>ce_load = (\<lambda>_ _. Inr \<lparr>rest_host = ''https://blue/'', rest_caData = ''pem'', rest_caFile = ''''\<rparr>), ce_readFile = (\<lambda>_. None),
    ce_dnsErrors = (\<lambda>_. []), ce_hostname = (\<lambda>_. Some ''blue''), ce_decode = (\<lambda>_. Some (JObj [(''issuer'', JStr ''https://blue'')], '''')),
    ce_discover = (\<lambda>_. Answer 200 ''200 OK'' ''{}'')\<rparr>"

definition sample_cell_options :: cellAddOptions where
  "sample_cell_options = \<lparr>ca_kubeconfig = ''k'', ca_context = '''', ca_name = ''blue'', ca_hubNamespace = ''cellcast-system'', ca_labels = [],
    ca_provider = '''', ca_state = ''LIVE'', ca_issuer = ''https://blue-oidc'', ca_mintServiceAccount = ''deployer'', ca_mintNamespace = ''apps'',
    ca_agentNamespace = ''cellcast-system'', ca_agentServiceAccount = ''cellcast-agent'', ca_timeout = 15 * Second\<rparr>"

theorem enrolment_is_consistent_witness:
  "\<exists>trust cl steps. runCellAdd sample_cell_env sample_cell_options = Inr (trust, cl, steps) \<and> ValidateTrust trust = None \<and>
    trustConfigRef (cl_spec cl) = trust_name trust"
proof -
  have "runCellAdd sample_cell_env sample_cell_options \<noteq> Inl e" for e
    by (simp add: runCellAdd_def validate_cell_def resolve_cell_def cell_caBundle_def cell_objects_def sample_cell_env_def
        sample_cell_options_def trim_right_def has_prefix_def api_defs Let_def)
  then obtain trust cl steps where h: "runCellAdd sample_cell_env sample_cell_options = Inr (trust, cl, steps)"
    by (metis sum.exhaust prod_cases3)
  have "ca_mintServiceAccount sample_cell_options \<noteq> ''''" "ca_mintNamespace sample_cell_options \<noteq> ''''"
    by (simp_all add: sample_cell_options_def)
  from enrolment_is_consistent [OF h this] h show ?thesis by blast
qed

end
