(* ===== verification/CommandLine.thy ===== *)
theory CommandLine
  imports HubMain AgentRun CliAdmin
begin

text \<open>
  The command lines: \<open>newRootCmd\<close> of \<open>cmd/cellcast-hub\<close> and \<open>cmd/cellcast-agent\<close>, the commands of \<open>internal/cli\<close> and \<open>AddFlags\<close> of
  \<open>internal/telemetry\<close>.

  A flag is its name and the variable it is bound to, which is a field of the options: reading it and writing it. Cobra and pflag, which
  split the arguments and parse the values, are not part of the repository; what they do with a flag is to write values to its variable.
  A flag's default is what the options hold when the command is built. Usage texts are left out.
\<close>

section \<open>Flags\<close>

datatype flag_value =
    StringValue string | DurationValue duration | IntValue int | FloatValue flt | BoolValue bool | StringsValue "string list" | MapValue labels

record 'c flag =
  fl_name :: string
  fl_get :: "'c \<Rightarrow> flag_value"
  fl_set :: "flag_value \<Rightarrow> 'c \<Rightarrow> 'c"
  fl_fits :: "flag_value \<Rightarrow> bool"

text \<open>A binding of a variable of any type: a value of another type is never written, pflag refuses it.\<close>

definition bind_var :: "('a \<Rightarrow> flag_value) \<Rightarrow> (flag_value \<Rightarrow> 'a option) \<Rightarrow> ('c \<Rightarrow> 'a) \<Rightarrow> (('a \<Rightarrow> 'a) \<Rightarrow> 'c \<Rightarrow> 'c) \<Rightarrow> string \<Rightarrow> 'c flag" where
  "bind_var wrap unwrap get upd name =
    \<lparr>fl_name = name, fl_get = (\<lambda>c. wrap (get c)),
     fl_set = (\<lambda>v c. case unwrap v of None \<Rightarrow> c | Some x \<Rightarrow> upd (\<lambda>_. x) c), fl_fits = (\<lambda>v. unwrap v \<noteq> None)\<rparr>"

definition as_string :: "flag_value \<Rightarrow> string option" where
  "as_string v = (case v of StringValue x \<Rightarrow> Some x | _ \<Rightarrow> None)"
definition as_duration :: "flag_value \<Rightarrow> duration option" where
  "as_duration v = (case v of DurationValue x \<Rightarrow> Some x | _ \<Rightarrow> None)"
definition as_int :: "flag_value \<Rightarrow> int option" where
  "as_int v = (case v of IntValue x \<Rightarrow> Some x | _ \<Rightarrow> None)"
definition as_float :: "flag_value \<Rightarrow> flt option" where
  "as_float v = (case v of FloatValue x \<Rightarrow> Some x | _ \<Rightarrow> None)"
definition as_bool :: "flag_value \<Rightarrow> bool option" where
  "as_bool v = (case v of BoolValue x \<Rightarrow> Some x | _ \<Rightarrow> None)"
definition as_strings :: "flag_value \<Rightarrow> (string list) option" where
  "as_strings v = (case v of StringsValue x \<Rightarrow> Some x | _ \<Rightarrow> None)"
definition as_map :: "flag_value \<Rightarrow> labels option" where
  "as_map v = (case v of MapValue x \<Rightarrow> Some x | _ \<Rightarrow> None)"

definition StringVar where
  "StringVar = bind_var StringValue as_string"
definition DurationVar where
  "DurationVar = bind_var DurationValue as_duration"
definition IntVar where
  "IntVar = bind_var IntValue as_int"
definition Float64Var where
  "Float64Var = bind_var FloatValue as_float"
definition BoolVar where
  "BoolVar = bind_var BoolValue as_bool"
definition StringArrayVar where
  "StringArrayVar = bind_var StringsValue as_strings"
definition StringToStringVar where
  "StringToStringVar = bind_var MapValue as_map"

text \<open>A command: what its options hold at first, its flags, and the ones marked as required.\<close>

record 'c command =
  cmd_use :: string
  cmd_options :: 'c
  cmd_flags :: "'c flag list"
  cmd_required :: "string list"

section \<open>The commands\<close>

definition tel_AddFlags :: "('c \<Rightarrow> tel_Config) \<Rightarrow> ((tel_Config \<Rightarrow> tel_Config) \<Rightarrow> 'c \<Rightarrow> 'c) \<Rightarrow> 'c flag list" where
  "tel_AddFlags get upd =
    [StringVar (tc_endpoint \<circ> get) (upd \<circ> tc_endpoint_update) ''otlp-endpoint'',
     StringVar (tc_protocol \<circ> get) (upd \<circ> tc_protocol_update) ''otlp-protocol'',
     Float64Var (tc_sampleRatio \<circ> get) (upd \<circ> tc_sampleRatio_update) ''trace-sample-ratio'']"

definition hub_newRootCmd :: "hub_flags command" where
  "hub_newRootCmd = \<lparr>cmd_use = ''cellcast-hub'',
    cmd_options = \<lparr>hf_cfg = DefaultConfig, hf_mgr = default_manager, hf_auth = oidc_DefaultConfig, hf_tel = tel_DefaultConfig, hf_issuers = []\<rparr>,
    cmd_flags =
     [StringVar (cfg_addr \<circ> hf_cfg) (hf_cfg_update \<circ> cfg_addr_update) ''addr'',
      StringVar (cfg_probeAddr \<circ> hf_cfg) (hf_cfg_update \<circ> cfg_probeAddr_update) ''probe-addr'',
      DurationVar (cfg_readHeaderTimeout \<circ> hf_cfg) (hf_cfg_update \<circ> cfg_readHeaderTimeout_update) ''read-header-timeout'',
      DurationVar (cfg_shutdownTimeout \<circ> hf_cfg) (hf_cfg_update \<circ> cfg_shutdownTimeout_update) ''shutdown-timeout'',
      DurationVar (cfg_drainDelay \<circ> hf_cfg) (hf_cfg_update \<circ> cfg_drainDelay_update) ''drain-delay'',
      DurationVar (cfg_warmupTimeout \<circ> hf_cfg) (hf_cfg_update \<circ> cfg_warmupTimeout_update) ''warmup-timeout'',
      StringVar (cfg_logLevel \<circ> hf_cfg) (hf_cfg_update \<circ> cfg_logLevel_update) ''log-level'',
      StringVar (cfg_logFormat \<circ> hf_cfg) (hf_cfg_update \<circ> cfg_logFormat_update) ''log-format'',
      StringVar (cfg_namespace \<circ> hf_cfg) (hf_cfg_update \<circ> cfg_namespace_update) ''namespace'',
      DurationVar (cfg_capacityStaleness \<circ> hf_cfg) (hf_cfg_update \<circ> cfg_capacityStaleness_update) ''capacity-staleness'',
      DurationVar (cfg_capacityRetention \<circ> hf_cfg) (hf_cfg_update \<circ> cfg_capacityRetention_update) ''capacity-retention'',
      IntVar (cfg_capacityMaxCells \<circ> hf_cfg) (hf_cfg_update \<circ> cfg_capacityMaxCells_update) ''capacity-max-cells'',
      StringVar (cfg_peers \<circ> hf_cfg) (hf_cfg_update \<circ> cfg_peers_update) ''peers'',
      DurationVar (cfg_tokenTTLCeiling \<circ> hf_cfg) (hf_cfg_update \<circ> cfg_tokenTTLCeiling_update) ''token-max-ttl'',
      Float64Var (cfg_placementRateLimit \<circ> hf_cfg) (hf_cfg_update \<circ> cfg_placementRateLimit_update) ''placement-rate-limit'',
      IntVar (cfg_placementBurst \<circ> hf_cfg) (hf_cfg_update \<circ> cfg_placementBurst_update) ''placement-burst'',
      DurationVar (cfg_stickinessExpireAfter \<circ> hf_cfg) (hf_cfg_update \<circ> cfg_stickinessExpireAfter_update) ''stickiness-expire-after'',
      IntVar (cfg_stickinessMaxPerPolicy \<circ> hf_cfg) (hf_cfg_update \<circ> cfg_stickinessMaxPerPolicy_update) ''stickiness-max-per-policy'',
      StringVar (mo_metricsAddr \<circ> hf_mgr) (hf_mgr_update \<circ> mo_metricsAddr_update) ''metrics-addr'',
      BoolVar (mo_leaderElection \<circ> hf_mgr) (hf_mgr_update \<circ> mo_leaderElection_update) ''leader-election'',
      StringVar (mo_leaderElectionNamespace \<circ> hf_mgr) (hf_mgr_update \<circ> mo_leaderElectionNamespace_update) ''leader-election-namespace'',
      StringArrayVar hf_issuers hf_issuers_update ''oidc-issuer'',
      StringVar (oc_audience \<circ> hf_auth) (hf_auth_update \<circ> oc_audience_update) ''oidc-audience'',
      DurationVar (oc_clockSkew \<circ> hf_auth) (hf_auth_update \<circ> oc_clockSkew_update) ''oidc-clock-skew'',
      DurationVar (oc_refreshInterval \<circ> hf_auth) (hf_auth_update \<circ> oc_refreshInterval_update) ''oidc-refresh-interval'',
      DurationVar (oc_httpTimeout \<circ> hf_auth) (hf_auth_update \<circ> oc_httpTimeout_update) ''oidc-http-timeout'',
      StringVar (oc_caFile \<circ> hf_auth) (hf_auth_update \<circ> oc_caFile_update) ''oidc-ca-file''] @ tel_AddFlags hf_tel hf_tel_update,
    cmd_required = []\<rparr>"

record agent_flags =
  af_cfg :: agent_Config
  af_tel :: tel_Config

definition agent_newRootCmd :: "agent_flags command" where
  "agent_newRootCmd = \<lparr>cmd_use = ''cellcast-agent'', cmd_options = \<lparr>af_cfg = agent_DefaultConfig, af_tel = tel_DefaultConfig\<rparr>,
    cmd_flags =
     [StringVar (ag_hubEndpoint \<circ> af_cfg) (af_cfg_update \<circ> ag_hubEndpoint_update) ''hub-endpoint'',
      StringVar (ag_hubCAFile \<circ> af_cfg) (af_cfg_update \<circ> ag_hubCAFile_update) ''hub-ca-file'',
      StringVar (ag_cellName \<circ> af_cfg) (af_cfg_update \<circ> ag_cellName_update) ''cell-name'',
      StringVar (ag_tokenPath \<circ> af_cfg) (af_cfg_update \<circ> ag_tokenPath_update) ''token-path'',
      DurationVar (ag_interval \<circ> af_cfg) (af_cfg_update \<circ> ag_interval_update) ''heartbeat-interval'',
      DurationVar (ag_timeout \<circ> af_cfg) (af_cfg_update \<circ> ag_timeout_update) ''request-timeout'',
      DurationVar (ag_maxBackoff \<circ> af_cfg) (af_cfg_update \<circ> ag_maxBackoff_update) ''max-backoff'',
      StringVar (ag_kubeconfig \<circ> af_cfg) (af_cfg_update \<circ> ag_kubeconfig_update) ''kubeconfig'',
      StringVar (ag_namespace \<circ> af_cfg) (af_cfg_update \<circ> ag_namespace_update) ''namespace'',
      BoolVar (ag_leaderElection \<circ> af_cfg) (af_cfg_update \<circ> ag_leaderElection_update) ''leader-election'',
      StringVar (ag_probeAddr \<circ> af_cfg) (af_cfg_update \<circ> ag_probeAddr_update) ''probe-addr'',
      StringVar (ag_logLevel \<circ> af_cfg) (af_cfg_update \<circ> ag_logLevel_update) ''log-level'',
      StringVar (ag_logFormat \<circ> af_cfg) (af_cfg_update \<circ> ag_logFormat_update) ''log-format''] @ tel_AddFlags af_tel af_tel_update,
    cmd_required = []\<rparr>"

definition newPlaceCmd :: "(string \<Rightarrow> string) \<Rightarrow> placeOptions command" where
  "newPlaceCmd getenv = \<lparr>cmd_use = ''place'',
    cmd_options = \<lparr>po_hub = getenv ''CELLCAST_HUB'', po_tokenFile = '''', po_workload = '''', po_ttl = '''',
      po_kubeconfig = ''cellcast.kubeconfig'', po_onUnavailable = stanceFail, po_cacheDir = '''', po_cacheTTL = DefaultCacheTTL,
      po_dark = False, po_dryRun = False, po_explain = False, po_json = False, po_timeout = 30 * Second\<rparr>,
    cmd_flags =
     [StringVar po_hub po_hub_update ''hub'', StringVar po_tokenFile po_tokenFile_update ''token-file'',
      StringVar po_workload po_workload_update ''workload'', StringVar po_ttl po_ttl_update ''ttl'',
      StringVar po_kubeconfig po_kubeconfig_update ''kubeconfig'', StringVar po_onUnavailable po_onUnavailable_update ''on-unavailable'',
      StringVar po_cacheDir po_cacheDir_update ''cache-dir'', DurationVar po_cacheTTL po_cacheTTL_update ''cache-ttl'',
      BoolVar po_dark po_dark_update ''dark'', BoolVar po_dryRun po_dryRun_update ''dry-run'',
      BoolVar po_explain po_explain_update ''explain'', BoolVar po_json po_json_update ''json'',
      DurationVar po_timeout po_timeout_update ''timeout''],
    cmd_required = [''workload'']\<rparr>"

definition newCellAddCmd :: "cellAddOptions command" where
  "newCellAddCmd = \<lparr>cmd_use = ''add'',
    cmd_options = \<lparr>ca_kubeconfig = '''', ca_context = '''', ca_name = '''', ca_hubNamespace = ''cellcast-system'', ca_labels = [],
      ca_provider = '''', ca_state = ClusterStateLive, ca_issuer = '''', ca_mintServiceAccount = '''', ca_mintNamespace = '''',
      ca_agentNamespace = ''cellcast-system'', ca_agentServiceAccount = ''cellcast-agent'', ca_timeout = 15 * Second\<rparr>,
    cmd_flags =
     [StringVar ca_kubeconfig ca_kubeconfig_update ''kubeconfig'', StringVar ca_context ca_context_update ''context'',
      StringVar ca_name ca_name_update ''name'', StringVar ca_hubNamespace ca_hubNamespace_update ''hub-namespace'',
      StringToStringVar ca_labels ca_labels_update ''labels'', StringVar ca_provider ca_provider_update ''provider'',
      StringVar ca_state ca_state_update ''state'', StringVar ca_issuer ca_issuer_update ''issuer'',
      StringVar ca_mintServiceAccount ca_mintServiceAccount_update ''mint-service-account'',
      StringVar ca_mintNamespace ca_mintNamespace_update ''mint-namespace'',
      StringVar ca_agentNamespace ca_agentNamespace_update ''agent-namespace'',
      StringVar ca_agentServiceAccount ca_agentServiceAccount_update ''agent-service-account'',
      DurationVar ca_timeout ca_timeout_update ''timeout''],
    cmd_required = [''kubeconfig'', ''name'', ''mint-service-account'', ''mint-namespace'']\<rparr>"

definition newPolicyTestCmd :: "(string \<Rightarrow> string) \<Rightarrow> policyOptions command" where
  "newPolicyTestCmd getenv = \<lparr>cmd_use = ''test'',
    cmd_options = \<lparr>pt_hub = getenv ''CELLCAST_HUB'', pt_tokenFile = '''', pt_workload = '''', pt_timeout = 30 * Second, pt_json = False\<rparr>,
    cmd_flags =
     [StringVar pt_hub pt_hub_update ''hub'', StringVar pt_tokenFile pt_tokenFile_update ''token-file'',
      StringVar pt_workload pt_workload_update ''workload'', DurationVar pt_timeout pt_timeout_update ''timeout'',
      BoolVar pt_json pt_json_update ''json''],
    cmd_required = [''workload'']\<rparr>"

section \<open>What the bindings promise\<close>

text \<open>Writing a flag's variable makes it read as what was written, and no other flag's; the names differ, as pflag insists.\<close>

definition disjoint_flags :: "'c flag \<Rightarrow> 'c flag \<Rightarrow> bool" where
  "disjoint_flags f g \<longleftrightarrow> (\<forall>v c. fl_get f (fl_set g v c) = fl_get f c)"

definition sound_flag :: "'c flag \<Rightarrow> bool" where
  "sound_flag f \<longleftrightarrow> (\<forall>v c. fl_fits f v \<longrightarrow> fl_get f (fl_set f v c) = v) \<and> (\<forall>c. fl_fits f (fl_get f c))"

fun separate :: "'c flag list \<Rightarrow> bool" where
  "separate [] = True"
| "separate (f # fs) = (sound_flag f \<and> (\<forall>g \<in> set fs. fl_name f \<noteq> fl_name g \<and> disjoint_flags f g \<and> disjoint_flags g f) \<and> separate fs)"

text \<open>The options after a sequence of settings, and the value a flag is left with: its last setting, or what it held.\<close>

definition set_all :: "('c flag \<times> flag_value) list \<Rightarrow> 'c \<Rightarrow> 'c" where
  "set_all ss c = foldl (\<lambda>c (f, v). fl_set f v c) c ss"

definition last_setting :: "('c flag \<times> flag_value) list \<Rightarrow> 'c \<Rightarrow> 'c flag \<Rightarrow> flag_value" where
  "last_setting ss c f = foldl (\<lambda>w (g, v). if fl_name g = fl_name f then v else w) (fl_get f c) ss"

definition settings_of :: "'c flag list \<Rightarrow> ('c flag \<times> flag_value) list \<Rightarrow> bool" where
  "settings_of fs ss \<longleftrightarrow> (\<forall>(f, v) \<in> set ss. f \<in> set fs \<and> fl_fits f v)"

lemma separateD:
  assumes "separate fs" and "f \<in> set fs"
  shows "sound_flag f" and "g \<in> set fs \<Longrightarrow> fl_name g = fl_name f \<Longrightarrow> g = f" and "g \<in> set fs \<Longrightarrow> g \<noteq> f \<Longrightarrow> disjoint_flags f g"
  using assms by (induction fs) auto

lemma separate_distinct: "separate fs \<Longrightarrow> distinct (map fl_name fs)"
  by (induction fs) auto

locale command_line =
  fixes flags :: "'c flag list"
  assumes separate: "separate flags"
begin

lemma set_one:
  assumes "f \<in> set flags" and "g \<in> set flags" and "fl_fits g v"
  shows "fl_get f (fl_set g v c) = (if fl_name g = fl_name f then v else fl_get f c)"
proof (cases "g = f")
  case True
  with separateD(1) [OF separate assms(1)] assms(3) show ?thesis by (simp add: sound_flag_def)
next
  case False
  with separateD(2,3) [OF separate assms(1,2)] show ?thesis by (auto simp: disjoint_flags_def)
qed

lemma last_wins:
  assumes "settings_of flags ss" and "f \<in> set flags"
  shows "fl_get f (set_all ss c) = last_setting ss c f"
  using assms
proof (induction ss arbitrary: c)
  case (Cons s ss)
  obtain g v where s: "s = (g, v)" by (cases s)
  from Cons.prems s have g: "g \<in> set flags" "fl_fits g v" "settings_of flags ss" by (auto simp: settings_of_def)
  have "last_setting ss (fl_set g v c) f = last_setting ((g, v) # ss) c f"
    by (simp add: last_setting_def set_one [OF Cons.prems(2) g(1,2)])
  with Cons.IH [OF g(3) Cons.prems(2)] show ?case by (simp add: set_all_def s)
qed (simp add: set_all_def last_setting_def)

text \<open>Setting every flag to what some options hold reproduces them.\<close>

lemma reproduces:
  assumes "f \<in> set flags"
  shows "fl_get f (set_all (map (\<lambda>g. (g, fl_get g d)) flags) c) = fl_get f d"
proof -
  have "settings_of flags (map (\<lambda>g. (g, fl_get g d)) flags)"
    using separateD(1) [OF separate] by (auto simp: settings_of_def sound_flag_def)
  moreover have "last_setting (map (\<lambda>g. (g, fl_get g d)) fs) c f =
      (if f \<in> set fs then fl_get f d else fl_get f c)" if "set fs \<subseteq> set flags" for fs
    using that
  proof (induction fs rule: rev_induct)
    case (snoc g fs)
    with separateD(2) [OF separate assms, of g] show ?case by (auto simp: last_setting_def)
  qed (simp add: last_setting_def)
  ultimately show ?thesis using last_wins assms by simp
qed

end

section \<open>The bindings of the repository\<close>

lemma bind_var_name [simp]: "fl_name (bind_var wrap unwrap get upd n) = n"
  by (simp add: bind_var_def)

lemma bind_var_sound:
  assumes "\<And>v x. unwrap v = Some x \<longleftrightarrow> v = wrap x"
    and "\<And>x c. get (upd (\<lambda>_. x) c) = x"
  shows "sound_flag (bind_var wrap unwrap get upd n)"
proof -
  have r: "unwrap (wrap x) = Some x" for x using assms(1) by blast
  have d: "v = wrap x" if "unwrap v = Some x" for v x using that assms(1) by blast
  show ?thesis by (auto simp: sound_flag_def bind_var_def r assms(2) dest: d)
qed

lemma bind_var_disjoint:
  assumes "\<And>x c. get (upd' (\<lambda>_. x) c) = get c"
  shows "disjoint_flags (bind_var wrap unwrap get upd n) (bind_var wrap' unwrap' get' upd' n')"
  using assms by (simp add: disjoint_flags_def bind_var_def split: option.split)

lemmas flag_vars = StringVar_def DurationVar_def IntVar_def Float64Var_def BoolVar_def StringArrayVar_def StringToStringVar_def

lemma as_iff [simp]:
  "as_string v = Some x \<longleftrightarrow> v = StringValue x"
  "as_duration v = Some y \<longleftrightarrow> v = DurationValue y"
  "as_int v = Some z \<longleftrightarrow> v = IntValue z"
  "as_float v = Some b \<longleftrightarrow> v = FloatValue b"
  "as_bool v = Some d \<longleftrightarrow> v = BoolValue d"
  "as_strings v = Some m \<longleftrightarrow> v = StringsValue m"
  "as_map v = Some n \<longleftrightarrow> v = MapValue n"
  by (auto simp: as_string_def as_duration_def as_int_def as_float_def as_bool_def as_strings_def as_map_def split: flag_value.splits)

lemma policy_flags_separate: "separate (cmd_flags (newPolicyTestCmd getenv))"
  by (simp add: newPolicyTestCmd_def flag_vars bind_var_sound bind_var_disjoint)

lemma place_flags_separate: "separate (cmd_flags (newPlaceCmd getenv))"
  by (simp add: newPlaceCmd_def flag_vars bind_var_sound bind_var_disjoint)

lemma cell_flags_separate: "separate (cmd_flags newCellAddCmd)"
  by (simp add: newCellAddCmd_def flag_vars bind_var_sound bind_var_disjoint)

lemma agent_flags_separate: "separate (cmd_flags agent_newRootCmd)"
  by (simp add: agent_newRootCmd_def tel_AddFlags_def flag_vars bind_var_sound bind_var_disjoint)

lemma hub_flags_separate: "separate (cmd_flags hub_newRootCmd)"
  by (simp add: hub_newRootCmd_def tel_AddFlags_def flag_vars bind_var_sound bind_var_disjoint)

interpretation hub_line: command_line "cmd_flags hub_newRootCmd"
  by unfold_locales (rule hub_flags_separate)

interpretation agent_line: command_line "cmd_flags agent_newRootCmd"
  by unfold_locales (rule agent_flags_separate)

interpretation place_line: command_line "cmd_flags (newPlaceCmd getenv)" for getenv
  by unfold_locales (rule place_flags_separate)

interpretation cell_line: command_line "cmd_flags newCellAddCmd"
  by unfold_locales (rule cell_flags_separate)

interpretation policy_line: command_line "cmd_flags (newPolicyTestCmd getenv)" for getenv
  by unfold_locales (rule policy_flags_separate)

section \<open>Properties\<close>

text \<open>
  A command whose constructor does not panic, since pflag refuses a name declared twice and \<open>MarkFlagRequired\<close> one that is not declared,
  and whose flags each set their own option: after any settings, a flag reads as its last setting, or as the default without one.
\<close>

definition well_bound :: "'c command \<Rightarrow> bool" where
  "well_bound cmd \<longleftrightarrow>
    distinct (map fl_name (cmd_flags cmd)) \<and> set (cmd_required cmd) \<subseteq> set (map fl_name (cmd_flags cmd)) \<and>
    (\<forall>ss f. settings_of (cmd_flags cmd) ss \<longrightarrow> f \<in> set (cmd_flags cmd) \<longrightarrow>
      fl_get f (set_all ss (cmd_options cmd)) = last_setting ss (cmd_options cmd) f)"

lemma well_boundI:
  assumes "command_line (cmd_flags cmd)" and "set (cmd_required cmd) \<subseteq> set (map fl_name (cmd_flags cmd))"
  shows "well_bound cmd"
  using command_line.last_wins [OF assms(1)] assms(2) separate_distinct [OF command_line.separate [OF assms(1)]]
  by (simp add: well_bound_def)

lemmas flag_tables = hub_newRootCmd_def agent_newRootCmd_def newPlaceCmd_def newCellAddCmd_def newPolicyTestCmd_def tel_AddFlags_def

lemma hub_flags_cover:
  assumes "\<forall>f \<in> set (cmd_flags hub_newRootCmd). fl_get f c = fl_get f d"
    and "mo_namespace (hf_mgr c) = mo_namespace (hf_mgr d)" and "oc_issuers (hf_auth c) = oc_issuers (hf_auth d)"
  shows "c = d"
proof -
  from assms(1) have "hf_cfg c = hf_cfg d" and "hf_issuers c = hf_issuers d" and "hf_tel c = hf_tel d"
    by (auto simp: hub_newRootCmd_def tel_AddFlags_def flag_vars bind_var_def intro!: Config.equality tel_Config.equality)
  moreover from assms have "hf_mgr c = hf_mgr d" and "hf_auth c = hf_auth d"
    by (auto simp: hub_newRootCmd_def flag_vars bind_var_def intro!: ManagerOptions.equality oidc_Config.equality)
  ultimately show ?thesis by simp
qed

lemma agent_flags_cover:
  assumes "\<forall>f \<in> set (cmd_flags agent_newRootCmd). fl_get f c = fl_get f d"
  shows "c = d"
proof -
  from assms have "af_cfg c = af_cfg d" and "af_tel c = af_tel d"
    by (auto simp: agent_newRootCmd_def tel_AddFlags_def flag_vars bind_var_def intro!: agent_Config.equality tel_Config.equality)
  then show ?thesis by simp
qed

text \<open>
  Every flag sets what it names and nothing else. In each of the five commands no two flags share a name or a variable and every
  required flag is declared, so building the command does not panic, and after any settings a flag reads as its last setting or its default;
  and no setting of the hub or of the agent is out of the reach of a flag: options that read alike are equal, but for the two fields the
  hub derives.
\<close>

theorem flags_set_what_they_name:
  "well_bound hub_newRootCmd \<and> well_bound agent_newRootCmd \<and> well_bound (newPlaceCmd getenv) \<and> well_bound newCellAddCmd \<and>
    well_bound (newPolicyTestCmd getenv) \<and>
    (\<forall>c d. (\<forall>f \<in> set (cmd_flags hub_newRootCmd). fl_get f c = fl_get f d) \<longrightarrow> mo_namespace (hf_mgr c) = mo_namespace (hf_mgr d) \<longrightarrow>
      oc_issuers (hf_auth c) = oc_issuers (hf_auth d) \<longrightarrow> c = d) \<and>
    (\<forall>c d. (\<forall>f \<in> set (cmd_flags agent_newRootCmd). fl_get f c = fl_get f d) \<longrightarrow> c = d)"
proof (intro conjI allI impI)
  show "well_bound hub_newRootCmd" "well_bound agent_newRootCmd" "well_bound (newPlaceCmd getenv)" "well_bound newCellAddCmd"
    "well_bound (newPolicyTestCmd getenv)"
    by (rule well_boundI, unfold_locales, rule hub_line.separate agent_line.separate place_line.separate cell_line.separate
        policy_line.separate, simp add: flag_tables flag_vars)+
qed (use hub_flags_cover agent_flags_cover in blast)+

text \<open>A hub started without flags runs with the default configuration, which is valid, and elects its leader in its own namespace.\<close>

theorem no_flags_is_the_default:
  assumes "tel_Validate parse getenv tel_DefaultConfig = None"
  shows "hub_RunE parse getenv (cmd_options hub_newRootCmd) =
      Inr (DefaultConfig, default_manager\<lparr>mo_namespace := cfg_namespace DefaultConfig, mo_leaderElectionNamespace := cfg_namespace DefaultConfig\<rparr>,
        oidc_DefaultConfig, tel_DefaultConfig) \<and>
    Config_Validate DefaultConfig = None"
  using assms default_config_valid
  by (simp add: hub_RunE_def hub_newRootCmd_def default_manager_def ValidateAgainst_def DefaultConfig_def oidc_DefaultConfig_def Let_def)

section \<open>Witnesses\<close>

text \<open>The probe address set twice and the namespace once.\<close>

theorem flags_set_what_they_name_witness:
  "let probe = StringVar (cfg_probeAddr \<circ> hf_cfg) (hf_cfg_update \<circ> cfg_probeAddr_update) ''probe-addr'';
       ns = StringVar (cfg_namespace \<circ> hf_cfg) (hf_cfg_update \<circ> cfg_namespace_update) ''namespace'';
       opts = set_all [(probe, StringValue '':1''), (ns, StringValue ''x''), (probe, StringValue '':2'')] (cmd_options hub_newRootCmd)
   in fl_get probe opts = StringValue '':2'' \<and> fl_get ns opts = StringValue ''x''"
proof -
  let ?probe = "StringVar (cfg_probeAddr \<circ> hf_cfg) (hf_cfg_update \<circ> cfg_probeAddr_update) ''probe-addr''"
  let ?ns = "StringVar (cfg_namespace \<circ> hf_cfg) (hf_cfg_update \<circ> cfg_namespace_update) ''namespace''"
  let ?ss = "[(?probe, StringValue '':1''), (?ns, StringValue ''x''), (?probe, StringValue '':2'')]"
  have m: "?probe \<in> set (cmd_flags hub_newRootCmd)" "?ns \<in> set (cmd_flags hub_newRootCmd)" by (simp_all add: hub_newRootCmd_def)
  have "settings_of (cmd_flags hub_newRootCmd) ?ss"
    using m by (simp add: settings_of_def StringVar_def bind_var_def as_string_def)
  moreover have "well_bound hub_newRootCmd" using flags_set_what_they_name by blast
  ultimately have "fl_get f (set_all ?ss (cmd_options hub_newRootCmd)) = last_setting ?ss (cmd_options hub_newRootCmd) f"
    if "f \<in> set (cmd_flags hub_newRootCmd)" for f using that unfolding well_bound_def by blast
  with m show ?thesis by (simp add: Let_def last_setting_def StringVar_def)
qed

end
