(* ===== verification/Process.thy ===== *)
theory Process
  imports CommandLine
begin

text \<open>
  What surrounds the parts of the processes: the loggers (\<open>internal/hub/logger.go\<close>, \<open>internal/agent/logger.go\<close>), the build information
  (\<open>internal/version\<close>), the command trees and exit codes of the three binaries, the registration of the controllers and the construction of
  the manager (\<open>cluster_controller.go\<close>, \<open>manager.go\<close>), the prune loop of the capacity index, the resolution of the peers, and the writers of
  the command line client.

  A handler of \<open>log/slog\<close> is its level and its format. Calls into controller-runtime, DNS, the network interfaces and the YAML encoder are
  parameters that say what they return.
\<close>

section \<open>Logging\<close>

definition LevelDebug :: int where "LevelDebug = - 4"
definition LevelInfo :: int where "LevelInfo = 0"
definition LevelWarn :: int where "LevelWarn = 4"
definition LevelError :: int where "LevelError = 8"

lemmas slog_levels = LevelDebug_def LevelInfo_def LevelWarn_def LevelError_def

datatype log_format = TextHandler | JSONHandler

record slog_Logger =
  lg_level :: int
  lg_format :: log_format

definition NewLogger :: "Config \<Rightarrow> slog_Logger" where
  "NewLogger cfg =
    (let level = (if cfg_logLevel cfg = ''debug'' then LevelDebug
                  else if cfg_logLevel cfg = ''warn'' then LevelWarn
                  else if cfg_logLevel cfg = ''error'' then LevelError
                  else LevelInfo)
     in if cfg_logFormat cfg = ''text'' then \<lparr>lg_level = level, lg_format = TextHandler\<rparr>
        else \<lparr>lg_level = level, lg_format = JSONHandler\<rparr>)"

definition NewAuditLogger :: "Config \<Rightarrow> slog_Logger" where
  "NewAuditLogger cfg =
    (if cfg_logFormat cfg = ''text'' then \<lparr>lg_level = LevelInfo, lg_format = TextHandler\<rparr>
     else \<lparr>lg_level = LevelInfo, lg_format = JSONHandler\<rparr>)"

definition agent_NewLogger :: "agent_Config \<Rightarrow> slog_Logger" where
  "agent_NewLogger cfg =
    (let level = (if ag_logLevel cfg = ''debug'' then LevelDebug
                  else if ag_logLevel cfg = ''warn'' then LevelWarn
                  else if ag_logLevel cfg = ''error'' then LevelError
                  else LevelInfo)
     in if ag_logFormat cfg = ''text'' then \<lparr>lg_level = level, lg_format = TextHandler\<rparr>
        else \<lparr>lg_level = level, lg_format = JSONHandler\<rparr>)"

text \<open>The line a call leaves on standard output, if its level is enabled.\<close>

record log_line =
  ll_format :: log_format
  ll_level :: int
  ll_msg :: string
  ll_attrs :: slog_attrs

definition LogAttrs :: "slog_Logger \<Rightarrow> int \<Rightarrow> string \<Rightarrow> slog_attrs \<Rightarrow> log_line list" where
  "LogAttrs lg level msg as =
    (if lg_level lg \<le> level then [\<lparr>ll_format = lg_format lg, ll_level = level, ll_msg = msg, ll_attrs = as\<rparr>] else [])"

text \<open>What a hub writes: its own lines through one logger, the records of the audit trail through the other, both to standard output.\<close>

datatype log_call = Operational int string slog_attrs | Audited audit_Record

fun stdout_of :: "Config \<Rightarrow> log_call \<Rightarrow> log_line list" where
  "stdout_of cfg (Operational level msg as) = LogAttrs (NewLogger cfg) level msg as"
| "stdout_of cfg (Audited rec) = LogAttrs (NewAuditLogger cfg) LevelInfo Msg (attrs rec)"

definition audited :: "log_call list \<Rightarrow> audit_Record list" where
  "audited calls = concat (map (\<lambda>c. case c of Audited rec \<Rightarrow> [rec] | _ \<Rightarrow> []) calls)"

section \<open>Build information and commands\<close>

definition version_Get :: "string \<Rightarrow> string \<Rightarrow> string \<Rightarrow> string \<Rightarrow> string \<Rightarrow> string \<Rightarrow> build_Info" where
  "version_Get version commit date goVersion goos goarch =
    \<lparr>bi_version = version, bi_commit = commit, bi_date = date, bi_goVersion = goVersion, bi_platform = goos @ ''/'' @ goarch\<rparr>"

definition Info_String :: "build_Info \<Rightarrow> string" where
  "Info_String i = bi_version i @ '' (commit '' @ bi_commit i @ '', built '' @ bi_date i @ '', '' @ bi_goVersion i @ '', '' @ bi_platform i @ '')''"

text \<open>A tree of commands by the first word of their usage, with whether a command runs something or only groups others.\<close>

datatype command_tree = Command (tree_use: string) (tree_runs: bool) (tree_subs: "command_tree list")

definition version_NewCommand :: command_tree where "version_NewCommand = Command ''version'' True []"
definition newPolicyCmd :: command_tree where "newPolicyCmd = Command ''policy'' False [Command ''test'' True []]"
definition newCellCmd :: command_tree where "newCellCmd = Command ''cell'' False [Command ''add'' True []]"

definition cli_NewRootCmd :: command_tree where
  "cli_NewRootCmd = Command ''cellcast'' False [Command ''place'' True [], newPolicyCmd, newCellCmd, version_NewCommand]"

text \<open>The words that lead to the commands that run something.\<close>

fun command_paths :: "command_tree \<Rightarrow> string list list" where
  "command_paths (Command use runs subs) =
    (if runs then [[use]] else []) @ concat (map (\<lambda>t. map ((#) use) (command_paths t)) subs)"

text \<open>\<open>main\<close> of each binary: the error of the command goes to standard error, and the exit code says that there was one.\<close>

definition main_exit :: "string option \<Rightarrow> nat \<times> string list" where
  "main_exit err = (case err of None \<Rightarrow> (0, []) | Some e \<Rightarrow> (1, [e]))"

section \<open>The manager and its controllers\<close>

datatype manager_error = ClientGoScheme string | CellcastScheme string | ClientConfig string | BuildingManager string

record manager_env =
  me_clientgo :: "string option"
  me_cellcast :: "string option"
  me_getConfig :: "string option"
  me_newManager :: "ctrl_Options \<Rightarrow> string option"

definition NewScheme :: "manager_env \<Rightarrow> manager_error option" where
  "NewScheme env =
    (case me_clientgo env of Some e \<Rightarrow> Some (ClientGoScheme e) | None \<Rightarrow> map_option CellcastScheme (me_cellcast env))"

definition NewManager :: "manager_env \<Rightarrow> ManagerOptions \<Rightarrow> manager_error + ctrl_Options" where
  "NewManager env mo =
    (case NewScheme env of
       Some e \<Rightarrow> Inl e
     | None \<Rightarrow>
       (case me_getConfig env of
          Some e \<Rightarrow> Inl (ClientConfig e)
        | None \<Rightarrow>
          (let options = controllerOptions mo
           in case me_newManager env options of Some e \<Rightarrow> Inl (BuildingManager e) | None \<Rightarrow> Inr options)))"

text \<open>What a controller is built with: the kind it reconciles, the kinds it also watches, and its name.\<close>

record controller_setup =
  su_for :: string
  su_watches :: "string list"
  su_name :: string

definition cluster_SetupWithManager :: controller_setup where
  "cluster_SetupWithManager = \<lparr>su_for = ''Cluster'', su_watches = [], su_name = ''cluster''\<rparr>"

definition policy_SetupWithManager :: controller_setup where
  "policy_SetupWithManager = \<lparr>su_for = ''PlacementPolicy'', su_watches = [''Cluster''], su_name = ''placementpolicy''\<rparr>"

definition trust_SetupWithManager :: controller_setup where
  "trust_SetupWithManager = \<lparr>su_for = ''TrustConfig'', su_watches = [], su_name = ''trustconfig''\<rparr>"

text \<open>A reconciler as it is registered, by what it is given beside the clients of the manager.\<close>

datatype registered = ClusterController bool | PlacementPolicyController "string list" | TrustConfigController string

fun setup_of :: "registered \<Rightarrow> controller_setup" where
  "setup_of (ClusterController _) = cluster_SetupWithManager"
| "setup_of (PlacementPolicyController _) = policy_SetupWithManager"
| "setup_of (TrustConfigController _) = trust_SetupWithManager"

text \<open>\<open>setup\<close> says whether the library refuses a controller.\<close>

fun register_each :: "(registered \<Rightarrow> string option) \<Rightarrow> registered list \<Rightarrow> (string \<times> string) + registered list" where
  "register_each setup [] = Inr []"
| "register_each setup (c # cs) =
    (case setup c of
       Some e \<Rightarrow> Inl (su_name (setup_of c), e)
     | None \<Rightarrow> (case register_each setup cs of Inl e \<Rightarrow> Inl e | Inr done' \<Rightarrow> Inr (c # done')))"

definition RegisterControllers ::
  "(registered \<Rightarrow> string option) \<Rightarrow> Registry option \<Rightarrow> string \<Rightarrow> string list \<Rightarrow> (string \<times> string) + registered list" where
  "RegisterControllers setup index namespace trustedIssuers =
    register_each setup [ClusterController (index \<noteq> None), PlacementPolicyController trustedIssuers, TrustConfigController namespace]"

section \<open>The prune loop\<close>

text \<open>
  What \<open>Run\<close> of the index does on a tick, between the heartbeats and deletions the routes and the controllers bring: the cells the sweep
  names go to the log with the staleness window.
\<close>

definition prune_lines :: "Registry \<Rightarrow> capacity_op \<Rightarrow> (string \<times> duration) list" where
  "prune_lines r op = (case op of Sweep t \<Rightarrow> map (\<lambda>cell. (cell, Staleness (opts r))) (fst (Prune r t)) | _ \<Rightarrow> [])"

fun Registry_Run :: "Registry \<Rightarrow> capacity_op list \<Rightarrow> (string \<times> duration) list list" where
  "Registry_Run r [] = []"
| "Registry_Run r (op # ops) = prune_lines r op # Registry_Run (registry_step r op) ops"

section \<open>Peers\<close>

datatype interface_addr = IPNet string | OtherAddr string

definition localAddresses :: "interface_addr list option \<Rightarrow> string list option" where
  "localAddresses addrs =
    map_option (\<lambda>as. concat (map (\<lambda>a. case a of IPNet ip \<Rightarrow> [ip] | OtherAddr _ \<Rightarrow> []) as)) addrs"

definition ResolvePeers ::
  "interface_addr list option \<Rightarrow> (string \<Rightarrow> string list option) \<Rightarrow> (string \<Rightarrow> string option) \<Rightarrow> string \<Rightarrow> (unit \<Rightarrow> string list option) option" where
  "ResolvePeers interfaces lookup parseIP hostport =
    (case SplitHostPort hostport of
       None \<Rightarrow> None
     | Some (host, port) \<Rightarrow>
       map_option (\<lambda>self _. resolvePeers port lookup parseIP self host) (localAddresses interfaces))"

section \<open>Writers\<close>

text \<open>\<open>lineWriter\<close> over a writer that answers each write with an error or none.\<close>

record 'w lineWriter =
  lw_w :: 'w
  lw_err :: "string option"

definition printf :: "(string \<Rightarrow> 'w \<Rightarrow> string option \<times> 'w) \<Rightarrow> 'w lineWriter \<Rightarrow> string \<Rightarrow> 'w lineWriter" where
  "printf write l line =
    (if lw_err l \<noteq> None then l else (case write line (lw_w l) of (e, w) \<Rightarrow> l\<lparr>lw_w := w, lw_err := e\<rparr>))"

fun writeManifests ::
  "('o \<Rightarrow> string + string) \<Rightarrow> (string \<Rightarrow> 'w \<Rightarrow> string option \<times> 'w) \<Rightarrow> 'o list \<Rightarrow> 'w \<Rightarrow> string option \<times> 'w" where
  "writeManifests manifest write [] w = (None, w)"
| "writeManifests manifest write (ob # obs) w =
    (case manifest ob of
       Inl e \<Rightarrow> (Some e, w)
     | Inr doc \<Rightarrow>
       (case write (''---'' @ [CHR 0x0A] @ doc) w of
          (Some e, w') \<Rightarrow> (Some e, w')
        | (None, w') \<Rightarrow> writeManifests manifest write obs w'))"

section \<open>Lemmas\<close>

text \<open>A cell the sweep has nothing to say about until it is heard again: it is not in the index, or its silence has been announced.\<close>

definition quiet :: "Registry \<Rightarrow> string \<Rightarrow> bool" where
  "quiet r cell \<longleftrightarrow> map_of (entries r) cell = None \<or> map_of (unknown r) cell = Some True"

definition heard :: "Registry \<Rightarrow> capacity_op \<Rightarrow> string \<Rightarrow> bool" where
  "heard r op cell \<longleftrightarrow> (\<exists>t rep. op = Heartbeat t rep \<and> Cell rep = cell \<and> fst (RegistryReport r t rep) = None)"

lemma quiet_says_nothing:
  assumes "reg_ok r" and "quiet r cell"
  shows "cell \<notin> fst ` set (prune_lines r op)"
proof (cases op)
  case (Sweep t)
  from prune_announces_once [OF assms(1), of t]
  have "set (fst (Prune r t)) = {cell. \<exists>s. map_of (entries r) cell = Some s \<and> announces (opts r) t (unknown r) (cell, s)}" by blast
  with assms(2) show ?thesis by (auto simp: prune_lines_def Sweep quiet_def announces_def)
qed (simp_all add: prune_lines_def)

lemma announced_is_quiet:
  assumes "reg_ok r" and "cell \<in> fst ` set (prune_lines r op)"
  shows "quiet (registry_step r op) cell"
proof (cases op)
  case (Sweep t)
  from assms(1) have d: "distinct (map fst (entries r))" by (simp add: reg_ok_def)
  from prune_announces_once [OF assms(1), of t] assms(2)
  obtain s where "map_of (entries r) cell = Some s" "announces (opts r) t (unknown r) (cell, s)"
    by (auto simp: prune_lines_def Sweep)
  then show ?thesis by (auto simp: Sweep quiet_def Prune_unknown [OF d] announces_def)
qed (use assms(2) in \<open>simp_all add: prune_lines_def\<close>)

lemma quiet_step:
  assumes "reg_ok r" and "quiet r cell" and "\<not> heard r op cell"
  shows "quiet (registry_step r op) cell"
proof (cases op)
  case (Heartbeat t rep)
  with assms(2,3) show ?thesis
    by (auto simp: quiet_def heard_def RegistryReport_def update_conv' delete_conv' split: option.splits if_splits)
next
  case (Decommission c)
  with assms(2) show ?thesis by (auto simp: quiet_def Forget_def delete_conv')
next
  case (Sweep t)
  from assms(1) have d: "distinct (map fst (entries r))" by (simp add: reg_ok_def)
  from assms(2) show ?thesis
    by (auto simp: Sweep quiet_def Prune_unknown [OF d] Prune_view [OF d] split: option.splits)
qed

lemma reg_ok_run: "reg_ok r \<Longrightarrow> reg_ok (foldl registry_step r ops)"
  by (rule registry.invar_run)

lemma quiet_run:
  assumes "reg_ok r" and "quiet r cell"
    and "\<And>k. k < length ops \<Longrightarrow> \<not> heard (foldl registry_step r (take k ops)) (ops ! k) cell"
  shows "quiet (foldl registry_step r ops) cell"
  using assms(3)
proof (induction ops rule: rev_induct)
  case (snoc op ops)
  have "\<not> heard (foldl registry_step r ops) op cell" using snoc.prems [of "length ops"] by simp
  moreover have "quiet (foldl registry_step r ops) cell"
  proof (rule snoc.IH)
    fix k assume "k < length ops"
    with snoc.prems [of k] show "\<not> heard (foldl registry_step r (take k ops)) (ops ! k) cell" by (simp add: nth_append)
  qed
  ultimately show ?case using quiet_step [OF reg_ok_run [OF assms(1)]] by simp
qed (use assms(2) in simp)

lemma Registry_Run_nth:
  "k < length ops \<Longrightarrow> Registry_Run r ops ! k = prune_lines (foldl registry_step r (take k ops)) (ops ! k)"
  by (induction ops arbitrary: r k) (auto simp: nth_Cons' take_Cons')

lemma flagged_step:
  assumes "reg_ok r" and "map_of (unknown (registry_step r op)) cell = Some True"
  shows "cell \<in> fst ` set (prune_lines r op) \<or> map_of (unknown r) cell = Some True \<and> \<not> heard r op cell"
proof (cases op)
  case (Heartbeat t rep)
  with assms(2) show ?thesis
    by (auto simp: heard_def RegistryReport_def delete_conv' split: option.splits if_splits)
next
  case (Decommission c)
  with assms(2) show ?thesis by (auto simp: heard_def Forget_def delete_conv' split: if_splits)
next
  case (Sweep t)
  from assms(1) have d: "distinct (map fst (entries r))" by (simp add: reg_ok_def)
  from prune_announces_once [OF assms(1), of t]
  have "set (fst (Prune r t)) = {cell. \<exists>s. map_of (entries r) cell = Some s \<and> announces (opts r) t (unknown r) (cell, s)}" by blast
  with assms(2) show ?thesis
    by (auto simp: Sweep heard_def prune_lines_def Prune_unknown [OF d] announces_def image_iff split: option.splits if_splits)
qed

lemma flagged_was_announced:
  assumes "reg_ok r" and "unknown r = []" and "k \<le> length ops"
    and "map_of (unknown (foldl registry_step r (take k ops))) cell = Some True"
  shows "\<exists>m < k. cell \<in> fst ` set (Registry_Run r ops ! m) \<and>
    (\<forall>n. m < n \<and> n < k \<longrightarrow> \<not> heard (foldl registry_step r (take n ops)) (ops ! n) cell)"
  using assms(3,4)
proof (induction k)
  case 0
  with assms(2) show ?case by simp
next
  case (Suc k)
  let ?r = "foldl registry_step r (take k ops)"
  from Suc.prems have s: "foldl registry_step r (take (Suc k) ops) = registry_step ?r (ops ! k)" by (simp add: take_Suc_conv_app_nth)
  with Suc.prems(2) have "map_of (unknown (registry_step ?r (ops ! k))) cell = Some True" by simp
  from flagged_step [OF reg_ok_run [OF assms(1)] this] show ?case
  proof
    assume "cell \<in> fst ` set (prune_lines ?r (ops ! k))"
    with Suc.prems(1) show ?thesis by (intro exI [of _ k]) (auto simp: Registry_Run_nth)
  next
    assume "map_of (unknown ?r) cell = Some True \<and> \<not> heard ?r (ops ! k) cell"
    with Suc.IH Suc.prems(1) obtain m where "m < k" "cell \<in> fst ` set (Registry_Run r ops ! m)"
      "\<forall>n. m < n \<and> n < k \<longrightarrow> \<not> heard (foldl registry_step r (take n ops)) (ops ! n) cell" "\<not> heard ?r (ops ! k) cell" by auto
    then show ?thesis by (intro exI [of _ m]) (auto simp: less_Suc_eq)
  qed
qed

lemma unknown_after_sweep:
  assumes "reg_ok r" and "Lookup (registry_step r (Sweep t)) t cell = Some e" and "entry_health e \<noteq> HealthFresh"
  shows "map_of (unknown (registry_step r (Sweep t))) cell = Some True"
proof -
  from assms(1) have d: "distinct (map fst (entries r))" by (simp add: reg_ok_def)
  from assms(2) obtain s where s: "map_of (entries r) cell = Some s" "\<not> expired (opts r) t s"
    "e = entryLocked (snd (Prune r t)) s t" by (auto simp: Lookup_def Prune_view [OF d] split: option.splits if_splits)
  with assms(3) show ?thesis by (auto simp: Prune_unknown [OF d] stale_def entryLocked_def split: if_splits)
qed

section \<open>Properties\<close>

text \<open>
  C35. A cell never drops out of scoring in silence, and its silence is told once. Whatever heartbeats, deletions and ticks of the prune
  loop make up the history of an index, a cell that reads as unknown after a tick has been logged since it was last heard, and two
  lines about the same cell are always separated by an accepted heartbeat of it.
\<close>

theorem each_silence_is_logged_once:
  assumes "n < length ops"
  shows "(\<forall>t e. ops ! n = Sweep t \<and> Lookup (capacity_run o0 (take (Suc n) ops)) t cell = Some e \<and> entry_health e \<noteq> HealthFresh \<longrightarrow>
      (\<exists>m \<le> n. cell \<in> fst ` set (Registry_Run (New o0) ops ! m) \<and>
        (\<forall>k. m < k \<and> k \<le> n \<longrightarrow> \<not> heard (capacity_run o0 (take k ops)) (ops ! k) cell))) \<and>
    (\<forall>m < n. cell \<in> fst ` set (Registry_Run (New o0) ops ! m) \<and> cell \<in> fst ` set (Registry_Run (New o0) ops ! n) \<longrightarrow>
      (\<exists>k. m < k \<and> k < n \<and> heard (capacity_run o0 (take k ops)) (ops ! k) cell))"
proof (intro conjI allI impI)
  have ok: "reg_ok (New o0)" by (rule reg_ok_New)
  fix t e assume a: "ops ! n = Sweep t \<and> Lookup (capacity_run o0 (take (Suc n) ops)) t cell = Some e \<and> entry_health e \<noteq> HealthFresh"
  let ?r = "capacity_run o0 (take n ops)"
  from assms a have "capacity_run o0 (take (Suc n) ops) = registry_step ?r (Sweep t)"
    by (simp add: capacity_run_def take_Suc_conv_app_nth)
  with unknown_after_sweep [of ?r t cell e] a reg_ok_run [OF ok]
  have "map_of (unknown (foldl registry_step (New o0) (take (Suc n) ops))) cell = Some True" by (simp add: capacity_run_def)
  from flagged_was_announced [OF ok _ _ this] assms show "\<exists>m \<le> n. cell \<in> fst ` set (Registry_Run (New o0) ops ! m) \<and>
      (\<forall>k. m < k \<and> k \<le> n \<longrightarrow> \<not> heard (capacity_run o0 (take k ops)) (ops ! k) cell)"
    by (auto simp: New_def capacity_run_def less_Suc_eq_le)
next
  have ok: "reg_ok (New o0)" by (rule reg_ok_New)
  fix m assume m: "m < n" and a: "cell \<in> fst ` set (Registry_Run (New o0) ops ! m) \<and> cell \<in> fst ` set (Registry_Run (New o0) ops ! n)"
  let ?r = "foldl registry_step (New o0) (take (Suc m) ops)" and ?between = "drop (Suc m) (take n ops)"
  have split: "foldl registry_step ?r (take k ?between) = foldl registry_step (New o0) (take (Suc m + k) ops)" if "k \<le> n - Suc m" for k
  proof -
    from that have "take (Suc m + k) ops = take (Suc m) ops @ take k ?between"
      by (simp only: take_add drop_take take_take min_absorb1)
    then show ?thesis by simp
  qed
  from a m assms have "quiet ?r cell"
    using announced_is_quiet [OF reg_ok_run [OF ok]] by (simp add: Registry_Run_nth take_Suc_conv_app_nth)
  moreover from a assms have "\<not> quiet (foldl registry_step (New o0) (take n ops)) cell"
    using quiet_says_nothing [OF reg_ok_run [OF ok]] by (auto simp: Registry_Run_nth)
  ultimately obtain k where k: "k < length ?between" "heard (foldl registry_step ?r (take k ?between)) (?between ! k) cell"
    using quiet_run [OF reg_ok_run [OF ok], of "take (Suc m) ops" cell ?between] split [of "n - Suc m"] m assms by auto
  with split [of k] assms m have "heard (capacity_run o0 (take (Suc m + k) ops)) (ops ! (Suc m + k)) cell"
    by (simp add: capacity_run_def)
  with k(1) assms show "\<exists>k. m < k \<and> k < n \<and> heard (capacity_run o0 (take k ops)) (ops ! k) cell"
    by (intro exI [of _ "Suc m + k"]) simp
qed

text \<open>
  The records of the audit trail reach standard output whatever the verbosity, in order and in the format of the other lines; through the
  logger the verbosity governs they would not, as soon as it is set to warnings or errors.
\<close>

theorem no_verbosity_silences_the_trail:
  "(\<forall>rec \<in> set (audited calls). \<lparr>ll_format = lg_format (NewLogger cfg), ll_level = LevelInfo, ll_msg = Msg, ll_attrs = attrs rec\<rparr> \<in>
      set (concat (map (stdout_of cfg) calls))) \<and>
    concat (map (stdout_of cfg) (map Audited recs)) =
      map (\<lambda>rec. \<lparr>ll_format = lg_format (NewLogger cfg), ll_level = LevelInfo, ll_msg = Msg, ll_attrs = attrs rec\<rparr>) recs \<and>
    (cfg_logLevel cfg \<in> {''warn'', ''error''} \<longleftrightarrow> LogAttrs (NewLogger cfg) LevelInfo Msg as = [])"
proof -
  have f: "lg_format (NewAuditLogger cfg) = lg_format (NewLogger cfg)" "lg_level (NewAuditLogger cfg) = LevelInfo"
    by (simp_all add: NewAuditLogger_def NewLogger_def Let_def)
  have "stdout_of cfg (Audited rec) =
      [\<lparr>ll_format = lg_format (NewLogger cfg), ll_level = LevelInfo, ll_msg = Msg, ll_attrs = attrs rec\<rparr>]" for rec
    by (simp add: LogAttrs_def f)
  then show ?thesis
    by (auto simp: audited_def LogAttrs_def NewLogger_def slog_levels Let_def comp_def concat_map_singleton split: log_call.splits
      intro!: bexI [of _ "Audited _"])
qed

text \<open>Every subcommand of the client runs under words of its own, and the process fails exactly when the command did.\<close>

theorem client_commands:
  "command_paths cli_NewRootCmd =
      [[''cellcast'', ''place''], [''cellcast'', ''policy'', ''test''], [''cellcast'', ''cell'', ''add''], [''cellcast'', ''version'']] \<and>
    (fst (main_exit err) = 0 \<longleftrightarrow> err = None)"
  by (simp add: cli_NewRootCmd_def newPolicyCmd_def newCellCmd_def version_NewCommand_def main_exit_def split: option.split)

text \<open>
  The controllers are registered all three or the hub does not start; the policy controller reports against the issuers it is given, and
  only it looks at the objects of another kind.
\<close>

theorem controllers_all_or_none:
  "(case RegisterControllers setup index ns issuers of
      Inr cs \<Rightarrow> cs = [ClusterController (index \<noteq> None), PlacementPolicyController issuers, TrustConfigController ns] \<and> (\<forall>c \<in> set cs. setup c = None)
    | Inl (n, e) \<Rightarrow> \<exists>c \<in> {ClusterController (index \<noteq> None), PlacementPolicyController issuers, TrustConfigController ns}.
        su_name (setup_of c) = n \<and> setup c = Some e) \<and>
    (su_watches (setup_of c) \<noteq> [] \<longleftrightarrow> (\<exists>is. c = PlacementPolicyController is))"
  by (cases c) (auto simp: RegisterControllers_def cluster_SetupWithManager_def policy_SetupWithManager_def trust_SetupWithManager_def
      split: option.splits)

text \<open>
  A replica never relays to itself, and to everybody else its peers' name resolves to: of the addresses found, exactly those of its own
  interfaces are left out. A configuration that passed validation names its peers in a form this accepts.
\<close>

theorem replica_is_not_its_own_peer:
  assumes "ResolvePeers interfaces lookup parseIP hostport = Some src" and "src () = Some peers"
  shows "\<exists>host port addrs as. SplitHostPort hostport = Some (host, port) \<and> lookup host = Some addrs \<and> interfaces = Some as \<and>
    set peers = {JoinHostPort a port |a. a \<in> set addrs \<and> \<not> (\<exists>ip. parseIP a = Some ip \<and> IPNet ip \<in> set as)}"
proof -
  from assms(1) obtain host port as where s: "SplitHostPort hostport = Some (host, port)" "interfaces = Some as"
    "src = (\<lambda>_. resolvePeers port lookup parseIP (concat (map (\<lambda>a. case a of IPNet ip \<Rightarrow> [ip] | OtherAddr _ \<Rightarrow> []) as)) host)"
    by (auto simp: ResolvePeers_def localAddresses_def split: option.splits)
  have self: "ip \<in> set (concat (map (\<lambda>a. case a of IPNet ip \<Rightarrow> [ip] | OtherAddr _ \<Rightarrow> []) as)) \<longleftrightarrow> IPNet ip \<in> set as" for ip
    by (force split: interface_addr.splits)
  from assms(2) s(3) obtain addrs where l: "lookup host = Some addrs" by (auto simp: resolvePeers_def)
  let ?self = "concat (map (\<lambda>a. case a of IPNet ip \<Rightarrow> [ip] | OtherAddr _ \<Rightarrow> []) as)"
  have other: "(case parseIP a of Some ip \<Rightarrow> ip \<notin> set ?self | None \<Rightarrow> True) \<longleftrightarrow> \<not> (\<exists>ip. parseIP a = Some ip \<and> IPNet ip \<in> set as)" for a
    by (simp only: self) (simp split: option.split)
  have "peers = map (\<lambda>a. JoinHostPort a port) (filter (\<lambda>a. \<not> (\<exists>ip. parseIP a = Some ip \<and> IPNet ip \<in> set as)) addrs)"
    using assms(2) unfolding s(3) resolvePeers_def l other by simp
  then have "set peers = {JoinHostPort a port |a. a \<in> set addrs \<and> \<not> (\<exists>ip. parseIP a = Some ip \<and> IPNet ip \<in> set as)}" by auto
  with s l show ?thesis by blast
qed

lemma valid_peers_resolve:
  assumes "Config_Validate cfg = None" and "cfg_peers cfg \<noteq> ''''"
  shows "ResolvePeers (Some as) lookup parseIP (cfg_peers cfg) \<noteq> None"
  using assms by (auto simp: Config_Validate_def bad_peers_def ResolvePeers_def localAddresses_def split: option.splits if_splits)

text \<open>
  A write that fails is not lost: a command that prints through a \<open>lineWriter\<close> reports success exactly when every line was written, and
  attempts nothing after the first one that was not.
\<close>

fun write_until :: "(string \<Rightarrow> 'w \<Rightarrow> string option \<times> 'w) \<Rightarrow> string list \<Rightarrow> 'w \<Rightarrow> string option \<times> 'w" where
  "write_until write [] w = (None, w)"
| "write_until write (line # lines) w =
    (case write line w of (Some e, w') \<Rightarrow> (Some e, w') | (None, w') \<Rightarrow> write_until write lines w')"

theorem broken_pipe_is_reported:
  "(let l = foldl (printf write) \<lparr>lw_w = w, lw_err = None\<rparr> lines in (lw_err l, lw_w l)) = write_until write lines w"
proof -
  have stop: "foldl (printf write) l lines = l" if "lw_err l \<noteq> None" for l lines
    using that by (induction lines) (simp_all add: printf_def)
  show ?thesis
  proof (induction lines arbitrary: w)
    case (Cons line lines)
    obtain e w' where e: "write line w = (e, w')" by fastforce
    show ?case
    proof (cases e)
      case None
      with Cons.IH [of w'] e show ?thesis by (simp add: printf_def)
    next
      case (Some x)
      with e have p: "printf write \<lparr>lw_w = w, lw_err = None\<rparr> line = \<lparr>lw_w = w', lw_err = Some x\<rparr>" by (simp add: printf_def)
      show ?thesis using e Some stop [of "\<lparr>lw_w = w', lw_err = Some x\<rparr>" lines] by (simp add: p Let_def)
    qed
  qed simp
qed

text \<open>The manifests of \<open>cell add\<close> are written the same way, each behind its separator.\<close>

lemma writeManifests_written:
  assumes "\<And>ob. ob \<in> set obs \<Longrightarrow> manifest ob = Inr (doc ob)"
  shows "writeManifests manifest write obs w = write_until write (map (\<lambda>ob. ''---'' @ [CHR 0x0A] @ doc ob) obs) w"
  using assms by (induction obs arbitrary: w) (auto split: prod.split option.split)

section \<open>Witnesses\<close>

text \<open>A cell heard at 0, silent at two ticks, heard again and silent at a third.\<close>

definition sample_ops :: "capacity_op list" where
  "sample_ops = [Heartbeat 0 (cell_report ''blue'' sample_snapshot), Sweep 20, Sweep 30,
    Heartbeat 40 (cell_report ''blue'' sample_snapshot), Sweep 60]"

definition sample_index_options :: Options where
  "sample_index_options = \<lparr>Staleness = 10, Retention = 100, MaxCells = 2, PruneInterval = 0\<rparr>"

lemma sample_run:
  "Registry_Run (New sample_index_options) sample_ops = [[], [(''blue'', 10)], [], [], [(''blue'', 10)]]"
  by code_simp

theorem each_silence_is_logged_once_witness:
  "\<exists>k. 1 < k \<and> k < 4 \<and> heard (capacity_run sample_index_options (take k sample_ops)) (sample_ops ! k) ''blue''"
proof -
  have "4 < length sample_ops" by (simp add: sample_ops_def)
  from each_silence_is_logged_once [OF this, of sample_index_options "''blue''"] show ?thesis by (simp add: sample_run)
qed

lemma sample_peers:
  "\<exists>src peers. ResolvePeers (Some [IPNet ''10.0.0.1'']) (\<lambda>_. Some [''10.0.0.1'', ''10.0.0.2'']) Some ''hub:8080'' = Some src \<and>
    src () = Some peers \<and> set peers = {''10.0.0.2:8080''}"
  by (simp add: ResolvePeers_def SplitHostPort_def localAddresses_def resolvePeers_def JoinHostPort_def)

end
