(* ===== verification/GoHeap.thy ===== *)
theory GoHeap
  imports Prelude "HOL-Library.State_Monad"
begin

text \<open>
  Go's memory, for the code that is about sharing: an address names an object, a pointer, slice or map field holds an address or nil, and
  \<open>new\<close>, \<open>make\<close> and a composite literal take an address nothing holds yet. The contract of a deep copy is the locale \<open>deep_copy\<close>; the
  lemmas here give it for pointers, slices and structs from the contract of their parts.
\<close>

type_synonym addr = nat

record 'c heap =
  cells :: "addr \<Rightarrow> 'c option"
  brk :: addr

definition alloc :: "'c \<Rightarrow> ('c heap, addr) state" where
  "alloc c = State (\<lambda>h. (brk h, h\<lparr>cells := (cells h)(brk h \<mapsto> c), brk := Suc (brk h)\<rparr>))"

definition load :: "addr \<Rightarrow> ('c heap, 'c) state" where
  "load a = State (\<lambda>h. (the (cells h a), h))"

text \<open>An assignment through a pointer.\<close>

definition store :: "addr \<Rightarrow> 'c \<Rightarrow> 'c heap \<Rightarrow> 'c heap" where
  "store a c h = h\<lparr>cells := (cells h)(a \<mapsto> c)\<rparr>"

text \<open>A slice is nil, or a window of a backing array.\<close>

datatype slice = NilSlice | Slice addr nat nat

definition window :: "nat \<Rightarrow> nat \<Rightarrow> 'b list \<Rightarrow> 'b list" where
  "window off n xs = take n (drop off xs)"

section \<open>Copying pointers and slices\<close>

text \<open>
  \<open>if in.F != nil { out.F = new(T); in.F.DeepCopyInto(out.F) }\<close>, which is also the shape of every \<open>DeepCopy\<close>. In which order the
  objects of a copy take their addresses cannot be observed; here an object takes its address once its parts are copied.
\<close>

definition copy_ptr ::
  "('b \<Rightarrow> 'c) \<Rightarrow> ('c \<Rightarrow> 'b) \<Rightarrow> ('b \<Rightarrow> ('c heap, 'b) state) \<Rightarrow> addr option \<Rightarrow> ('c heap, addr option) state" where
  "copy_ptr mk dst into p =
    (case p of None \<Rightarrow> State_Monad.return None
     | Some a \<Rightarrow> do { c \<leftarrow> load a; x \<leftarrow> into (dst c); b \<leftarrow> alloc (mk x); State_Monad.return (Some b) })"

text \<open>\<open>if in.F != nil { out.F = make([]T, len(in.F)); for i := range in.F { in.F[i].DeepCopyInto(&out.F[i]) } }\<close>\<close>

definition copy_slice ::
  "('b list \<Rightarrow> 'c) \<Rightarrow> ('c \<Rightarrow> 'b list) \<Rightarrow> ('b \<Rightarrow> ('c heap, 'b) state) \<Rightarrow> slice \<Rightarrow> ('c heap, slice) state" where
  "copy_slice mk dst into s =
    (case s of NilSlice \<Rightarrow> State_Monad.return NilSlice
     | Slice a off n \<Rightarrow> do {
         c \<leftarrow> load a;
         xs \<leftarrow> State_Monad.traverse_list into (window off n (dst c));
         b \<leftarrow> alloc (mk xs);
         State_Monad.return (Slice b 0 (length xs)) })"

text \<open>What is read behind a pointer or slice, and the addresses the reading visits.\<close>

definition read_ptr :: "('c \<Rightarrow> 'b) \<Rightarrow> ('c heap \<Rightarrow> 'b \<Rightarrow> 'a) \<Rightarrow> 'c heap \<Rightarrow> addr option \<Rightarrow> 'a option" where
  "read_ptr dst r h p = map_option (\<lambda>a. r h (dst (the (cells h a)))) p"

definition foot_ptr :: "('c \<Rightarrow> 'b) \<Rightarrow> ('c heap \<Rightarrow> 'b \<Rightarrow> addr set) \<Rightarrow> 'c heap \<Rightarrow> addr option \<Rightarrow> addr set" where
  "foot_ptr dst f h p = (case p of None \<Rightarrow> {} | Some a \<Rightarrow> insert a (f h (dst (the (cells h a)))))"

definition elements :: "('c \<Rightarrow> 'b list) \<Rightarrow> 'c heap \<Rightarrow> slice \<Rightarrow> 'b list" where
  "elements dst h s = (case s of NilSlice \<Rightarrow> [] | Slice a off n \<Rightarrow> window off n (dst (the (cells h a))))"

definition read_slice :: "('c \<Rightarrow> 'b list) \<Rightarrow> ('c heap \<Rightarrow> 'b \<Rightarrow> 'a) \<Rightarrow> 'c heap \<Rightarrow> slice \<Rightarrow> 'a list" where
  "read_slice dst r h s = map (r h) (elements dst h s)"

definition foot_slice :: "('c \<Rightarrow> 'b list) \<Rightarrow> ('c heap \<Rightarrow> 'b \<Rightarrow> addr set) \<Rightarrow> 'c heap \<Rightarrow> slice \<Rightarrow> addr set" where
  "foot_slice dst f h s =
    (case s of NilSlice \<Rightarrow> {} | Slice a _ _ \<Rightarrow> insert a (\<Union>x \<in> set (elements dst h s). f h x))"

section \<open>Heaps that agree and heaps that grow\<close>

definition agree_on :: "addr set \<Rightarrow> 'c heap \<Rightarrow> 'c heap \<Rightarrow> bool" where
  "agree_on A h h' \<longleftrightarrow> (\<forall>a \<in> A. cells h' a = cells h a)"

definition extends :: "'c heap \<Rightarrow> 'c heap \<Rightarrow> bool" where
  "extends h h' \<longleftrightarrow> brk h \<le> brk h' \<and> agree_on {..<brk h} h h'"

lemma agree_onD: "agree_on A h h' \<Longrightarrow> a \<in> A \<Longrightarrow> cells h' a = cells h a"
  by (simp add: agree_on_def)

lemma agree_on_mono: "agree_on B h h' \<Longrightarrow> A \<subseteq> B \<Longrightarrow> agree_on A h h'"
  by (auto simp: agree_on_def)

lemma extends_refl [simp]: "extends h h"
  by (simp add: extends_def agree_on_def)

lemma extends_trans [trans]: "extends h h' \<Longrightarrow> extends h' h'' \<Longrightarrow> extends h h''"
  by (auto simp: extends_def agree_on_def)

lemma extends_agree: "extends h h' \<Longrightarrow> A \<subseteq> {..<brk h} \<Longrightarrow> agree_on A h h'"
  by (auto simp: extends_def elim: agree_on_mono)

lemma extends_brk: "extends h h' \<Longrightarrow> brk h \<le> brk h'"
  by (simp add: extends_def)

lemma extends_alloc: "run_state (alloc c) h = (a, h') \<Longrightarrow> extends h h' \<and> a = brk h \<and> brk h' = Suc (brk h) \<and> cells h' a = Some c"
  by (auto simp: alloc_def extends_def agree_on_def)

lemma run_load [simp]: "run_state (load a) h = (the (cells h a), h)"
  by (simp add: load_def)

section \<open>The contract of a deep copy\<close>

text \<open>
  What is read of a value depends on nothing outside its footprint; a copy leaves every object there was as it was, reads as the
  original, and lives in new objects only.
\<close>

locale deep_copy =
  fixes into :: "'v \<Rightarrow> ('c heap, 'v) state"
    and read :: "'c heap \<Rightarrow> 'v \<Rightarrow> 'a"
    and foot :: "'c heap \<Rightarrow> 'v \<Rightarrow> addr set"
  assumes local: "agree_on (foot h v) h h' \<Longrightarrow> read h' v = read h v \<and> foot h' v = foot h v"
    and copies: "run_state (into v) h = (v', h') \<Longrightarrow> foot h v \<subseteq> {..<brk h} \<Longrightarrow>
      extends h h' \<and> read h' v' = read h v \<and> foot h' v' \<subseteq> {brk h..<brk h'}"
begin

lemma stable:
  assumes "extends h h'" and "foot h v \<subseteq> {..<brk h}"
  shows "read h' v = read h v" and "foot h' v = foot h v" and "foot h' v \<subseteq> {..<brk h'}"
  using local [OF extends_agree [OF assms]] assms(2) extends_brk [OF assms(1)] by auto

text \<open>Writing anywhere outside the copy leaves the copy, and writing anywhere in new memory leaves the original.\<close>

lemma copy_isolated:
  assumes "run_state (into v) h = (v', h')" and "foot h v \<subseteq> {..<brk h}" and "agree_on {brk h..<brk h'} h' h''"
  shows "read h'' v' = read h v"
proof -
  from copies [OF assms(1,2)] have "read h' v' = read h v" "foot h' v' \<subseteq> {brk h..<brk h'}" by auto
  with local [OF agree_on_mono [OF assms(3)]] show ?thesis by simp
qed

lemma original_isolated:
  assumes "run_state (into v) h = (v', h')" and "foot h v \<subseteq> {..<brk h}" and "agree_on {..<brk h} h' h''"
  shows "read h'' v = read h v"
proof -
  from copies [OF assms(1,2)] have e: "extends h h'" by simp
  from stable [OF e assms(2)] assms(2) have "read h' v = read h v" "foot h' v \<subseteq> {..<brk h}" by auto
  with local [OF agree_on_mono [OF assms(3)]] show ?thesis by simp
qed

end

text \<open>A value without references is copied by assignment.\<close>

lemma deep_copy_plain: "deep_copy State_Monad.return (\<lambda>_. r) (\<lambda>_ _. {})"
  by unfold_locales simp_all

lemma deep_copy_ptr:
  assumes "deep_copy into read foot" and mk: "\<And>x. dst (mk x) = x"
  shows "deep_copy (copy_ptr mk dst into) (read_ptr dst read) (foot_ptr dst foot)"
proof
  fix h h' :: "'b heap" and p :: "addr option"
  assume "agree_on (foot_ptr dst foot h p) h h'"
  then show "read_ptr dst read h' p = read_ptr dst read h p \<and> foot_ptr dst foot h' p = foot_ptr dst foot h p"
    using deep_copy.local [OF assms(1), of h _ h']
    by (cases p) (auto simp: read_ptr_def foot_ptr_def agree_on_def)
next
  fix h h' :: "'b heap" and p p' :: "addr option"
  assume r: "run_state (copy_ptr mk dst into p) h = (p', h')" and f: "foot_ptr dst foot h p \<subseteq> {..<brk h}"
  show "extends h h' \<and> read_ptr dst read h' p' = read_ptr dst read h p \<and> foot_ptr dst foot h' p' \<subseteq> {brk h..<brk h'}"
  proof (cases p)
    case None
    with r show ?thesis by (simp add: copy_ptr_def read_ptr_def foot_ptr_def)
  next
    case (Some a)
    obtain x h1 where i: "run_state (into (dst (the (cells h a)))) h = (x, h1)" by fastforce
    obtain b h2 where b: "run_state (alloc (mk x)) h1 = (b, h2)" by fastforce
    from r i b have p': "p' = Some b" "h2 = h'" by (simp_all add: copy_ptr_def Some)
    from f have "foot h (dst (the (cells h a))) \<subseteq> {..<brk h}" by (simp add: Some foot_ptr_def)
    from deep_copy.copies [OF assms(1) i this] have c: "extends h h1" "read h1 x = read h (dst (the (cells h a)))"
      "foot h1 x \<subseteq> {brk h..<brk h1}" by auto
    from extends_alloc [OF b] have e: "extends h1 h'" "b = brk h1" "brk h' = Suc (brk h1)" "cells h' b = Some (mk x)"
      by (auto simp: p'(2))
    from c(3) have "foot h1 x \<subseteq> {..<brk h1}" by auto
    from deep_copy.stable [OF assms(1) e(1) this] have "read h' x = read h1 x" "foot h' x = foot h1 x" by auto
    with c e extends_trans [OF c(1) e(1)] extends_brk [OF c(1)] show ?thesis
      by (auto simp: p'(1) Some read_ptr_def foot_ptr_def mk)
  qed
qed

lemma traverse_copies:
  assumes "deep_copy into read foot"
  shows "run_state (State_Monad.traverse_list into xs) h = (ys, h') \<Longrightarrow> (\<Union>x \<in> set xs. foot h x) \<subseteq> {..<brk h} \<Longrightarrow>
    extends h h' \<and> map (read h') ys = map (read h) xs \<and> (\<Union>y \<in> set ys. foot h' y) \<subseteq> {brk h..<brk h'}"
proof (induction xs arbitrary: h ys h')
  case Nil
  then show ?case by simp
next
  case (Cons x xs)
  obtain y h1 where i: "run_state (into x) h = (y, h1)" by fastforce
  obtain zs h2 where t: "run_state (State_Monad.traverse_list into xs) h1 = (zs, h2)" by fastforce
  from Cons.prems(1) i t have ys: "ys = y # zs" "h' = h2" by simp_all
  from Cons.prems(2) have fx: "foot h x \<subseteq> {..<brk h}" and fxs: "foot h z \<subseteq> {..<brk h}" if "z \<in> set xs" for z
    using that by auto
  from Cons.prems(2) have "foot h x \<subseteq> {..<brk h}" by simp
  from deep_copy.copies [OF assms i this] have c: "extends h h1" "read h1 y = read h x" "foot h1 y \<subseteq> {brk h..<brk h1}"
    by auto
  have "read h1 z = read h z" "foot h1 z \<subseteq> {..<brk h1}" if "z \<in> set xs" for z
    using deep_copy.stable [OF assms c(1) fxs [OF that]] by auto
  with Cons.IH [OF t] have d: "extends h1 h2" "map (read h2) zs = map (read h) xs"
    "(\<Union>z \<in> set zs. foot h2 z) \<subseteq> {brk h1..<brk h2}" by (auto cong: map_cong)
  from c(3) have "foot h1 y \<subseteq> {..<brk h1}" by auto
  from deep_copy.stable [OF assms d(1) this] have "read h2 y = read h1 y" "foot h2 y = foot h1 y" by auto
  with c d extends_trans [OF c(1) d(1)] extends_brk [OF c(1)] extends_brk [OF d(1)] show ?case
    by (fastforce simp: ys)
qed

lemma deep_copy_slice:
  assumes "deep_copy into read foot" and mk: "\<And>xs. dst (mk xs) = xs"
  shows "deep_copy (copy_slice mk dst into) (read_slice dst read) (foot_slice dst foot)"
proof
  fix h h' :: "'b heap" and s :: slice
  assume a: "agree_on (foot_slice dst foot h s) h h'"
  then have "elements dst h' s = elements dst h s"
    by (cases s) (auto simp: elements_def foot_slice_def agree_on_def)
  moreover have "read h' x = read h x \<and> foot h' x = foot h x" if "x \<in> set (elements dst h s)" for x
  proof (rule deep_copy.local [OF assms(1)], rule agree_on_mono [OF a])
    show "foot h x \<subseteq> foot_slice dst foot h s" using that by (cases s) (auto simp: foot_slice_def elements_def)
  qed
  ultimately show "read_slice dst read h' s = read_slice dst read h s \<and> foot_slice dst foot h' s = foot_slice dst foot h s"
    by (cases s) (auto simp: read_slice_def foot_slice_def)
next
  fix h h' :: "'b heap" and s s' :: slice
  assume r: "run_state (copy_slice mk dst into s) h = (s', h')" and f: "foot_slice dst foot h s \<subseteq> {..<brk h}"
  show "extends h h' \<and> read_slice dst read h' s' = read_slice dst read h s \<and> foot_slice dst foot h' s' \<subseteq> {brk h..<brk h'}"
  proof (cases s)
    case NilSlice
    with r show ?thesis by (simp add: copy_slice_def read_slice_def elements_def foot_slice_def)
  next
    case (Slice a off n)
    let ?xs = "window off n (dst (the (cells h a)))"
    obtain ys h1 where i: "run_state (State_Monad.traverse_list into ?xs) h = (ys, h1)" by fastforce
    obtain b h2 where b: "run_state (alloc (mk ys)) h1 = (b, h2)" by fastforce
    from r i b have s': "s' = Slice b 0 (length ys)" "h2 = h'" by (simp_all add: copy_slice_def Slice)
    from f have "(\<Union>x \<in> set ?xs. foot h x) \<subseteq> {..<brk h}" by (simp add: Slice foot_slice_def elements_def)
    from traverse_copies [OF assms(1) i this] have c: "extends h h1" "map (read h1) ys = map (read h) ?xs"
      "(\<Union>y \<in> set ys. foot h1 y) \<subseteq> {brk h..<brk h1}" by auto
    from extends_alloc [OF b] have e: "extends h1 h'" "b = brk h1" "brk h' = Suc (brk h1)" "cells h' b = Some (mk ys)"
      by (auto simp: s'(2))
    have "read h' y = read h1 y \<and> foot h' y = foot h1 y" if "y \<in> set ys" for y
    proof -
      from c(3) that have "foot h1 y \<subseteq> {..<brk h1}" by fastforce
      from deep_copy.stable [OF assms(1) e(1) this] show ?thesis by simp
    qed
    then have "map (read h') ys = map (read h1) ys" "(\<Union>y \<in> set ys. foot h' y) = (\<Union>y \<in> set ys. foot h1 y)" by auto
    with c e extends_trans [OF c(1) e(1)] extends_brk [OF c(1)] show ?thesis
      by (auto simp: s'(1) Slice read_slice_def foot_slice_def elements_def window_def mk)
  qed
qed

text \<open>Two fields copied one after the other.\<close>

definition copy_pair :: "('v \<Rightarrow> ('c heap, 'v) state) \<Rightarrow> ('w \<Rightarrow> ('c heap, 'w) state) \<Rightarrow> 'v \<times> 'w \<Rightarrow> ('c heap, 'v \<times> 'w) state" where
  "copy_pair i j p = do { v \<leftarrow> i (fst p); w \<leftarrow> j (snd p); State_Monad.return (v, w) }"

lemma deep_copy_pair:
  assumes i: "deep_copy i r f" and j: "deep_copy j q g"
  shows "deep_copy (copy_pair i j) (\<lambda>h p. (r h (fst p), q h (snd p))) (\<lambda>h p. f h (fst p) \<union> g h (snd p))"
proof
  fix h h' :: "'b heap" and p
  assume a: "agree_on (f h (fst p) \<union> g h (snd p)) h h'"
  have "agree_on (f h (fst p)) h h'" "agree_on (g h (snd p)) h h'" by (rule agree_on_mono [OF a], simp)+
  from deep_copy.local [OF i this(1)] deep_copy.local [OF j this(2)]
  show "(r h' (fst p), q h' (snd p)) = (r h (fst p), q h (snd p)) \<and> f h' (fst p) \<union> g h' (snd p) = f h (fst p) \<union> g h (snd p)"
    by simp
next
  fix h h' :: "'b heap" and p p'
  assume run: "run_state (copy_pair i j p) h = (p', h')" and foot: "f h (fst p) \<union> g h (snd p) \<subseteq> {..<brk h}"
  obtain v h1 where v: "run_state (i (fst p)) h = (v, h1)" by fastforce
  obtain w h2 where w: "run_state (j (snd p)) h1 = (w, h2)" by fastforce
  from run v w have p': "p' = (v, w)" "h' = h2" by (simp_all add: copy_pair_def)
  from foot have "f h (fst p) \<subseteq> {..<brk h}" by simp
  from deep_copy.copies [OF i v this] have c: "extends h h1" "r h1 v = r h (fst p)" "f h1 v \<subseteq> {brk h..<brk h1}" by auto
  from foot have "g h (snd p) \<subseteq> {..<brk h}" by simp
  note s = deep_copy.stable [OF j c(1) this]
  from deep_copy.copies [OF j w s(3)] s(1)
  have d: "extends h1 h2" "q h2 w = q h (snd p)" "g h2 w \<subseteq> {brk h1..<brk h2}" by auto
  from c(3) have "f h1 v \<subseteq> {..<brk h1}" by auto
  from deep_copy.stable [OF i d(1) this] have "r h2 v = r h1 v" "f h2 v = f h1 v" by auto
  with c d extends_trans [OF c(1) d(1)] extends_brk [OF c(1)] extends_brk [OF d(1)]
  show "extends h h' \<and> (r h' (fst p'), q h' (snd p')) = (r h (fst p), q h (snd p)) \<and>
    f h' (fst p') \<union> g h' (snd p') \<subseteq> {brk h..<brk h'}"
    by (fastforce simp: p')
qed

text \<open>
  A struct is assigned as a whole and the fields that refer are copied over: \<open>get\<close> takes those fields out, \<open>put\<close> writes them back, and
  what is read of the struct is made of what is read of those fields and of the rest, which writing them does not touch.
\<close>

lemma deep_copy_struct:
  assumes "deep_copy i r f"
    and "\<And>s. into s = do { t \<leftarrow> i (get s); State_Monad.return (put t s) }"
    and "\<And>t s. get (put t s) = t"
    and "\<And>h s. read h s = mk (r h (get s)) (rest s)" and "\<And>t s. rest (put t s) = rest s"
    and "\<And>h s. foot h s = f h (get s)"
  shows "deep_copy into read foot"
proof
  fix h h' s
  assume "agree_on (foot h s) h h'"
  with deep_copy.local [OF assms(1)] show "read h' s = read h s \<and> foot h' s = foot h s" by (simp add: assms(4,6))
next
  fix h h' s s'
  assume run: "run_state (into s) h = (s', h')" and foot: "foot h s \<subseteq> {..<brk h}"
  obtain t h1 where t: "run_state (i (get s)) h = (t, h1)" by fastforce
  from run t have "s' = put t s" "h' = h1" by (simp_all add: assms(2))
  with deep_copy.copies [OF assms(1) t] foot
  show "extends h h' \<and> read h' s' = read h s \<and> foot h' s' \<subseteq> {brk h..<brk h'}" by (simp add: assms(3-6))
qed

end
