(* ===== verification/DeepCopy.thy ===== *)
theory DeepCopy
  imports Api GoHeap
begin

text \<open>
  The copies of \<open>api/v1beta1/zz_generated.deepcopy.go\<close>, over the structs as they lie in memory: a field that is a pointer, a slice or a
  map holds the address of its object. Reading such a struct gives the value of \<open>Api\<close> the rest of the development computes with. The
  hub copies an object before it writes to it (the status in each reconciler, the patched cell in \<open>clusterstate.go\<close>, the remembered
  placement in \<open>memory.go\<close>), so that the cache it came from, or the state it compares with, stays what it was.

  \<open>ObjectMeta\<close>, \<open>ListMeta\<close> and \<open>LabelSelector\<close> are types of the Kubernetes libraries that hold references of their own: they are the
  type parameter \<open>'k\<close>, their objects \<open>'x\<close>, and their \<open>DeepCopyInto\<close> an argument. \<open>Time\<close>, \<open>Duration\<close>, \<open>Condition\<close> and \<open>TypeMeta\<close> hold
  none and are values.
\<close>

section \<open>Structs in memory\<close>

record TypeMeta =
  tm_kind :: string
  tm_apiVersion :: string

record TrustConfigReference =
  ref_name :: string

record mem_ClusterSpec =
  m_endpoint :: string
  m_caBundle :: slice
  m_provider :: Provider
  m_trustConfigRef :: TrustConfigReference
  m_reporter :: "addr option"
  m_state :: ClusterState

record mem_ClusterStatus =
  m_observedState :: ClusterState
  m_clusterGeneration :: int
  m_stateSince :: "addr option"
  m_clusterConditions :: slice

record 'k mem_Cluster =
  m_clusterType :: TypeMeta
  m_clusterMeta :: 'k
  m_clusterSpec :: mem_ClusterSpec
  m_clusterStatus :: mem_ClusterStatus

record mem_SubjectSelector =
  m_issuer :: string
  m_subject :: string
  m_claims :: "addr option"

record mem_TokenTTLPolicy =
  m_default :: "addr option"
  m_max :: "addr option"

record 'k mem_PlacementPolicySpec =
  m_subjects :: slice
  m_permittedCells :: 'k
  m_strategy :: ScoringStrategy
  m_tokenTTL :: "addr option"
  m_allowDark :: bool
  m_stickiness :: "addr option"

record mem_PlacementPolicyStatus =
  m_policyGeneration :: int
  m_policyConditions :: slice

record 'k mem_PlacementPolicy =
  m_policyType :: TypeMeta
  m_policyMeta :: 'k
  m_policySpec :: "'k mem_PlacementPolicySpec"
  m_policyStatus :: mem_PlacementPolicyStatus

record mem_CredentialSource =
  m_inCluster :: bool
  m_secretRef :: "addr option"

record mem_KubernetesTrust =
  m_serviceAccountName :: string
  m_saNamespace :: string
  m_audiences :: slice

record mem_TrustConfigSpec =
  m_trustProvider :: TrustProvider
  m_credentialSource :: mem_CredentialSource
  m_kubernetes :: "addr option"

record mem_TrustConfigStatus =
  m_trustGeneration :: int
  m_trustConditions :: slice

record 'k mem_TrustConfig =
  m_trustType :: TypeMeta
  m_trustMeta :: 'k
  m_trustSpec :: mem_TrustConfigSpec
  m_trustStatus :: mem_TrustConfigStatus

record 'k mem_WorkloadPlacement =
  m_wpType :: TypeMeta
  m_wpMeta :: 'k
  m_wpSpec :: WorkloadPlacementSpec

text \<open>\<open>ClusterList\<close> and the other lists.\<close>

record 'k mem_List =
  m_listType :: TypeMeta
  m_listMeta :: 'k
  m_items :: slice

text \<open>What an address can name: an array, a map, or a struct reached through a pointer.\<close>

datatype ('k, 'x) obj =
    Bytes (bytes_of: string) | Strings (strings_of: "string list") | Conditions (conditions_of: "condition list")
  | StringMap (map_of_obj: labels)
  | TimeObj (time_of: go_time) | DurationObj (duration_of: duration)
  | ReporterObj (reporter_of: ReporterIdentity) | SecretRefObj (secretRef_of: SecretKeyReference)
  | StickinessObj (stickiness_of: Stickiness) | TrustRefObj (trustRef_of: TrustConfigReference)
  | SubjectObj (subject_of: mem_SubjectSelector) | Subjects (subjects_of: "mem_SubjectSelector list")
  | TTLObj (ttl_of: mem_TokenTTLPolicy) | KubernetesObj (kubernetes_of: mem_KubernetesTrust)
  | CredentialSourceObj (source_of: mem_CredentialSource)
  | ClusterSpecObj (clusterSpec_of: mem_ClusterSpec) | ClusterStatusObj (clusterStatus_of: mem_ClusterStatus)
  | ClusterObj (cluster_of: "'k mem_Cluster") | Clusters (clusters_of: "'k mem_Cluster list")
  | PolicySpecObj (policySpec_of: "'k mem_PlacementPolicySpec") | PolicyStatusObj (policyStatus_of: mem_PlacementPolicyStatus)
  | PolicyObj (policy_of: "'k mem_PlacementPolicy") | Policies (policies_of: "'k mem_PlacementPolicy list")
  | TrustSpecObj (trustSpec_of: mem_TrustConfigSpec) | TrustStatusObj (trustStatus_of: mem_TrustConfigStatus)
  | TrustObj (trust_of: "'k mem_TrustConfig") | Trusts (trusts_of: "'k mem_TrustConfig list")
  | WPSpecObj (wpSpec_of: WorkloadPlacementSpec)
  | WPObj (wp_of: "'k mem_WorkloadPlacement") | WPs (wps_of: "'k mem_WorkloadPlacement list")
  | ListObj (list_of: "'k mem_List")
  | Foreign (foreign_of: 'x)

type_synonym ('k, 'x, 'v) copying = "'v \<Rightarrow> (('k, 'x) obj heap, 'v) state"
type_synonym ('k, 'x) ptr_copying = "addr option \<Rightarrow> (('k, 'x) obj heap, addr option) state"

section \<open>The generated functions\<close>

subsection \<open>Values\<close>

definition ReporterIdentity_DeepCopyInto :: "('k, 'x, ReporterIdentity) copying" where
  "ReporterIdentity_DeepCopyInto = State_Monad.return"

definition SecretKeyReference_DeepCopyInto :: "('k, 'x, SecretKeyReference) copying" where
  "SecretKeyReference_DeepCopyInto = State_Monad.return"

definition Stickiness_DeepCopyInto :: "('k, 'x, Stickiness) copying" where
  "Stickiness_DeepCopyInto = State_Monad.return"

definition TrustConfigReference_DeepCopyInto :: "('k, 'x, TrustConfigReference) copying" where
  "TrustConfigReference_DeepCopyInto = State_Monad.return"

text \<open>\<open>metav1.Time\<close> is copied by assignment.\<close>

definition WorkloadPlacementSpec_DeepCopyInto :: "('k, 'x, WorkloadPlacementSpec) copying" where
  "WorkloadPlacementSpec_DeepCopyInto = State_Monad.return"

definition conditions_into :: "('k, 'x, slice) copying" where
  "conditions_into = copy_slice Conditions conditions_of State_Monad.return"

subsection \<open>Cluster\<close>

definition ClusterSpec_DeepCopyInto :: "('k, 'x, mem_ClusterSpec) copying" where
  "ClusterSpec_DeepCopyInto s = do {
    ca \<leftarrow> copy_slice Bytes bytes_of State_Monad.return (m_caBundle s);
    r \<leftarrow> copy_ptr ReporterObj reporter_of State_Monad.return (m_reporter s);
    State_Monad.return (s\<lparr>m_caBundle := ca, m_reporter := r\<rparr>) }"

definition ClusterStatus_DeepCopyInto :: "('k, 'x, mem_ClusterStatus) copying" where
  "ClusterStatus_DeepCopyInto s = do {
    t \<leftarrow> copy_ptr TimeObj time_of State_Monad.return (m_stateSince s);
    cs \<leftarrow> conditions_into (m_clusterConditions s);
    State_Monad.return (s\<lparr>m_stateSince := t, m_clusterConditions := cs\<rparr>) }"

definition Cluster_DeepCopyInto :: "('k, 'x, 'k) copying \<Rightarrow> ('k, 'x, 'k mem_Cluster) copying" where
  "Cluster_DeepCopyInto meta c = do {
    m \<leftarrow> meta (m_clusterMeta c);
    sp \<leftarrow> ClusterSpec_DeepCopyInto (m_clusterSpec c);
    st \<leftarrow> ClusterStatus_DeepCopyInto (m_clusterStatus c);
    State_Monad.return (c\<lparr>m_clusterMeta := m, m_clusterSpec := sp, m_clusterStatus := st\<rparr>) }"

definition ClusterList_DeepCopyInto :: "('k, 'x, 'k) copying \<Rightarrow> ('k, 'x, 'k) copying \<Rightarrow> ('k, 'x, 'k mem_List) copying" where
  "ClusterList_DeepCopyInto meta listMeta l = do {
    m \<leftarrow> listMeta (m_listMeta l);
    items \<leftarrow> copy_slice Clusters clusters_of (Cluster_DeepCopyInto meta) (m_items l);
    State_Monad.return (l\<lparr>m_listMeta := m, m_items := items\<rparr>) }"

subsection \<open>PlacementPolicy\<close>

definition SubjectSelector_DeepCopyInto :: "('k, 'x, mem_SubjectSelector) copying" where
  "SubjectSelector_DeepCopyInto s = do {
    cl \<leftarrow> copy_ptr StringMap map_of_obj State_Monad.return (m_claims s);
    State_Monad.return (s\<lparr>m_claims := cl\<rparr>) }"

definition TokenTTLPolicy_DeepCopyInto :: "('k, 'x, mem_TokenTTLPolicy) copying" where
  "TokenTTLPolicy_DeepCopyInto p = do {
    d \<leftarrow> copy_ptr DurationObj duration_of State_Monad.return (m_default p);
    mx \<leftarrow> copy_ptr DurationObj duration_of State_Monad.return (m_max p);
    State_Monad.return (p\<lparr>m_default := d, m_max := mx\<rparr>) }"

definition PlacementPolicySpec_DeepCopyInto :: "('k, 'x, 'k) copying \<Rightarrow> ('k, 'x, 'k mem_PlacementPolicySpec) copying" where
  "PlacementPolicySpec_DeepCopyInto selector s = do {
    sub \<leftarrow> copy_slice Subjects subjects_of SubjectSelector_DeepCopyInto (m_subjects s);
    sel \<leftarrow> selector (m_permittedCells s);
    ttl \<leftarrow> copy_ptr TTLObj ttl_of TokenTTLPolicy_DeepCopyInto (m_tokenTTL s);
    st \<leftarrow> copy_ptr StickinessObj stickiness_of State_Monad.return (m_stickiness s);
    State_Monad.return (s\<lparr>m_subjects := sub, m_permittedCells := sel, m_tokenTTL := ttl, m_stickiness := st\<rparr>) }"

definition PlacementPolicyStatus_DeepCopyInto :: "('k, 'x, mem_PlacementPolicyStatus) copying" where
  "PlacementPolicyStatus_DeepCopyInto s = do {
    cs \<leftarrow> conditions_into (m_policyConditions s);
    State_Monad.return (s\<lparr>m_policyConditions := cs\<rparr>) }"

definition PlacementPolicy_DeepCopyInto ::
  "('k, 'x, 'k) copying \<Rightarrow> ('k, 'x, 'k) copying \<Rightarrow> ('k, 'x, 'k mem_PlacementPolicy) copying" where
  "PlacementPolicy_DeepCopyInto meta selector p = do {
    m \<leftarrow> meta (m_policyMeta p);
    sp \<leftarrow> PlacementPolicySpec_DeepCopyInto selector (m_policySpec p);
    st \<leftarrow> PlacementPolicyStatus_DeepCopyInto (m_policyStatus p);
    State_Monad.return (p\<lparr>m_policyMeta := m, m_policySpec := sp, m_policyStatus := st\<rparr>) }"

definition PlacementPolicyList_DeepCopyInto ::
  "('k, 'x, 'k) copying \<Rightarrow> ('k, 'x, 'k) copying \<Rightarrow> ('k, 'x, 'k) copying \<Rightarrow> ('k, 'x, 'k mem_List) copying" where
  "PlacementPolicyList_DeepCopyInto meta selector listMeta l = do {
    m \<leftarrow> listMeta (m_listMeta l);
    items \<leftarrow> copy_slice Policies policies_of (PlacementPolicy_DeepCopyInto meta selector) (m_items l);
    State_Monad.return (l\<lparr>m_listMeta := m, m_items := items\<rparr>) }"

subsection \<open>TrustConfig\<close>

definition CredentialSource_DeepCopyInto :: "('k, 'x, mem_CredentialSource) copying" where
  "CredentialSource_DeepCopyInto s = do {
    r \<leftarrow> copy_ptr SecretRefObj secretRef_of State_Monad.return (m_secretRef s);
    State_Monad.return (s\<lparr>m_secretRef := r\<rparr>) }"

definition KubernetesTrust_DeepCopyInto :: "('k, 'x, mem_KubernetesTrust) copying" where
  "KubernetesTrust_DeepCopyInto t = do {
    au \<leftarrow> copy_slice Strings strings_of State_Monad.return (m_audiences t);
    State_Monad.return (t\<lparr>m_audiences := au\<rparr>) }"

definition TrustConfigSpec_DeepCopyInto :: "('k, 'x, mem_TrustConfigSpec) copying" where
  "TrustConfigSpec_DeepCopyInto s = do {
    c \<leftarrow> CredentialSource_DeepCopyInto (m_credentialSource s);
    k \<leftarrow> copy_ptr KubernetesObj kubernetes_of KubernetesTrust_DeepCopyInto (m_kubernetes s);
    State_Monad.return (s\<lparr>m_credentialSource := c, m_kubernetes := k\<rparr>) }"

definition TrustConfigStatus_DeepCopyInto :: "('k, 'x, mem_TrustConfigStatus) copying" where
  "TrustConfigStatus_DeepCopyInto s = do {
    cs \<leftarrow> conditions_into (m_trustConditions s);
    State_Monad.return (s\<lparr>m_trustConditions := cs\<rparr>) }"

definition TrustConfig_DeepCopyInto :: "('k, 'x, 'k) copying \<Rightarrow> ('k, 'x, 'k mem_TrustConfig) copying" where
  "TrustConfig_DeepCopyInto meta t = do {
    m \<leftarrow> meta (m_trustMeta t);
    sp \<leftarrow> TrustConfigSpec_DeepCopyInto (m_trustSpec t);
    st \<leftarrow> TrustConfigStatus_DeepCopyInto (m_trustStatus t);
    State_Monad.return (t\<lparr>m_trustMeta := m, m_trustSpec := sp, m_trustStatus := st\<rparr>) }"

definition TrustConfigList_DeepCopyInto :: "('k, 'x, 'k) copying \<Rightarrow> ('k, 'x, 'k) copying \<Rightarrow> ('k, 'x, 'k mem_List) copying" where
  "TrustConfigList_DeepCopyInto meta listMeta l = do {
    m \<leftarrow> listMeta (m_listMeta l);
    items \<leftarrow> copy_slice Trusts trusts_of (TrustConfig_DeepCopyInto meta) (m_items l);
    State_Monad.return (l\<lparr>m_listMeta := m, m_items := items\<rparr>) }"

subsection \<open>WorkloadPlacement\<close>

definition WorkloadPlacement_DeepCopyInto :: "('k, 'x, 'k) copying \<Rightarrow> ('k, 'x, 'k mem_WorkloadPlacement) copying" where
  "WorkloadPlacement_DeepCopyInto meta w = do {
    m \<leftarrow> meta (m_wpMeta w);
    sp \<leftarrow> WorkloadPlacementSpec_DeepCopyInto (m_wpSpec w);
    State_Monad.return (w\<lparr>m_wpMeta := m, m_wpSpec := sp\<rparr>) }"

definition WorkloadPlacementList_DeepCopyInto ::
  "('k, 'x, 'k) copying \<Rightarrow> ('k, 'x, 'k) copying \<Rightarrow> ('k, 'x, 'k mem_List) copying" where
  "WorkloadPlacementList_DeepCopyInto meta listMeta l = do {
    m \<leftarrow> listMeta (m_listMeta l);
    items \<leftarrow> copy_slice WPs wps_of (WorkloadPlacement_DeepCopyInto meta) (m_items l);
    State_Monad.return (l\<lparr>m_listMeta := m, m_items := items\<rparr>) }"

subsection \<open>DeepCopy and DeepCopyObject\<close>

text \<open>\<open>DeepCopy\<close> of a nil pointer is nil; otherwise it copies into a new object.\<close>

definition ReporterIdentity_DeepCopy :: "('k, 'x) ptr_copying" where
  "ReporterIdentity_DeepCopy = copy_ptr ReporterObj reporter_of ReporterIdentity_DeepCopyInto"

definition SecretKeyReference_DeepCopy :: "('k, 'x) ptr_copying" where
  "SecretKeyReference_DeepCopy = copy_ptr SecretRefObj secretRef_of SecretKeyReference_DeepCopyInto"

definition Stickiness_DeepCopy :: "('k, 'x) ptr_copying" where
  "Stickiness_DeepCopy = copy_ptr StickinessObj stickiness_of Stickiness_DeepCopyInto"

definition TrustConfigReference_DeepCopy :: "('k, 'x) ptr_copying" where
  "TrustConfigReference_DeepCopy = copy_ptr TrustRefObj trustRef_of TrustConfigReference_DeepCopyInto"

definition WorkloadPlacementSpec_DeepCopy :: "('k, 'x) ptr_copying" where
  "WorkloadPlacementSpec_DeepCopy = copy_ptr WPSpecObj wpSpec_of WorkloadPlacementSpec_DeepCopyInto"

definition ClusterSpec_DeepCopy :: "('k, 'x) ptr_copying" where
  "ClusterSpec_DeepCopy = copy_ptr ClusterSpecObj clusterSpec_of ClusterSpec_DeepCopyInto"

definition ClusterStatus_DeepCopy :: "('k, 'x) ptr_copying" where
  "ClusterStatus_DeepCopy = copy_ptr ClusterStatusObj clusterStatus_of ClusterStatus_DeepCopyInto"

definition Cluster_DeepCopy :: "('k, 'x, 'k) copying \<Rightarrow> ('k, 'x) ptr_copying" where
  "Cluster_DeepCopy meta = copy_ptr ClusterObj cluster_of (Cluster_DeepCopyInto meta)"

definition ClusterList_DeepCopy ::
  "('k, 'x, 'k) copying \<Rightarrow> ('k, 'x, 'k) copying \<Rightarrow> ('k, 'x) ptr_copying" where
  "ClusterList_DeepCopy meta listMeta = copy_ptr ListObj list_of (ClusterList_DeepCopyInto meta listMeta)"

definition SubjectSelector_DeepCopy :: "('k, 'x) ptr_copying" where
  "SubjectSelector_DeepCopy = copy_ptr SubjectObj subject_of SubjectSelector_DeepCopyInto"

definition TokenTTLPolicy_DeepCopy :: "('k, 'x) ptr_copying" where
  "TokenTTLPolicy_DeepCopy = copy_ptr TTLObj ttl_of TokenTTLPolicy_DeepCopyInto"

definition PlacementPolicySpec_DeepCopy :: "('k, 'x, 'k) copying \<Rightarrow> ('k, 'x) ptr_copying" where
  "PlacementPolicySpec_DeepCopy selector = copy_ptr PolicySpecObj policySpec_of (PlacementPolicySpec_DeepCopyInto selector)"

definition PlacementPolicyStatus_DeepCopy :: "('k, 'x) ptr_copying" where
  "PlacementPolicyStatus_DeepCopy = copy_ptr PolicyStatusObj policyStatus_of PlacementPolicyStatus_DeepCopyInto"

definition PlacementPolicy_DeepCopy ::
  "('k, 'x, 'k) copying \<Rightarrow> ('k, 'x, 'k) copying \<Rightarrow> ('k, 'x) ptr_copying" where
  "PlacementPolicy_DeepCopy meta selector = copy_ptr PolicyObj policy_of (PlacementPolicy_DeepCopyInto meta selector)"

definition PlacementPolicyList_DeepCopy ::
  "('k, 'x, 'k) copying \<Rightarrow> ('k, 'x, 'k) copying \<Rightarrow> ('k, 'x, 'k) copying \<Rightarrow> ('k, 'x) ptr_copying" where
  "PlacementPolicyList_DeepCopy meta selector listMeta = copy_ptr ListObj list_of (PlacementPolicyList_DeepCopyInto meta selector listMeta)"

definition CredentialSource_DeepCopy :: "('k, 'x) ptr_copying" where
  "CredentialSource_DeepCopy = copy_ptr CredentialSourceObj source_of CredentialSource_DeepCopyInto"

definition KubernetesTrust_DeepCopy :: "('k, 'x) ptr_copying" where
  "KubernetesTrust_DeepCopy = copy_ptr KubernetesObj kubernetes_of KubernetesTrust_DeepCopyInto"

definition TrustConfigSpec_DeepCopy :: "('k, 'x) ptr_copying" where
  "TrustConfigSpec_DeepCopy = copy_ptr TrustSpecObj trustSpec_of TrustConfigSpec_DeepCopyInto"

definition TrustConfigStatus_DeepCopy :: "('k, 'x) ptr_copying" where
  "TrustConfigStatus_DeepCopy = copy_ptr TrustStatusObj trustStatus_of TrustConfigStatus_DeepCopyInto"

definition TrustConfig_DeepCopy :: "('k, 'x, 'k) copying \<Rightarrow> ('k, 'x) ptr_copying" where
  "TrustConfig_DeepCopy meta = copy_ptr TrustObj trust_of (TrustConfig_DeepCopyInto meta)"

definition TrustConfigList_DeepCopy ::
  "('k, 'x, 'k) copying \<Rightarrow> ('k, 'x, 'k) copying \<Rightarrow> ('k, 'x) ptr_copying" where
  "TrustConfigList_DeepCopy meta listMeta = copy_ptr ListObj list_of (TrustConfigList_DeepCopyInto meta listMeta)"

definition WorkloadPlacement_DeepCopy :: "('k, 'x, 'k) copying \<Rightarrow> ('k, 'x) ptr_copying" where
  "WorkloadPlacement_DeepCopy meta = copy_ptr WPObj wp_of (WorkloadPlacement_DeepCopyInto meta)"

definition WorkloadPlacementList_DeepCopy ::
  "('k, 'x, 'k) copying \<Rightarrow> ('k, 'x, 'k) copying \<Rightarrow> ('k, 'x) ptr_copying" where
  "WorkloadPlacementList_DeepCopy meta listMeta = copy_ptr ListObj list_of (WorkloadPlacementList_DeepCopyInto meta listMeta)"

text \<open>
  A \<open>runtime.Object\<close> is an interface value: nil, or a dynamic type with a pointer. A nil pointer inside an interface compares unequal to
  nil, which is what \<open>DeepCopyObject\<close> tests for.
\<close>

datatype object_type = ClusterType | ClusterListType | PlacementPolicyType | PlacementPolicyListType | TrustConfigType
  | TrustConfigListType | WorkloadPlacementType | WorkloadPlacementListType

type_synonym runtime_object = "(object_type \<times> addr option) option"

definition as_object :: "object_type \<Rightarrow> addr option \<Rightarrow> runtime_object" where
  "as_object t c = (if c \<noteq> None then Some (t, c) else None)"

definition Cluster_DeepCopyObject ::
  "('k, 'x, 'k) copying \<Rightarrow> addr option \<Rightarrow> (('k, 'x) obj heap, runtime_object) state" where
  "Cluster_DeepCopyObject meta p = do { c \<leftarrow> Cluster_DeepCopy meta p; State_Monad.return (as_object ClusterType c) }"

definition ClusterList_DeepCopyObject ::
  "('k, 'x, 'k) copying \<Rightarrow> ('k, 'x, 'k) copying \<Rightarrow> addr option \<Rightarrow> (('k, 'x) obj heap, runtime_object) state" where
  "ClusterList_DeepCopyObject meta listMeta p = do { c \<leftarrow> ClusterList_DeepCopy meta listMeta p; State_Monad.return (as_object ClusterListType c) }"

definition PlacementPolicy_DeepCopyObject ::
  "('k, 'x, 'k) copying \<Rightarrow> ('k, 'x, 'k) copying \<Rightarrow> addr option \<Rightarrow> (('k, 'x) obj heap, runtime_object) state" where
  "PlacementPolicy_DeepCopyObject meta selector p = do { c \<leftarrow> PlacementPolicy_DeepCopy meta selector p; State_Monad.return (as_object PlacementPolicyType c) }"

definition PlacementPolicyList_DeepCopyObject ::
  "('k, 'x, 'k) copying \<Rightarrow> ('k, 'x, 'k) copying \<Rightarrow> ('k, 'x, 'k) copying \<Rightarrow> addr option \<Rightarrow> (('k, 'x) obj heap, runtime_object) state" where
  "PlacementPolicyList_DeepCopyObject meta selector listMeta p = do { c \<leftarrow> PlacementPolicyList_DeepCopy meta selector listMeta p; State_Monad.return (as_object PlacementPolicyListType c) }"

definition TrustConfig_DeepCopyObject ::
  "('k, 'x, 'k) copying \<Rightarrow> addr option \<Rightarrow> (('k, 'x) obj heap, runtime_object) state" where
  "TrustConfig_DeepCopyObject meta p = do { c \<leftarrow> TrustConfig_DeepCopy meta p; State_Monad.return (as_object TrustConfigType c) }"

definition TrustConfigList_DeepCopyObject ::
  "('k, 'x, 'k) copying \<Rightarrow> ('k, 'x, 'k) copying \<Rightarrow> addr option \<Rightarrow> (('k, 'x) obj heap, runtime_object) state" where
  "TrustConfigList_DeepCopyObject meta listMeta p = do { c \<leftarrow> TrustConfigList_DeepCopy meta listMeta p; State_Monad.return (as_object TrustConfigListType c) }"

definition WorkloadPlacement_DeepCopyObject ::
  "('k, 'x, 'k) copying \<Rightarrow> addr option \<Rightarrow> (('k, 'x) obj heap, runtime_object) state" where
  "WorkloadPlacement_DeepCopyObject meta p = do { c \<leftarrow> WorkloadPlacement_DeepCopy meta p; State_Monad.return (as_object WorkloadPlacementType c) }"

definition WorkloadPlacementList_DeepCopyObject ::
  "('k, 'x, 'k) copying \<Rightarrow> ('k, 'x, 'k) copying \<Rightarrow> addr option \<Rightarrow> (('k, 'x) obj heap, runtime_object) state" where
  "WorkloadPlacementList_DeepCopyObject meta listMeta p = do { c \<leftarrow> WorkloadPlacementList_DeepCopy meta listMeta p; State_Monad.return (as_object WorkloadPlacementListType c) }"

section \<open>What is read, and where\<close>

text \<open>\<open>ObjectMeta\<close>, as far as the hub reads it.\<close>

record ObjectMeta =
  meta_name :: string
  meta_namespace :: string
  meta_uid :: string
  meta_resourceVersion :: string
  meta_generation :: int
  meta_created :: go_time
  meta_labels :: labels
  meta_owners :: "OwnerReference list"

abbreviation val :: "'h \<Rightarrow> 'a \<Rightarrow> 'a" where
  "val h x \<equiv> x"

abbreviation noaddr :: "'h \<Rightarrow> 'a \<Rightarrow> addr set" where
  "noaddr h x \<equiv> {}"

text \<open>A nil map reads as an empty one.\<close>

definition read_map :: "('k, 'x) obj heap \<Rightarrow> addr option \<Rightarrow> labels" where
  "read_map h p = (case read_ptr map_of_obj val h p of None \<Rightarrow> [] | Some m \<Rightarrow> m)"

definition read_ClusterSpec :: "('k, 'x) obj heap \<Rightarrow> mem_ClusterSpec \<Rightarrow> ClusterSpec" where
  "read_ClusterSpec h s = \<lparr>endpoint = m_endpoint s, caBundle = read_slice bytes_of val h (m_caBundle s), provider = m_provider s,
    trustConfigRef = ref_name (m_trustConfigRef s), reporter = read_ptr reporter_of val h (m_reporter s), state = m_state s\<rparr>"

definition foot_ClusterSpec :: "('k, 'x) obj heap \<Rightarrow> mem_ClusterSpec \<Rightarrow> addr set" where
  "foot_ClusterSpec h s = foot_slice bytes_of noaddr h (m_caBundle s) \<union> foot_ptr reporter_of noaddr h (m_reporter s)"

definition read_ClusterStatus :: "('k, 'x) obj heap \<Rightarrow> mem_ClusterStatus \<Rightarrow> ClusterStatus" where
  "read_ClusterStatus h s = \<lparr>observedState = m_observedState s, cl_observedGeneration = m_clusterGeneration s,
    stateSince = read_ptr time_of val h (m_stateSince s),
    cl_conditions = read_slice conditions_of val h (m_clusterConditions s)\<rparr>"

definition foot_ClusterStatus :: "('k, 'x) obj heap \<Rightarrow> mem_ClusterStatus \<Rightarrow> addr set" where
  "foot_ClusterStatus h s = foot_ptr time_of noaddr h (m_stateSince s) \<union> foot_slice conditions_of noaddr h (m_clusterConditions s)"

definition read_Cluster :: "(('k, 'x) obj heap \<Rightarrow> 'k \<Rightarrow> ObjectMeta) \<Rightarrow> ('k, 'x) obj heap \<Rightarrow> 'k mem_Cluster \<Rightarrow> Cluster" where
  "read_Cluster rm h c = (let m = rm h (m_clusterMeta c) in
    \<lparr>cl_name = meta_name m, cl_namespace = meta_namespace m, cl_labels = meta_labels m, cl_generation = meta_generation m,
     cl_created = meta_created m, cl_spec = read_ClusterSpec h (m_clusterSpec c), cl_status = read_ClusterStatus h (m_clusterStatus c)\<rparr>)"

definition foot_Cluster :: "(('k, 'x) obj heap \<Rightarrow> 'k \<Rightarrow> addr set) \<Rightarrow> ('k, 'x) obj heap \<Rightarrow> 'k mem_Cluster \<Rightarrow> addr set" where
  "foot_Cluster fm h c =
    fm h (m_clusterMeta c) \<union> (foot_ClusterSpec h (m_clusterSpec c) \<union> foot_ClusterStatus h (m_clusterStatus c))"

definition read_SubjectSelector :: "('k, 'x) obj heap \<Rightarrow> mem_SubjectSelector \<Rightarrow> SubjectSelector" where
  "read_SubjectSelector h s = \<lparr>sel_issuer = m_issuer s, sel_subject = m_subject s, sel_claims = read_map h (m_claims s)\<rparr>"

definition foot_SubjectSelector :: "('k, 'x) obj heap \<Rightarrow> mem_SubjectSelector \<Rightarrow> addr set" where
  "foot_SubjectSelector h s = foot_ptr map_of_obj noaddr h (m_claims s)"

definition read_TokenTTLPolicy :: "('k, 'x) obj heap \<Rightarrow> mem_TokenTTLPolicy \<Rightarrow> TokenTTLPolicy" where
  "read_TokenTTLPolicy h p =
    \<lparr>ttl_default = read_ptr duration_of val h (m_default p), ttl_max = read_ptr duration_of val h (m_max p)\<rparr>"

definition foot_TokenTTLPolicy :: "('k, 'x) obj heap \<Rightarrow> mem_TokenTTLPolicy \<Rightarrow> addr set" where
  "foot_TokenTTLPolicy h p = foot_ptr duration_of noaddr h (m_default p) \<union> foot_ptr duration_of noaddr h (m_max p)"

definition read_PlacementPolicySpec ::
  "(('k, 'x) obj heap \<Rightarrow> 'k \<Rightarrow> 'sel) \<Rightarrow> ('k, 'x) obj heap \<Rightarrow> 'k mem_PlacementPolicySpec \<Rightarrow> 'sel PlacementPolicySpec" where
  "read_PlacementPolicySpec rs h s = \<lparr>subjects = read_slice subjects_of read_SubjectSelector h (m_subjects s),
    permittedCells = rs h (m_permittedCells s), strategy = m_strategy s,
    tokenTTL = read_ptr ttl_of read_TokenTTLPolicy h (m_tokenTTL s), allowDarkTargeting = m_allowDark s,
    stickiness = read_ptr stickiness_of val h (m_stickiness s)\<rparr>"

definition foot_PlacementPolicySpec ::
  "(('k, 'x) obj heap \<Rightarrow> 'k \<Rightarrow> addr set) \<Rightarrow> ('k, 'x) obj heap \<Rightarrow> 'k mem_PlacementPolicySpec \<Rightarrow> addr set" where
  "foot_PlacementPolicySpec fs h s = foot_slice subjects_of foot_SubjectSelector h (m_subjects s) \<union> (fs h (m_permittedCells s) \<union>
    (foot_ptr ttl_of foot_TokenTTLPolicy h (m_tokenTTL s) \<union> foot_ptr stickiness_of noaddr h (m_stickiness s)))"

definition read_PlacementPolicyStatus :: "('k, 'x) obj heap \<Rightarrow> mem_PlacementPolicyStatus \<Rightarrow> PlacementPolicyStatus" where
  "read_PlacementPolicyStatus h s = \<lparr>pol_observedGeneration = m_policyGeneration s,
    pol_conditions = read_slice conditions_of val h (m_policyConditions s)\<rparr>"

definition foot_PlacementPolicyStatus :: "('k, 'x) obj heap \<Rightarrow> mem_PlacementPolicyStatus \<Rightarrow> addr set" where
  "foot_PlacementPolicyStatus h s = foot_slice conditions_of noaddr h (m_policyConditions s)"

definition read_PlacementPolicy :: "(('k, 'x) obj heap \<Rightarrow> 'k \<Rightarrow> ObjectMeta) \<Rightarrow> (('k, 'x) obj heap \<Rightarrow> 'k \<Rightarrow> 'sel) \<Rightarrow>
    ('k, 'x) obj heap \<Rightarrow> 'k mem_PlacementPolicy \<Rightarrow> 'sel PlacementPolicy" where
  "read_PlacementPolicy rm rs h p = (let m = rm h (m_policyMeta p) in
    \<lparr>pol_name = meta_name m, pol_namespace = meta_namespace m, pol_uid = meta_uid m, pol_generation = meta_generation m,
     pol_spec = read_PlacementPolicySpec rs h (m_policySpec p), pol_status = read_PlacementPolicyStatus h (m_policyStatus p)\<rparr>)"

definition foot_PlacementPolicy :: "(('k, 'x) obj heap \<Rightarrow> 'k \<Rightarrow> addr set) \<Rightarrow> (('k, 'x) obj heap \<Rightarrow> 'k \<Rightarrow> addr set) \<Rightarrow>
    ('k, 'x) obj heap \<Rightarrow> 'k mem_PlacementPolicy \<Rightarrow> addr set" where
  "foot_PlacementPolicy fm fs h p =
    fm h (m_policyMeta p) \<union> (foot_PlacementPolicySpec fs h (m_policySpec p) \<union> foot_PlacementPolicyStatus h (m_policyStatus p))"

definition read_CredentialSource :: "('k, 'x) obj heap \<Rightarrow> mem_CredentialSource \<Rightarrow> CredentialSource" where
  "read_CredentialSource h s = \<lparr>inCluster = m_inCluster s, secretRef = read_ptr secretRef_of val h (m_secretRef s)\<rparr>"

definition foot_CredentialSource :: "('k, 'x) obj heap \<Rightarrow> mem_CredentialSource \<Rightarrow> addr set" where
  "foot_CredentialSource h s = foot_ptr secretRef_of noaddr h (m_secretRef s)"

definition read_KubernetesTrust :: "('k, 'x) obj heap \<Rightarrow> mem_KubernetesTrust \<Rightarrow> KubernetesTrust" where
  "read_KubernetesTrust h t = \<lparr>serviceAccountName = m_serviceAccountName t, sa_namespace = m_saNamespace t,
    audiences = read_slice strings_of val h (m_audiences t)\<rparr>"

definition foot_KubernetesTrust :: "('k, 'x) obj heap \<Rightarrow> mem_KubernetesTrust \<Rightarrow> addr set" where
  "foot_KubernetesTrust h t = foot_slice strings_of noaddr h (m_audiences t)"

definition read_TrustConfigSpec :: "('k, 'x) obj heap \<Rightarrow> mem_TrustConfigSpec \<Rightarrow> TrustConfigSpec" where
  "read_TrustConfigSpec h s = \<lparr>trust_provider = m_trustProvider s, credentialSource = read_CredentialSource h (m_credentialSource s),
    kubernetes = read_ptr kubernetes_of read_KubernetesTrust h (m_kubernetes s)\<rparr>"

definition foot_TrustConfigSpec :: "('k, 'x) obj heap \<Rightarrow> mem_TrustConfigSpec \<Rightarrow> addr set" where
  "foot_TrustConfigSpec h s =
    foot_CredentialSource h (m_credentialSource s) \<union> foot_ptr kubernetes_of foot_KubernetesTrust h (m_kubernetes s)"

definition read_TrustConfigStatus :: "('k, 'x) obj heap \<Rightarrow> mem_TrustConfigStatus \<Rightarrow> TrustConfigStatus" where
  "read_TrustConfigStatus h s = \<lparr>trust_observedGeneration = m_trustGeneration s,
    trust_conditions = read_slice conditions_of val h (m_trustConditions s)\<rparr>"

definition foot_TrustConfigStatus :: "('k, 'x) obj heap \<Rightarrow> mem_TrustConfigStatus \<Rightarrow> addr set" where
  "foot_TrustConfigStatus h s = foot_slice conditions_of noaddr h (m_trustConditions s)"

definition read_TrustConfig ::
  "(('k, 'x) obj heap \<Rightarrow> 'k \<Rightarrow> ObjectMeta) \<Rightarrow> ('k, 'x) obj heap \<Rightarrow> 'k mem_TrustConfig \<Rightarrow> TrustConfig" where
  "read_TrustConfig rm h t = (let m = rm h (m_trustMeta t) in
    \<lparr>trust_name = meta_name m, trust_namespace = meta_namespace m, trust_generation = meta_generation m,
     trust_spec = read_TrustConfigSpec h (m_trustSpec t), trust_status = read_TrustConfigStatus h (m_trustStatus t)\<rparr>)"

definition foot_TrustConfig :: "(('k, 'x) obj heap \<Rightarrow> 'k \<Rightarrow> addr set) \<Rightarrow> ('k, 'x) obj heap \<Rightarrow> 'k mem_TrustConfig \<Rightarrow> addr set" where
  "foot_TrustConfig fm h t =
    fm h (m_trustMeta t) \<union> (foot_TrustConfigSpec h (m_trustSpec t) \<union> foot_TrustConfigStatus h (m_trustStatus t))"

definition read_WorkloadPlacement ::
  "(('k, 'x) obj heap \<Rightarrow> 'k \<Rightarrow> ObjectMeta) \<Rightarrow> ('k, 'x) obj heap \<Rightarrow> 'k mem_WorkloadPlacement \<Rightarrow> WorkloadPlacement" where
  "read_WorkloadPlacement rm h w = (let m = rm h (m_wpMeta w) in
    \<lparr>wp_name = meta_name m, wp_namespace = meta_namespace m, wp_resourceVersion = meta_resourceVersion m,
     wp_owners = meta_owners m, wp_spec = m_wpSpec w\<rparr>)"

definition foot_WorkloadPlacement ::
  "(('k, 'x) obj heap \<Rightarrow> 'k \<Rightarrow> addr set) \<Rightarrow> ('k, 'x) obj heap \<Rightarrow> 'k mem_WorkloadPlacement \<Rightarrow> addr set" where
  "foot_WorkloadPlacement fm h w = fm h (m_wpMeta w)"

text \<open>A list reads as its metadata, here only copied, and its items.\<close>

definition read_List :: "(('k, 'x) obj \<Rightarrow> 'b list) \<Rightarrow> (('k, 'x) obj heap \<Rightarrow> 'b \<Rightarrow> 'a) \<Rightarrow> ('k, 'x) obj heap \<Rightarrow> 'k mem_List \<Rightarrow> 'a list" where
  "read_List dst r h l = read_slice dst r h (m_items l)"

definition foot_List :: "(('k, 'x) obj heap \<Rightarrow> 'k \<Rightarrow> addr set) \<Rightarrow> (('k, 'x) obj \<Rightarrow> 'b list) \<Rightarrow> (('k, 'x) obj heap \<Rightarrow> 'b \<Rightarrow> addr set) \<Rightarrow>
    ('k, 'x) obj heap \<Rightarrow> 'k mem_List \<Rightarrow> addr set" where
  "foot_List fl dst f h l = fl h (m_listMeta l) \<union> foot_slice dst f h (m_items l)"

section \<open>Every generated function is a deep copy\<close>

lemmas plain_copy = deep_copy_plain [where r = "\<lambda>x. x"]

lemma deep_bytes: "deep_copy (copy_slice Bytes bytes_of State_Monad.return) (read_slice bytes_of val) (foot_slice bytes_of noaddr)"
  by (rule deep_copy_slice [OF plain_copy]) simp

lemma deep_strings:
  "deep_copy (copy_slice Strings strings_of State_Monad.return) (read_slice strings_of val) (foot_slice strings_of noaddr)"
  by (rule deep_copy_slice [OF plain_copy]) simp

lemma deep_conditions: "deep_copy conditions_into (read_slice conditions_of val) (foot_slice conditions_of noaddr)"
  unfolding conditions_into_def by (rule deep_copy_slice [OF plain_copy]) simp

lemma deep_time: "deep_copy (copy_ptr TimeObj time_of State_Monad.return) (read_ptr time_of val) (foot_ptr time_of noaddr)"
  by (rule deep_copy_ptr [OF plain_copy]) simp

lemma deep_duration:
  "deep_copy (copy_ptr DurationObj duration_of State_Monad.return) (read_ptr duration_of val) (foot_ptr duration_of noaddr)"
  by (rule deep_copy_ptr [OF plain_copy]) simp

lemma deep_reporter:
  "deep_copy (copy_ptr ReporterObj reporter_of State_Monad.return) (read_ptr reporter_of val) (foot_ptr reporter_of noaddr)"
  by (rule deep_copy_ptr [OF plain_copy]) simp

lemma deep_secretRef:
  "deep_copy (copy_ptr SecretRefObj secretRef_of State_Monad.return) (read_ptr secretRef_of val) (foot_ptr secretRef_of noaddr)"
  by (rule deep_copy_ptr [OF plain_copy]) simp

lemma deep_stickiness:
  "deep_copy (copy_ptr StickinessObj stickiness_of State_Monad.return) (read_ptr stickiness_of val) (foot_ptr stickiness_of noaddr)"
  by (rule deep_copy_ptr [OF plain_copy]) simp

lemma deep_map:
  "deep_copy (copy_ptr StringMap map_of_obj State_Monad.return) (read_ptr map_of_obj val) (foot_ptr map_of_obj noaddr)"
  by (rule deep_copy_ptr [OF plain_copy]) simp

interpretation cluster_spec: deep_copy ClusterSpec_DeepCopyInto read_ClusterSpec foot_ClusterSpec
  by (rule deep_copy_struct [OF deep_copy_pair [OF deep_bytes deep_reporter],
        where get = "\<lambda>s. (m_caBundle s, m_reporter s)" and put = "\<lambda>t s. s\<lparr>m_caBundle := fst t, m_reporter := snd t\<rparr>"
          and rest = "\<lambda>s. (m_endpoint s, m_provider s, m_trustConfigRef s, m_state s)"
          and mk = "\<lambda>(ca, r) (e, p, t, st). \<lparr>endpoint = e, caBundle = ca, provider = p, trustConfigRef = ref_name t, reporter = r,
            state = st\<rparr>"])
    (simp_all add: ClusterSpec_DeepCopyInto_def read_ClusterSpec_def foot_ClusterSpec_def copy_pair_def)

interpretation cluster_status: deep_copy ClusterStatus_DeepCopyInto read_ClusterStatus foot_ClusterStatus
  by (rule deep_copy_struct [OF deep_copy_pair [OF deep_time deep_conditions],
        where get = "\<lambda>s. (m_stateSince s, m_clusterConditions s)"
          and put = "\<lambda>t s. s\<lparr>m_stateSince := fst t, m_clusterConditions := snd t\<rparr>"
          and rest = "\<lambda>s. (m_observedState s, m_clusterGeneration s)"
          and mk = "\<lambda>(t, cs) (o', g). \<lparr>observedState = o', cl_observedGeneration = g, stateSince = t, cl_conditions = cs\<rparr>"])
    (simp_all add: ClusterStatus_DeepCopyInto_def read_ClusterStatus_def foot_ClusterStatus_def copy_pair_def)

lemma Cluster_deep:
  assumes "deep_copy meta rm fm"
  shows "deep_copy (Cluster_DeepCopyInto meta) (read_Cluster rm) (foot_Cluster fm)"
  by (rule deep_copy_struct [OF deep_copy_pair [OF assms deep_copy_pair [OF cluster_spec.deep_copy_axioms cluster_status.deep_copy_axioms]],
        where get = "\<lambda>c. (m_clusterMeta c, m_clusterSpec c, m_clusterStatus c)"
          and put = "\<lambda>t c. c\<lparr>m_clusterMeta := fst t, m_clusterSpec := fst (snd t), m_clusterStatus := snd (snd t)\<rparr>"
          and rest = "\<lambda>_. ()"
          and mk = "\<lambda>(m, sp, st) _. \<lparr>cl_name = meta_name m, cl_namespace = meta_namespace m, cl_labels = meta_labels m,
            cl_generation = meta_generation m, cl_created = meta_created m, cl_spec = sp, cl_status = st\<rparr>"])
    (simp_all add: Cluster_DeepCopyInto_def read_Cluster_def foot_Cluster_def copy_pair_def Let_def)

interpretation subject: deep_copy SubjectSelector_DeepCopyInto read_SubjectSelector foot_SubjectSelector
  by (rule deep_copy_struct [OF deep_map, where get = m_claims and put = "\<lambda>t s. s\<lparr>m_claims := t\<rparr>"
          and rest = "\<lambda>s. (m_issuer s, m_subject s)"
          and mk = "\<lambda>m (i, j). \<lparr>sel_issuer = i, sel_subject = j, sel_claims = (case m of None \<Rightarrow> [] | Some x \<Rightarrow> x)\<rparr>"])
    (simp_all add: SubjectSelector_DeepCopyInto_def read_SubjectSelector_def foot_SubjectSelector_def read_map_def)

interpretation token_ttl: deep_copy TokenTTLPolicy_DeepCopyInto read_TokenTTLPolicy foot_TokenTTLPolicy
  by (rule deep_copy_struct [OF deep_copy_pair [OF deep_duration deep_duration],
        where get = "\<lambda>p. (m_default p, m_max p)" and put = "\<lambda>t p. p\<lparr>m_default := fst t, m_max := snd t\<rparr>"
          and rest = "\<lambda>_. ()" and mk = "\<lambda>(d, m) _. \<lparr>ttl_default = d, ttl_max = m\<rparr>"])
    (simp_all add: TokenTTLPolicy_DeepCopyInto_def read_TokenTTLPolicy_def foot_TokenTTLPolicy_def copy_pair_def)

lemma deep_subjects: "deep_copy (copy_slice Subjects subjects_of SubjectSelector_DeepCopyInto)
    (read_slice subjects_of read_SubjectSelector) (foot_slice subjects_of foot_SubjectSelector)"
  by (rule deep_copy_slice [OF subject.deep_copy_axioms]) simp

lemma deep_ttl: "deep_copy (copy_ptr TTLObj ttl_of TokenTTLPolicy_DeepCopyInto)
    (read_ptr ttl_of read_TokenTTLPolicy) (foot_ptr ttl_of foot_TokenTTLPolicy)"
  by (rule deep_copy_ptr [OF token_ttl.deep_copy_axioms]) simp

lemma PlacementPolicySpec_deep:
  assumes "deep_copy selector rs fs"
  shows "deep_copy (PlacementPolicySpec_DeepCopyInto selector) (read_PlacementPolicySpec rs) (foot_PlacementPolicySpec fs)"
  by (rule deep_copy_struct [OF deep_copy_pair [OF deep_subjects deep_copy_pair [OF assms deep_copy_pair [OF deep_ttl deep_stickiness]]],
        where get = "\<lambda>s. (m_subjects s, m_permittedCells s, m_tokenTTL s, m_stickiness s)"
          and put = "\<lambda>t s. s\<lparr>m_subjects := fst t, m_permittedCells := fst (snd t), m_tokenTTL := fst (snd (snd t)),
            m_stickiness := snd (snd (snd t))\<rparr>"
          and rest = "\<lambda>s. (m_strategy s, m_allowDark s)"
          and mk = "\<lambda>(sub, sel, ttl, st) (g, d). \<lparr>subjects = sub, permittedCells = sel, strategy = g, tokenTTL = ttl,
            allowDarkTargeting = d, stickiness = st\<rparr>"])
    (simp_all add: PlacementPolicySpec_DeepCopyInto_def read_PlacementPolicySpec_def foot_PlacementPolicySpec_def copy_pair_def)

interpretation policy_status: deep_copy PlacementPolicyStatus_DeepCopyInto read_PlacementPolicyStatus foot_PlacementPolicyStatus
  by (rule deep_copy_struct [OF deep_conditions, where get = m_policyConditions and put = "\<lambda>t s. s\<lparr>m_policyConditions := t\<rparr>"
          and rest = m_policyGeneration and mk = "\<lambda>cs g. \<lparr>pol_observedGeneration = g, pol_conditions = cs\<rparr>"])
    (simp_all add: PlacementPolicyStatus_DeepCopyInto_def read_PlacementPolicyStatus_def foot_PlacementPolicyStatus_def)

lemma PlacementPolicy_deep:
  assumes "deep_copy meta rm fm" and "deep_copy selector rs fs"
  shows "deep_copy (PlacementPolicy_DeepCopyInto meta selector) (read_PlacementPolicy rm rs) (foot_PlacementPolicy fm fs)"
  by (rule deep_copy_struct [OF deep_copy_pair [OF assms(1) deep_copy_pair [OF PlacementPolicySpec_deep [OF assms(2)]
          policy_status.deep_copy_axioms]],
        where get = "\<lambda>c. (m_policyMeta c, m_policySpec c, m_policyStatus c)"
          and put = "\<lambda>t c. c\<lparr>m_policyMeta := fst t, m_policySpec := fst (snd t), m_policyStatus := snd (snd t)\<rparr>"
          and rest = "\<lambda>_. ()"
          and mk = "\<lambda>(m, sp, st) _. \<lparr>pol_name = meta_name m, pol_namespace = meta_namespace m, pol_uid = meta_uid m,
            pol_generation = meta_generation m, pol_spec = sp, pol_status = st\<rparr>"])
    (simp_all add: PlacementPolicy_DeepCopyInto_def read_PlacementPolicy_def foot_PlacementPolicy_def copy_pair_def Let_def)

interpretation credential_source: deep_copy CredentialSource_DeepCopyInto read_CredentialSource foot_CredentialSource
  by (rule deep_copy_struct [OF deep_secretRef, where get = m_secretRef and put = "\<lambda>t s. s\<lparr>m_secretRef := t\<rparr>"
          and rest = m_inCluster and mk = "\<lambda>r i. \<lparr>inCluster = i, secretRef = r\<rparr>"])
    (simp_all add: CredentialSource_DeepCopyInto_def read_CredentialSource_def foot_CredentialSource_def)

interpretation kubernetes_trust: deep_copy KubernetesTrust_DeepCopyInto read_KubernetesTrust foot_KubernetesTrust
  by (rule deep_copy_struct [OF deep_strings, where get = m_audiences and put = "\<lambda>t s. s\<lparr>m_audiences := t\<rparr>"
          and rest = "\<lambda>t. (m_serviceAccountName t, m_saNamespace t)"
          and mk = "\<lambda>au (n, ns). \<lparr>serviceAccountName = n, sa_namespace = ns, audiences = au\<rparr>"])
    (simp_all add: KubernetesTrust_DeepCopyInto_def read_KubernetesTrust_def foot_KubernetesTrust_def)

lemma deep_kubernetes: "deep_copy (copy_ptr KubernetesObj kubernetes_of KubernetesTrust_DeepCopyInto)
    (read_ptr kubernetes_of read_KubernetesTrust) (foot_ptr kubernetes_of foot_KubernetesTrust)"
  by (rule deep_copy_ptr [OF kubernetes_trust.deep_copy_axioms]) simp

interpretation trust_spec: deep_copy TrustConfigSpec_DeepCopyInto read_TrustConfigSpec foot_TrustConfigSpec
  by (rule deep_copy_struct [OF deep_copy_pair [OF credential_source.deep_copy_axioms deep_kubernetes],
        where get = "\<lambda>s. (m_credentialSource s, m_kubernetes s)"
          and put = "\<lambda>t s. s\<lparr>m_credentialSource := fst t, m_kubernetes := snd t\<rparr>"
          and rest = m_trustProvider and mk = "\<lambda>(c, k) p. \<lparr>trust_provider = p, credentialSource = c, kubernetes = k\<rparr>"])
    (simp_all add: TrustConfigSpec_DeepCopyInto_def read_TrustConfigSpec_def foot_TrustConfigSpec_def copy_pair_def)

interpretation trust_status: deep_copy TrustConfigStatus_DeepCopyInto read_TrustConfigStatus foot_TrustConfigStatus
  by (rule deep_copy_struct [OF deep_conditions, where get = m_trustConditions and put = "\<lambda>t s. s\<lparr>m_trustConditions := t\<rparr>"
          and rest = m_trustGeneration and mk = "\<lambda>cs g. \<lparr>trust_observedGeneration = g, trust_conditions = cs\<rparr>"])
    (simp_all add: TrustConfigStatus_DeepCopyInto_def read_TrustConfigStatus_def foot_TrustConfigStatus_def)

lemma TrustConfig_deep:
  assumes "deep_copy meta rm fm"
  shows "deep_copy (TrustConfig_DeepCopyInto meta) (read_TrustConfig rm) (foot_TrustConfig fm)"
  by (rule deep_copy_struct [OF deep_copy_pair [OF assms deep_copy_pair [OF trust_spec.deep_copy_axioms trust_status.deep_copy_axioms]],
        where get = "\<lambda>c. (m_trustMeta c, m_trustSpec c, m_trustStatus c)"
          and put = "\<lambda>t c. c\<lparr>m_trustMeta := fst t, m_trustSpec := fst (snd t), m_trustStatus := snd (snd t)\<rparr>"
          and rest = "\<lambda>_. ()"
          and mk = "\<lambda>(m, sp, st) _. \<lparr>trust_name = meta_name m, trust_namespace = meta_namespace m,
            trust_generation = meta_generation m, trust_spec = sp, trust_status = st\<rparr>"])
    (simp_all add: TrustConfig_DeepCopyInto_def read_TrustConfig_def foot_TrustConfig_def copy_pair_def Let_def)

lemma WorkloadPlacement_deep:
  assumes "deep_copy meta rm fm"
  shows "deep_copy (WorkloadPlacement_DeepCopyInto meta) (read_WorkloadPlacement rm) (foot_WorkloadPlacement fm)"
  by (rule deep_copy_struct [OF assms, where get = m_wpMeta and put = "\<lambda>t w. w\<lparr>m_wpMeta := t\<rparr>" and rest = m_wpSpec
          and mk = "\<lambda>m sp. \<lparr>wp_name = meta_name m, wp_namespace = meta_namespace m, wp_resourceVersion = meta_resourceVersion m,
            wp_owners = meta_owners m, wp_spec = sp\<rparr>"])
    (simp_all add: WorkloadPlacement_DeepCopyInto_def WorkloadPlacementSpec_DeepCopyInto_def read_WorkloadPlacement_def
      foot_WorkloadPlacement_def Let_def)

text \<open>The four list kinds share one shape: the list's metadata, then each item.\<close>

lemma List_deep:
  assumes "deep_copy listMeta rl fl" and "deep_copy item r f" and "\<And>xs. dst (mk xs) = xs"
    and "\<And>l. into l = do { m \<leftarrow> listMeta (m_listMeta l); items \<leftarrow> copy_slice mk dst item (m_items l);
      State_Monad.return (l\<lparr>m_listMeta := m, m_items := items\<rparr>) }"
  shows "deep_copy into (read_List dst r) (foot_List fl dst f)"
  by (rule deep_copy_struct [OF deep_copy_pair [OF assms(1) deep_copy_slice [OF assms(2,3)]],
        where get = "\<lambda>l. (m_listMeta l, m_items l)" and put = "\<lambda>t l. l\<lparr>m_listMeta := fst t, m_items := snd t\<rparr>"
          and rest = "\<lambda>_. ()" and mk = "\<lambda>(_, xs) _. xs"])
    (simp_all add: assms(4) read_List_def foot_List_def copy_pair_def)

lemma ClusterList_deep:
  assumes "deep_copy meta rm fm" and "deep_copy listMeta rl fl"
  shows "deep_copy (ClusterList_DeepCopyInto meta listMeta) (read_List clusters_of (read_Cluster rm))
    (foot_List fl clusters_of (foot_Cluster fm))"
  by (rule List_deep [OF assms(2) Cluster_deep [OF assms(1)], where mk = Clusters]) (simp_all add: ClusterList_DeepCopyInto_def)

lemma PlacementPolicyList_deep:
  assumes "deep_copy meta rm fm" and "deep_copy selector rs fs" and "deep_copy listMeta rl fl"
  shows "deep_copy (PlacementPolicyList_DeepCopyInto meta selector listMeta) (read_List policies_of (read_PlacementPolicy rm rs))
    (foot_List fl policies_of (foot_PlacementPolicy fm fs))"
  by (rule List_deep [OF assms(3) PlacementPolicy_deep [OF assms(1,2)], where mk = Policies])
    (simp_all add: PlacementPolicyList_DeepCopyInto_def)

lemma TrustConfigList_deep:
  assumes "deep_copy meta rm fm" and "deep_copy listMeta rl fl"
  shows "deep_copy (TrustConfigList_DeepCopyInto meta listMeta) (read_List trusts_of (read_TrustConfig rm))
    (foot_List fl trusts_of (foot_TrustConfig fm))"
  by (rule List_deep [OF assms(2) TrustConfig_deep [OF assms(1)], where mk = Trusts]) (simp_all add: TrustConfigList_DeepCopyInto_def)

lemma WorkloadPlacementList_deep:
  assumes "deep_copy meta rm fm" and "deep_copy listMeta rl fl"
  shows "deep_copy (WorkloadPlacementList_DeepCopyInto meta listMeta) (read_List wps_of (read_WorkloadPlacement rm))
    (foot_List fl wps_of (foot_WorkloadPlacement fm))"
  by (rule List_deep [OF assms(2) WorkloadPlacement_deep [OF assms(1)], where mk = WPs])
    (simp_all add: WorkloadPlacementList_DeepCopyInto_def)

section \<open>Copies and originals do not share\<close>

text \<open>
  A copying function that separates: whatever is written afterwards to the memory there was before the copy, the copy still reads as the
  original did, and whatever is written to the memory the copy took, the original still does.
\<close>

definition isolates ::
  "('p \<Rightarrow> ('c heap, 'p) state) \<Rightarrow> ('c heap \<Rightarrow> 'p \<Rightarrow> 'a) \<Rightarrow> ('c heap \<Rightarrow> 'p \<Rightarrow> addr set) \<Rightarrow> bool" where
  "isolates copy read foot \<longleftrightarrow>
    (\<forall>h p q h' h''. foot h p \<subseteq> {..<brk h} \<longrightarrow> run_state (copy p) h = (q, h') \<longrightarrow>
      (agree_on {brk h..<brk h'} h' h'' \<longrightarrow> read h'' q = read h p) \<and> (agree_on {..<brk h} h' h'' \<longrightarrow> read h'' p = read h p))"

lemma isolates_ptr:
  assumes "deep_copy into read foot" and "\<And>x. dst (mk x) = x"
  shows "isolates (copy_ptr mk dst into) (read_ptr dst read) (foot_ptr dst foot)"
  unfolding isolates_def
  using deep_copy.copy_isolated [OF deep_copy_ptr [OF assms]] deep_copy.original_isolated [OF deep_copy_ptr [OF assms]] by blast

lemma Cluster_isolates:
  assumes "deep_copy meta rm fm"
  shows "isolates (Cluster_DeepCopy meta) (read_ptr cluster_of (read_Cluster rm)) (foot_ptr cluster_of (foot_Cluster fm))"
  unfolding Cluster_DeepCopy_def by (rule isolates_ptr [OF Cluster_deep [OF assms]]) simp

lemma PlacementPolicy_isolates:
  assumes "deep_copy meta rm fm" and "deep_copy selector rs fs"
  shows "isolates (PlacementPolicy_DeepCopy meta selector) (read_ptr policy_of (read_PlacementPolicy rm rs))
    (foot_ptr policy_of (foot_PlacementPolicy fm fs))"
  unfolding PlacementPolicy_DeepCopy_def by (rule isolates_ptr [OF PlacementPolicy_deep [OF assms]]) simp

lemma TrustConfig_isolates:
  assumes "deep_copy meta rm fm"
  shows "isolates (TrustConfig_DeepCopy meta) (read_ptr trust_of (read_TrustConfig rm)) (foot_ptr trust_of (foot_TrustConfig fm))"
  unfolding TrustConfig_DeepCopy_def by (rule isolates_ptr [OF TrustConfig_deep [OF assms]]) simp

lemma WorkloadPlacement_isolates:
  assumes "deep_copy meta rm fm"
  shows "isolates (WorkloadPlacement_DeepCopy meta) (read_ptr wp_of (read_WorkloadPlacement rm))
    (foot_ptr wp_of (foot_WorkloadPlacement fm))"
  unfolding WorkloadPlacement_DeepCopy_def by (rule isolates_ptr [OF WorkloadPlacement_deep [OF assms]]) simp

lemma statuses_isolate:
  "isolates ClusterStatus_DeepCopy (read_ptr clusterStatus_of read_ClusterStatus) (foot_ptr clusterStatus_of foot_ClusterStatus)"
  "isolates PlacementPolicyStatus_DeepCopy (read_ptr policyStatus_of read_PlacementPolicyStatus)
    (foot_ptr policyStatus_of foot_PlacementPolicyStatus)"
  "isolates TrustConfigStatus_DeepCopy (read_ptr trustStatus_of read_TrustConfigStatus) (foot_ptr trustStatus_of foot_TrustConfigStatus)"
  unfolding ClusterStatus_DeepCopy_def PlacementPolicyStatus_DeepCopy_def TrustConfigStatus_DeepCopy_def
  by (rule isolates_ptr [OF cluster_status.deep_copy_axioms], simp, rule isolates_ptr [OF policy_status.deep_copy_axioms], simp,
      rule isolates_ptr [OF trust_status.deep_copy_axioms], simp)

text \<open>
  C30. Every copy the hub takes of an object is its own. Given that the metadata and the selectors of the Kubernetes libraries copy deeply,
  what \<open>DeepCopy\<close> returns for a cell, a policy, a trust configuration, a remembered placement and each of the statuses the reconcilers
  compare against reads as the original did at that moment, whatever is written to the original afterwards, and writing to the copy never
  shows in the original, so that no handler alters the cache it read from.
\<close>

theorem copies_are_isolated:
  assumes "deep_copy meta rm fm" and "deep_copy selector rs fs"
  shows "isolates (Cluster_DeepCopy meta) (read_ptr cluster_of (read_Cluster rm)) (foot_ptr cluster_of (foot_Cluster fm)) \<and>
    isolates (PlacementPolicy_DeepCopy meta selector) (read_ptr policy_of (read_PlacementPolicy rm rs))
      (foot_ptr policy_of (foot_PlacementPolicy fm fs)) \<and>
    isolates (TrustConfig_DeepCopy meta) (read_ptr trust_of (read_TrustConfig rm)) (foot_ptr trust_of (foot_TrustConfig fm)) \<and>
    isolates (WorkloadPlacement_DeepCopy meta) (read_ptr wp_of (read_WorkloadPlacement rm))
      (foot_ptr wp_of (foot_WorkloadPlacement fm)) \<and>
    isolates ClusterStatus_DeepCopy (read_ptr clusterStatus_of read_ClusterStatus) (foot_ptr clusterStatus_of foot_ClusterStatus) \<and>
    isolates PlacementPolicyStatus_DeepCopy (read_ptr policyStatus_of read_PlacementPolicyStatus)
      (foot_ptr policyStatus_of foot_PlacementPolicyStatus) \<and>
    isolates TrustConfigStatus_DeepCopy (read_ptr trustStatus_of read_TrustConfigStatus)
      (foot_ptr trustStatus_of foot_TrustConfigStatus)"
  by (intro conjI Cluster_isolates PlacementPolicy_isolates TrustConfig_isolates WorkloadPlacement_isolates statuses_isolate assms)

text \<open>A cell in memory: its metadata at 0, its conditions at 1, the cell at 2. Metadata and selectors are one object each.\<close>

definition sample_meta_into :: "(addr option, ObjectMeta, addr option) copying" where
  "sample_meta_into = copy_ptr Foreign foreign_of State_Monad.return"

definition sample_meta :: ObjectMeta where
  "sample_meta = \<lparr>meta_name = ''blue'', meta_namespace = ''cellcast'', meta_uid = ''u'', meta_resourceVersion = ''1'',
    meta_generation = 1, meta_created = 0, meta_labels = [(''env'', ''prod'')], meta_owners = []\<rparr>"

definition sample_condition :: condition where
  "sample_condition = \<lparr>cond_type = ''Accepting'', cond_status = ''True'', cond_reason = ''Live'', cond_message = '''',
    cond_generation = 1, cond_transition = 0\<rparr>"

definition sample_mem_cluster :: "addr option mem_Cluster" where
  "sample_mem_cluster = \<lparr>m_clusterType = \<lparr>tm_kind = ''Cluster'', tm_apiVersion = GroupVersion\<rparr>, m_clusterMeta = Some 0,
    m_clusterSpec = \<lparr>m_endpoint = ''https://blue'', m_caBundle = NilSlice, m_provider = ''generic'',
      m_trustConfigRef = \<lparr>ref_name = ''t''\<rparr>, m_reporter = None, m_state = ClusterStateLive\<rparr>,
    m_clusterStatus = \<lparr>m_observedState = ClusterStateLive, m_clusterGeneration = 1, m_stateSince = None,
      m_clusterConditions = Slice 1 0 1\<rparr>\<rparr>"

definition sample_heap :: "(addr option, ObjectMeta) obj heap" where
  "sample_heap = \<lparr>cells = [0 \<mapsto> Foreign sample_meta, 1 \<mapsto> Conditions [sample_condition], 2 \<mapsto> ClusterObj sample_mem_cluster], brk = 3\<rparr>"

definition read_sample :: "(addr option, ObjectMeta) obj heap \<Rightarrow> addr option \<Rightarrow> Cluster option" where
  "read_sample = read_ptr cluster_of (read_Cluster (\<lambda>h k. the (read_ptr foreign_of val h k)))"

lemma sample_meta_deep:
  "deep_copy sample_meta_into (\<lambda>h k. the (read_ptr foreign_of val h k)) (foot_ptr foreign_of noaddr)"
  unfolding sample_meta_into_def
  by (rule deep_copy_struct [OF deep_copy_ptr [OF plain_copy, where mk = Foreign], where get = "\<lambda>x. x" and put = "\<lambda>t _. t"
        and rest = "\<lambda>_. ()" and mk = "\<lambda>x _. the x"]) simp_all

lemma sample_foot:
  "foot_ptr cluster_of (foot_Cluster (foot_ptr foreign_of noaddr)) sample_heap (Some 2) \<subseteq> {..<brk sample_heap}"
  by (simp add: foot_ptr_def foot_Cluster_def foot_ClusterSpec_def foot_ClusterStatus_def foot_slice_def sample_heap_def
      sample_mem_cluster_def)

theorem copies_are_isolated_witness:
  "\<exists>q h. run_state (Cluster_DeepCopy sample_meta_into (Some 2)) sample_heap = (q, h) \<and>
    read_sample (store 1 (Conditions []) h) q = read_sample sample_heap (Some 2) \<and>
    read_sample (store 1 (Conditions []) h) (Some 2) \<noteq> read_sample sample_heap (Some 2)"
proof -
  obtain q h where r: "run_state (Cluster_DeepCopy sample_meta_into (Some 2)) sample_heap = (q, h)" by fastforce
  from copies_are_isolated [OF sample_meta_deep sample_meta_deep]
  have i: "isolates (Cluster_DeepCopy sample_meta_into) read_sample (foot_ptr cluster_of (foot_Cluster (foot_ptr foreign_of noaddr)))"
    unfolding read_sample_def by blast
  have "agree_on {brk sample_heap..<brk h} h (store 1 (Conditions []) h)"
    by (simp add: agree_on_def store_def sample_heap_def)
  with i r sample_foot have "read_sample (store 1 (Conditions []) h) q = read_sample sample_heap (Some 2)"
    unfolding isolates_def by blast
  moreover have "extends sample_heap h"
    using deep_copy.copies [OF deep_copy_ptr [OF Cluster_deep [OF sample_meta_deep], where mk = ClusterObj]
        r [unfolded Cluster_DeepCopy_def]] sample_foot by simp
  then have "cells h 2 = cells sample_heap 2" by (simp add: extends_def agree_on_def sample_heap_def)
  then have "read_sample (store 1 (Conditions []) h) (Some 2) \<noteq> read_sample sample_heap (Some 2)"
    by (simp add: read_sample_def read_ptr_def read_Cluster_def read_ClusterStatus_def read_slice_def elements_def window_def store_def
        sample_heap_def sample_mem_cluster_def Let_def)
  ultimately show ?thesis using r by blast
qed

text \<open>
  A \<open>DeepCopyObject\<close> is nil exactly for a nil pointer and otherwise an object of its own type: never an interface around a nil pointer,
  which a caller comparing with nil would take for an object.
\<close>

definition faithful_object :: "object_type \<Rightarrow> (addr option \<Rightarrow> ('h, runtime_object) state) \<Rightarrow> bool" where
  "faithful_object t f \<longleftrightarrow>
    (\<forall>p h. (p = None \<longrightarrow> fst (run_state (f p) h) = None) \<and> (p \<noteq> None \<longrightarrow> (\<exists>b. fst (run_state (f p) h) = Some (t, Some b))))"

lemma faithful_object_ptr: "faithful_object t (\<lambda>p. do { c \<leftarrow> copy_ptr mk dst i p; State_Monad.return (as_object t c) })"
  by (auto simp: faithful_object_def copy_ptr_def as_object_def split: prod.splits)

theorem objects_are_never_typed_nil:
  "faithful_object ClusterType (Cluster_DeepCopyObject meta)"
  "faithful_object ClusterListType (ClusterList_DeepCopyObject meta listMeta)"
  "faithful_object PlacementPolicyType (PlacementPolicy_DeepCopyObject meta selector)"
  "faithful_object PlacementPolicyListType (PlacementPolicyList_DeepCopyObject meta selector listMeta)"
  "faithful_object TrustConfigType (TrustConfig_DeepCopyObject meta)"
  "faithful_object TrustConfigListType (TrustConfigList_DeepCopyObject meta listMeta)"
  "faithful_object WorkloadPlacementType (WorkloadPlacement_DeepCopyObject meta)"
  "faithful_object WorkloadPlacementListType (WorkloadPlacementList_DeepCopyObject meta listMeta)"
  unfolding Cluster_DeepCopyObject_def Cluster_DeepCopy_def ClusterList_DeepCopyObject_def ClusterList_DeepCopy_def
    PlacementPolicy_DeepCopyObject_def PlacementPolicy_DeepCopy_def PlacementPolicyList_DeepCopyObject_def PlacementPolicyList_DeepCopy_def
    TrustConfig_DeepCopyObject_def TrustConfig_DeepCopy_def TrustConfigList_DeepCopyObject_def TrustConfigList_DeepCopy_def
    WorkloadPlacement_DeepCopyObject_def WorkloadPlacement_DeepCopy_def WorkloadPlacementList_DeepCopyObject_def
    WorkloadPlacementList_DeepCopy_def
  by (rule faithful_object_ptr)+

end
