(* ===== verification/Spec2Isabelle.thy ===== *)
theory Spec2Isabelle
  imports Process DeepCopy
begin

text \<open>
  \<^bold>\<open>cellcast\<close> decides which of many Kubernetes cells a pipeline deploys to, and hands it a short-lived credential for that
  cell. This development models the hub, the agent and the command line client as HOL functions and proves what they promise. Paths
  below are relative to \<open>src/\<close>.

  \<^bold>\<open>How the parts fit.\<close> A pipeline runs \<open>cellcast place\<close> (\<open>internal/cli\<close>), which posts to the hub (\<open>internal/hub\<close>). The hub's
  middleware authenticates the caller by an OIDC token (\<open>internal/hub/oidc\<close>) and hands an \<open>Identity\<close> to the placement route
  (\<open>placement_api.go\<close>). The route charges the caller's rate limit, asks the engine (\<open>placement/engine.go\<close>) for a
  decision, and the broker (\<open>broker\<close>) for a credential; every answer leaves records on the audit trail (\<open>audit\<close>). The engine
  picks the caller's policy (\<open>placement/policy.go\<close>), filters the registered clusters by permission, state and reported
  capacity, scores what is left and consults the placement memory (\<open>placement/memory.go\<close>). Capacity comes in as
  heartbeats of the agents (\<open>internal/agent\<close>) through \<open>capacity.go\<close> into an index (\<open>capacity/registry.go\<close>), and is relayed between
  replicas (\<open>relay.go\<close>). Cells are registered and moved between states through \<open>clusters.go\<close> and \<open>clusterstate.go\<close>; controllers write the
  status of cells, policies and trust configurations. Events, metrics and spans are views of the audit trail.

  \<^bold>\<open>Theories.\<close> One per component, each importing what it calls.
  \<^item> \<open>Prelude\<close>: time and durations as \<open>int\<close> nanoseconds with Go's saturation, maps, sorting, shared lemmas.
  \<^item> \<open>Api\<close>: the v1beta1 kinds (\<open>api/v1beta1\<close>) as records. \<open>Float64\<close>: round to nearest, for scores and jitter. \<open>GoText\<close>: what the code
    uses of Go's strings, base64 and typed JSON decoding.
  \<^item> \<open>Capacity\<close> (\<open>capacity/registry.go\<close>): the index; its invariant holds over every history; a cell reads as
    fresh only after an accepted heartbeat; the sweep announces each silence once.
  \<^item> \<open>Policy\<close> (\<open>placement/policy.go\<close>), \<open>Memory\<close> (\<open>placement/memory.go\<close>), \<open>Engine\<close> (\<open>placement/engine.go\<close>, \<open>refused.go\<close>):
    selection of the policy, permission before score, classification of refusals, the two strategies, stickiness, and
    that cells outside a caller's policy do not influence its answer.
  \<^item> \<open>Ttl\<close> and \<open>Broker\<close> (\<open>broker/ttl.go\<close>, \<open>broker.go\<close>, \<open>kubernetes.go\<close>): lifetimes within the operator's bounds, credentials
    within the ceiling and addressed to the registered cell.
  \<^item> \<open>Refusal\<close> (\<open>internal/refusal\<close>), \<open>AuditTrail\<close> (\<open>audit/audit.go\<close>, with SHA-256 in \<open>Sha256\<close>).
  \<^item> \<open>Ratelimit\<close> (\<open>ratelimit.go\<close>): the limiter, which shares a table and forgets callers, refines one with a bucket per caller for good.
  \<^item> \<open>PlacementApi\<close> and \<open>PlacementRoute\<close> (\<open>placement_api.go\<close>, \<open>minter.go\<close>): the handler in the stages of its early
    returns; every answer is audited, a token reaches the trail only as its digest, a dry run answers the same question.
  \<^item> \<open>Oidc\<close> (\<open>internal/hub/oidc\<close>): who is authenticated, by whose keys, and that callers outside the allowlist cause no
    outbound traffic.
  \<^item> \<open>CapacityApi\<close> (\<open>capacity.go\<close>, \<open>relay.go\<close>): the heartbeat routes and the relay between replicas, which terminates.
  \<^item> \<open>ClusterApi\<close> (\<open>clusters.go\<close>, \<open>clusterstate.go\<close>): what registration accepts, that a state change is narrow, and that every
    held cell stays within what registration accepts.
  \<^item> \<open>Controllers\<close> (\<open>cluster_controller.go\<close>, \<open>policy_controller.go\<close>, \<open>trustconfig_controller.go\<close>, \<open>events.go\<close>): the published status is an
    abstraction of what placement and the broker do.
  \<^item> \<open>HubServer\<close> (\<open>config.go\<close>, \<open>middleware.go\<close>, \<open>server.go\<close>, \<open>warmup.go\<close>): configuration, the middleware chain, warm-up, and the
    lifecycle as an inductive step relation over the goroutines of \<open>Run\<close>: readiness needs a synced cache, every fair run that is not
    told to stop becomes ready, and beginning to drain ends it.
  \<^item> \<open>Metrics\<close> (\<open>metrics/metrics.go\<close>, \<open>collectors.go\<close>): the counters equal the answers, each series, by its labels, the records of the
    trail, and a scrape tells what placement admits.
  \<^item> \<open>HubApi\<close> (the routes of \<open>server.go\<close>): routing over a model of \<open>http.ServeMux\<close>, and the invariant of the assembled API over the
    state its handlers share.
  \<^item> \<open>Telemetry\<close> (\<open>tracing.go\<close>, \<open>internal/telemetry\<close>): spans tell less than the trail, export is off until configured, and a
    failing collector is logged once a minute with nothing uncounted.
  \<^item> \<open>HubMain\<close> (\<open>NewServer\<close>, \<open>manager.go\<close>, \<open>cmd/cellcast-hub\<close>): the hub that is put together starts closed and within the
    operator's bounds, all its parts hold a pointer to one capacity index, every view of the trail is a function of the same records, and its two halves share a fate.
  \<^item> \<open>Agent\<close> and \<open>AgentRun\<close> (\<open>internal/agent\<close>, \<open>cmd/cellcast-agent\<close>): measuring a cell as the scheduler does, the round trip of a
    heartbeat into the index over a network that may lose the request or the response, the cadence of the reporting loop, and what a lost heartbeat and a handover cost.
  \<^item> \<open>Cli\<close> and \<open>CliAdmin\<close> (\<open>internal/cli\<close>): \<open>cellcast place\<close>, its decision cache, its fallbacks and the kubeconfig it writes; \<open>cell add\<close>
    and \<open>policy test\<close>.
  \<^item> \<open>CommandLine\<close> (\<open>newRootCmd\<close> of the hub and the agent, the commands of \<open>internal/cli\<close>, \<open>AddFlags\<close>): every flag sets the option it names and
    nothing else, building a command does not panic, and no setting is out of the reach of a flag.
  \<^item> \<open>Process\<close> (\<open>logger.go\<close> of hub and agent, \<open>internal/version\<close>, \<open>root.go\<close>, \<open>manager.go\<close>, \<open>RegisterControllers\<close>, the prune loop of the index,
    \<open>ResolvePeers\<close>, the writers of the client): a cell's silence is logged, and once; no verbosity silences the trail; a replica is
    not its own peer; a broken pipe is reported.
  \<^item> \<open>GoHeap\<close> and \<open>DeepCopy\<close> (\<open>api/v1beta1/zz_generated.deepcopy.go\<close>): memory with addresses, and the generated copies over the structs as they
    lie in it; reading such a struct gives the value of \<open>Api\<close>, and a copy and its original never show each other's writes. This is what
    lets the other theories compute with values where the code copies an object before it writes to it.
  \<^item> this theory: the properties that span the engine, the broker and the route.

  \<^bold>\<open>State and effects.\<close> A Go struct with state is a record and each method a function to the new record; a mutex makes
  a method one step, and concurrency is a sequence of steps (histories, \<open>fleet_step\<close>, \<open>life_step\<close>, \<open>fate_step\<close>). An error is a value
  of a sum type. Go maps are association lists, since their order matters where the code sorts. Strings are lists
  of bytes. Durations and times are \<open>int\<close> with the saturating or wrapping arithmetic of \<open>time\<close> written out; the round-robin
  cursor is a 64-bit word; utilisation, jitter and seconds are float64 by exact rounding. The hub reads the API server through a cache: what the
  server holds (\<open>held\<close>, \<open>server\<close>) and what a read returns are apart in the laws of the clients (\<open>wp_server\<close>, \<open>merge_patch_doc\<close>,
  \<open>status_server\<close>), and a theorem that needs the cache to have caught up says so.

  \<^bold>\<open>Interfaces.\<close> A locale states what a client relies on: \<open>capacity_index\<close> (the registry as the routes and the engine see it),
  \<open>credential_provider\<close> (a provider behind the broker), \<open>placement_route\<close> (the engine and the broker behind the route),
  \<open>authenticator_seam\<close> (an authenticator behind the middleware), \<open>deep_copy\<close> (a function that copies a value of the heap) and \<open>command_line\<close>
  (flags bound to options). Each is interpreted on the model's own definitions.

  \<^bold>\<open>Parameters.\<close> What is not in the repository is an argument: label selectors, the informer cache, \<open>SetStatusCondition\<close>, merge patches and
  the event recorder of Kubernetes, the TokenRequest call, the elector of client-go, the token bucket of \<open>golang.org/x/time/rate\<close>, JOSE
  signature checks and the HTTP fetches of OIDC discovery, the exporters of OpenTelemetry and the registry of Prometheus; and of Go itself
  \<open>url.Parse\<close>, \<open>pem.Decode\<close>, \<open>ParseDuration\<close>, the reading half of JSON, files, the environment and the clock. Hypotheses about them are
  named in the theorems that need them and each is discharged at a concrete instance by a witness.

  \<^bold>\<open>Loops.\<close> All functions are total. The loops over lists are structural; the API server's write conflicts, peers'
  answers and tenures of the lease are data, so no fuel is used anywhere. Background loops (\<open>Start\<close> methods) are modelled by their
  iteration.

  \<^bold>\<open>Not modelled.\<close> The superseded v1alpha1 types, whose only code is the same generated copies; usage texts, and the splitting and
  parsing of arguments, which are cobra's and pflag's; the listeners and the JSON and YAML writers, which are the standard library's and
  a package's. Log lines are modelled where a property is about them.
\<close>

section \<open>The placement route, end to end\<close>

text \<open>A hub with the engine and the broker of the sample fleet behind the route.\<close>

definition sample_hub :: "(wp_store placer, nat) hub_env" where
  "sample_hub = \<lparr>env_place = engine_place (sample_reader (sample_fleet ClusterStateLive)) sample_as_selector 70 70,
    env_remember = engine_remember 70, env_mint = Some (Mint sample_broker 0),
    env_getCluster = Some (\<lambda>_ _. Inr sample_cell), env_namespace = ''cellcast'', env_buckets = sample_bucket,
    env_parseDuration = (\<lambda>_. None), env_brokerText = (\<lambda>_. ''''), env_now = 70\<rparr>"

definition sample_server :: "(wp_store placer, nat) Server" where
  "sample_server = \<lparr>srv_limiter = None, srv_placer = Some (sample_engine 1, []), srv_warm = True, srv_trail = []\<rparr>"

definition sample_post :: http_request where
  "sample_post = \<lparr>rq_identity = Some sample_identity, rq_id = ''r1'',
    rq_body = Some \<lparr>pr_workload = ''web'', pr_targetDark = False, pr_ttl = '''', pr_dryRun = False, pr_explain = False\<rparr>\<rparr>"

lemma sample_hub_answer:
  obtains rsp srv b c where "handlePlacement sample_hub sample_server sample_post = (rsp, srv)"
    and "rsp_body rsp = PlacementBody b" and "plr_credential b = Some c" and "plr_cell b = ''blue''"
proof (rule sample_place_blue)
  fix d e' assume d: "sample_place 70 = (Inr d, e')" "d_cell d = ''blue''" "d_tokenTTL d = None"
  show thesis
  proof (rule sample_mint)
    fix cred res assume m: "Mint sample_broker 0 sample_cell None 0 = (Inr cred, res)"
    from d(1) have p: "env_place sample_hub (sample_engine 1, []) sample_identity
        \<lparr>req_workload = ''web'', req_targetDark = False\<rparr> = (Inr d, (e', []))"
      by (simp add: sample_hub_def engine_place_def sample_request_def)
    have "env_mint sample_hub = Some (Mint sample_broker 0)" "clusterByName sample_hub n = Inr sample_cell" for n
      by (simp_all add: sample_hub_def clusterByName_def)
    then show thesis using that m d(2,3) p
      by (simp add: handlePlacement_def sample_server_def sample_post_def allow_def read_stage_def
          place_stage_def mint_stage_def Let_def)
  qed
qed

text \<open>
  C17. Through the whole hub, a credential comes only out of a permission and stays within the operator's bounds.
  When the engine decides and the broker mints, a caller who is handed a credential was
  authenticated, the cell is one its own policy selects, in the state it asked for and freshly reported;
  the credential is addressed to the registered endpoint of that cell, acts as the service account its trust
  configuration names, and expires within the hub's ceiling plus a minute.
\<close>

theorem credential_end_to_end:
  assumes "env_place env = engine_place rd asSel tSnap tLive"
    and "env_mint env = Some (Mint (NewBroker getTrust ns ceil [KubernetesProvider connect createToken]) now)"
    and "0 < ceil" and "ceil + Minute < max_int64"
    and "handlePlacement env srv r = (rsp, srv')" and "rsp_body rsp = PlacementBody b"
    and "plr_credential b = Some c"
  shows "\<exists>idn p req cluster trust k. rq_identity r = Some idn \<and> srv_placer srv = Some p \<and> rq_body r = Some req \<and>
    engine_reaches rd asSel tSnap p idn (pr_targetDark req) (plr_cell b) \<and>
    clusterByName env (plr_cell b) = Inr cluster \<and> crd_server c = endpoint (cl_spec cluster) \<and>
    getTrust ns (trustConfigRef (cl_spec cluster)) = Inr trust \<and> kubernetes (trust_spec trust) = Some k \<and>
    crd_namespace c = sa_namespace k \<and> crd_serviceAccount c = serviceAccountName k \<and>
    crd_expiresAt c \<le> now + ceil + Minute"
proof -
  from hub_route.placement_reaches [OF assms(1,5,6)] obtain idn p req where
    r: "rq_identity r = Some idn" "srv_placer srv = Some p" "rq_body r = Some req"
      "engine_reaches rd asSel tSnap p idn (pr_targetDark req) (plr_cell b)" by blast
  from hub_route.credential_addressed [OF assms(2,5-7)] obtain cluster pol t cred res where
    m: "clusterByName env (plr_cell b) = Inr cluster" "c = credential_response cred" "crd_server c = endpoint (cl_spec cluster)"
      "Mint (NewBroker getTrust ns ceil [KubernetesProvider connect createToken]) now cluster pol t = (Inr cred, res)"
    by blast
  from Mint_scoped [OF m(4)] obtain trust k where
    k: "getTrust ns (trustConfigRef (cl_spec cluster)) = Inr trust" "kubernetes (trust_spec trust) = Some k"
      "cred_namespace cred = sa_namespace k" "cred_serviceAccount cred = serviceAccountName k" by blast
  from Mint_within_ceiling [OF m(4) assms(3,4)] have "cred_expiresAt cred \<le> now + ceil + Minute" by simp
  with r m(1,3) k show ?thesis
    by (intro exI [of _ idn] exI [of _ p] exI [of _ req] exI [of _ cluster] exI [of _ trust] exI [of _ k])
      (simp add: m(2) credential_response_def)
qed

theorem credential_end_to_end_witness:
  "\<exists>rsp srv b c. handlePlacement sample_hub sample_server sample_post = (rsp, srv) \<and>
    rsp_body rsp = PlacementBody b \<and> plr_credential b = Some c \<and> plr_cell b = ''blue'' \<and>
    crd_server c = ''https://blue'' \<and> crd_expiresAt c \<le> Hour + Minute"
proof (rule sample_hub_answer)
  fix rsp srv b c
  assume h: "handlePlacement sample_hub sample_server sample_post = (rsp, srv)"
    "rsp_body rsp = PlacementBody b" "plr_credential b = Some c" "plr_cell b = ''blue''"
  have e: "env_place sample_hub = engine_place (sample_reader (sample_fleet ClusterStateLive)) sample_as_selector 70 70"
    "env_mint sample_hub = Some (Mint (NewBroker (\<lambda>_ _. Inr sample_trust) ''cellcast'' Hour
      [KubernetesProvider (\<lambda>_ _. Inr ()) (\<lambda>_ _ _ _. Inr (''secret'', 10 * Minute))]) 0)"
    by (simp_all add: sample_hub_def sample_broker_def)
  have "0 < Hour" "Hour + Minute < max_int64" by (simp_all add: duration_units max_int64_def)
  from credential_end_to_end [OF e this h(1-3)] obtain cluster where
    "clusterByName sample_hub ''blue'' = Inr cluster" "crd_server c = endpoint (cl_spec cluster)"
    "crd_expiresAt c \<le> 0 + Hour + Minute" unfolding h(4) by blast
  moreover have "clusterByName sample_hub ''blue'' = Inr sample_cell" by (simp add: sample_hub_def clusterByName_def)
  ultimately have "crd_server c = ''https://blue''" "crd_expiresAt c \<le> Hour + Minute"
    by (auto simp: sample_cell_def)
  with h show ?thesis by blast
qed

theorem every_answer_is_audited_witness:
  "\<exists>x y. srv_trail (snd (handlePlacement sample_hub sample_server sample_post)) = [x, y] \<and>
    au_event x = EventPlacement \<and> au_event y = EventMint \<and> au_requestID y = ''r1'' \<and> au_cell y = ''blue''"
proof (rule sample_hub_answer)
  fix rsp srv b c
  assume h: "handlePlacement sample_hub sample_server sample_post = (rsp, srv)"
    "rsp_body rsp = PlacementBody b" "plr_credential b = Some c" "plr_cell b = ''blue''"
  from every_answer_is_audited [OF h(1)] h show ?thesis by (auto simp: sample_server_def sample_post_def)
qed

end
